(* ===== verification/Prelude.thy ===== *)
theory Prelude
  imports Main "HOL-Library.List_Lexorder" "HOL-Library.Char_ord"
begin

text \<open>
  What every component shares: the exceptions the Python modules raise, results as a sum of an
  exception and a value, the sequencing of fallible steps, and the string operations of Python
  that the modules use (\<open>str.split\<close>, \<open>str.join\<close>, \<open>startswith\<close>, \<open>endswith\<close>, \<open>strip\<close>, \<open>lower\<close>,
  decimal printing).  A Python \<open>str\<close> is a list of characters; the model covers the code points
  0 to 255, on which \<open>char\<close> and Python agree.  Every exception message is the constant part of
  the message of the source; interpolated values are left out.
\<close>

named_theorems res_simps \<open>inversion of sequenced fallible steps\<close>
named_theorems str_simps \<open>Python string operations\<close>

section \<open>Exceptions and results\<close>

text \<open>
  \<open>VersionError\<close>, \<open>PreflightError\<close>, \<open>Unable\<close> and \<open>JSONDecodeError\<close> are Python \<open>ValueError\<close>s,
  \<open>GitHubError\<close> and \<open>AmbiguousCreate\<close> are \<open>ReleaseError\<close>s, \<open>MetadataError\<close> and
  \<open>ListenerProtectionError\<close> are \<open>RuntimeError\<close>s, \<open>FileNotFoundError\<close> and \<open>PermissionError\<close> are
  \<open>OSError\<close>s, \<open>CalledProcessError\<close> and \<open>TimeoutExpired\<close> are \<open>subprocess.SubprocessError\<close>s; the
  predicates below say what an \<open>except\<close> clause for the base class catches.
  The flag of \<open>GitHubError\<close> is its \<open>not_found\<close> attribute.
\<close>

datatype exn =
    VersionError string
  | ReleaseError string
  | GitHubError string bool
  | AmbiguousCreate string
  | PreflightError string
  | MetadataError string
  | ValueError string
  | JSONDecodeError string
  | TypeError string
  | KeyError string
  | IndexError string
  | AttributeError string
  | RuntimeError string
  | OSError string
  | TimeoutExpired string
  | Unable string
  | CalledProcessError string
  | FileNotFoundError string
  | PermissionError string
  | StopIteration string
  | ListenerProtectionError string
  | AssertionError string
  | OverflowError string

fun is_ValueError :: "exn \<Rightarrow> bool" where
  "is_ValueError (VersionError _) = True"
| "is_ValueError (PreflightError _) = True"
| "is_ValueError (ValueError _) = True"
| "is_ValueError (JSONDecodeError _) = True"
| "is_ValueError (Unable _) = True"
| "is_ValueError _ = False"

fun is_ReleaseError :: "exn \<Rightarrow> bool" where
  "is_ReleaseError (ReleaseError _) = True"
| "is_ReleaseError (GitHubError _ _) = True"
| "is_ReleaseError (AmbiguousCreate _) = True"
| "is_ReleaseError _ = False"

fun is_RuntimeError :: "exn \<Rightarrow> bool" where
  "is_RuntimeError (RuntimeError _) = True"
| "is_RuntimeError (MetadataError _) = True"
| "is_RuntimeError (ListenerProtectionError _) = True"
| "is_RuntimeError _ = False"

fun is_OSError :: "exn \<Rightarrow> bool" where
  "is_OSError (OSError _) = True"
| "is_OSError (FileNotFoundError _) = True"
| "is_OSError (PermissionError _) = True"
| "is_OSError _ = False"

fun is_SubprocessError :: "exn \<Rightarrow> bool" where
  "is_SubprocessError (CalledProcessError _) = True"
| "is_SubprocessError (TimeoutExpired _) = True"
| "is_SubprocessError _ = False"

fun is_KeyError :: "exn \<Rightarrow> bool" where
  "is_KeyError (KeyError _) = True"
| "is_KeyError _ = False"

fun is_TypeError :: "exn \<Rightarrow> bool" where
  "is_TypeError (TypeError _) = True"
| "is_TypeError _ = False"

fun is_TimeoutExpired :: "exn \<Rightarrow> bool" where
  "is_TimeoutExpired (TimeoutExpired _) = True"
| "is_TimeoutExpired _ = False"

fun is_IndexError :: "exn \<Rightarrow> bool" where
  "is_IndexError (IndexError _) = True"
| "is_IndexError _ = False"

fun is_StopIteration :: "exn \<Rightarrow> bool" where
  "is_StopIteration (StopIteration _) = True"
| "is_StopIteration _ = False"

type_synonym 'a res = "exn + 'a"

text \<open>\<open>guard c e k\<close> raises \<open>e\<close> unless \<open>c\<close>; \<open>bnd r f\<close> runs \<open>f\<close> on the value of \<open>r\<close>.\<close>

definition guard :: "bool \<Rightarrow> exn \<Rightarrow> 'a res \<Rightarrow> 'a res" where
  "guard c e k = (if c then k else Inl e)"

definition bnd :: "'a res \<Rightarrow> ('a \<Rightarrow> 'b res) \<Rightarrow> 'b res" where
  "bnd r f = (case r of Inl e \<Rightarrow> Inl e | Inr x \<Rightarrow> f x)"

text \<open>A loop body run over a list, stopping at the first exception.\<close>

fun each :: "('a \<Rightarrow> unit res) \<Rightarrow> 'a list \<Rightarrow> unit res" where
  "each f [] = Inr ()"
| "each f (x # xs) = bnd (f x) (\<lambda>_. each f xs)"

text \<open>The same with an accumulator threaded through the loop.\<close>

fun foldres :: "('s \<Rightarrow> 'a \<Rightarrow> 's res) \<Rightarrow> 's \<Rightarrow> 'a list \<Rightarrow> 's res" where
  "foldres f s [] = Inr s"
| "foldres f s (x # xs) = bnd (f s x) (\<lambda>s'. foldres f s' xs)"

fun mapres :: "('a \<Rightarrow> 'b res) \<Rightarrow> 'a list \<Rightarrow> 'b list res" where
  "mapres f [] = Inr []"
| "mapres f (x # xs) = bnd (f x) (\<lambda>y. bnd (mapres f xs) (\<lambda>ys. Inr (y # ys)))"

text \<open>A list comprehension with a condition that may raise.\<close>

fun filter_res :: "('a \<Rightarrow> bool res) \<Rightarrow> 'a list \<Rightarrow> 'a list res" where
  "filter_res p [] = Inr []"
| "filter_res p (x # xs) = bnd (p x) (\<lambda>b. bnd (filter_res p xs) (\<lambda>ys. Inr (if b then x # ys else ys)))"

text \<open>\<open>any(test(x) for x in xs)\<close> and \<open>next((x for x in xs if test(x)), None)\<close> with a test that may raise.\<close>

fun any_res :: "('a \<Rightarrow> bool res) \<Rightarrow> 'a list \<Rightarrow> bool res" where
  "any_res p [] = Inr False"
| "any_res p (x # xs) = bnd (p x) (\<lambda>b. if b then Inr True else any_res p xs)"

fun find_res :: "('a \<Rightarrow> bool res) \<Rightarrow> 'a list \<Rightarrow> 'a option res" where
  "find_res p [] = Inr None"
| "find_res p (x # xs) = bnd (p x) (\<lambda>b. if b then Inr (Some x) else find_res p xs)"

text \<open>
  A run of checks in program order, the first failing one raising, before \<open>k\<close>.  The checks are
  pure, so evaluating the list in order is what the sequence of \<open>require\<close> calls does.
\<close>

definition ensure :: "bool \<Rightarrow> exn \<Rightarrow> unit res" where
  "ensure c e = (if c then Inr () else Inl e)"

definition checks :: "unit res list \<Rightarrow> 'a res \<Rightarrow> 'a res" where
  "checks rs k = bnd (each (\<lambda>r. r) rs) (\<lambda>_. k)"

definition ignore :: "'a res \<Rightarrow> unit res" where
  "ignore r = bnd r (\<lambda>_. Inr ())"

text \<open>A check that applies only under a condition.\<close>

definition only_if :: "bool \<Rightarrow> unit res \<Rightarrow> unit res" where
  "only_if c r = (if c then r else Inr ())"

lemma bnd_Inr [simp]: "bnd (Inr x) f = f x"
  by (simp add: bnd_def)

lemma bnd_Inl [simp]: "bnd (Inl e) f = Inl e"
  by (simp add: bnd_def)

lemma guard_True [simp]: "guard True e k = k"
  by (simp add: guard_def)

lemma guard_False [simp]: "guard False e k = Inl e"
  by (simp add: guard_def)

lemma guard_Inr [simp, res_simps]: "guard c e k = Inr y \<longleftrightarrow> c \<and> k = Inr y"
  by (simp add: guard_def)

lemma bnd_Inr_iff [simp, res_simps]: "bnd r f = Inr y \<longleftrightarrow> (\<exists>x. r = Inr x \<and> f x = Inr y)"
  by (cases r) auto

lemma bnd_Inl_iff: "bnd r f = Inl e \<longleftrightarrow> r = Inl e \<or> (\<exists>x. r = Inr x \<and> f x = Inl e)"
  by (cases r) auto

lemma guard_Inl_iff: "guard c e k = Inl e' \<longleftrightarrow> (\<not> c \<and> e = e') \<or> (c \<and> k = Inl e')"
  by (auto simp: guard_def)

lemma bnd_cong [fundef_cong]:
  "r = r' \<Longrightarrow> (\<And>x. r' = Inr x \<Longrightarrow> f x = f' x) \<Longrightarrow> bnd r f = bnd r' f'"
  by (cases r') auto

lemma guard_cong [fundef_cong]:
  "c = c' \<Longrightarrow> e = e' \<Longrightarrow> (c' \<Longrightarrow> k = k') \<Longrightarrow> guard c e k = guard c' e' k'"
  by (auto simp: guard_def)

lemma each_cong [fundef_cong]:
  "xs = ys \<Longrightarrow> (\<And>x. x \<in> set ys \<Longrightarrow> f x = g x) \<Longrightarrow> each f xs = each g ys"
proof (induction ys arbitrary: xs)
  case Nil
  then show ?case by simp
next
  case (Cons y ys)
  then show ?case by simp
qed

lemma mapres_cong [fundef_cong]:
  "xs = ys \<Longrightarrow> (\<And>x. x \<in> set ys \<Longrightarrow> f x = g x) \<Longrightarrow> mapres f xs = mapres g ys"
proof (induction ys arbitrary: xs)
  case Nil
  then show ?case by simp
next
  case (Cons y ys)
  then show ?case by simp
qed

lemma each_Inr_iff [simp, res_simps]: "each f xs = Inr u \<longleftrightarrow> (\<forall>x \<in> set xs. f x = Inr ())"
  by (induction xs) auto

lemma ensure_Inr [simp, res_simps]: "ensure c e = Inr u \<longleftrightarrow> c"
  by (simp add: ensure_def)

lemma ensure_Inl_iff: "ensure c e = Inl e' \<longleftrightarrow> \<not> c \<and> e = e'"
  by (simp add: ensure_def)

lemma ignore_Inr [simp, res_simps]: "ignore r = Inr u \<longleftrightarrow> (\<exists>x. r = Inr x)"
  by (simp add: ignore_def)

lemma only_if_Inr [simp, res_simps]: "only_if c r = Inr u \<longleftrightarrow> (c \<longrightarrow> r = Inr ())"
  by (simp add: only_if_def)

lemma checks_Nil [simp]: "checks [] k = k"
  by (simp add: checks_def)

lemma checks_Cons: "checks (r # rs) k = bnd r (\<lambda>_. checks rs k)"
  by (cases r) (simp_all add: checks_def)

lemma checks_Inr [simp, res_simps]: "checks rs k = Inr y \<longleftrightarrow> (\<forall>r \<in> set rs. r = Inr ()) \<and> k = Inr y"
  by (simp add: checks_def)

lemma mapres_Inr_length: "mapres f xs = Inr ys \<Longrightarrow> length ys = length xs"
  by (induction xs arbitrary: ys) auto

lemma mapres_Inr_nth: "mapres f xs = Inr ys \<Longrightarrow> i < length xs \<Longrightarrow> f (xs ! i) = Inr (ys ! i)"
proof (induction xs arbitrary: ys i)
  case (Cons x xs)
  then show ?case by (cases i) auto
qed simp

lemma mapres_set: "mapres f xs = Inr ys \<Longrightarrow> y \<in> set ys \<Longrightarrow> \<exists>x \<in> set xs. f x = Inr y"
  by (induction xs arbitrary: ys) auto

lemma filter_res_Inr: "filter_res p xs = Inr ys \<Longrightarrow> (\<forall>x \<in> set xs. \<not> isl (p x)) \<and> ys = filter (\<lambda>x. p x = Inr True) xs"
proof (induction xs arbitrary: ys)
  case (Cons x xs)
  then obtain b zs where "p x = Inr b" "filter_res p xs = Inr zs" "ys = (if b then x # zs else zs)" by auto
  with Cons.IH [of zs] show ?case by (cases b) simp_all
qed simp

lemma any_res_False: "any_res p xs = Inr False \<longleftrightarrow> (\<forall>x \<in> set xs. p x = Inr False)"
  by (induction xs) (auto split: if_splits)

lemma any_res_True: "any_res p xs = Inr True \<Longrightarrow> \<exists>x \<in> set xs. p x = Inr True"
  by (induction xs) (auto split: if_splits)

lemma find_res_None: "find_res p xs = Inr None \<longleftrightarrow> (\<forall>x \<in> set xs. p x = Inr False)"
  by (induction xs) (auto split: if_splits)

lemma find_res_Some: "find_res p xs = Inr (Some x) \<Longrightarrow> x \<in> set xs \<and> p x = Inr True"
  by (induction xs) (auto split: if_splits)

lemma foldres_append:
  "foldres f s (xs @ ys) = bnd (foldres f s xs) (\<lambda>s'. foldres f s' ys)"
proof (induction xs arbitrary: s)
  case (Cons x xs)
  then show ?case by (cases "f s x") auto
qed simp

text \<open>The loop rule: an invariant of the body holds of the result.\<close>

lemma foldres_invariant:
  assumes "foldres f s xs = Inr s'" and "P s"
    and "\<And>t t' x. x \<in> set xs \<Longrightarrow> P t \<Longrightarrow> f t x = Inr t' \<Longrightarrow> P t'"
  shows "P s'"
  using assms
proof (induction xs arbitrary: s)
  case (Cons x xs)
  then obtain t where "f s x = Inr t" and "foldres f t xs = Inr s'" by auto
  with Cons show ?case by (metis list.set_intros)
qed simp

section \<open>Strings\<close>

definition startswith :: "string \<Rightarrow> string \<Rightarrow> bool" where
  "startswith s p \<longleftrightarrow> take (length p) s = p"

definition endswith :: "string \<Rightarrow> string \<Rightarrow> bool" where
  "endswith s p \<longleftrightarrow> length p \<le> length s \<and> drop (length s - length p) s = p"

text \<open>\<open>split c s\<close> is \<open>s.split(c)\<close> for a one-character separator; \<open>join\<close> is its inverse.\<close>

fun split :: "char \<Rightarrow> string \<Rightarrow> string list" where
  "split c [] = [[]]"
| "split c (x # s) =
     (if x = c then [] # split c s
      else (case split c s of [] \<Rightarrow> [[x]] | w # ws \<Rightarrow> (x # w) # ws))"

fun join :: "string \<Rightarrow> string list \<Rightarrow> string" where
  "join sep [] = []"
| "join sep [w] = w"
| "join sep (w # ws) = w @ sep @ join sep ws"

text \<open>ASCII and Latin-1 classes of \<open>str.isspace\<close>, \<open>str.lower\<close> and \<open>str.isdigit\<close>.\<close>

definition digits :: string where
  "digits = ''0123456789''"

definition lower_letters :: string where
  "lower_letters = ''abcdefghijklmnopqrstuvwxyz''"

definition upper_letters :: string where
  "upper_letters = ''ABCDEFGHIJKLMNOPQRSTUVWXYZ''"

definition is_space :: "char \<Rightarrow> bool" where
  "is_space c \<longleftrightarrow> of_char c \<in> {9, 10, 11, 12, 13, 28, 29, 30, 31, 32, 133, 160 :: nat}"

definition lower_char :: "char \<Rightarrow> char" where
  "lower_char c =
     (let n = of_char c :: nat in
      if (65 \<le> n \<and> n \<le> 90) \<or> (192 \<le> n \<and> n \<le> 222 \<and> n \<noteq> 215) then char_of (n + 32) else c)"

definition lower :: "string \<Rightarrow> string" where
  "lower s = map lower_char s"

definition lstrip :: "(char \<Rightarrow> bool) \<Rightarrow> string \<Rightarrow> string" where
  "lstrip p s = dropWhile p s"

definition rstrip :: "(char \<Rightarrow> bool) \<Rightarrow> string \<Rightarrow> string" where
  "rstrip p s = rev (dropWhile p (rev s))"

definition strip :: "(char \<Rightarrow> bool) \<Rightarrow> string \<Rightarrow> string" where
  "strip p s = rstrip p (lstrip p s)"

definition digit_char :: "nat \<Rightarrow> char" where
  "digit_char d = digits ! (d mod 10)"

fun str_nat :: "nat \<Rightarrow> string" where
  "str_nat n = (if n < 10 then [digit_char n] else str_nat (n div 10) @ [digit_char (n mod 10)])"

declare str_nat.simps [simp del]

definition str_int :: "int \<Rightarrow> string" where
  "str_int i = (if i < 0 then ''-'' @ str_nat (nat (- i)) else str_nat (nat i))"

definition digit_val :: "char \<Rightarrow> nat" where
  "digit_val c = (of_char c :: nat) - 48"

text \<open>\<open>int(s)\<close> for a string of decimal digits.\<close>

definition nat_of_digits :: "string \<Rightarrow> nat" where
  "nat_of_digits s = foldl (\<lambda>n c. 10 * n + digit_val c) 0 s"

text \<open>\<open>int(text)\<close> of an optional sign and digits.\<close>

definition int_of_signed :: "string \<Rightarrow> int res" where
  "int_of_signed s =
     (let neg = startswith s ''-''; d = (if neg \<or> startswith s ''+'' then tl s else s) in
      guard (d \<noteq> [] \<and> list_all (\<lambda>c. c \<in> set digits) d) (ValueError ''invalid literal for int()'')
        (Inr (if neg then - int (nat_of_digits d) else int (nat_of_digits d))))"

lemma startswith_append [str_simps]: "startswith (p @ s) p"
  by (simp add: startswith_def)

lemma startswith_iff: "startswith s p \<longleftrightarrow> (\<exists>t. s = p @ t)"
  by (metis append_eq_conv_conj append_take_drop_id startswith_def)

lemma endswith_iff: "endswith s p \<longleftrightarrow> (\<exists>t. s = t @ p)"
proof
  assume "endswith s p"
  then have "s = take (length s - length p) s @ p"
    by (metis append_take_drop_id endswith_def)
  then show "\<exists>t. s = t @ p" ..
qed (auto simp: endswith_def)

lemma split_not_Nil [simp]: "split c s \<noteq> []"
  by (induction s) (auto split: list.splits)

lemma join_Cons: "ws \<noteq> [] \<Longrightarrow> join sep (w # ws) = w @ sep @ join sep ws"
  by (cases ws) auto

lemma join_split [simp]: "join [c] (split c s) = s"
proof (induction s)
  case (Cons x s)
  obtain w ws where "split c s = w # ws" by (cases "split c s") auto
  with Cons show ?case by (cases ws) (auto simp: join_Cons)
qed simp

lemma split_no_sep: "w \<in> set (split c s) \<Longrightarrow> c \<notin> set w"
proof (induction s arbitrary: w)
  case (Cons x s)
  obtain v vs where "split c s = v # vs" by (cases "split c s") auto
  with Cons show ?case by (auto split: if_splits)
qed simp

lemma split_id: "c \<notin> set w \<Longrightarrow> split c w = [w]"
  by (induction w) auto

lemma split_append_sep: "c \<notin> set w \<Longrightarrow> split c (w @ c # s) = w # split c s"
  by (induction w) auto

lemma split_join: "ws \<noteq> [] \<Longrightarrow> (\<And>w. w \<in> set ws \<Longrightarrow> c \<notin> set w) \<Longrightarrow> split c (join [c] ws) = ws"
proof (induction ws)
  case (Cons w ws)
  show ?case
  proof (cases ws)
    case Nil
    with Cons show ?thesis by (simp add: split_id)
  next
    case Cons': (Cons v vs)
    with Cons show ?thesis by (simp add: split_append_sep)
  qed
qed simp

section \<open>Decimal numbers\<close>

lemma digit_char_in [simp]: "digit_char d \<in> set digits"
  by (simp add: digit_char_def digits_def nth_mem del: set_simps)

lemma digit_val_char [simp]: "d < 10 \<Longrightarrow> digit_val (digit_char d) = d"
proof -
  assume "d < 10"
  then have "d \<in> {0, 1, 2, 3, 4, 5, 6, 7, 8, 9}" by auto
  then show ?thesis by (auto simp: digit_char_def digits_def digit_val_def)
qed

lemma digit_char_val: "c \<in> set digits \<Longrightarrow> digit_val c < 10 \<and> digit_char (digit_val c) = c"
  by (auto simp: digit_char_def digits_def digit_val_def)

lemma str_nat_small: "n < 10 \<Longrightarrow> str_nat n = [digit_char n]"
  by (subst str_nat.simps) simp

lemma str_nat_step: "\<not> n < 10 \<Longrightarrow> str_nat n = str_nat (n div 10) @ [digit_char (n mod 10)]"
  by (subst str_nat.simps) simp

lemma str_nat_digits: "set (str_nat n) \<subseteq> set digits"
proof (induction n rule: str_nat.induct)
  case (1 n)
  then show ?case by (subst str_nat.simps) auto
qed

lemma str_nat_not_Nil [simp]: "str_nat n \<noteq> []"
  by (subst str_nat.simps) simp

lemma nat_of_digits_append: "nat_of_digits (s @ [c]) = 10 * nat_of_digits s + digit_val c"
  by (simp add: nat_of_digits_def)

lemma nat_of_str_nat [simp]: "nat_of_digits (str_nat n) = n"
proof (induction n rule: str_nat.induct)
  case (1 n)
  show ?case
  proof (cases "n < 10")
    case True
    then show ?thesis by (subst str_nat.simps) (simp add: nat_of_digits_def)
  next
    case False
    with 1 show ?thesis by (subst str_nat.simps) (simp add: nat_of_digits_append)
  qed
qed

lemma str_nat_inject [simp]: "str_nat m = str_nat n \<longleftrightarrow> m = n"
  by (metis nat_of_str_nat)

lemma str_nat_hd: "0 < n \<Longrightarrow> hd (str_nat n) \<noteq> CHR ''0''"
proof (induction n rule: str_nat.induct)
  case (1 n)
  show ?case
  proof (cases "n < 10")
    case True
    with "1.prems" have "n \<in> {1, 2, 3, 4, 5, 6, 7, 8, 9}" by auto
    then have "digit_char n \<noteq> CHR ''0''" by (auto simp: digit_char_def digits_def)
    with True show ?thesis by (simp add: str_nat_small)
  next
    case False
    with 1 have "hd (str_nat (n div 10)) \<noteq> CHR ''0''" by simp
    with False show ?thesis by (simp add: str_nat_step)
  qed
qed

lemma str_int_inject [simp]: "str_int i = str_int j \<longleftrightarrow> i = j"
proof -
  have "CHR ''-'' \<notin> set (str_nat n)" for n
    using str_nat_digits [of n] by (auto simp: digits_def)
  then have "str_nat m \<noteq> CHR ''-'' # s" for m s by (metis list.set_intros(1))
  then show ?thesis
    by (auto simp: str_int_def dest!: sym [of "CHR ''-'' # _"] split: if_splits)
qed

end
