(* ===== verification/PyJson.thy ===== *)
theory PyJson
  imports Prelude
begin

text \<open>
  The values the modules read from JSON and hand to each other, with the Python operations used
  on them: \<open>==\<close>, truth, \<open>str\<close>, \<open>repr\<close>, \<open>dict.get\<close>, \<open>d[k]\<close>, membership of a set of strings, and
  the two \<open>json.dumps\<close> layouts.  A float is kept as its \<open>repr\<close>, from which its value can be read
  back; equality of a float and an integer is exact below \<open>2 ^ 53\<close>, the only integers the modules
  compare a possibly float value with.  An object is its list of members in insertion order; the
  parsers in use never produce a duplicate key.
\<close>

datatype json =
    JNull
  | JBool bool
  | JInt int
  | JFloat string
  | JStr string
  | JArr "json list"
  | JObj "(string \<times> json) list"

type_synonym members = "(string \<times> json) list"

section \<open>Type tests\<close>

fun is_str :: "json \<Rightarrow> bool" where
  "is_str (JStr _) = True"
| "is_str _ = False"

text \<open>\<open>type(v) is int\<close>, which excludes booleans.\<close>

fun is_int :: "json \<Rightarrow> bool" where
  "is_int (JInt _) = True"
| "is_int _ = False"

fun is_bool :: "json \<Rightarrow> bool" where
  "is_bool (JBool _) = True"
| "is_bool _ = False"

fun is_list :: "json \<Rightarrow> bool" where
  "is_list (JArr _) = True"
| "is_list _ = False"

fun is_dict :: "json \<Rightarrow> bool" where
  "is_dict (JObj _) = True"
| "is_dict _ = False"

fun is_null :: "json \<Rightarrow> bool" where
  "is_null JNull = True"
| "is_null _ = False"

text \<open>The payloads; each is used under the matching type test only.\<close>

fun the_str :: "json \<Rightarrow> string" where
  "the_str (JStr s) = s"
| "the_str _ = []"

fun the_int :: "json \<Rightarrow> int" where
  "the_int (JInt i) = i"
| "the_int (JBool b) = (if b then 1 else 0)"
| "the_int _ = 0"

fun the_list :: "json \<Rightarrow> json list" where
  "the_list (JArr xs) = xs"
| "the_list _ = []"

fun the_dict :: "json \<Rightarrow> members" where
  "the_dict (JObj m) = m"
| "the_dict _ = []"

section \<open>Access\<close>

text \<open>\<open>m.get(k, d)\<close> and \<open>k in m\<close> for a known dictionary.\<close>

definition dget :: "members \<Rightarrow> string \<Rightarrow> json \<Rightarrow> json" where
  "dget m k d = (case map_of m k of None \<Rightarrow> d | Some v \<Rightarrow> v)"

definition has_key :: "members \<Rightarrow> string \<Rightarrow> bool" where
  "has_key m k \<longleftrightarrow> map_of m k \<noteq> None"

text \<open>\<open>v.get(k, d)\<close> and \<open>v[k]\<close> for an arbitrary value.\<close>

definition get_res :: "json \<Rightarrow> string \<Rightarrow> json \<Rightarrow> json res" where
  "get_res v k d = (case v of JObj m \<Rightarrow> Inr (dget m k d) | _ \<Rightarrow> Inl (AttributeError ''get''))"

definition item_res :: "json \<Rightarrow> string \<Rightarrow> json res" where
  "item_res v k =
     (case v of
        JObj m \<Rightarrow> (case map_of m k of None \<Rightarrow> Inl (KeyError k) | Some x \<Rightarrow> Inr x)
      | _ \<Rightarrow> Inl (TypeError ''indices''))"

text \<open>\<open>m[k] = v\<close>: a present key keeps its position.\<close>

fun dput :: "members \<Rightarrow> string \<Rightarrow> json \<Rightarrow> members" where
  "dput [] k v = [(k, v)]"
| "dput ((k', v') # m) k v = (if k' = k then (k, v) # m else (k', v') # dput m k v)"

text \<open>\<open>set(m) == names\<close> for a dictionary and a literal set of names.\<close>

definition keys_are :: "members \<Rightarrow> string list \<Rightarrow> bool" where
  "keys_are m names \<longleftrightarrow> set (map fst m) = set names"

definition keys_within :: "members \<Rightarrow> string list \<Rightarrow> bool" where
  "keys_within m names \<longleftrightarrow> list_all (\<lambda>k. k \<in> set names) (map fst m)"

text \<open>\<open>v in {names}\<close>: lists and dictionaries are unhashable.\<close>

definition hash_in :: "json \<Rightarrow> string list \<Rightarrow> bool res" where
  "hash_in v names =
     (case v of
        JArr _ \<Rightarrow> Inl (TypeError ''unhashable'')
      | JObj _ \<Rightarrow> Inl (TypeError ''unhashable'')
      | JStr s \<Rightarrow> Inr (s \<in> set names)
      | _ \<Rightarrow> Inr False)"

text \<open>\<open>k in v\<close> for an arbitrary value.\<close>

definition infix_of :: "string \<Rightarrow> string \<Rightarrow> bool" where
  "infix_of k s \<longleftrightarrow> list_ex (\<lambda>i. startswith (drop i s) k) [0..<length s + 1]"

definition contains_res :: "json \<Rightarrow> string \<Rightarrow> bool res" where
  "contains_res v k =
     (case v of
        JObj m \<Rightarrow> Inr (has_key m k) | JArr xs \<Rightarrow> Inr (JStr k \<in> set xs) | JStr s \<Rightarrow> Inr (infix_of k s)
      | _ \<Rightarrow> Inl (TypeError ''not iterable''))"

text \<open>The values a \<open>for\<close> loop over \<open>v\<close> takes.\<close>

definition iter_res :: "json \<Rightarrow> json list res" where
  "iter_res v =
     (case v of
        JArr xs \<Rightarrow> Inr xs | JObj m \<Rightarrow> Inr (map (\<lambda>kv. JStr (fst kv)) m) | JStr s \<Rightarrow> Inr (map (\<lambda>c. JStr [c]) s)
      | _ \<Rightarrow> Inl (TypeError ''not iterable''))"

text \<open>\<open>value[index]\<close> for an integer index that is within \<open>len(value)\<close>.\<close>

definition nth_res :: "json \<Rightarrow> int \<Rightarrow> json res" where
  "nth_res v i =
     (case v of
        JArr xs \<Rightarrow> guard (0 \<le> i \<and> i < int (length xs)) (IndexError ''list index'') (Inr (xs ! nat i))
      | JStr s \<Rightarrow> guard (0 \<le> i \<and> i < int (length s)) (IndexError ''string index'') (Inr (JStr [s ! nat i]))
      | JObj m \<Rightarrow> Inl (KeyError [])
      | _ \<Rightarrow> Inl (TypeError ''not subscriptable''))"

definition len_res :: "json \<Rightarrow> int res" where
  "len_res v =
     (case v of JArr xs \<Rightarrow> Inr (int (length xs)) | JStr s \<Rightarrow> Inr (int (length s)) | JObj m \<Rightarrow> Inr (int (length m))
      | _ \<Rightarrow> Inl (TypeError ''has no len''))"

section \<open>Numbers, equality and truth\<close>

text \<open>The value of a float as \<open>m * 10 ^ e\<close>, read from its \<open>repr\<close>; \<open>None\<close> for infinities and NaN.\<close>

definition float_value :: "string \<Rightarrow> (int \<times> int) option" where
  "float_value s =
     (let neg = startswith s ''-'';
          t = (if neg then tl s else s);
          mant = takeWhile (\<lambda>c. c \<noteq> CHR ''e'') t;
          ex = drop 1 (dropWhile (\<lambda>c. c \<noteq> CHR ''e'') t);
          ip = takeWhile (\<lambda>c. c \<noteq> CHR ''.'') mant;
          fp = drop 1 (dropWhile (\<lambda>c. c \<noteq> CHR ''.'') mant);
          ex_neg = startswith ex ''-'';
          ed = (if ex_neg \<or> startswith ex ''+'' then tl ex else ex);
          e = (if ex_neg then - int (nat_of_digits ed) else int (nat_of_digits ed));
          m = int (nat_of_digits (ip @ fp))
      in if ip \<noteq> [] \<and> set (ip @ fp @ ed) \<subseteq> set digits
         then Some (if neg then - m else m, e - int (length fp)) else None)"

fun number :: "json \<Rightarrow> (int \<times> int) option" where
  "number (JInt i) = Some (i, 0)"
| "number (JBool b) = Some (if b then 1 else 0, 0)"
| "number (JFloat s) = float_value s"
| "number _ = None"

definition same_number :: "int \<times> int \<Rightarrow> int \<times> int \<Rightarrow> bool" where
  "same_number p q \<longleftrightarrow>
     (let e = min (snd p) (snd q)
      in fst p * 10 ^ nat (snd p - e) = fst q * 10 ^ nat (snd q - e))"

fun numeric :: "json \<Rightarrow> bool" where
  "numeric (JInt _) = True"
| "numeric (JBool _) = True"
| "numeric (JFloat _) = True"
| "numeric _ = False"

definition num_eq :: "json \<Rightarrow> json \<Rightarrow> bool" where
  "num_eq a b \<longleftrightarrow>
     (case (number a, number b) of
        (Some p, Some q) \<Rightarrow> same_number p q
      | _ \<Rightarrow> a = b \<and> a \<noteq> JFloat ''nan'')"

text \<open>\<open>a == b\<close>; dictionaries compare without regard to order.\<close>

fun py_eq :: "json \<Rightarrow> json \<Rightarrow> bool"
  and py_eq_list :: "json list \<Rightarrow> json list \<Rightarrow> bool"
  and py_sub :: "members \<Rightarrow> members \<Rightarrow> bool" where
  "py_eq JNull b = (b = JNull)"
| "py_eq (JStr s) b = (b = JStr s)"
| "py_eq (JArr xs) b = (case b of JArr ys \<Rightarrow> py_eq_list xs ys | _ \<Rightarrow> False)"
| "py_eq (JObj m) b =
     (case b of JObj m' \<Rightarrow> length m = length m' \<and> py_sub m m' | _ \<Rightarrow> False)"
| "py_eq (JBool x) b = num_eq (JBool x) b"
| "py_eq (JInt x) b = num_eq (JInt x) b"
| "py_eq (JFloat x) b = num_eq (JFloat x) b"
| "py_eq_list [] ys = (ys = [])"
| "py_eq_list (x # xs) ys = (case ys of [] \<Rightarrow> False | y # ys' \<Rightarrow> py_eq x y \<and> py_eq_list xs ys')"
| "py_sub [] m' = True"
| "py_sub ((k, v) # m) m' =
     ((case map_of m' k of None \<Rightarrow> False | Some v' \<Rightarrow> py_eq v v') \<and> py_sub m m')"

text \<open>\<open>v == s\<close> for a string literal, and \<open>v is True\<close>, \<open>v is False\<close>, \<open>v is None\<close> as plain equality.\<close>

definition eq_str :: "json \<Rightarrow> string \<Rightarrow> bool" where
  "eq_str v s \<longleftrightarrow> v = JStr s"

fun truthy :: "json \<Rightarrow> bool" where
  "truthy JNull = False"
| "truthy (JBool b) = b"
| "truthy (JInt i) = (i \<noteq> 0)"
| "truthy (JFloat s) = (case float_value s of Some (m, _) \<Rightarrow> m \<noteq> 0 | None \<Rightarrow> True)"
| "truthy (JStr s) = (s \<noteq> [])"
| "truthy (JArr xs) = (xs \<noteq> [])"
| "truthy (JObj m) = (m \<noteq> [])"

section \<open>Text\<close>

text \<open>Back quotes stand for double quotes, to write JSON texts legibly.\<close>

definition dq :: "string \<Rightarrow> string" where
  "dq = map (\<lambda>c. if c = CHR ''`'' then CHR 0x22 else c)"

definition hex_digit :: "nat \<Rightarrow> char" where
  "hex_digit d = ''0123456789abcdef'' ! (d mod 16)"

definition hex2 :: "nat \<Rightarrow> string" where
  "hex2 n = [hex_digit (n div 16), hex_digit n]"

definition escape_char :: "char \<Rightarrow> string" where
  "escape_char c =
     (let n = of_char c :: nat in
      if n = 34 then [CHR 0x5C, CHR 0x22]
      else if n = 92 then [CHR 0x5C, CHR 0x5C]
      else if n = 10 then [CHR 0x5C, CHR ''n'']
      else if n = 13 then [CHR 0x5C, CHR ''r'']
      else if n = 9 then [CHR 0x5C, CHR ''t'']
      else if n = 12 then [CHR 0x5C, CHR ''f'']
      else if n = 8 then [CHR 0x5C, CHR ''b'']
      else if 32 \<le> n \<and> n \<le> 126 then [c]
      else [CHR 0x5C, CHR ''u'', CHR ''0'', CHR ''0''] @ hex2 n)"

text \<open>\<open>json.dumps\<close> of a string with \<open>ensure_ascii\<close>.\<close>

definition json_string :: "string \<Rightarrow> string" where
  "json_string s = [CHR 0x22] @ concat (map escape_char s) @ [CHR 0x22]"

text \<open>The same with \<open>ensure_ascii=False\<close>: code points above 126 stay as they are.\<close>

definition json_string_raw :: "string \<Rightarrow> string" where
  "json_string_raw s =
     [CHR 0x22] @ concat (map (\<lambda>c. if (126::nat) < of_char c then [c] else escape_char c) s) @ [CHR 0x22]"

definition json_float :: "string \<Rightarrow> string" where
  "json_float s =
     (if s = ''nan'' then ''NaN'' else if s = ''inf'' then ''Infinity''
      else if s = ''-inf'' then ''-Infinity'' else s)"

text \<open>
  \<open>json.dumps(value, sort_keys=True, separators=(",", ":"), ensure_ascii=True, allow_nan=False)\<close>.
\<close>

fun dumps_compact :: "json \<Rightarrow> string res" where
  "dumps_compact JNull = Inr ''null''"
| "dumps_compact (JBool b) = Inr (if b then ''true'' else ''false'')"
| "dumps_compact (JInt i) = Inr (str_int i)"
| "dumps_compact (JFloat s) =
     (if s \<in> {''nan'', ''inf'', ''-inf''} then Inl (ValueError ''Out of range float values'') else Inr s)"
| "dumps_compact (JStr s) = Inr (json_string s)"
| "dumps_compact (JArr xs) =
     bnd (mapres dumps_compact xs) (\<lambda>ts. Inr (''['' @ join '','' ts @ '']''))"
| "dumps_compact (JObj m) =
     bnd (mapres (\<lambda>(k, v). bnd (dumps_compact v) (\<lambda>t. Inr (k, t))) m)
       (\<lambda>kts. Inr (''{'' @ join '','' (map (\<lambda>(k, t). json_string k @ '':'' @ t) (sort_key fst kts)) @ ''}''))"

definition newline :: "nat \<Rightarrow> string" where
  "newline n = CHR 0x0A # replicate n CHR '' ''"

text \<open>\<open>json.dumps(value, sort_keys=True, indent=2)\<close>, started at indentation \<open>n\<close>.\<close>

fun dumps_indent :: "nat \<Rightarrow> json \<Rightarrow> string" where
  "dumps_indent n JNull = ''null''"
| "dumps_indent n (JBool b) = (if b then ''true'' else ''false'')"
| "dumps_indent n (JInt i) = str_int i"
| "dumps_indent n (JFloat s) = json_float s"
| "dumps_indent n (JStr s) = json_string s"
| "dumps_indent n (JArr xs) =
     (if xs = [] then ''[]''
      else ''['' @ newline (n + 2) @ join ('','' @ newline (n + 2)) (map (dumps_indent (n + 2)) xs)
           @ newline n @ '']'')"
| "dumps_indent n (JObj m) =
     (if m = [] then ''{}''
      else ''{'' @ newline (n + 2)
           @ join ('','' @ newline (n + 2))
               (map (\<lambda>(k, t). json_string k @ '': '' @ t)
                  (sort_key fst (map (\<lambda>(k, v). (k, dumps_indent (n + 2) v)) m)))
           @ newline n @ ''}'')"

text \<open>\<open>json.dumps(value)\<close>, with neither sorting nor indentation.\<close>

fun dumps_spaced :: "json \<Rightarrow> string" where
  "dumps_spaced JNull = ''null''"
| "dumps_spaced (JBool b) = (if b then ''true'' else ''false'')"
| "dumps_spaced (JInt i) = str_int i"
| "dumps_spaced (JFloat s) = json_float s"
| "dumps_spaced (JStr s) = json_string s"
| "dumps_spaced (JArr xs) = ''['' @ join '', '' (map dumps_spaced xs) @ '']''"
| "dumps_spaced (JObj m) = ''{'' @ join '', '' (map (\<lambda>(k, v). json_string k @ '': '' @ dumps_spaced v) m) @ ''}''"

text \<open>\<open>isinstance(value, int)\<close>, which takes a Boolean too; \<open>set(value)\<close> of a value whose items must be hashable.\<close>

definition int_like :: "json \<Rightarrow> bool" where
  "int_like v \<longleftrightarrow> is_int v \<or> is_bool v"

definition hashable :: "json \<Rightarrow> json res" where
  "hashable v = guard (\<not> is_list v \<and> \<not> is_dict v) (TypeError ''unhashable'') (Inr v)"

definition set_res :: "json \<Rightarrow> json list res" where
  "set_res v =
     bnd (iter_res v) (mapres hashable)"

text \<open>\<open>repr\<close> of a string: single quotes unless it holds one and no double quote.\<close>

definition repr_char :: "char \<Rightarrow> char \<Rightarrow> string" where
  "repr_char q c =
     (let n = of_char c :: nat in
      if c = q \<or> n = 92 then [CHR 0x5C, c]
      else if n = 10 then [CHR 0x5C, CHR ''n'']
      else if n = 13 then [CHR 0x5C, CHR ''r'']
      else if n = 9 then [CHR 0x5C, CHR ''t'']
      else if n < 32 \<or> (127 \<le> n \<and> n \<le> 160) \<or> n = 173 then [CHR 0x5C, CHR ''x''] @ hex2 n
      else [c])"

definition repr_str :: "string \<Rightarrow> string" where
  "repr_str s =
     (let q = (if CHR 0x27 \<in> set s \<and> CHR 0x22 \<notin> set s then CHR 0x22 else CHR 0x27)
      in [q] @ concat (map (repr_char q) s) @ [q])"

fun py_repr :: "json \<Rightarrow> string" where
  "py_repr JNull = ''None''"
| "py_repr (JBool b) = (if b then ''True'' else ''False'')"
| "py_repr (JInt i) = str_int i"
| "py_repr (JFloat s) = s"
| "py_repr (JStr s) = repr_str s"
| "py_repr (JArr xs) = ''['' @ join '', '' (map py_repr xs) @ '']''"
| "py_repr (JObj m) = ''{'' @ join '', '' (map (\<lambda>(k, v). repr_str k @ '': '' @ py_repr v) m) @ ''}''"

definition py_str :: "json \<Rightarrow> string" where
  "py_str v = (case v of JStr s \<Rightarrow> s | _ \<Rightarrow> py_repr v)"

section \<open>Facts\<close>

lemma is_strE [elim!]: "is_str v \<Longrightarrow> (\<And>s. v = JStr s \<Longrightarrow> P) \<Longrightarrow> P"
  by (cases v) auto

lemma is_intE [elim!]: "is_int v \<Longrightarrow> (\<And>i. v = JInt i \<Longrightarrow> P) \<Longrightarrow> P"
  by (cases v) auto

lemma is_listE [elim!]: "is_list v \<Longrightarrow> (\<And>xs. v = JArr xs \<Longrightarrow> P) \<Longrightarrow> P"
  by (cases v) auto

lemma is_dictE [elim!]: "is_dict v \<Longrightarrow> (\<And>m. v = JObj m \<Longrightarrow> P) \<Longrightarrow> P"
  by (cases v) auto

lemma is_str_iff: "is_str v \<longleftrightarrow> (\<exists>s. v = JStr s)"
  by (cases v) auto

lemma is_int_iff: "is_int v \<longleftrightarrow> (\<exists>i. v = JInt i)"
  by (cases v) auto

lemma is_dict_iff: "is_dict v \<longleftrightarrow> (\<exists>m. v = JObj m)"
  by (cases v) auto

lemma is_list_iff: "is_list v \<longleftrightarrow> (\<exists>xs. v = JArr xs)"
  by (cases v) auto

lemma is_null_iff: "is_null v \<longleftrightarrow> v = JNull"
  by (cases v) auto

lemma get_res_Inr [simp, res_simps]:
  "get_res v k d = Inr x \<longleftrightarrow> is_dict v \<and> x = dget (the_dict v) k d"
  by (cases v) (auto simp: get_res_def)

lemma item_res_Inr [simp, res_simps]:
  "item_res v k = Inr x \<longleftrightarrow> is_dict v \<and> map_of (the_dict v) k = Some x"
  by (cases v) (auto simp: item_res_def split: option.splits)

lemma hash_in_True [simp, res_simps]:
  "hash_in v names = Inr True \<longleftrightarrow> (\<exists>s. v = JStr s \<and> s \<in> set names)"
  by (cases v) (auto simp: hash_in_def)

lemma map_of_dput: "map_of (dput m k v) = (map_of m)(k \<mapsto> v)"
  by (induction m k v rule: dput.induct) auto

lemma dput_keys: "map fst (dput m k v) = (if k \<in> set (map fst m) then map fst m else map fst m @ [k])"
  by (induction m k v rule: dput.induct) auto

lemma distinct_dput: "distinct (map fst m) \<Longrightarrow> distinct (map fst (dput m k v))"
  by (simp add: dput_keys)

lemma py_eq_str_left [simp]: "py_eq (JStr s) v \<longleftrightarrow> v = JStr s"
  by simp

lemma py_eq_str_right [simp]: "py_eq v (JStr s) \<longleftrightarrow> v = JStr s"
  by (cases v) (auto simp: num_eq_def split: option.splits)

lemma py_eq_null_right [simp]: "py_eq v JNull \<longleftrightarrow> v = JNull"
  by (cases v) (auto simp: num_eq_def split: option.splits)

lemma py_eq_int_int [simp]: "py_eq (JInt i) (JInt j) \<longleftrightarrow> i = j"
  by (simp add: num_eq_def same_number_def)

lemma py_eq_is_int: "py_eq v (JInt j) \<Longrightarrow> is_int v \<Longrightarrow> v = JInt j"
  by (cases v) (auto simp: num_eq_def same_number_def)

end
