(* ===== verification/Regex.thy ===== *)
theory Regex
  imports Prelude
begin

text \<open>
  The part of Python's \<open>re\<close> the modules use: patterns over character classes, alternation,
  sequence, repetition and bounded repetition, with \<open>fullmatch\<close>, \<open>match\<close> and \<open>search\<close> as yes/no
  questions.  Matching takes the derivative of the pattern character by character; its language is
  given separately (\<open>lang\<close>), and \<open>rx_match_iff\<close> says that the two agree, so the properties of the
  components reason about languages while the model runs the matcher.
\<close>

datatype rx =
    Nothing
  | Eps
  | Cls "char list"
  | NotCls "char list"
  | Seq rx rx
  | Alt rx rx
  | Star rx

fun lang :: "rx \<Rightarrow> string set" where
  "lang Nothing = {}"
| "lang Eps = {[]}"
| "lang (Cls cs) = {[c] |c. c \<in> set cs}"
| "lang (NotCls cs) = {[c] |c. c \<notin> set cs}"
| "lang (Seq r s) = {u @ v |u v. u \<in> lang r \<and> v \<in> lang s}"
| "lang (Alt r s) = lang r \<union> lang s"
| "lang (Star r) = {concat ws |ws. set ws \<subseteq> lang r}"

fun nullable :: "rx \<Rightarrow> bool" where
  "nullable Nothing = False"
| "nullable Eps = True"
| "nullable (Cls _) = False"
| "nullable (NotCls _) = False"
| "nullable (Seq r s) = (nullable r \<and> nullable s)"
| "nullable (Alt r s) = (nullable r \<or> nullable s)"
| "nullable (Star _) = True"

text \<open>Sequence and alternation that drop empty branches, so that derivatives stay small.\<close>

definition seq :: "rx \<Rightarrow> rx \<Rightarrow> rx" where
  "seq r s =
     (if r = Nothing \<or> s = Nothing then Nothing
      else if r = Eps then s else if s = Eps then r else Seq r s)"

definition alt :: "rx \<Rightarrow> rx \<Rightarrow> rx" where
  "alt r s = (if r = Nothing then s else if s = Nothing \<or> r = s then r else Alt r s)"

fun deriv :: "char \<Rightarrow> rx \<Rightarrow> rx" where
  "deriv c Nothing = Nothing"
| "deriv c Eps = Nothing"
| "deriv c (Cls cs) = (if c \<in> set cs then Eps else Nothing)"
| "deriv c (NotCls cs) = (if c \<in> set cs then Nothing else Eps)"
| "deriv c (Seq r s) =
     (if nullable r then alt (seq (deriv c r) s) (deriv c s) else seq (deriv c r) s)"
| "deriv c (Alt r s) = alt (deriv c r) (deriv c s)"
| "deriv c (Star r) = seq (deriv c r) (Star r)"

fun rx_match :: "rx \<Rightarrow> string \<Rightarrow> bool" where
  "rx_match r [] = nullable r"
| "rx_match r (c # s) = rx_match (deriv c r) s"

section \<open>Derived forms\<close>

definition Lit :: "string \<Rightarrow> rx" where
  "Lit s = foldr (\<lambda>c r. Seq (Cls [c]) r) s Eps"

definition Opt :: "rx \<Rightarrow> rx" where
  "Opt r = Alt Eps r"

definition Plus :: "rx \<Rightarrow> rx" where
  "Plus r = Seq r (Star r)"

text \<open>\<open>r{n}\<close> and \<open>r{m,m+n}\<close>.\<close>

fun Rep :: "nat \<Rightarrow> rx \<Rightarrow> rx" where
  "Rep 0 r = Eps"
| "Rep (Suc n) r = Seq r (Rep n r)"

fun UpTo :: "nat \<Rightarrow> rx \<Rightarrow> rx" where
  "UpTo 0 r = Eps"
| "UpTo (Suc n) r = Alt Eps (Seq r (UpTo n r))"

definition Seqs :: "rx list \<Rightarrow> rx" where
  "Seqs rs = foldr Seq rs Eps"

definition Alts :: "rx list \<Rightarrow> rx" where
  "Alts rs = foldr Alt rs Nothing"

definition AnyChar :: rx where
  "AnyChar = NotCls []"

text \<open>\<open>re.match\<close> (a prefix) and \<open>re.search\<close> (a substring), as truth values.\<close>

definition rx_prefix :: "rx \<Rightarrow> string \<Rightarrow> bool" where
  "rx_prefix r s = rx_match (Seq r (Star AnyChar)) s"

definition rx_search :: "rx \<Rightarrow> string \<Rightarrow> bool" where
  "rx_search r s = rx_match (Seq (Star AnyChar) (Seq r (Star AnyChar))) s"

definition Digit :: rx where
  "Digit = Cls digits"

definition Digit19 :: rx where
  "Digit19 = Cls ''123456789''"

definition lower_hex :: string where
  "lower_hex = ''0123456789abcdef''"

definition letters :: string where
  "letters = upper_letters @ lower_letters"

definition alnum :: string where
  "alnum = letters @ digits"

text \<open>\<open>[1-9]\d*\<close>, \<open>(?:0|[1-9]\d*)\<close> and \<open>[0-9a-f]{n}\<close>, shared by several patterns.\<close>

definition pos_int_rx :: rx where
  "pos_int_rx = Seq Digit19 (Star Digit)"

definition nat_rx :: rx where
  "nat_rx = Alt (Lit ''0'') pos_int_rx"

definition hex_rx :: "nat \<Rightarrow> rx" where
  "hex_rx n = Rep n (Cls lower_hex)"

section \<open>The matcher decides the language\<close>

lemma nullable_iff: "nullable r \<longleftrightarrow> [] \<in> lang r"
proof (induction r)
  case (Star r)
  have "concat [] = []" and "set [] \<subseteq> lang r" by simp_all
  then show ?case by (auto intro!: exI [of _ "[]"])
qed auto

lemma lang_seq: "lang (seq r s) = lang (Seq r s)"
  by (auto simp: seq_def)

lemma lang_alt: "lang (alt r s) = lang r \<union> lang s"
  by (auto simp: alt_def)

lemma Star_unfold: "c # s \<in> lang (Star r) \<longleftrightarrow> (\<exists>u v. s = u @ v \<and> c # u \<in> lang r \<and> v \<in> lang (Star r))"
proof
  assume "c # s \<in> lang (Star r)"
  then obtain ws where ws: "c # s = concat ws" "set ws \<subseteq> lang r" by auto
  let ?vs = "dropWhile (\<lambda>w. w = []) ws"
  have vs: "c # s = concat ?vs" "set ?vs \<subseteq> lang r"
  proof -
    have "concat (dropWhile (\<lambda>w. w = []) xs) = concat xs" for xs :: "string list"
      by (induction xs) auto
    then show "c # s = concat ?vs" using ws(1) by simp
    show "set ?vs \<subseteq> lang r" using ws(2) by (auto dest: set_dropWhileD)
  qed
  then obtain w us where us: "?vs = w # us" by (cases ?vs) auto
  then have "w \<noteq> []" by (metis (mono_tags, lifting) dropWhile_eq_Cons_conv)
  with vs us obtain u where "w = c # u" "s = u @ concat us" by (cases w) auto
  with vs us show "\<exists>u v. s = u @ v \<and> c # u \<in> lang r \<and> v \<in> lang (Star r)" by auto
next
  assume "\<exists>u v. s = u @ v \<and> c # u \<in> lang r \<and> v \<in> lang (Star r)"
  then obtain u ws where "s = u @ concat ws" "c # u \<in> lang r" "set ws \<subseteq> lang r" by auto
  then have "c # s = concat ((c # u) # ws)" "set ((c # u) # ws) \<subseteq> lang r" by auto
  then show "c # s \<in> lang (Star r)" by (simp only: lang.simps) blast
qed

lemma Cons_in_Seq:
  "c # s \<in> lang (Seq r q) \<longleftrightarrow>
   (\<exists>u v. s = u @ v \<and> c # u \<in> lang r \<and> v \<in> lang q) \<or> ([] \<in> lang r \<and> c # s \<in> lang q)"
  by (auto simp: Cons_eq_append_conv)

lemma lang_deriv: "s \<in> lang (deriv c r) \<longleftrightarrow> c # s \<in> lang r"
proof (induction r arbitrary: s)
  case (Seq r q)
  have "s \<in> lang (seq (deriv c r) q) \<longleftrightarrow> (\<exists>u v. s = u @ v \<and> c # u \<in> lang r \<and> v \<in> lang q)"
    using Seq.IH(1) by (auto simp: lang_seq)
  then show ?case
    using Seq.IH(2) by (auto simp: lang_alt nullable_iff Cons_in_Seq simp del: lang.simps)
next
  case (Star r)
  have "s \<in> lang (deriv c (Star r)) \<longleftrightarrow> (\<exists>u v. s = u @ v \<and> c # u \<in> lang r \<and> v \<in> lang (Star r))"
    by (simp only: deriv.simps lang_seq lang.simps(5)) (auto simp: Star.IH simp del: lang.simps)
  then show ?case by (simp only: Star_unfold)
qed (auto simp: lang_alt)

theorem rx_match_iff: "rx_match r s \<longleftrightarrow> s \<in> lang r"
  by (induction s arbitrary: r) (simp_all add: nullable_iff lang_deriv)

section \<open>Languages of the derived forms\<close>

lemma lang_Lit [simp]: "lang (Lit s) = {s}"
  by (induction s) (auto simp: Lit_def)

lemma lang_Opt [simp]: "lang (Opt r) = insert [] (lang r)"
  by (auto simp: Opt_def)

lemma lang_Seqs_Nil [simp]: "lang (Seqs []) = {[]}"
  by (simp add: Seqs_def)

lemma lang_Seqs_Cons [simp]: "lang (Seqs (r # rs)) = {u @ v |u v. u \<in> lang r \<and> v \<in> lang (Seqs rs)}"
  by (simp add: Seqs_def)

lemma lang_Alts [simp]: "lang (Alts rs) = (\<Union>r \<in> set rs. lang r)"
  by (induction rs) (auto simp: Alts_def)

lemma Star_Cls: "lang (Star (Cls cs)) = {s. set s \<subseteq> set cs}"
proof (intro equalityI subsetI)
  fix s assume "s \<in> lang (Star (Cls cs))"
  then show "s \<in> {s. set s \<subseteq> set cs}" by fastforce
next
  fix s assume "s \<in> {s. set s \<subseteq> set cs}"
  then have "set (map (\<lambda>c. [c]) s) \<subseteq> lang (Cls cs)" by auto
  moreover have "concat (map (\<lambda>c. [c]) s) = s" by (induction s) auto
  ultimately show "s \<in> lang (Star (Cls cs))" by (simp only: lang.simps) (metis (mono_tags, lifting) mem_Collect_eq)
qed

lemma Star_NotCls: "lang (Star (NotCls cs)) = {s. set s \<inter> set cs = {}}"
proof (intro equalityI subsetI)
  fix s assume "s \<in> lang (Star (NotCls cs))"
  then show "s \<in> {s. set s \<inter> set cs = {}}" by fastforce
next
  fix s assume "s \<in> {s. set s \<inter> set cs = {}}"
  then have "set (map (\<lambda>c. [c]) s) \<subseteq> lang (NotCls cs)" by auto
  moreover have "concat (map (\<lambda>c. [c]) s) = s" by (induction s) auto
  ultimately show "s \<in> lang (Star (NotCls cs))" by (simp only: lang.simps) (metis (mono_tags, lifting) mem_Collect_eq)
qed

lemma lang_Seq_Cls: "lang (Seq (Cls cs) r) = {c # v |c v. c \<in> set cs \<and> v \<in> lang r}"
proof (intro equalityI subsetI)
  fix s assume "s \<in> {c # v |c v. c \<in> set cs \<and> v \<in> lang r}"
  then obtain c v where "s = [c] @ v" "[c] \<in> lang (Cls cs)" "v \<in> lang r" by auto
  then show "s \<in> lang (Seq (Cls cs) r)" unfolding lang.simps(5) by blast
qed auto

lemma lang_Rep_Cls [simp]: "lang (Rep n (Cls cs)) = {s. length s = n \<and> set s \<subseteq> set cs}"
proof (induction n)
  case (Suc n)
  show ?case
  proof (intro equalityI subsetI)
    fix s assume "s \<in> lang (Rep (Suc n) (Cls cs))"
    with Suc show "s \<in> {s. length s = Suc n \<and> set s \<subseteq> set cs}" by auto
  next
    fix s assume "s \<in> {s. length s = Suc n \<and> set s \<subseteq> set cs}"
    then show "s \<in> lang (Rep (Suc n) (Cls cs))"
      by (cases s) (auto simp: Suc lang_Seq_Cls simp del: lang.simps(5))
  qed
qed auto

lemma lang_UpTo_Cls [simp]: "lang (UpTo n (Cls cs)) = {s. length s \<le> n \<and> set s \<subseteq> set cs}"
proof (induction n)
  case (Suc n)
  show ?case
  proof (intro equalityI subsetI)
    fix s assume "s \<in> lang (UpTo (Suc n) (Cls cs))"
    with Suc show "s \<in> {s. length s \<le> Suc n \<and> set s \<subseteq> set cs}" by auto
  next
    fix s assume "s \<in> {s. length s \<le> Suc n \<and> set s \<subseteq> set cs}"
    then show "s \<in> lang (UpTo (Suc n) (Cls cs))"
      by (cases s) (auto simp: Suc lang_Seq_Cls simp del: lang.simps(5))
  qed
qed auto

lemma lang_hex_rx [simp]: "lang (hex_rx n) = {s. length s = n \<and> set s \<subseteq> set lower_hex}"
  by (simp add: hex_rx_def)

lemma lang_pos_int_rx: "lang pos_int_rx = {c # s |c s. c \<in> set ''123456789'' \<and> set s \<subseteq> set digits}"
  by (simp only: pos_int_rx_def Digit19_def Digit_def lang_Seq_Cls Star_Cls) blast

lemma pos_int_rx_digits: "s \<in> lang pos_int_rx \<Longrightarrow> s \<noteq> [] \<and> set s \<subseteq> set digits"
  by (auto simp: lang_pos_int_rx digits_def)

lemma nat_rx_digits: "s \<in> lang nat_rx \<Longrightarrow> s \<noteq> [] \<and> set s \<subseteq> set digits"
  using pos_int_rx_digits by (auto simp: nat_rx_def digits_def)

lemma str_nat_pos_int: "0 < n \<Longrightarrow> str_nat n \<in> lang pos_int_rx"
proof -
  assume "0 < n"
  then obtain c s where cs: "str_nat n = c # s" "c \<noteq> CHR ''0''"
    using str_nat_hd [of n] by (cases "str_nat n") auto
  with str_nat_digits [of n] have "c \<in> set ''123456789''" "set s \<subseteq> set digits"
    by (auto simp: digits_def)
  with cs show ?thesis by (auto simp: lang_pos_int_rx)
qed

lemma foldl_digits_ge: "m \<le> foldl (\<lambda>n c. 10 * n + digit_val c) m s"
proof (induction s arbitrary: m)
  case (Cons c s)
  have "m \<le> 10 * m + digit_val c" by simp
  also have "\<dots> \<le> foldl (\<lambda>n c. 10 * n + digit_val c) (10 * m + digit_val c) s" by (rule Cons)
  finally show ?case by simp
qed simp

lemma pos_int_rx_positive: "s \<in> lang pos_int_rx \<Longrightarrow> 0 < nat_of_digits s"
proof -
  assume "s \<in> lang pos_int_rx"
  then obtain c t where s: "s = c # t" "c \<in> set ''123456789''" by (auto simp: lang_pos_int_rx)
  then have "0 < digit_val c" by (auto simp: digit_val_def)
  also have "\<dots> \<le> nat_of_digits s"
    using foldl_digits_ge [of "digit_val c" t] s(1) by (simp add: nat_of_digits_def)
  finally show ?thesis .
qed

text \<open>A positive decimal without a leading zero is the printed form of its value.\<close>

lemma str_nat_of_digits:
  assumes "set s \<subseteq> set digits" and "s \<noteq> []" and "s = ''0'' \<or> hd s \<noteq> CHR ''0''"
  shows "str_nat (nat_of_digits s) = s"
  using assms
proof (induction s rule: rev_induct)
  case (snoc c s)
  have c: "digit_val c < 10" "digit_char (digit_val c) = c"
    using snoc.prems digit_char_val [of c] by auto
  show ?case
  proof (cases "s = []")
    case True
    with c show ?thesis by (simp add: nat_of_digits_def str_nat_small)
  next
    case False
    with snoc.prems have hd: "hd s \<noteq> CHR ''0''" by (cases s) auto
    then have IH: "str_nat (nat_of_digits s) = s" using snoc False by auto
    have "0 < nat_of_digits s"
    proof (rule ccontr)
      assume "\<not> 0 < nat_of_digits s"
      then have "str_nat 0 = s" using IH by simp
      then show False using hd by (auto simp: str_nat_small digit_char_def digits_def)
    qed
    with c IH show ?thesis by (simp add: nat_of_digits_append str_nat_step)
  qed
qed simp

lemma pos_int_rx_str: "s \<in> lang pos_int_rx \<Longrightarrow> str_nat (nat_of_digits s) = s"
  using pos_int_rx_digits [of s] by (intro str_nat_of_digits) (auto simp: lang_pos_int_rx)

end
