(* ===== verification/Sha256.thy ===== *)
theory Sha256
  imports PyJson Regex "HOL-Library.Word"
begin

text \<open>
  \<open>hashlib.sha256(data).hexdigest()\<close>, which \<open>scripts/version_plan.py\<close> and
  \<open>scripts/release_control.py\<close> both wrap as \<open>digest\<close>: the FIPS 180-4 function on a list of bytes
  (characters of code below 256).  The development proves the shape of the result only, never
  that two inputs have different digests.
\<close>

unbundle bit_operations_syntax

type_synonym w32 = "32 word"

text \<open>The round constants of the standard, in decimal.\<close>

definition round_constants :: "w32 list" where
  "round_constants =
    [1116352408, 1899447441, 3049323471, 3921009573, 961987163, 1508970993, 2453635748, 2870763221,
     3624381080, 310598401, 607225278, 1426881987, 1925078388, 2162078206, 2614888103, 3248222580,
     3835390401, 4022224774, 264347078, 604807628, 770255983, 1249150122, 1555081692, 1996064986,
     2554220882, 2821834349, 2952996808, 3210313671, 3336571891, 3584528711, 113926993, 338241895,
     666307205, 773529912, 1294757372, 1396182291, 1695183700, 1986661051, 2177026350, 2456956037,
     2730485921, 2820302411, 3259730800, 3345764771, 3516065817, 3600352804, 4094571909, 275423344,
     430227734, 506948616, 659060556, 883997877, 958139571, 1322822218, 1537002063, 1747873779,
     1955562222, 2024104815, 2227730452, 2361852424, 2428436474, 2756734187, 3204031479, 3329325298]"

record hash_state =
  ha :: w32
  hb :: w32
  hc :: w32
  hdd :: w32
  he :: w32
  hf :: w32
  hg :: w32
  hh :: w32

definition initial_hash :: hash_state where
  "initial_hash =
    \<lparr>ha = 1779033703, hb = 3144134277, hc = 1013904242, hdd = 2773480762,
     he = 1359893119, hf = 2600822924, hg = 528734635, hh = 1541459225\<rparr>"

definition rotr :: "nat \<Rightarrow> w32 \<Rightarrow> w32" where
  "rotr n w = drop_bit n w OR push_bit (32 - n) w"

text \<open>One round on the working variables, with the round constant and the schedule word.\<close>

definition sha_round :: "hash_state \<Rightarrow> w32 \<times> w32 \<Rightarrow> hash_state" where
  "sha_round s kw =
     (let s1 = rotr 6 (he s) XOR rotr 11 (he s) XOR rotr 25 (he s);
          ch = (he s AND hf s) XOR (NOT (he s) AND hg s);
          t1 = hh s + s1 + ch + fst kw + snd kw;
          s0 = rotr 2 (ha s) XOR rotr 13 (ha s) XOR rotr 22 (ha s);
          maj = (ha s AND hb s) XOR (ha s AND hc s) XOR (hb s AND hc s)
      in \<lparr>ha = t1 + (s0 + maj), hb = ha s, hc = hb s, hdd = hc s,
          he = hdd s + t1, hf = he s, hg = hf s, hh = hg s\<rparr>)"

text \<open>The message schedule, most recent word first.\<close>

fun schedule :: "nat \<Rightarrow> w32 list \<Rightarrow> w32 list" where
  "schedule 0 ws = ws"
| "schedule (Suc n) ws =
     (let w15 = ws ! 14; w2 = ws ! 1;
          s0 = rotr 7 w15 XOR rotr 18 w15 XOR drop_bit 3 w15;
          s1 = rotr 17 w2 XOR rotr 19 w2 XOR drop_bit 10 w2
      in schedule n ((ws ! 15 + s0 + ws ! 6 + s1) # ws))"

definition sha_block :: "hash_state \<Rightarrow> w32 list \<Rightarrow> hash_state" where
  "sha_block s block =
     (let ws = rev (schedule 48 (rev block));
          t = foldl sha_round s (zip round_constants ws)
      in \<lparr>ha = ha s + ha t, hb = hb s + hb t, hc = hc s + hc t, hdd = hdd s + hdd t,
          he = he s + he t, hf = hf s + hf t, hg = hg s + hg t, hh = hh s + hh t\<rparr>)"

fun be_words :: "nat list \<Rightarrow> w32 list" where
  "be_words (a # b # c # d # bs) =
     word_of_nat (((a * 256 + b) * 256 + c) * 256 + d) # be_words bs"
| "be_words _ = []"

definition be_bytes :: "nat \<Rightarrow> nat list" where
  "be_bytes n = map (\<lambda>i. (n div 256 ^ i) mod 256) [7, 6, 5, 4, 3, 2, 1, 0]"

definition pad :: "nat list \<Rightarrow> nat list" where
  "pad bs = bs @ [0x80] @ replicate (nat ((55 - int (length bs)) mod 64)) 0 @ be_bytes (8 * length bs)"

fun blocks :: "nat \<Rightarrow> w32 list \<Rightarrow> w32 list list" where
  "blocks 0 ws = []"
| "blocks (Suc n) ws = (if length ws < 16 then [] else take 16 ws # blocks n (drop 16 ws))"

definition hex_word :: "w32 \<Rightarrow> string" where
  "hex_word w = concat (map (\<lambda>i. hex2 (unat w div 256 ^ i mod 256)) [3, 2, 1, 0])"

definition hash_hex :: "hash_state \<Rightarrow> string" where
  "hash_hex s = concat (map hex_word [ha s, hb s, hc s, hdd s, he s, hf s, hg s, hh s])"

definition digest :: "string \<Rightarrow> string" where
  "digest data =
     (let ws = be_words (pad (map of_char data))
      in hash_hex (foldl sha_block initial_hash (blocks (length ws) ws)))"

lemma hex_digit_in [simp]: "hex_digit n \<in> set lower_hex"
proof -
  have "n mod 16 < length lower_hex" by (simp add: lower_hex_def)
  then have "lower_hex ! (n mod 16) \<in> set lower_hex" by (rule nth_mem)
  then show ?thesis by (simp add: hex_digit_def lower_hex_def)
qed

lemma set_hex2: "set (hex2 n) \<subseteq> set lower_hex"
  by (simp add: hex2_def)

lemma length_hex_word [simp]: "length (hex_word w) = 8"
  by (simp add: hex_word_def hex2_def)

lemma set_hex_word: "set (hex_word w) \<subseteq> set lower_hex"
  by (auto simp: hex_word_def dest: set_hex2 [THEN subsetD])

lemma digest_length [simp]: "length (digest s) = 64"
  by (simp add: digest_def Let_def hash_hex_def)

lemma digest_hex: "set (digest s) \<subseteq> set lower_hex"
  by (auto simp: digest_def Let_def hash_hex_def dest: set_hex_word [THEN subsetD])

text \<open>Every digest is 64 lowercase hexadecimal digits.\<close>

lemma digest_in_hex_rx: "digest s \<in> lang (hex_rx 64)"
  by (simp only: lang_hex_rx) (simp add: digest_hex)

end
