(* ===== verification/Datetime.thy ===== *)
theory Datetime
  imports Prelude
begin

text \<open>
  The part of \<open>datetime\<close> the modules use: the proleptic Gregorian calendar, and
  \<open>datetime.fromisoformat\<close> with the formats that \<open>isoformat\<close> prints (all that Python 3.10, the oldest
  supported version, accepts; later versions also take the basic and week formats of ISO 8601, which
  none of the producers of these texts prints).  An instant counts microseconds.
\<close>

definition leap_year :: "nat \<Rightarrow> bool" where
  "leap_year y \<longleftrightarrow> (4 dvd y \<and> \<not> 100 dvd y) \<or> 400 dvd y"

definition days_in_month :: "nat \<Rightarrow> nat \<Rightarrow> nat" where
  "days_in_month y m =
     (if m = 2 then (if leap_year y then 29 else 28) else if m \<in> {4, 6, 9, 11} then 30 else 31)"

text \<open>The days before the first of January of a year, and before the first of a month in it.\<close>

definition days_before_year :: "nat \<Rightarrow> int" where
  "days_before_year y = (let p = int y - 1 in p * 365 + p div 4 - p div 100 + p div 400)"

definition days_before_month :: "nat \<Rightarrow> nat \<Rightarrow> int" where
  "days_before_month y m = sum_list (map (\<lambda>k. int (days_in_month y k)) [1..<m])"

definition day_number :: "nat \<Rightarrow> nat \<Rightarrow> nat \<Rightarrow> int" where
  "day_number y m d = days_before_year y + days_before_month y m + int d"

definition second_us :: int where "second_us = 1000000"
definition minute_us :: int where "minute_us = 60 * second_us"
definition hour_us :: int where "hour_us = 60 * minute_us"
definition day_us :: int where "day_us = 24 * hour_us"

text \<open>A local time of day, and an aware or naive date and time.\<close>

record datetime =
  wall :: int
  utc_offset :: "int option"

text \<open>The instant of an aware value, by which Python compares and subtracts them.\<close>

definition instant :: "datetime \<Rightarrow> int" where
  "instant t = wall t - (case utc_offset t of None \<Rightarrow> 0 | Some z \<Rightarrow> z)"

section \<open>Reading\<close>

definition two_digits :: "string \<Rightarrow> (nat \<times> string) option" where
  "two_digits s =
     (case s of
        a # b # r \<Rightarrow> if a \<in> set digits \<and> b \<in> set digits then Some (nat_of_digits [a, b], r) else None
      | _ \<Rightarrow> None)"

text \<open>\<open>YYYY-MM-DD\<close> with a date of the calendar.\<close>

definition iso_date :: "string \<Rightarrow> int option" where
  "iso_date s =
     (let y = nat_of_digits (take 4 s); m = nat_of_digits (take 2 (drop 5 s)); d = nat_of_digits (drop 8 s) in
      if length s = 10 \<and> s ! 4 = CHR ''-'' \<and> s ! 7 = CHR ''-''
         \<and> list_all (\<lambda>c. c \<in> set digits) (take 4 s @ take 2 (drop 5 s) @ drop 8 s)
         \<and> 1 \<le> y \<and> 1 \<le> m \<and> m \<le> 12 \<and> 1 \<le> d \<and> d \<le> days_in_month y m
      then Some (day_number y m d) else None)"

text \<open>\<open>HH[:MM[:SS[.fff[fff]]]]\<close> as hours, minutes, seconds and microseconds.\<close>

definition iso_fraction :: "string \<Rightarrow> nat option" where
  "iso_fraction s =
     (if s = [] then Some 0
      else if hd s = CHR ''.'' \<and> list_all (\<lambda>c. c \<in> set digits) (tl s) then
        (if length (tl s) = 3 then Some (nat_of_digits (tl s) * 1000)
         else if length (tl s) = 6 then Some (nat_of_digits (tl s)) else None)
      else None)"

definition iso_clock :: "string \<Rightarrow> (nat \<times> nat \<times> nat \<times> nat) option" where
  "iso_clock s =
     Option.bind (two_digits s) (\<lambda>(h, r).
       if r = [] then Some (h, 0, 0, 0)
       else if hd r \<noteq> CHR '':'' then None
       else Option.bind (two_digits (tl r)) (\<lambda>(m, r).
         if r = [] then Some (h, m, 0, 0)
         else if hd r \<noteq> CHR '':'' then None
         else Option.bind (two_digits (tl r)) (\<lambda>(sec, r).
           Option.bind (iso_fraction r) (\<lambda>us. Some (h, m, sec, us)))))"

definition clock_us :: "nat \<times> nat \<times> nat \<times> nat \<Rightarrow> int" where
  "clock_us c = (case c of (h, m, s, us) \<Rightarrow> int h * hour_us + int m * minute_us + int s * second_us + int us)"

text \<open>
  The offset after its sign: \<open>timezone\<close> wants it below a day in size.  Its minutes and seconds are not
  bounded, as in \<open>timedelta\<close>.
\<close>

definition iso_offset :: "char \<Rightarrow> string \<Rightarrow> int option" where
  "iso_offset sign s =
     (if length s \<in> {5, 8, 15} then
        Option.bind (iso_clock s) (\<lambda>c.
          if clock_us c < day_us then Some (if sign = CHR ''-'' then - clock_us c else clock_us c) else None)
      else None)"

definition is_sign :: "char \<Rightarrow> bool" where
  "is_sign c \<longleftrightarrow> c = CHR ''+'' \<or> c = CHR ''-''"

definition iso_time :: "string \<Rightarrow> (int \<times> int option) option" where
  "iso_time s =
     (let local = takeWhile (\<lambda>c. \<not> is_sign c) s; zone = dropWhile (\<lambda>c. \<not> is_sign c) s in
      Option.bind (iso_clock local) (\<lambda>(h, m, sec, us).
        if h \<le> 23 \<and> m \<le> 59 \<and> sec \<le> 59 then
          (if zone = [] then Some (clock_us (h, m, sec, us), None)
           else map_option (\<lambda>z. (clock_us (h, m, sec, us), Some z)) (iso_offset (hd zone) (tl zone)))
        else None))"

definition from_isoformat :: "string \<Rightarrow> datetime option" where
  "from_isoformat s =
     Option.bind (iso_date (take 10 s)) (\<lambda>d.
       if length s \<le> 11 then (if length s = 10 then Some \<lparr>wall = d * day_us, utc_offset = None\<rparr> else None)
       else map_option (\<lambda>(t, z). \<lparr>wall = d * day_us + t, utc_offset = z\<rparr>) (iso_time (drop 11 s)))"

text \<open>\<open>value.replace("Z", "+00:00")\<close>.\<close>

definition replace_zulu :: "string \<Rightarrow> string" where
  "replace_zulu s = concat (map (\<lambda>c. if c = CHR ''Z'' then ''+00:00'' else [c]) s)"

lemma zulu_example:
  "map_option instant (from_isoformat (replace_zulu ''2025-03-01T00:00:30Z''))
     = map_option (\<lambda>t. instant t + 30 * second_us) (from_isoformat ''2025-03-01T01:00:00.000+01:00'')"
  by code_simp

end
