(* ===== verification/Version_Plan.thy ===== *)
theory Version_Plan
  imports Sha256 Datetime
begin

text \<open>
  \<open>scripts/version_plan.py\<close>, first part: the release identity (base version, channel, sequence,
  tag), the policy that declares which files carry it, the frozen plan and its projections to
  package managers and Apple bundle versions.  Values are the JSON values the Python functions
  receive, so every type test of the source is a test here.  Names keep the source's with the
  prefix \<open>vp\<close> where the source has a leading underscore or the bare name is taken.
\<close>

section \<open>Constants and patterns\<close>

definition base_rx :: rx where
  "base_rx = Seqs [nat_rx, Lit ''.'', nat_rx, Lit ''.'', nat_rx]"

definition sha_rx :: rx where
  "sha_rx = hex_rx 40"

definition nightly_rx :: rx where
  "nightly_rx = Seqs [Rep 14 Digit, Lit ''.'', pos_int_rx, Lit ''.'', pos_int_rx]"

definition FORMATS :: "string list" where
  "FORMATS = [''json'', ''toml'', ''cargo-lock'', ''uv-lock'', ''npm-lock'', ''text'', ''python'',
              ''plist'', ''pbxproj'']"

definition VALUES :: "string list" where
  "VALUES = [''base'', ''full'', ''package'', ''build'', ''apple-build'']"

definition ARTIFACT_FORMATS :: "string list" where
  "ARTIFACT_FORMATS = [''oci'', ''json'', ''wheel'', ''sdist'', ''npm-tar'', ''ipa'', ''plist'',
                       ''tar-text'', ''tar-toml'', ''tar-json'', ''zip-json'']"

definition vp_require :: "bool \<Rightarrow> string \<Rightarrow> unit res" where
  "vp_require c m = ensure c (VersionError m)"

text \<open>\<open>require(v in {names}, m)\<close>, which raises \<open>TypeError\<close> for an unhashable value.\<close>

definition vp_member :: "json \<Rightarrow> string list \<Rightarrow> string \<Rightarrow> unit res" where
  "vp_member v names m = bnd (hash_in v names) (\<lambda>ok. vp_require ok m)"

definition json_bytes :: "json \<Rightarrow> string res" where
  "json_bytes v = dumps_compact v"

definition policy_digest :: "json \<Rightarrow> string res" where
  "policy_digest policy = bnd (json_bytes policy) (\<lambda>t. Inr (digest t))"

section \<open>Selectors and paths\<close>

definition vp_field :: "json \<Rightarrow> string list res" where
  "vp_field value =
     (if is_str value
      then (let result = split CHR ''.'' (the_str value)
            in checks [vp_require (list_all (\<lambda>p. p \<noteq> []) result)
                         ''Dotted fields cannot contain empty segments; use a string array'']
                 (Inr result))
      else checks [vp_require (is_list value \<and> the_list value \<noteq> [] \<and> list_all is_str (the_list value))
                     ''Field must be a dotted string or a nonempty string array'']
             (Inr (map the_str (the_list value))))"

text \<open>
  \<open>PurePosixPath(value).parts\<close> of an accepted path are its components between slashes, so the
  model returns that list.
\<close>

definition vp_relative :: "json \<Rightarrow> string list res" where
  "vp_relative value =
     checks [vp_require (is_str value \<and> the_str value \<noteq> [] \<and> CHR 0x5C \<notin> set (the_str value)
                         \<and> CHR 0x00 \<notin> set (the_str value)) ''Path must be a relative POSIX path'',
             vp_require (\<not> startswith (the_str value) ''/''
                         \<and> list_all (\<lambda>part. part \<notin> {'''', ''.'', ''..'', ''.git''})
                             (split CHR ''/'' (the_str value))) ''Unsafe version path'']
       (Inr (split CHR ''/'' (the_str value)))"

text \<open>\<open>any(c in text for c in "\r\n\0")\<close>.\<close>

definition has_line_break :: "string \<Rightarrow> bool" where
  "has_line_break s \<longleftrightarrow> list_ex (\<lambda>c. c \<in> {CHR 0x0D, CHR 0x0A, CHR 0x00}) s"

section \<open>Declarations\<close>

definition vp_artifact_declaration :: "members \<Rightarrow> unit res" where
  "vp_artifact_declaration item =
     (let kind = the_str (dget item ''format'' JNull)
      in checks
          [only_if (kind = ''oci'')
             (vp_require (has_key item ''field'' \<and> \<not> has_key item ''package'')
                ''OCI artifact requires an exact config field and no package selector''),
           (if kind \<in> {''tar-text'', ''tar-toml'', ''tar-json'', ''zip-json''}
            then checks [vp_require (has_key item ''member'')
                           ''Archive field verification requires an exact member'']
                   (ignore (vp_relative (dget item ''member'' JNull)))
            else vp_require (\<not> has_key item ''member'') ''does not accept member''),
           only_if (kind = ''tar-text'')
             (vp_require (\<not> has_key item ''field'' \<and> \<not> has_key item ''package'')
                ''Text artifact has no field or package selector'')]
          (Inr ()))"

definition vp_input_declaration :: "members \<Rightarrow> unit res" where
  "vp_input_declaration item =
     (let kind = the_str (dget item ''format'' JNull)
      in checks
          [only_if (kind \<in> {''json'', ''toml'', ''python'', ''plist'', ''pbxproj''})
             (vp_require (has_key item ''field'') ''requires an explicit field''),
           only_if (kind \<in> {''cargo-lock'', ''uv-lock'', ''npm-lock'', ''pbxproj''})
             (vp_require (has_key item ''package'') ''requires an explicit owned package selector''),
           only_if (kind \<in> {''text'', ''cargo-lock'', ''uv-lock'', ''npm-lock''})
             (vp_require (\<not> has_key item ''field'') ''does not accept field''),
           only_if (kind \<in> {''text'', ''python'', ''plist''})
             (vp_require (\<not> has_key item ''package'') ''does not accept package'')]
          (Inr ()))"

definition declaration_keys :: "bool \<Rightarrow> string list" where
  "declaration_keys artifact =
     [''path'', ''format'', ''field'', ''package'', ''value'', ''prefix'', ''ecosystem'']
     @ (if artifact then [''member''] else [])"

definition vp_declaration :: "bool \<Rightarrow> json \<Rightarrow> members res" where
  "vp_declaration artifact v =
     checks [vp_require (is_dict v) ''Version declarations must be objects'']
      (let item = the_dict v in
       checks
        [vp_require (keys_within item (declaration_keys artifact))
           ''Unsupported version declaration fields'',
         vp_member (dget item ''format'' JNull) (if artifact then ARTIFACT_FORMATS else FORMATS)
           ''Unsupported version format'',
         (if has_key item ''path'' then ignore (vp_relative (dget item ''path'' JNull))
          else vp_require artifact ''Version input requires path''),
         vp_member (dget item ''value'' (JStr ''package'')) VALUES ''Unsupported version projection'',
         vp_member (dget item ''ecosystem'' (JStr ''semver'')) [''semver'', ''pep440'']
           ''Unsupported package version ecosystem'',
         vp_require (is_str (dget item ''prefix'' (JStr '''')) \<and>
                     \<not> has_line_break (the_str (dget item ''prefix'' (JStr ''''))))
           ''Invalid version prefix'',
         only_if (has_key item ''field'') (ignore (vp_field (dget item ''field'' JNull))),
         only_if (has_key item ''package'')
           (vp_require (is_str (dget item ''package'' JNull) \<and> the_str (dget item ''package'' JNull) \<noteq> []
                        \<and> \<not> has_line_break (the_str (dget item ''package'' JNull)))
              ''Invalid owned package selector''),
         (if artifact then vp_artifact_declaration item else vp_input_declaration item)]
        (Inr item))"

definition receipt_rx :: rx where
  "receipt_rx = Seqs [Lit ''release-inputs-'', Plus (Cls (alnum @ ''._-'')), Lit ''.json'']"

definition required_build_receipts :: "members \<Rightarrow> string list option res" where
  "required_build_receipts config =
     (if \<not> has_key config ''required_build_receipts'' then Inr None
      else
        (let names = dget config ''required_build_receipts'' JNull in
         checks
          [vp_require (is_list names \<and> the_list names \<noteq> [] \<and>
              list_all (\<lambda>name. is_str name \<and> length (the_str name) \<le> 200
                          \<and> rx_match receipt_rx (the_str name)
                          \<and> the_str name \<noteq> ''release-inputs-fuzz.json'') (the_list names))
             ''required_build_receipts must be nonempty ASCII package receipt filenames of at most 200 characters'',
           vp_require (distinct (map (\<lambda>name. lower (the_str name)) (the_list names)))
             ''required_build_receipts contains duplicate or case-colliding filenames'']
          (Inr (Some (map the_str (the_list names))))))"

section \<open>Policy\<close>

type_synonym selector = "string \<times> string \<times> string list \<times> json"

text \<open>The tuple of path, format, field and package that must be unique among the version files.\<close>

definition selector_of :: "members \<Rightarrow> selector res" where
  "selector_of item =
     bnd (if has_key item ''field'' then vp_field (dget item ''field'' JNull) else Inr [])
       (\<lambda>f. Inr (the_str (dget item ''path'' JNull), the_str (dget item ''format'' JNull), f,
                 dget item ''package'' JNull))"

definition add_selector :: "selector list \<Rightarrow> json \<Rightarrow> selector list res" where
  "add_selector selectors v =
     bnd (vp_declaration False v)
       (\<lambda>item. bnd (selector_of item)
         (\<lambda>sel. checks [vp_require (sel \<notin> set selectors) ''Duplicate version selector'']
                  (Inr (sel # selectors))))"

definition max_build :: int where
  "max_build = 2100000000"

definition validate_policy :: "json \<Rightarrow> members res" where
  "validate_policy policy =
     checks [vp_require (is_dict policy) ''Policy must be an object'']
      (let cfg = dget (the_dict policy) ''versioning'' JNull in
       checks [vp_require (is_dict cfg) ''Policy requires versioning'']
        (let config = the_dict cfg;
             floor = dget config ''build_number_floor'' JNull;
             files = dget config ''files'' JNull;
             artifacts = dget config ''artifacts'' (JArr []);
             toolkit = dget config ''toolkit_revision'' JNull in
         checks
          [vp_require (keys_within config [''schema'', ''promotion'', ''files'', ''artifacts'',
                         ''required_build_receipts'', ''build_number_floor'', ''toolkit_revision''])
             ''Unsupported versioning fields'',
           vp_require (is_int (dget config ''schema'' JNull) \<and> the_int (dget config ''schema'' JNull) = 1)
             ''Unsupported versioning schema'',
           vp_member (dget config ''promotion'' JNull) [''promote-bytes'', ''final-build'']
             ''Unsupported promotion profile'',
           only_if (has_key config ''build_number_floor'')
             (vp_require (is_int floor \<and> 0 \<le> the_int floor \<and> the_int floor < max_build)
                ''Native build number floor must be an integer in 0..2099999999''),
           vp_require (is_list files \<and> the_list files \<noteq> []) ''Policy requires explicit version files'',
           ignore (required_build_receipts config),
           ignore (foldres add_selector [] (the_list files)),
           vp_require (is_list artifacts) ''Artifact declarations must be an array'',
           each (\<lambda>item. ignore (vp_declaration True item)) (the_list artifacts),
           only_if (has_key config ''toolkit_revision'')
             (vp_require (is_str toolkit \<and> rx_match sha_rx (the_str toolkit))
                ''Toolkit revision must be a pinned SHA'')]
          (Inr config)))"

section \<open>Identity\<close>

text \<open>
  \<open>datetime.strptime(text, "%Y%m%d%H%M%S")\<close> on fourteen digits: every field has to take its two
  digits, since together they must consume all ten, and the calendar accepts the result.
\<close>

definition strptime_ok :: "string \<Rightarrow> bool" where
  "strptime_ok t \<longleftrightarrow>
     (let y = nat_of_digits (take 4 t); mo = nat_of_digits (take 2 (drop 4 t));
          d = nat_of_digits (take 2 (drop 6 t)); h = nat_of_digits (take 2 (drop 8 t));
          mi = nat_of_digits (take 2 (drop 10 t)); s = nat_of_digits (take 2 (drop 12 t))
      in 1 \<le> y \<and> 1 \<le> mo \<and> mo \<le> 12 \<and> 1 \<le> d \<and> d \<le> days_in_month y mo
         \<and> h \<le> 23 \<and> mi \<le> 59 \<and> s \<le> 59)"

definition vp_identity :: "json \<Rightarrow> json \<Rightarrow> json \<Rightarrow> string res" where
  "vp_identity base channel sequence =
     checks [vp_require (is_str base \<and> rx_match base_rx (the_str base))
               ''Base version must be strict X.Y.Z without prefix or suffix'',
             vp_member channel [''nightly'', ''beta'', ''rc'', ''stable''] ''Unsupported release channel'']
      (if channel = JStr ''stable''
       then checks [vp_require (is_null sequence) ''Stable must not have a sequence''] (Inr (the_str base))
       else
         checks
          [(if channel = JStr ''nightly''
            then checks [vp_require (is_str sequence \<and> rx_match nightly_rx (the_str sequence))
                           ''Nightly requires frozen UTCtimestamp.run.attempt suffix'']
                   (vp_require (strptime_ok (hd (split CHR ''.'' (the_str sequence))))
                      ''Invalid nightly UTC timestamp'')
            else vp_require (is_int sequence \<and> 0 < the_int sequence)
                   ''Beta/RC sequence must be a positive integer'')]
          (Inr (the_str base @ ''-'' @ the_str channel @ ''.'' @ py_str sequence)))"

section \<open>Projections\<close>

text \<open>\<open>int(text)\<close> of one component of a nightly suffix.\<close>

definition int_of_text :: "string \<Rightarrow> nat res" where
  "int_of_text s = guard (s \<noteq> [] \<and> set s \<subseteq> set digits) (ValueError ''invalid literal for int()'')
     (Inr (nat_of_digits s))"

definition u64_limit :: nat where
  "u64_limit = 2 ^ 64 - 2"

definition nightly_number :: "json \<Rightarrow> nat res" where
  "nightly_number sequence =
     guard (is_str sequence) (AttributeError ''split'')
      (case split CHR ''.'' (the_str sequence) of
         [t, run, attempt] \<Rightarrow>
           bnd (int_of_text run) (\<lambda>r. bnd (int_of_text attempt) (\<lambda>a.
             (let number = r * 1000000 + a in
              checks [vp_require (a < 1000000 \<and> number \<le> u64_limit)
                        ''Nightly run or attempt is too large for PEP 440 projection'']
                (Inr number))))
       | _ \<Rightarrow> Inl (ValueError ''not enough values to unpack''))"

definition pep440_package :: "members \<Rightarrow> json \<Rightarrow> json res" where
  "pep440_package plan package =
     bnd (item_res (JObj plan) ''base_version'') (\<lambda>base.
     bnd (item_res (JObj plan) ''channel'') (\<lambda>channel.
     bnd (item_res (JObj plan) ''sequence'') (\<lambda>sequence.
       if channel = JStr ''beta'' then Inr (JStr (py_str base @ ''b'' @ py_str sequence))
       else if channel = JStr ''rc'' then Inr (JStr (py_str base @ ''rc'' @ py_str sequence))
       else if channel = JStr ''nightly'' then
         bnd (nightly_number sequence) (\<lambda>n. Inr (JStr (py_str base @ ''.dev'' @ str_nat n)))
       else Inr package)))"

text \<open>
  The Apple bundle version: \<open>None\<close> has none, an integer in range is written in base 100, and the
  comparison with a value that is no number raises.  A boolean is the integer it equals in Python; no
  caller passes a float, since both callers test \<open>type(build) is int\<close> first.
\<close>

definition apple_text :: "int \<Rightarrow> string" where
  "apple_text build =
     (let n = nat (build - 1)
      in str_nat (n div 10000 + 1) @ ''.'' @ str_nat (n div 100 mod 100) @ ''.'' @ str_nat (n mod 100))"

definition apple_build :: "json \<Rightarrow> json res" where
  "apple_build build =
     (if is_null build then Inr JNull
      else guard (is_int build \<or> is_bool build) (TypeError ''not supported between instances'')
        (if 0 < the_int build \<and> the_int build \<le> 99990000 then Inr (JStr (apple_text (the_int build)))
         else Inr JNull))"

definition projections :: "members \<Rightarrow> json \<Rightarrow> members res" where
  "projections plan ecosystem =
     bnd (hash_in ecosystem [''semver'', ''pep440'']) (\<lambda>ok.
     checks [vp_require ok ''Unsupported package ecosystem'']
      (bnd (item_res (JObj plan) ''version'') (\<lambda>version.
       bnd (item_res (JObj plan) ''channel'') (\<lambda>channel.
       bnd (if channel = JStr ''rc'' then item_res (JObj plan) ''promotion'' else Inr JNull) (\<lambda>promotion.
       bnd (if channel = JStr ''rc'' \<and> promotion = JStr ''promote-bytes''
            then item_res (JObj plan) ''base_version''
            else if ecosystem = JStr ''pep440'' then pep440_package plan version
            else Inr version) (\<lambda>package.
       bnd (item_res (JObj plan) ''build_number'') (\<lambda>build.
       bnd (apple_build build) (\<lambda>apple.
       bnd (item_res (JObj plan) ''base_version'') (\<lambda>base.
         Inr [(''base'', base), (''full'', version), (''package'', package), (''build'', build),
              (''apple-build'', apple)])))))))))"

definition projected_value :: "members \<Rightarrow> members \<Rightarrow> json res" where
  "projected_value plan declaration =
     (let kind = dget declaration ''value'' (JStr ''package'');
          prefix = dget declaration ''prefix'' (JStr '''') in
      bnd (projections plan (dget declaration ''ecosystem'' (JStr ''semver''))) (\<lambda>table.
      bnd (item_res (JObj table) (the_str kind)) (\<lambda>result.
      checks [vp_require (\<not> is_null result) ''Projection requires a valid allocated native build number'']
        (if truthy prefix then Inr (JStr (the_str prefix @ py_str result)) else Inr result))))"

section \<open>Plans\<close>

definition plan_keys :: "string list" where
  "plan_keys = [''schema_version'', ''base_version'', ''version'', ''channel'', ''sequence'', ''tag'',
                ''source_sha'', ''build_number'', ''policy_sha256'', ''promotion'']"

definition build_ok :: "json \<Rightarrow> bool" where
  "build_ok build \<longleftrightarrow> is_null build \<or> (is_int build \<and> 0 < the_int build \<and> the_int build \<le> max_build)"

definition above_floor :: "json \<Rightarrow> members \<Rightarrow> bool" where
  "above_floor build config \<longleftrightarrow>
     is_null build \<or> the_int (dget config ''build_number_floor'' (JInt 0)) < the_int build"

text \<open>\<open>for item in config["files"]: projected_value(plan, item)\<close>.\<close>

definition check_projections :: "members \<Rightarrow> members \<Rightarrow> unit res" where
  "check_projections plan config =
     each (\<lambda>item. ignore (projected_value plan (the_dict item))) (the_list (dget config ''files'' JNull))"

text \<open>The plan dictionary the source builds, in its order of keys.\<close>

definition plan_object ::
  "json \<Rightarrow> string \<Rightarrow> json \<Rightarrow> json \<Rightarrow> json \<Rightarrow> json \<Rightarrow> string \<Rightarrow> json \<Rightarrow> members" where
  "plan_object base version channel sequence source_sha build_number pd promotion =
     [(''schema_version'', JInt 1), (''base_version'', base), (''version'', JStr version),
      (''channel'', channel), (''sequence'', sequence), (''tag'', JStr (''v'' @ version)),
      (''source_sha'', source_sha), (''build_number'', build_number),
      (''policy_sha256'', JStr pd), (''promotion'', promotion)]"

definition create_plan ::
  "json \<Rightarrow> json \<Rightarrow> json \<Rightarrow> json \<Rightarrow> json \<Rightarrow> json \<Rightarrow> members res" where
  "create_plan base channel sequence source_sha policy build_number =
     bnd (validate_policy policy) (\<lambda>config.
     bnd (vp_identity base channel sequence) (\<lambda>version.
     checks
      [vp_require (is_str source_sha \<and> rx_match sha_rx (the_str source_sha))
         ''Source SHA must be a full lowercase commit SHA'',
       vp_require (build_ok build_number)
         ''Build number must be a positive integer no greater than 2100000000'',
       vp_require (above_floor build_number config)
         ''Build number must exceed the declared migration floor'']
      (bnd (policy_digest policy) (\<lambda>pd.
        (let plan = plan_object base version channel sequence source_sha build_number pd
                      (dget config ''promotion'' JNull)
         in checks [check_projections plan config] (Inr plan))))))"

definition validate_plan :: "json \<Rightarrow> json option \<Rightarrow> json option \<Rightarrow> members res" where
  "validate_plan v policy source_sha =
     checks [vp_require (is_dict v) ''Release plan must be an object'',
             vp_require (keys_are (the_dict v) plan_keys) ''Unexpected or missing release-plan fields'',
             vp_require (is_int (dget (the_dict v) ''schema_version'' JNull)
                         \<and> the_int (dget (the_dict v) ''schema_version'' JNull) = 1)
               ''Unsupported release-plan schema'']
      (let plan = the_dict v; at = (\<lambda>k. dget plan k JNull); build = at ''build_number'' in
       bnd (vp_identity (at ''base_version'') (at ''channel'') (at ''sequence'')) (\<lambda>version.
       checks
        [vp_require (at ''version'' = JStr version \<and> at ''tag'' = JStr (''v'' @ version))
           ''Release version/tag/sequence disagree'',
         vp_require (is_str (at ''source_sha'') \<and> rx_match sha_rx (the_str (at ''source_sha'')))
           ''Invalid plan source SHA'',
         vp_require (is_str (at ''policy_sha256'') \<and> rx_match (hex_rx 64) (the_str (at ''policy_sha256'')))
           ''Invalid policy digest'',
         vp_member (at ''promotion'') [''promote-bytes'', ''final-build''] ''Invalid plan promotion profile'',
         vp_require (build_ok build) ''Invalid native build number'',
         (case policy of
            None \<Rightarrow> Inr ()
          | Some p \<Rightarrow>
              bnd (validate_policy p) (\<lambda>config.
              bnd (policy_digest p) (\<lambda>pd.
              checks
               [vp_require (at ''policy_sha256'' = JStr pd) ''Release plan policy digest mismatch'',
                vp_require (at ''promotion'' = dget config ''promotion'' JNull)
                  ''Release plan promotion policy mismatch'',
                vp_require (above_floor build config)
                  ''Plan build number does not exceed the declared migration floor'',
                check_projections plan config]
               (Inr ())))),
         (case source_sha of
            None \<Rightarrow> Inr ()
          | Some sha \<Rightarrow> vp_require (py_eq (at ''source_sha'') sha) ''Release plan source SHA mismatch'')]
        (Inr plan)))"

definition plan_digest :: "json \<Rightarrow> string res" where
  "plan_digest plan =
     bnd (validate_plan plan None None) (\<lambda>_. bnd (json_bytes plan) (\<lambda>t. Inr (digest t)))"

section \<open>Reading checks\<close>

lemma vp_require_Inr [simp, res_simps]: "vp_require c m = Inr u \<longleftrightarrow> c"
  by (simp add: vp_require_def)

lemma vp_member_Inr [simp, res_simps]:
  "vp_member v names m = Inr u \<longleftrightarrow> (\<exists>s. v = JStr s \<and> s \<in> set names)"
  by (auto simp: vp_member_def hash_in_def split: json.splits)

end
