(* ===== verification/Version_Plan_Facts.thy ===== *)
theory Version_Plan_Facts
  imports Version_Plan
begin

text \<open>
  What the release identity and the frozen plan guarantee: a created plan is accepted again
  unchanged, a tag determines base, channel and sequence, and the two numeric projections stay in
  their ranges and keep the order of the numbers they come from.
\<close>

section \<open>Identity\<close>

lemma base_rx_chars: "s \<in> lang base_rx \<Longrightarrow> set s \<subseteq> set (digits @ ''.'')"
  by (auto simp: base_rx_def dest!: nat_rx_digits)

lemma base_rx_no_dash: "s \<in> lang base_rx \<Longrightarrow> CHR ''-'' \<notin> set s"
  using base_rx_chars [of s] by (auto simp: digits_def)

definition pre_release :: "string \<Rightarrow> string \<Rightarrow> string" where
  "pre_release channel text = ''-'' @ channel @ ''.'' @ text"

text \<open>The suffix a channel and a sequence contribute to the version.\<close>

definition identity_suffix :: "json \<Rightarrow> json \<Rightarrow> string" where
  "identity_suffix c s = (if c = JStr ''stable'' then [] else pre_release (the_str c) (py_str s))"

lemma py_str_simps [simp]: "py_str (JStr t) = t" "py_str (JInt i) = str_int i"
  by (simp_all add: py_str_def)

lemma vp_identity_stable:
  "vp_identity b (JStr ''stable'') s = Inr v \<longleftrightarrow>
   s = JNull \<and> (\<exists>base. b = JStr base \<and> base \<in> lang base_rx \<and> v = base)"
  by (cases b) (simp_all add: vp_identity_def is_null_iff rx_match_iff, blast)

lemma vp_identity_nightly:
  "vp_identity b (JStr ''nightly'') s = Inr v \<longleftrightarrow>
   (\<exists>base t. b = JStr base \<and> base \<in> lang base_rx \<and> s = JStr t \<and> t \<in> lang nightly_rx
      \<and> strptime_ok (hd (split CHR ''.'' t)) \<and> v = base @ pre_release ''nightly'' t)"
  unfolding vp_identity_def by (simp add: is_str_iff rx_match_iff pre_release_def) force

lemma vp_identity_counted:
  "ch \<in> {''beta'', ''rc''} \<Longrightarrow> vp_identity b (JStr ch) s = Inr v \<longleftrightarrow>
   (\<exists>base n. b = JStr base \<and> base \<in> lang base_rx \<and> s = JInt n \<and> 0 < n
      \<and> v = base @ pre_release ch (str_int n))"
  unfolding vp_identity_def
  by (elim insertE; simp add: is_str_iff is_int_iff rx_match_iff pre_release_def; force)

lemma vp_identity_channel:
  "vp_identity b c s = Inr v \<Longrightarrow> \<exists>ch \<in> {''nightly'', ''beta'', ''rc'', ''stable''}. c = JStr ch"
  by (simp add: vp_identity_def) blast

lemma identity_cases:
  assumes "vp_identity b c s = Inr v"
  obtains (stable) base where "b = JStr base" "base \<in> lang base_rx" "c = JStr ''stable''" "s = JNull"
      "v = base" "identity_suffix c s = []"
  | (nightly) base t where "b = JStr base" "base \<in> lang base_rx" "c = JStr ''nightly''" "s = JStr t"
      "t \<in> lang nightly_rx" "v = base @ identity_suffix c s"
      "identity_suffix c s = pre_release ''nightly'' t"
  | (counted) base ch n where "b = JStr base" "base \<in> lang base_rx" "ch \<in> {''beta'', ''rc''}"
      "c = JStr ch" "s = JInt n" "0 < n" "v = base @ identity_suffix c s"
      "identity_suffix c s = pre_release ch (str_int n)"
proof -
  obtain ch where ch: "c = JStr ch" "ch \<in> {''nightly'', ''beta'', ''rc'', ''stable''}"
    using vp_identity_channel [OF assms] by blast
  consider "ch = ''stable''" | "ch = ''nightly''" | "ch \<in> {''beta'', ''rc''}" using ch(2) by blast
  then show thesis
  proof cases
    case 1
    with assms ch show ?thesis using that(1) by (auto simp: vp_identity_stable identity_suffix_def)
  next
    case 2
    with assms ch show ?thesis using that(2) by (auto simp: vp_identity_nightly identity_suffix_def)
  next
    case 3
    with assms ch(1) obtain base n where "b = JStr base" "base \<in> lang base_rx" "s = JInt n" "0 < n"
      "v = base @ pre_release ch (str_int n)" by (auto simp: vp_identity_counted)
    with 3 ch(1) show ?thesis by (intro that(3)) (auto simp: identity_suffix_def)
  qed
qed

lemma pre_release_inject:
  assumes "pre_release c t = pre_release c' t'" and "CHR ''.'' \<notin> set c" and "CHR ''.'' \<notin> set c'"
  shows "c = c' \<and> t = t'"
proof -
  have "takeWhile (\<lambda>x. x \<noteq> CHR ''.'') (c @ CHR ''.'' # t) = takeWhile (\<lambda>x. x \<noteq> CHR ''.'') (c' @ CHR ''.'' # t')"
    using assms(1) by (simp add: pre_release_def)
  moreover have "takeWhile (\<lambda>x. x \<noteq> CHR ''.'') (d @ CHR ''.'' # u) = d" if "CHR ''.'' \<notin> set d" for d u
    using that by (induction d) auto
  ultimately have "c = c'" using assms(2,3) by simp
  with assms(1) show ?thesis by (simp add: pre_release_def)
qed

lemma dash_split:
  assumes "b @ r = b' @ r'" and "CHR ''-'' \<notin> set b" and "CHR ''-'' \<notin> set b'"
    and "r = [] \<or> hd r = CHR ''-''" and "r' = [] \<or> hd r' = CHR ''-''"
  shows "b = b' \<and> r = r'"
proof -
  have tw: "takeWhile (\<lambda>x. x \<noteq> CHR ''-'') (d @ q) = d"
    if "CHR ''-'' \<notin> set d" and "q = [] \<or> hd q = CHR ''-''" for d q :: string
    using that by (induction d) (cases q; auto)+
  have "b = b'" using tw [of b r] tw [of b' r'] assms by simp
  with assms(1) show ?thesis by simp
qed

lemma pre_release_hd [simp]: "hd (pre_release c t) = CHR ''-''"
  by (simp add: pre_release_def)

lemma pre_release_not_Nil [simp]: "pre_release c t \<noteq> []" "[] \<noteq> pre_release c t"
  by (simp_all add: pre_release_def)

lemma vp_identity_shape:
  assumes "vp_identity b c s = Inr v"
  shows "\<exists>base. b = JStr base \<and> CHR ''-'' \<notin> set base \<and> v = base @ identity_suffix c s"
  using assms by (cases rule: identity_cases) (simp_all add: base_rx_no_dash)

lemma identity_suffix_hd: "identity_suffix c s = [] \<or> hd (identity_suffix c s) = CHR ''-''"
  by (simp add: identity_suffix_def)

lemma pre_release_channels:
  assumes "pre_release c t = pre_release d u"
    and "c \<in> {''nightly'', ''beta'', ''rc''}" and "d \<in> {''nightly'', ''beta'', ''rc''}"
  shows "c = d \<and> t = u"
  using assms by (intro pre_release_inject) auto

lemma identity_suffix_inject:
  assumes v: "vp_identity b c s = Inr v" and w: "vp_identity b' c' s' = Inr w"
    and eq: "identity_suffix c s = identity_suffix c' s'"
  shows "c = c' \<and> s = s'"
  using v
proof (cases rule: identity_cases)
  case v: stable
  from w show ?thesis
    by (cases rule: identity_cases) (use v eq in \<open>simp_all add: pre_release_not_Nil\<close>)
next
  case v: (nightly base t)
  from w show ?thesis
  proof (cases rule: identity_cases)
    case stable
    with v eq show ?thesis by (simp add: pre_release_not_Nil)
  next
    case (nightly base' t')
    with v eq have "t = t'" using pre_release_channels [of "''nightly''" t "''nightly''" t'] by simp
    with v nightly show ?thesis by simp
  next
    case (counted base' ch n)
    with v eq have "''nightly'' = ch" using pre_release_channels [of "''nightly''" t ch] by auto
    with counted show ?thesis by auto
  qed
next
  case v: (counted base ch n)
  from w show ?thesis
  proof (cases rule: identity_cases)
    case stable
    with v eq show ?thesis by (simp add: pre_release_not_Nil)
  next
    case (nightly base' t)
    with v eq have "ch = ''nightly''" using pre_release_channels [of ch _ "''nightly''" t] by auto
    with v show ?thesis by auto
  next
    case (counted base' ch' n')
    with v eq have "ch = ch' \<and> str_int n = str_int n'"
      using pre_release_channels [of ch "str_int n" ch' "str_int n'"] by auto
    with v counted show ?thesis by simp
  qed
qed

lemma vp_identity_inject:
  assumes "vp_identity b c s = Inr v" and "vp_identity b' c' s' = Inr v"
  shows "b = b' \<and> c = c' \<and> s = s'"
proof -
  obtain base base' where bs: "b = JStr base" "b' = JStr base'"
    "CHR ''-'' \<notin> set base" "CHR ''-'' \<notin> set base'"
    "v = base @ identity_suffix c s" "v = base' @ identity_suffix c' s'"
    using vp_identity_shape assms by metis
  have "base = base' \<and> identity_suffix c s = identity_suffix c' s'"
    using bs identity_suffix_hd by (intro dash_split) auto
  with bs identity_suffix_inject [OF assms] show ?thesis by simp
qed

text \<open>What an accepted plan satisfies, read off \<open>validate_plan\<close>.\<close>

lemma validate_plan_Inr:
  assumes "validate_plan p pol sha = Inr m"
  obtains v where "p = JObj m" "keys_are m plan_keys"
    "vp_identity (dget m ''base_version'' JNull) (dget m ''channel'' JNull) (dget m ''sequence'' JNull) = Inr v"
    "dget m ''version'' JNull = JStr v" "dget m ''tag'' JNull = JStr (''v'' @ v)"
    "build_ok (dget m ''build_number'' JNull)"
proof -
  from assms obtain m' where m': "p = JObj m'"
    by (simp add: validate_plan_def is_dict_iff) blast
  from assms have "m' = m"
    by (simp add: validate_plan_def m' Let_def) blast
  with assms m' that show thesis
    by (simp add: validate_plan_def Let_def) blast
qed

section \<open>Concrete values\<close>

text \<open>A policy, a commit and a plan on which the properties are instantiated.\<close>

definition sample_policy :: json where
  "sample_policy =
     JObj [(''versioning'',
            JObj [(''schema'', JInt 1), (''promotion'', JStr ''promote-bytes''),
                  (''files'', JArr [JObj [(''path'', JStr ''VERSION''), (''format'', JStr ''text'')]])])]"

definition sample_config :: members where
  "sample_config = the_dict (dget (the_dict sample_policy) ''versioning'' JNull)"

definition sample_sha :: json where
  "sample_sha = JStr ''0123456789abcdef0123456789abcdef01234567''"

definition sample_plan :: "string \<Rightarrow> int \<Rightarrow> members" where
  "sample_plan pd build =
     plan_object (JStr ''1.2.3'') ''1.2.3-rc.4'' (JStr ''rc'') (JInt 4) sample_sha (JInt build) pd
       (JStr ''promote-bytes'')"

lemma sample_policy_ok: "validate_policy sample_policy = Inr sample_config"
  by code_simp

lemma sample_policy_bytes: "\<not> isl (json_bytes sample_policy)"
  by code_simp

lemma sample_policy_digest: "\<exists>d. policy_digest sample_policy = Inr d"
  using sample_policy_bytes by (cases "json_bytes sample_policy") (auto simp: policy_digest_def)

lemma sample_identity: "vp_identity (JStr ''1.2.3'') (JStr ''rc'') (JInt 4) = Inr ''1.2.3-rc.4''"
  by code_simp

lemma sample_plan_created:
  assumes "policy_digest sample_policy = Inr d"
  shows "create_plan (JStr ''1.2.3'') (JStr ''rc'') (JInt 4) sample_sha sample_policy (JInt 7)
           = Inr (sample_plan d 7)"
proof -
  have sha: "is_str sample_sha \<and> rx_match sha_rx (the_str sample_sha)" by code_simp
  have build: "build_ok (JInt 7) \<and> above_floor (JInt 7) sample_config" by code_simp
  have prom: "dget sample_config ''promotion'' JNull = JStr ''promote-bytes''" by code_simp
  have proj: "check_projections (sample_plan d 7) sample_config = Inr ()" by code_simp
  show ?thesis
    using assms sha build prom proj
    by (simp add: create_plan_def sample_policy_ok sample_identity Let_def sample_plan_def)
qed

text \<open>
  C1: a release tag determines its release.  Two plans that \<open>validate_plan\<close> accepts and that carry
  the same tag have the same base version, channel and sequence, so no two release identities can
  compete for one Git tag.
\<close>

theorem tag_determines_release:
  assumes "validate_plan p pol sha = Inr m" and "validate_plan q pol' sha' = Inr n"
    and "dget m ''tag'' JNull = dget n ''tag'' JNull"
  shows "dget m ''base_version'' JNull = dget n ''base_version'' JNull
       \<and> dget m ''channel'' JNull = dget n ''channel'' JNull
       \<and> dget m ''sequence'' JNull = dget n ''sequence'' JNull"
proof -
  obtain v where v: "vp_identity (dget m ''base_version'' JNull) (dget m ''channel'' JNull)
      (dget m ''sequence'' JNull) = Inr v" "dget m ''tag'' JNull = JStr (''v'' @ v)"
    by (rule validate_plan_Inr [OF assms(1)])
  obtain w where w: "vp_identity (dget n ''base_version'' JNull) (dget n ''channel'' JNull)
      (dget n ''sequence'' JNull) = Inr w" "dget n ''tag'' JNull = JStr (''v'' @ w)"
    by (rule validate_plan_Inr [OF assms(2)])
  from v(2) w(2) assms(3) have "v = w" by simp
  with v(1) w(1) show ?thesis by (intro vp_identity_inject) simp_all
qed

theorem tag_determines_release_witness:
  "let p = sample_plan (replicate 64 CHR ''0'') 7; q = sample_plan (replicate 64 CHR ''a'') 8 in
   dget p ''base_version'' JNull = dget q ''base_version'' JNull
   \<and> dget p ''channel'' JNull = dget q ''channel'' JNull
   \<and> dget p ''sequence'' JNull = dget q ''sequence'' JNull"
proof -
  let ?p = "sample_plan (replicate 64 CHR ''0'') 7" and ?q = "sample_plan (replicate 64 CHR ''a'') 8"
  have p: "validate_plan (JObj ?p) None None = Inr ?p" by code_simp
  have q: "validate_plan (JObj ?q) None None = Inr ?q" by code_simp
  have tag: "dget ?p ''tag'' JNull = dget ?q ''tag'' JNull" by code_simp
  show ?thesis unfolding Let_def by (rule tag_determines_release [OF p q tag])
qed

section \<open>Plans\<close>

lemma create_plan_Inr:
  assumes "create_plan base channel sequence sha policy build = Inr plan"
  obtains config version pd where "validate_policy policy = Inr config"
    "vp_identity base channel sequence = Inr version" "policy_digest policy = Inr pd"
    "is_str sha" "rx_match sha_rx (the_str sha)" "build_ok build" "above_floor build config"
    "check_projections plan config = Inr ()"
    "plan = plan_object base version channel sequence sha build pd (dget config ''promotion'' JNull)"
proof -
  from assms obtain c v pd where r: "validate_policy policy = Inr c"
    "vp_identity base channel sequence = Inr v" "policy_digest policy = Inr pd"
    "is_str sha" "rx_match sha_rx (the_str sha)" "build_ok build" "above_floor build c"
    "check_projections plan c = Inr ()"
    "plan_object base v channel sequence sha build pd (dget c ''promotion'' JNull) = plan"
    unfolding create_plan_def Let_def
    by (elim bnd_Inr_iff [THEN iffD1, THEN exE] conjE) (simp, blast)
  show thesis by (rule that [OF r(1-8) r(9) [symmetric]])
qed

lemma policy_digest_hex: "policy_digest p = Inr d \<Longrightarrow> rx_match (hex_rx 64) d"
  unfolding policy_digest_def rx_match_iff by (auto simp del: lang_hex_rx intro: digest_in_hex_rx)

lemma validate_policy_promotion:
  "validate_policy p = Inr config \<Longrightarrow>
   \<exists>s. dget config ''promotion'' JNull = JStr s \<and> s \<in> {''promote-bytes'', ''final-build''}"
  unfolding validate_policy_def by (auto simp: Let_def)

lemma created_plan_fields:
  assumes "create_plan base channel sequence sha policy build = Inr plan"
  shows "dget plan ''base_version'' JNull = base" "dget plan ''channel'' JNull = channel"
    "dget plan ''sequence'' JNull = sequence" "dget plan ''source_sha'' JNull = sha"
    "dget plan ''build_number'' JNull = build" "build_ok build"
  by (rule create_plan_Inr [OF assms], simp add: plan_object_def dget_def)+

lemma created_plan_accepted:
  assumes "create_plan base channel sequence sha policy build = Inr plan"
    and "p = None \<or> p = Some policy" and "s = None \<or> s = Some sha"
  shows "validate_plan (JObj plan) p s = Inr plan"
proof -
  obtain config version pd where c: "validate_policy policy = Inr config"
    "vp_identity base channel sequence = Inr version" "policy_digest policy = Inr pd"
    "is_str sha" "rx_match sha_rx (the_str sha)" "build_ok build" "above_floor build config"
    "check_projections plan config = Inr ()"
    and plan: "plan = plan_object base version channel sequence sha build pd (dget config ''promotion'' JNull)"
    using create_plan_Inr [OF assms(1)] .
  have at: "dget plan ''schema_version'' JNull = JInt 1" "dget plan ''base_version'' JNull = base"
    "dget plan ''version'' JNull = JStr version" "dget plan ''channel'' JNull = channel"
    "dget plan ''sequence'' JNull = sequence" "dget plan ''tag'' JNull = JStr (''v'' @ version)"
    "dget plan ''source_sha'' JNull = sha" "dget plan ''build_number'' JNull = build"
    "dget plan ''policy_sha256'' JNull = JStr pd"
    "dget plan ''promotion'' JNull = dget config ''promotion'' JNull"
    by (simp_all add: plan plan_object_def dget_def)
  have keys: "keys_are plan plan_keys" by (simp add: plan plan_object_def keys_are_def plan_keys_def)
  obtain t where s: "sha = JStr t" using c(4) by auto
  show ?thesis
    using c keys policy_digest_hex [OF c(3)] validate_policy_promotion [OF c(1)] assms(2,3)
    by (elim disjE) (simp_all add: validate_plan_def Let_def at s del: str_simps)
qed

text \<open>
  C2: a plan that \<open>create_plan\<close> returns is accepted by \<open>validate_plan\<close> against the same policy and
  source commit, and comes back unchanged: the frozen plan can be checked again at every later
  stage of the release.
\<close>

theorem created_plan_validates:
  assumes "create_plan base channel sequence sha policy build = Inr plan"
  shows "validate_plan (JObj plan) (Some policy) (Some sha) = Inr plan"
  by (rule created_plan_accepted [OF assms]) simp_all

theorem created_plan_validates_witness:
  "\<exists>d. validate_plan (JObj (sample_plan d 7)) (Some sample_policy) (Some sample_sha) = Inr (sample_plan d 7)"
proof -
  obtain d where d: "policy_digest sample_policy = Inr d" using sample_policy_digest by blast
  show ?thesis using created_plan_validates [OF sample_plan_created [OF d]] by blast
qed

section \<open>Policies\<close>

lemma vp_relative_parts: "vp_relative v = Inr ps \<Longrightarrow> \<exists>s. v = JStr s \<and> ps = split CHR ''/'' s"
  unfolding vp_relative_def checks_Inr by (cases v) simp_all

lemma vp_declaration_path:
  assumes "vp_declaration False v = Inr item"
  shows "v = JObj item \<and> has_key item ''path'' \<and> (\<exists>ps. vp_relative (dget item ''path'' JNull) = Inr ps)"
proof -
  from assms obtain item' where v: "v = JObj item'"
    by (simp add: vp_declaration_def is_dict_iff) blast
  from assms show ?thesis
    by (simp add: vp_declaration_def v Let_def split: if_splits) (elim conjE exE, simp)
qed

lemma add_selector_Inr:
  assumes "add_selector sels v = Inr sels'"
  obtains item sel where "v = JObj item" "selector_of item = Inr sel" "sel \<notin> set sels" "sels' = sel # sels"
    "\<exists>ps. vp_relative (JStr (fst sel)) = Inr ps"
proof -
  from assms obtain item sel where d: "vp_declaration False v = Inr item" "selector_of item = Inr sel"
    "sel \<notin> set sels" "sels' = sel # sels"
    by (auto simp: add_selector_def)
  from d(2) have "fst sel = the_str (dget item ''path'' JNull)" by (auto simp: selector_of_def)
  with vp_declaration_path [OF d(1)] have "v = JObj item" "\<exists>ps. vp_relative (JStr (fst sel)) = Inr ps"
    by (metis the_str.simps(1) vp_relative_parts)+
  with d that show thesis by blast
qed

lemma add_selectors:
  assumes "foldres add_selector sels vs = Inr sels'" and "distinct sels"
    and "\<forall>sel \<in> set sels. \<exists>ps. vp_relative (JStr (fst sel)) = Inr ps"
  shows "\<exists>new. mapres (\<lambda>v. selector_of (the_dict v)) vs = Inr new \<and> sels' = rev new @ sels
    \<and> distinct sels' \<and> (\<forall>sel \<in> set sels'. \<exists>ps. vp_relative (JStr (fst sel)) = Inr ps)"
  using assms
proof (induction vs arbitrary: sels)
  case (Cons v vs)
  then obtain t where t: "add_selector sels v = Inr t" "foldres add_selector t vs = Inr sels'" by auto
  from t(1) obtain item sel where s: "v = JObj item" "selector_of item = Inr sel" "sel \<notin> set sels"
    "t = sel # sels" "\<exists>ps. vp_relative (JStr (fst sel)) = Inr ps" by (rule add_selector_Inr)
  with Cons.prems have "distinct t" and "\<forall>sel \<in> set t. \<exists>ps. vp_relative (JStr (fst sel)) = Inr ps" by auto
  from Cons.IH [OF t(2) this] obtain new where
    "mapres (\<lambda>v. selector_of (the_dict v)) vs = Inr new" "sels' = rev new @ t" "distinct sels'"
    "\<forall>sel \<in> set sels'. \<exists>ps. vp_relative (JStr (fst sel)) = Inr ps" by blast
  with s show ?case by simp
qed simp

lemma validate_policy_files:
  assumes "validate_policy p = Inr config"
  shows "\<exists>sels. foldres add_selector [] (the_list (dget config ''files'' JNull)) = Inr sels"
  using assms by (simp add: validate_policy_def Let_def) blast

text \<open>
  an accepted policy names each version field once.  Its version files have pairwise different
  selectors (path, format, field and package), and every path stays below the checkout: it is
  relative, has no backslash and no NUL, and none of its components is empty, \<open>.\<close>, \<open>..\<close> or \<open>.git\<close>.
\<close>

theorem accepted_policy_selectors:
  assumes "validate_policy p = Inr config"
  shows "\<exists>sels. mapres (\<lambda>v. selector_of (the_dict v)) (the_list (dget config ''files'' JNull)) = Inr sels
     \<and> distinct sels
     \<and> (\<forall>(path, _) \<in> set sels. \<not> startswith path ''/'' \<and> CHR 0x5C \<notin> set path \<and> CHR 0x00 \<notin> set path
          \<and> (\<forall>part \<in> set (split CHR ''/'' path). part \<notin> {'''', ''.'', ''..'', ''.git''}))"
proof -
  obtain sels where "foldres add_selector [] (the_list (dget config ''files'' JNull)) = Inr sels"
    using validate_policy_files [OF assms] by blast
  from add_selectors [OF this] obtain new where
    "mapres (\<lambda>v. selector_of (the_dict v)) (the_list (dget config ''files'' JNull)) = Inr new"
    "distinct new" "\<forall>sel \<in> set new. \<exists>ps. vp_relative (JStr (fst sel)) = Inr ps" by auto
  moreover have "\<not> startswith path ''/'' \<and> CHR 0x5C \<notin> set path \<and> CHR 0x00 \<notin> set path
      \<and> (\<forall>part \<in> set (split CHR ''/'' path). part \<notin> {'''', ''.'', ''..'', ''.git''})"
    if "vp_relative (JStr path) = Inr ps" for path ps
    using that by (simp add: vp_relative_def list_all_iff)
  ultimately show ?thesis by fastforce
qed

theorem accepted_policy_selectors_witness:
  "\<exists>sels. mapres (\<lambda>v. selector_of (the_dict v)) (the_list (dget sample_config ''files'' JNull)) = Inr sels
     \<and> distinct sels
     \<and> (\<forall>(path, _) \<in> set sels. \<not> startswith path ''/'' \<and> CHR 0x5C \<notin> set path \<and> CHR 0x00 \<notin> set path
          \<and> (\<forall>part \<in> set (split CHR ''/'' path). part \<notin> {'''', ''.'', ''..'', ''.git''}))"
  by (rule accepted_policy_selectors [OF sample_policy_ok])

end
