(* ===== verification/Version_Projection_Facts.thy ===== *)
theory Version_Projection_Facts
  imports Version_Plan
begin

text \<open>
  The two numeric projections of a release identity: the Apple bundle version of a native build
  number, which the stores compare component by component, and the number of a PEP 440 \<open>.dev\<close>
  package, which orders nightly packages by run and attempt.
\<close>

section \<open>Apple bundle versions\<close>

text \<open>The numbers a store compares: the components between the dots.\<close>

definition bundle_key :: "string \<Rightarrow> nat list" where
  "bundle_key s = map nat_of_digits (split CHR ''.'' s)"

lemma dot_not_in_str_nat [simp]: "CHR ''.'' \<notin> set (str_nat n)"
  using str_nat_digits [of n] by (auto simp: digits_def)

lemma bundle_key_apple_text:
  "bundle_key (apple_text b) =
     [nat (b - 1) div 10000 + 1, nat (b - 1) div 100 mod 100, nat (b - 1) mod 100]"
  by (simp add: bundle_key_def apple_text_def Let_def split_append_sep split_id)

lemma div_mod_less:
  fixes m n k :: nat
  assumes "m < n"
  shows "m div k < n div k \<or> (m div k = n div k \<and> m mod k < n mod k)"
proof (cases "m div k = n div k")
  case True
  have "k * (m div k) + m mod k < k * (n div k) + n mod k" using assms by (simp only: mult_div_mod_eq)
  then have "m mod k < n mod k" unfolding True by (simp only: add_less_cancel_left)
  with True show ?thesis by simp
next
  case False
  with assms div_le_mono [of m n k] show ?thesis by simp
qed

lemma base_100_less:
  fixes m n :: nat
  assumes "m < n"
  shows "[m div 10000 + 1, m div 100 mod 100, m mod 100] < [n div 10000 + 1, n div 100 mod 100, n mod 100]"
proof -
  have e: "x div 10000 = x div 100 div 100" for x :: nat by (simp add: div_mult2_eq [symmetric])
  show ?thesis
    using div_mod_less [OF assms, of 100] div_mod_less [of "m div 100" "n div 100" 100]
    unfolding e by (cases "m div 100 < n div 100") auto
qed



section \<open>PEP 440 nightly numbers\<close>

definition nightly_text :: "string \<Rightarrow> nat \<Rightarrow> nat \<Rightarrow> string" where
  "nightly_text t run attempt = join ''.'' [t, str_nat run, str_nat attempt]"

lemma int_of_text_str_nat [simp]: "int_of_text (str_nat n) = Inr n"
  using str_nat_digits [of n] by (simp add: int_of_text_def guard_def)

lemma nightly_number_text:
  assumes "CHR ''.'' \<notin> set t"
  shows "nightly_number (JStr (nightly_text t r a)) = Inr n \<longleftrightarrow>
     a < 1000000 \<and> r * 1000000 + a \<le> u64_limit \<and> n = r * 1000000 + a"
  using assms
  by (auto simp: nightly_number_def nightly_text_def split_append_sep split_id Let_def)

text \<open>
  the PEP 440 number of a nightly fits the bounded unsigned 64-bit component of the package
  manager and orders nightlies by run and then attempt, whatever their timestamps.
\<close>

theorem nightly_number_ordered:
  assumes "CHR ''.'' \<notin> set t" and "CHR ''.'' \<notin> set t'"
    and "nightly_number (JStr (nightly_text t r a)) = Inr n"
    and "nightly_number (JStr (nightly_text t' r' a')) = Inr n'"
  shows "n < 2 ^ 64 - 1 \<and> (n < n' \<longleftrightarrow> r < r' \<or> (r = r' \<and> a < a')) \<and> (n = n' \<longleftrightarrow> r = r' \<and> a = a')"
proof -
  have n: "a < 1000000" "n \<le> u64_limit" "n = r * 1000000 + a"
    using assms(1,3) by (auto simp: nightly_number_text)
  have n': "a' < 1000000" "n' = r' * 1000000 + a'"
    using assms(2,4) by (auto simp: nightly_number_text)
  have div: "n div 1000000 = r" "n mod 1000000 = a" "n' div 1000000 = r'" "n' mod 1000000 = a'"
    using n n' by simp_all
  have "n = n' \<longleftrightarrow> r = r' \<and> a = a'" using n(3) n'(2) div by metis
  moreover have "n < n' \<longleftrightarrow> r < r' \<or> (r = r' \<and> a < a')"
    using div_mod_less [of n n' 1000000] div_mod_less [of n' n 1000000] calculation
    unfolding div by fastforce
  ultimately have "n < n' \<longleftrightarrow> r < r' \<or> (r = r' \<and> a < a')" and "n = n' \<longleftrightarrow> r = r' \<and> a = a'"
    by simp_all
  with n show ?thesis by (simp add: u64_limit_def)
qed

theorem nightly_number_ordered_witness:
  "(5000001::nat) < 2 ^ 64 - 1
     \<and> ((5000001::nat) < 5000002 \<longleftrightarrow> (5::nat) < 5 \<or> ((5::nat) = 5 \<and> (1::nat) < 2))
     \<and> ((5000001::nat) = 5000002 \<longleftrightarrow> (5::nat) = 5 \<and> (1::nat) = 2)"
proof (rule nightly_number_ordered [of "''20250101120000''" "''20250101130000''"])
  show "nightly_number (JStr (nightly_text ''20250101120000'' 5 1)) = Inr 5000001"
    by (subst nightly_number_text) (simp_all add: u64_limit_def)
  show "nightly_number (JStr (nightly_text ''20250101130000'' 5 2)) = Inr 5000002"
    by (subst nightly_number_text) (simp_all add: u64_limit_def)
qed simp_all

end
