(* ===== verification/Json_Text.thy ===== *)
theory Json_Text
  imports PyJson Regex
begin

text \<open>
  The scalar scanner of Python's \<open>json\<close> module (\<open>JSONDecoder.raw_decode\<close> on a token that is no
  container), which the document parser of \<open>scripts/version_plan.py\<close> calls at every scalar and key,
  and which \<open>json.loads\<close> uses too.  A scanner takes the rest of the text and returns the value and
  what follows it.  The parameter \<open>fl\<close> is \<open>repr(float(text))\<close> of a number with a fraction or an
  exponent; the development never looks inside it.  An escape above U+00FF has no character in the
  model and is rejected.
\<close>

section \<open>Strings\<close>

definition is_hex :: "char \<Rightarrow> bool" where
  "is_hex c \<longleftrightarrow> c \<in> set (digits @ ''abcdefABCDEF'')"

definition hex_val :: "char \<Rightarrow> nat" where
  "hex_val c =
     (let n = of_char c :: nat in if n \<le> 57 then n - 48 else if n \<le> 70 then n - 55 else n - 87)"

definition simple_escape :: "char \<Rightarrow> char option" where
  "simple_escape c =
     map_of [(CHR 0x22, CHR 0x22), (CHR 0x5C, CHR 0x5C), (CHR ''/'', CHR ''/''), (CHR ''b'', CHR 0x08),
             (CHR ''f'', CHR 0x0C), (CHR ''n'', CHR 0x0A), (CHR ''r'', CHR 0x0D), (CHR ''t'', CHR 0x09)] c"

definition push_char :: "char \<Rightarrow> (string \<times> string) option \<Rightarrow> (string \<times> string) option" where
  "push_char c r = map_option (\<lambda>(s, t). (c # s, t)) r"

text \<open>The characters after an opening quote, up to and over the closing one.\<close>

function scan_chars :: "string \<Rightarrow> (string \<times> string) option" where
  "scan_chars s =
     (case s of
        [] \<Rightarrow> None
      | c # r \<Rightarrow>
          if c = CHR 0x22 then Some ([], r)
          else if c = CHR 0x5C then
            (case r of
               [] \<Rightarrow> None
             | e # r' \<Rightarrow>
                 if e = CHR ''u'' then
                   (let h = take 4 r'; n = foldl (\<lambda>a d. 16 * a + hex_val d) 0 h in
                    if length h = 4 \<and> list_all is_hex h \<and> n < 256
                    then push_char (char_of n) (scan_chars (drop 4 r')) else None)
                 else (case simple_escape e of None \<Rightarrow> None | Some x \<Rightarrow> push_char x (scan_chars r')))
          else if of_char c < (32 :: nat) then None
          else push_char c (scan_chars r))"
  by pat_completeness auto
termination by (relation "measure length") auto

declare scan_chars.simps [simp del]

section \<open>Numbers\<close>

definition is_digit :: "char \<Rightarrow> bool" where
  "is_digit c \<longleftrightarrow> c \<in> set digits"

text \<open>The integer part without sign: \<open>0\<close>, or digits that do not start with \<open>0\<close>.\<close>

definition scan_int :: "string \<Rightarrow> (string \<times> string) option" where
  "scan_int s =
     (case s of
        [] \<Rightarrow> None
      | c # r \<Rightarrow> if c = CHR ''0'' then Some ([c], r)
                else if is_digit c then Some (takeWhile is_digit s, dropWhile is_digit s) else None)"

definition scan_frac :: "string \<Rightarrow> string \<times> string" where
  "scan_frac s =
     (case s of
        c # d # r \<Rightarrow> if c = CHR ''.'' \<and> is_digit d
                     then (c # takeWhile is_digit (d # r), dropWhile is_digit r) else ([], s)
      | _ \<Rightarrow> ([], s))"

definition scan_exp :: "string \<Rightarrow> string \<times> string" where
  "scan_exp s =
     (case s of
        [] \<Rightarrow> ([], s)
      | c # r \<Rightarrow>
          if c \<noteq> CHR ''e'' \<and> c \<noteq> CHR ''E'' then ([], s)
          else
            (let sign = takeWhile (\<lambda>x. x = CHR ''+'' \<or> x = CHR ''-'') (take 1 r); t = drop (length sign) r
             in if t \<noteq> [] \<and> is_digit (hd t)
                then (c # sign @ takeWhile is_digit t, dropWhile is_digit t) else ([], s)))"

definition scan_number :: "(string \<Rightarrow> string) \<Rightarrow> string \<Rightarrow> (json \<times> string) option" where
  "scan_number fl s =
     (let neg = startswith s ''-'' in
      case scan_int (if neg then tl s else s) of
        None \<Rightarrow> None
      | Some (i, r) \<Rightarrow>
          (case scan_frac r of (f, r1) \<Rightarrow> case scan_exp r1 of (e, r2) \<Rightarrow>
             Some (if f = [] \<and> e = []
                   then JInt (if neg then - int (nat_of_digits i) else int (nat_of_digits i))
                   else JFloat (fl ((if neg then ''-'' else []) @ i @ f @ e)), r2)))"

section \<open>Scalars\<close>

definition literals :: "(string \<times> json) list" where
  "literals = [(''null'', JNull), (''true'', JBool True), (''false'', JBool False), (''NaN'', JFloat ''nan''),
               (''Infinity'', JFloat ''inf''), (''-Infinity'', JFloat ''-inf'')]"

definition scan_scalar :: "(string \<Rightarrow> string) \<Rightarrow> string \<Rightarrow> (json \<times> string) option" where
  "scan_scalar fl s =
     (if startswith s [CHR 0x22] then map_option (\<lambda>(t, r). (JStr t, r)) (scan_chars (tl s))
      else
        (case List.find (\<lambda>(w, _). startswith s w) literals of
           Some (w, v) \<Rightarrow> Some (v, drop (length w) s)
         | None \<Rightarrow> scan_number fl s))"

fun scalar :: "json \<Rightarrow> bool" where
  "scalar (JArr _) = False"
| "scalar (JObj _) = False"
| "scalar _ = True"

section \<open>The scanner consumes a prefix\<close>

lemma push_char_Some [simp]: "push_char c r = Some (s, t) \<longleftrightarrow> (\<exists>s'. r = Some (s', t) \<and> s = c # s')"
  by (auto simp: push_char_def)

lemma scan_chars_Nil [simp]: "scan_chars [] = None"
  by (subst scan_chars.simps) simp

lemma scan_chars_quote [simp]: "scan_chars (CHR 0x22 # r) = Some ([], r)"
  by (subst scan_chars.simps) simp

lemma scan_chars_back [simp]: "scan_chars [CHR 0x5C] = None"
  by (subst scan_chars.simps) simp

lemma scan_chars_unicode:
  "scan_chars (CHR 0x5C # CHR ''u'' # r) =
     (let h = take 4 r; n = foldl (\<lambda>a d. 16 * a + hex_val d) 0 h in
      if length h = 4 \<and> list_all is_hex h \<and> n < 256
      then push_char (char_of n) (scan_chars (drop 4 r)) else None)"
  by (subst scan_chars.simps) simp

lemma scan_chars_escape:
  "e \<noteq> CHR ''u'' \<Longrightarrow> scan_chars (CHR 0x5C # e # r) =
     (case simple_escape e of None \<Rightarrow> None | Some x \<Rightarrow> push_char x (scan_chars r))"
  by (subst scan_chars.simps) simp

lemma scan_chars_plain:
  "c \<noteq> CHR 0x22 \<Longrightarrow> c \<noteq> CHR 0x5C \<Longrightarrow>
   scan_chars (c # r) = (if of_char c < (32 :: nat) then None else push_char c (scan_chars r))"
  by (subst scan_chars.simps) simp

text \<open>Case analysis along one step of the scanner.\<close>

lemma scan_chars_Some:
  assumes "scan_chars s = Some (v, r)"
  obtains (close) "s = CHR 0x22 # r" "v = []"
  | (step) x t y w where "x \<noteq> []" "s = x @ t" "scan_chars t = Some (w, r)" "v = y # w"
      "\<And>u w' r'. scan_chars u = Some (w', r') \<Longrightarrow> scan_chars (x @ u) = Some (y # w', r')"
proof (cases s)
  case Nil
  with assms show thesis by simp
next
  case s: (Cons c t)
  consider (quote) "c = CHR 0x22" | (esc) "c = CHR 0x5C" | (plain) "c \<noteq> CHR 0x22" "c \<noteq> CHR 0x5C" by blast
  then show thesis
  proof cases
    case quote
    with assms s show thesis by (intro close) auto
  next
    case esc
    with assms s obtain e u where t: "t = e # u" by (cases t) auto
    show thesis
    proof (cases "e = CHR ''u''")
      case True
      let ?n = "foldl (\<lambda>a d. 16 * a + hex_val d) 0 (take 4 u)"
      from assms s t esc True obtain w where w: "length (take 4 u) = 4" "list_all is_hex (take 4 u)"
        "?n < 256" "scan_chars (drop 4 u) = Some (w, r)" "v = char_of ?n # w"
        by (auto simp: scan_chars_unicode Let_def split: if_splits)
      have "s = (c # e # take 4 u) @ drop 4 u" using s t by simp
      moreover have "scan_chars ((c # e # take 4 u) @ q) = Some (char_of ?n # w', r')"
        if "scan_chars q = Some (w', r')" for q w' r'
        using that w(1-3) esc True by (simp add: scan_chars_unicode Let_def)
      ultimately show thesis using step [of "c # e # take 4 u" "drop 4 u"] w by blast
    next
      case False
      with assms s t esc obtain y w where "simple_escape e = Some y" "scan_chars u = Some (w, r)" "v = y # w"
        by (auto simp: scan_chars_escape split: option.splits)
      with s t esc False show thesis using step [of "[c, e]" u w y] by (simp add: scan_chars_escape)
    qed
  next
    case plain
    with assms s obtain w where "\<not> of_char c < (32::nat)" "scan_chars t = Some (w, r)" "v = c # w"
      by (auto simp: scan_chars_plain split: if_splits)
    with s plain show thesis using step [of "[c]" t w c] by (simp add: scan_chars_plain)
  qed
qed

lemma scan_chars_prefix:
  "scan_chars s = Some (v, r) \<Longrightarrow> \<exists>x. x \<noteq> [] \<and> s = x @ r \<and> (\<forall>u. scan_chars (x @ u) = Some (v, u))"
proof (induction "length s" arbitrary: s v rule: less_induct)
  case less
  from less.prems show ?case
  proof (cases rule: scan_chars_Some)
    case close
    then show ?thesis by (intro exI [of _ "[CHR 0x22]"]) simp
  next
    case (step x t y w)
    then have "length t < length s" by simp
    with less.hyps step(3) obtain z where "t = z @ r" "\<forall>u. scan_chars (z @ u) = Some (w, u)" by blast
    with step show ?thesis by (intro exI [of _ "x @ z"]) simp
  qed
qed

section \<open>Scanning what was printed\<close>

lemma hex_digit_hex: "is_hex (hex_digit d) \<and> hex_val (hex_digit d) = d mod 16"
proof -
  have "is_hex (hex_digit k) \<and> hex_val (hex_digit k) = k" if "k < 16" for k
    using that
    by (simp add: less_Suc_eq numeral_eq_Suc)
      (auto simp: is_hex_def hex_digit_def hex_val_def digits_def)
  from this [of "d mod 16"] show ?thesis by (simp add: hex_digit_def)
qed

lemma scan_escape_char: "scan_chars (escape_char c @ u) = push_char c (scan_chars u)"
proof -
  let ?n = "of_char c :: nat"
  have lt: "?n < 256" by (metis (full_types) nat_of_char_less_256)
  consider "?n \<in> {34, 92, 10, 13, 9, 12, 8}" | "?n \<notin> {34, 92, 10, 13, 9, 12, 8}" "32 \<le> ?n" "?n \<le> 126"
    | "?n \<notin> {34, 92, 10, 13, 9, 12, 8}" "\<not> (32 \<le> ?n \<and> ?n \<le> 126)" by blast
  then show ?thesis
  proof cases
    case 1
    have e: "?n = of_char d \<Longrightarrow> c = d" for d by simp
    from 1 have "c \<in> {CHR 0x22, CHR 0x5C, CHR 0x0A, CHR 0x0D, CHR 0x09, CHR 0x0C, CHR 0x08}"
      using e [of "CHR 0x22"] e [of "CHR 0x5C"] e [of "CHR 0x0A"] e [of "CHR 0x0D"] e [of "CHR 0x09"]
        e [of "CHR 0x0C"] e [of "CHR 0x08"] by auto
    then show ?thesis
      by (elim insertE emptyE) (simp_all add: escape_char_def scan_chars_escape simple_escape_def)
  next
    case 2
    then have "c \<noteq> CHR 0x22" "c \<noteq> CHR 0x5C" by auto
    with 2 show ?thesis by (auto simp: escape_char_def scan_chars_plain)
  next
    case 3
    then have "escape_char c = CHR 0x5C # CHR ''u'' # CHR ''0'' # CHR ''0'' # hex2 ?n"
      by (auto simp: escape_char_def)
    moreover have "list_all is_hex ([CHR ''0'', CHR ''0''] @ hex2 ?n)"
      using hex_digit_hex by (simp add: hex2_def is_hex_def digits_def)
    moreover have "foldl (\<lambda>a d. 16 * a + hex_val d) 0 ([CHR ''0'', CHR ''0''] @ hex2 ?n) = ?n"
    proof -
      have "hex_val CHR ''0'' = 0" by (simp add: hex_val_def)
      moreover have "?n div 16 mod 16 = ?n div 16"
        by (intro mod_less less_mult_imp_div_less) simp
      ultimately show ?thesis using hex_digit_hex by (simp add: hex2_def)
    qed
    ultimately show ?thesis by (simp add: scan_chars_unicode Let_def hex2_def)
  qed
qed

lemma scan_escaped: "scan_chars (concat (map escape_char s) @ CHR 0x22 # r) = Some (s, r)"
  by (induction s) (simp_all add: scan_escape_char)

lemma scan_escaped_raw:
  "scan_chars (concat (map (\<lambda>c. if (126::nat) < of_char c then [c] else escape_char c) s) @ CHR 0x22 # r) = Some (s, r)"
proof (induction s)
  case (Cons c s)
  have "scan_chars (c # u) = push_char c (scan_chars u)" if "(126::nat) < of_char c" for u
  proof -
    have "c \<noteq> CHR 0x22" "c \<noteq> CHR 0x5C" using that by auto
    with that show ?thesis by (simp add: scan_chars_plain)
  qed
  with Cons show ?case by (simp add: scan_escape_char)
qed simp

definition no_number_char :: "string \<Rightarrow> bool" where
  "no_number_char r \<longleftrightarrow> r = [] \<or> (hd r \<notin> set digits \<and> hd r \<notin> {CHR ''.'', CHR ''e'', CHR ''E''})"

lemma is_digit_in [simp]: "c \<in> set digits \<Longrightarrow> is_digit c"
  by (simp add: is_digit_def)

lemma takeWhile_digits:
  assumes "set ds \<subseteq> set digits" and "r = [] \<or> hd r \<notin> set digits"
  shows "takeWhile is_digit (ds @ r) = ds" and "dropWhile is_digit (ds @ r) = r"
proof -
  have "\<forall>x \<in> set ds. is_digit x" using assms(1) by auto
  moreover have "takeWhile is_digit r = []" "dropWhile is_digit r = r"
    using assms(2) by (cases r; simp add: is_digit_def)+
  ultimately show "takeWhile is_digit (ds @ r) = ds" and "dropWhile is_digit (ds @ r) = r" by simp_all
qed

lemma scan_int_str_nat: "no_number_char r \<Longrightarrow> scan_int (str_nat n @ r) = Some (str_nat n, r)"
proof -
  assume r: "no_number_char r"
  obtain c s where cs: "str_nat n = c # s" by (cases "str_nat n") auto
  show ?thesis
  proof (cases "n = 0")
    case True
    then show ?thesis by (simp add: scan_int_def str_nat_small digit_char_def digits_def)
  next
    case False
    then have "c \<noteq> CHR ''0''" using str_nat_hd [of n] cs by simp
    moreover have "is_digit c" using str_nat_digits [of n] cs by simp
    moreover have "takeWhile is_digit (str_nat n @ r) = str_nat n" "dropWhile is_digit (str_nat n @ r) = r"
      using r str_nat_digits [of n] by (auto simp: no_number_char_def intro!: takeWhile_digits)
    ultimately show ?thesis by (simp add: scan_int_def cs)
  qed
qed

lemma scan_frac_none: "no_number_char r \<Longrightarrow> scan_frac r = ([], r)"
  by (auto simp: scan_frac_def no_number_char_def split: list.splits)

lemma scan_exp_none: "no_number_char r \<Longrightarrow> scan_exp r = ([], r)"
  by (auto simp: scan_exp_def no_number_char_def split: list.splits)

lemma str_nat_not_dash: "\<not> startswith (str_nat n @ r) ''-''"
  using str_nat_digits [of n] by (cases "str_nat n") (auto simp: startswith_def digits_def)

lemma scan_number_str_int: "no_number_char r \<Longrightarrow> scan_number fl (str_int i @ r) = Some (JInt i, r)"
proof (cases "i < 0")
  case True
  assume "no_number_char r"
  with True show ?thesis
    by (simp add: scan_number_def str_int_def scan_int_str_nat scan_frac_none scan_exp_none Let_def
        startswith_def)
next
  case False
  assume "no_number_char r"
  with False str_nat_not_dash show ?thesis
    by (simp add: scan_number_def str_int_def scan_int_str_nat scan_frac_none scan_exp_none Let_def)
qed

lemma startswith_Cons: "startswith (c # s) (d # w) \<longleftrightarrow> c = d \<and> startswith s w"
  by (auto simp: startswith_def)

lemma startswith_Nil_right [simp]: "startswith s []"
  by (simp add: startswith_def)

lemma scan_scalar_int:
  assumes "no_number_char r"
  shows "scan_scalar fl (str_int i @ r) = Some (JInt i, r)"
proof -
  obtain c s where cs: "str_nat (nat \<bar>i\<bar>) = c # s" by (cases "str_nat (nat \<bar>i\<bar>)") auto
  then have c: "c \<in> set digits" using str_nat_digits [of "nat \<bar>i\<bar>"] by auto
  have "str_int i = c # s \<or> str_int i = CHR ''-'' # c # s" using cs by (auto simp: str_int_def)
  then have "\<not> startswith (str_int i @ r) w" if "w \<in> {[CHR 0x22], ''null'', ''true'', ''false'', ''NaN'', ''Infinity'', ''-Infinity''}" for w
    using that c by (auto simp: startswith_Cons digits_def)
  then show ?thesis using scan_number_str_int [OF assms, of fl i]
    by (simp add: scan_scalar_def literals_def)
qed

lemma scan_scalar_raw: "scan_scalar fl (json_string_raw s @ r) = Some (JStr s, r)"
  using scan_escaped_raw [of s r] by (simp add: scan_scalar_def json_string_raw_def startswith_def)

lemma scan_scalar_string: "scan_scalar fl (json_string s @ r) = Some (JStr s, r)"
  using scan_escaped [of s r] by (simp add: scan_scalar_def json_string_def startswith_def)

section \<open>Every token is a nonempty prefix\<close>

lemma scan_int_prefix: "scan_int s = Some (i, r) \<Longrightarrow> i \<noteq> [] \<and> s = i @ r"
  by (auto simp: scan_int_def split: list.splits if_splits)

lemma scan_frac_prefix: "scan_frac s = (f, r) \<Longrightarrow> s = f @ r"
  by (auto simp: scan_frac_def split: list.splits if_splits)

lemma scan_exp_prefix: "scan_exp s = (e, r) \<Longrightarrow> s = e @ r"
proof -
  assume a: "scan_exp s = (e, r)"
  have "takeWhile p (take 1 u) @ drop (length (takeWhile p (take 1 u))) u = u" for p and u :: string
    by (cases u) auto
  then have "sg @ takeWhile is_digit (drop (length sg) u) @ dropWhile is_digit (drop (length sg) u) = u"
    if "sg = takeWhile p (take 1 u)" for sg p and u :: string using that by simp
  with a show ?thesis by (auto simp: scan_exp_def Let_def split: list.splits if_splits)
qed

lemma scan_number_prefix: "scan_number fl s = Some (v, r) \<Longrightarrow> scalar v \<and> (\<exists>x. x \<noteq> [] \<and> s = x @ r)"
proof -
  assume a: "scan_number fl s = Some (v, r)"
  let ?sg = "if startswith s ''-'' then ''-'' else []"
  let ?t = "if startswith s ''-'' then tl s else s"
  from a obtain i u where i: "scan_int ?t = Some (i, u)"
    by (simp add: scan_number_def Let_def split: option.splits prod.splits)
  obtain f w where f: "scan_frac u = (f, w)" by force
  obtain e q where e: "scan_exp w = (e, q)" by force
  have "s = ?sg @ ?t" by (cases s) (auto simp: startswith_def)
  also have "\<dots> = ?sg @ i @ f @ e @ q"
    using scan_int_prefix [OF i] scan_frac_prefix [OF f] scan_exp_prefix [OF e] by simp
  finally have "s = (?sg @ i @ f @ e) @ q" by simp
  moreover have "q = r \<and> scalar v"
    using a by (simp add: scan_number_def Let_def i f e split: if_splits) (elim conjE, hypsubst, simp)+
  ultimately show ?thesis using scan_int_prefix [OF i] by blast
qed

lemma find_in_set: "List.find P xs = Some x \<Longrightarrow> P x \<and> x \<in> set xs"
  by (induction xs) (auto split: if_splits)

lemma literals_scalar: "(w, x) \<in> set literals \<Longrightarrow> w \<noteq> [] \<and> scalar x"
  unfolding literals_def by (simp, elim disjE conjE; simp)

lemma startswith_drop: "startswith s w \<Longrightarrow> s = w @ drop (length w) s"
  by (metis append_take_drop_id startswith_def)

lemma scan_scalar_prefix:
  assumes "scan_scalar fl s = Some (v, r)"
  shows "scalar v \<and> (\<exists>x. x \<noteq> [] \<and> s = x @ r)"
proof (cases "startswith s [CHR 0x22]")
  case True
  with assms obtain t where t: "scan_chars (tl s) = Some (t, r)" "v = JStr t"
    by (auto simp: scan_scalar_def)
  from True have "s = CHR 0x22 # tl s" by (cases s) (auto simp: startswith_def)
  moreover obtain x where "tl s = x @ r" using scan_chars_prefix [OF t(1)] by blast
  ultimately have "s = (CHR 0x22 # x) @ r" by simp
  with t(2) show ?thesis by fastforce
next
  case F: False
  show ?thesis
  proof (cases "List.find (\<lambda>(w, _). startswith s w) literals")
    case None
    with F assms show ?thesis using scan_number_prefix by (simp add: scan_scalar_def)
  next
    case (Some p)
    obtain w x where p: "p = (w, x)" by force
    from find_in_set [OF Some] have w: "startswith s w" "(w, x) \<in> set literals" by (simp_all add: p)
    from Some F assms have "v = x" "r = drop (length w) s" by (simp_all add: scan_scalar_def p)
    with literals_scalar [OF w(2)] startswith_drop [OF w(1)] show ?thesis by blast
  qed
qed

section \<open>The standard decoder\<close>

definition ws :: "string \<Rightarrow> string" where
  "ws s = dropWhile (\<lambda>c. c \<in> {CHR '' '', CHR 0x0A, CHR 0x0D, CHR 0x09}) s"

lemma length_ws: "length (ws s) \<le> length s"
  by (simp add: ws_def length_dropWhile_le)

lemma ws_ConsD: "ws s = c # r \<Longrightarrow> length r < length s"
  using length_ws [of s] by simp

text \<open>
  What happens to the members of a finished object: without a hook a repeated key keeps its place
  and takes the last value; with \<open>object_pairs_hook\<close> set to a function that rejects duplicates, the
  exception \<open>e\<close> is raised.
\<close>

definition finish_object :: "exn option \<Rightarrow> members \<Rightarrow> json res" where
  "finish_object hook pairs =
     (case hook of
        None \<Rightarrow> Inr (JObj (foldl (\<lambda>m (k, v). dput m k v) [] pairs))
      | Some e \<Rightarrow> guard (distinct (map fst pairs)) e (Inr (JObj pairs)))"

definition bad_json :: "'a res" where
  "bad_json = Inl (JSONDecodeError ''Expecting value'')"

definition token :: "(string \<Rightarrow> string) \<Rightarrow> string \<Rightarrow> (json \<times> string) res" where
  "token fl s = (case scan_scalar fl s of None \<Rightarrow> bad_json | Some vr \<Rightarrow> Inr vr)"

definition string_token :: "string \<Rightarrow> (string \<times> string) res" where
  "string_token s =
     (if startswith s [CHR 0x22]
      then (case scan_chars (tl s) of None \<Rightarrow> bad_json | Some kr \<Rightarrow> Inr kr) else bad_json)"

lemma token_shorter: "token fl s = Inr (v, r) \<Longrightarrow> length r < length s"
  using scan_scalar_prefix [of fl s v r] by (auto simp: token_def bad_json_def split: option.splits)

lemma string_token_shorter: "string_token s = Inr (k, r) \<Longrightarrow> length r < length s"
  using scan_chars_prefix [of "tl s" k r]
  by (cases s) (auto simp: string_token_def bad_json_def startswith_def split: option.splits if_splits)

text \<open>
  The guards on the lengths of the remaining text hold always: a value is never empty
  (\<open>raw_value_shorter\<close>); they only let the recursion be seen to end.
\<close>

function (sequential) raw_value :: "(string \<Rightarrow> string) \<Rightarrow> exn option \<Rightarrow> string \<Rightarrow> (json \<times> string) res"
  and raw_members :: "(string \<Rightarrow> string) \<Rightarrow> exn option \<Rightarrow> members \<Rightarrow> string \<Rightarrow> (json \<times> string) res"
  and raw_items :: "(string \<Rightarrow> string) \<Rightarrow> exn option \<Rightarrow> json list \<Rightarrow> string \<Rightarrow> (json \<times> string) res"
where
  "raw_value fl hook s =
     (case s of
        [] \<Rightarrow> bad_json
      | c # r \<Rightarrow>
          if c = CHR ''{'' then
            (if startswith (ws r) ''}''
             then bnd (finish_object hook []) (\<lambda>v. Inr (v, tl (ws r))) else raw_members fl hook [] (ws r))
          else if c = CHR ''['' then
            (if startswith (ws r) '']'' then Inr (JArr [], tl (ws r)) else raw_items fl hook [] (ws r))
          else token fl s)"
| "raw_members fl hook pairs s =
     bnd (string_token s) (\<lambda>ku.
       if \<not> startswith (ws (snd ku)) '':'' then bad_json
       else bnd (raw_value fl hook (ws (tl (ws (snd ku))))) (\<lambda>vw.
         if \<not> length (snd vw) < length s then bad_json
         else if startswith (ws (snd vw)) ''}''
         then bnd (finish_object hook (pairs @ [(fst ku, fst vw)])) (\<lambda>v. Inr (v, tl (ws (snd vw))))
         else if startswith (ws (snd vw)) '',''
         then raw_members fl hook (pairs @ [(fst ku, fst vw)]) (ws (tl (ws (snd vw))))
         else bad_json))"
| "raw_items fl hook items s =
     bnd (raw_value fl hook s) (\<lambda>vw.
       if \<not> length (snd vw) < length s then bad_json
       else if startswith (ws (snd vw)) '']'' then Inr (JArr (items @ [fst vw]), tl (ws (snd vw)))
       else if startswith (ws (snd vw)) '',''
       then raw_items fl hook (items @ [fst vw]) (ws (tl (ws (snd vw))))
       else bad_json)"
  by pat_completeness auto
termination
proof (relation "measures [\<lambda>x. case x of Inl (_, _, s) \<Rightarrow> length s
      | Inr (Inl (_, _, _, s)) \<Rightarrow> length s | Inr (Inr (_, _, _, s)) \<Rightarrow> length s,
    \<lambda>x. case x of Inl _ \<Rightarrow> 0 | _ \<Rightarrow> 1]", goal_cases)
  case (2 fl hook s c r)
  then show ?case using length_ws [of r] by simp
next
  case (3 fl hook s c r)
  then show ?case using length_ws [of r] by simp
next
  case (4 fl hook pairs s ku)
  then have "length (snd ku) < length s" by (cases ku) (auto dest: string_token_shorter)
  then show ?case
    using length_ws [of "snd ku"] length_ws [of "tl (ws (snd ku))"] by (simp, linarith)
next
  case (5 fl hook pairs s ku vw)
  then show ?case
    using length_ws [of "snd vw"] length_ws [of "tl (ws (snd vw))"] by simp
next
  case (7 fl hook items s vw)
  then show ?case
    using length_ws [of "snd vw"] length_ws [of "tl (ws (snd vw))"] by simp
qed simp_all

declare raw_value.simps [simp del] raw_members.simps [simp del] raw_items.simps [simp del]

lemma raw_value_shorter:
  "raw_value fl hook s = Inr (v, r) \<Longrightarrow> length r < length s"
  "raw_members fl hook pairs s = Inr (v, r) \<Longrightarrow> length r < length s"
  "raw_items fl hook items s = Inr (v, r) \<Longrightarrow> length r < length s"
proof (induction fl hook s and fl hook pairs s and fl hook items s arbitrary: v r and v r and v r
    rule: raw_value_raw_members_raw_items.induct)
  case (1 fl hook s)
  show ?case
  proof (cases s)
    case (Cons c u)
    have e: "(if c = CHR ''{'' then
            (if startswith (ws u) ''}''
             then bnd (finish_object hook []) (\<lambda>v. Inr (v, tl (ws u))) else raw_members fl hook [] (ws u))
          else if c = CHR ''['' then
            (if startswith (ws u) '']'' then Inr (JArr [], tl (ws u)) else raw_items fl hook [] (ws u))
          else token fl s) = Inr (v, r)"
      using 1(3) unfolding Cons by (subst (asm) raw_value.simps) simp
    note step = 1(1) [OF Cons, of v r] 1(2) [OF Cons, of v r]
    show ?thesis using e step length_ws [of u] Cons token_shorter [of fl s v r] by (auto split: if_splits)
  qed (use 1(3) in \<open>simp add: raw_value.simps bad_json_def\<close>)
next
  case (2 fl hook pairs s)
  have e: "bnd (string_token s) (\<lambda>ku.
       if \<not> startswith (ws (snd ku)) '':'' then bad_json
       else bnd (raw_value fl hook (ws (tl (ws (snd ku))))) (\<lambda>vw.
         if \<not> length (snd vw) < length s then bad_json
         else if startswith (ws (snd vw)) ''}''
         then bnd (finish_object hook (pairs @ [(fst ku, fst vw)])) (\<lambda>v. Inr (v, tl (ws (snd vw))))
         else if startswith (ws (snd vw)) '',''
         then raw_members fl hook (pairs @ [(fst ku, fst vw)]) (ws (tl (ws (snd vw))))
         else bad_json)) = Inr (v, r)"
    using 2(3) by (subst (asm) raw_members.simps) simp
  then obtain ku vw where ku: "string_token s = Inr ku" and co: "\<not> \<not> startswith (ws (snd ku)) '':''"
    and vw: "raw_value fl hook (ws (tl (ws (snd ku)))) = Inr vw" and len: "\<not> \<not> length (snd vw) < length s"
    and rest: "(if startswith (ws (snd vw)) ''}''
         then bnd (finish_object hook (pairs @ [(fst ku, fst vw)])) (\<lambda>v. Inr (v, tl (ws (snd vw))))
         else if startswith (ws (snd vw)) '',''
         then raw_members fl hook (pairs @ [(fst ku, fst vw)]) (ws (tl (ws (snd vw))))
         else bad_json) = Inr (v, r)"
    by (auto simp: bad_json_def split: if_splits)
  note step = 2(2) [OF ku co vw len, of v r]
  show ?case using rest step len length_ws [of "snd vw"] length_ws [of "tl (ws (snd vw))"]
    by (auto simp: bad_json_def split: if_splits)
next
  case (3 fl hook items s)
  have "bnd (raw_value fl hook s) (\<lambda>vw.
       if \<not> length (snd vw) < length s then bad_json
       else if startswith (ws (snd vw)) '']'' then Inr (JArr (items @ [fst vw]), tl (ws (snd vw)))
       else if startswith (ws (snd vw)) '',''
       then raw_items fl hook (items @ [fst vw]) (ws (tl (ws (snd vw))))
       else bad_json) = Inr (v, r)"
    using 3(3) by (subst (asm) raw_items.simps) simp
  then obtain vw where vw: "raw_value fl hook s = Inr vw" and len: "\<not> \<not> length (snd vw) < length s"
    and rest: "(if startswith (ws (snd vw)) '']'' then Inr (JArr (items @ [fst vw]), tl (ws (snd vw)))
       else if startswith (ws (snd vw)) '',''
       then raw_items fl hook (items @ [fst vw]) (ws (tl (ws (snd vw))))
       else bad_json) = Inr (v, r)"
    by (auto simp: bad_json_def split: if_splits)
  note step = 3(2) [OF vw len, of v r]
  show ?case using rest step len length_ws [of "snd vw"] length_ws [of "tl (ws (snd vw))"]
    by (auto simp: bad_json_def split: if_splits)
qed

text \<open>\<open>json.loads(text)\<close>.\<close>

definition loads :: "(string \<Rightarrow> string) \<Rightarrow> exn option \<Rightarrow> string \<Rightarrow> json res" where
  "loads fl hook text =
     bnd (raw_value fl hook (ws text)) (\<lambda>(v, r).
       if ws r = [] then Inr v else Inl (JSONDecodeError ''Extra data''))"

end
