(* ===== verification/Json_Document.thy ===== *)
theory Json_Document
  imports Json_Text Version_Plan
begin

text \<open>
  The span-preserving JSON parser of \<open>scripts/version_plan.py\<close> (\<open>_JsonDocument\<close>, \<open>_json_document\<close>)
  and the minimal edit built on it (\<open>_json_edit\<close>).  The parser works on the rest of the text; inside
  it a position is kept as the number of characters left, and \<open>json_document\<close> turns it into the
  index the source stores.
\<close>

section \<open>Fields\<close>

datatype step = Key string | Idx nat

type_synonym path = "step list"

text \<open>\<open>current[key]\<close>, \<open>None\<close> where the source catches \<open>KeyError\<close>, \<open>IndexError\<close> or \<open>TypeError\<close>.\<close>

fun get_step :: "json \<Rightarrow> step \<Rightarrow> json option" where
  "get_step (JObj m) (Key k) = map_of m k"
| "get_step (JArr xs) (Idx i) = (if i < length xs then Some (xs ! i) else None)"
| "get_step _ _ = None"

fun vp_get :: "json \<Rightarrow> path \<Rightarrow> json res" where
  "vp_get current [] = Inr current"
| "vp_get current (k # ks) =
     checks [vp_require (is_dict current \<or> is_list current) ''Missing version field'']
      (case get_step current k of
         None \<Rightarrow> Inl (VersionError ''Missing version field'')
       | Some v \<Rightarrow> vp_get v ks)"

text \<open>The value with the one at a path replaced.\<close>

fun map_key :: "members \<Rightarrow> string \<Rightarrow> (json \<Rightarrow> json) \<Rightarrow> members" where
  "map_key [] k f = []"
| "map_key ((k', x) # m) k f = (if k' = k then (k', f x) # m else (k', x) # map_key m k f)"

fun put_path :: "json \<Rightarrow> path \<Rightarrow> json \<Rightarrow> json" where
  "put_path v [] w = w"
| "put_path v (k # ks) w =
     (case (v, k) of
        (JObj m, Key n) \<Rightarrow> JObj (map_key m n (\<lambda>x. put_path x ks w))
      | (JArr xs, Idx i) \<Rightarrow> (if i < length xs then JArr (xs[i := put_path (xs ! i) ks w]) else v)
      | _ \<Rightarrow> v)"

section \<open>Parser\<close>

type_synonym spans = "(path \<times> nat \<times> nat) list"

definition malformed :: "string \<Rightarrow> 'a res" where
  "malformed m = Inl (VersionError m)"

text \<open>\<open>key, end = self.decoder.raw_decode(self.text, index)\<close> with the test on the key.\<close>

definition scan_key :: "(string \<Rightarrow> string) \<Rightarrow> members \<Rightarrow> string \<Rightarrow> (string \<times> string) res" where
  "scan_key fl result s =
     bnd (raw_value fl None s) (\<lambda>(key, r).
       checks [vp_require (is_str key \<and> \<not> has_key result (the_str key)) ''Duplicate or invalid JSON key'']
         (Inr (the_str key, r)))"

lemma finish_object_dict: "finish_object hook pairs = Inr v \<Longrightarrow> is_dict v"
  by (auto simp: finish_object_def split: option.splits)

lemma raw_shape:
  "raw_value fl hook s = Inr vr \<Longrightarrow> True"
  "raw_members fl hook pairs s = Inr vr \<Longrightarrow> is_dict (fst vr)"
  "raw_items fl hook items s = Inr vr \<Longrightarrow> is_list (fst vr)"
proof (induction fl hook s and fl hook pairs s and fl hook items s arbitrary: vr and vr and vr
    rule: raw_value_raw_members_raw_items.induct)
  case (1 fl hook s)
  show ?case by simp
next
  case (2 fl hook pairs s)
  from "2.prems" obtain ku vw where
    k: "string_token s = Inr ku" "startswith (ws (snd ku)) '':''"
      "raw_value fl hook (ws (tl (ws (snd ku)))) = Inr vw" "length (snd vw) < length s"
    by (subst (asm) raw_members.simps) (auto simp: bad_json_def split: if_splits)
  show ?case
  proof (cases "startswith (ws (snd vw)) ''}''")
    case True
    with "2.prems" k show ?thesis
      by (subst (asm) raw_members.simps) (auto dest: finish_object_dict)
  next
    case False
    with "2.prems" k have "startswith (ws (snd vw)) '',''"
      "raw_members fl hook (pairs @ [(fst ku, fst vw)]) (ws (tl (ws (snd vw)))) = Inr vr"
      by (subst (asm) raw_members.simps, auto simp: bad_json_def split: if_splits)+
    with "2.IH" (2) k False show ?thesis by blast
  qed
next
  case (3 fl hook items s)
  from "3.prems" obtain vw where k: "raw_value fl hook s = Inr vw" "length (snd vw) < length s"
    by (subst (asm) raw_items.simps) (auto simp: bad_json_def split: if_splits)
  show ?case
  proof (cases "startswith (ws (snd vw)) '']''")
    case True
    with "3.prems" k show ?thesis by (subst (asm) raw_items.simps) auto
  next
    case False
    with "3.prems" k have "startswith (ws (snd vw)) '',''"
      "raw_items fl hook (items @ [fst vw]) (ws (tl (ws (snd vw)))) = Inr vr"
      by (subst (asm) raw_items.simps, auto simp: bad_json_def split: if_splits)+
    with "3.IH" (2) k False show ?thesis by blast
  qed
qed

lemma scan_number_no_str: "scan_number fl s \<noteq> Some (JStr k, r)"
  by (auto simp: scan_number_def Let_def split: option.splits prod.splits if_splits)

lemma token_string: "token fl s = Inr (JStr k, r) \<longleftrightarrow> string_token s = Inr (k, r)"
proof (cases "startswith s [CHR 0x22]")
  case True
  then show ?thesis
    by (auto simp: token_def string_token_def scan_scalar_def bad_json_def split: option.splits)
next
  case False
  have "(w, JStr k) \<notin> set literals" for w by (simp add: literals_def)
  with False show ?thesis
    by (auto simp: token_def string_token_def scan_scalar_def bad_json_def scan_number_no_str
        split: option.splits dest!: find_in_set)
qed

lemma scan_key_Inr:
  assumes "scan_key fl result s = Inr (k, r)"
  shows "string_token s = Inr (k, r) \<and> \<not> has_key result k"
proof -
  from assms have raw: "raw_value fl None s = Inr (JStr k, r)" and new: "\<not> has_key result k"
    by (auto simp: scan_key_def)
  obtain c u where s: "s = c # u" using raw by (cases s) (auto simp: raw_value.simps bad_json_def)
  have "raw_members fl None [] t \<noteq> Inr (JStr k, r)" "raw_items fl None [] t \<noteq> Inr (JStr k, r)" for t
    using raw_shape(2) [of fl None "[]" t "(JStr k, r)"] raw_shape(3) [of fl None "[]" t "(JStr k, r)"] by auto
  with raw have "token fl s = Inr (JStr k, r)"
    by (auto simp: s raw_value.simps [of fl None "c # u"] finish_object_def split: if_splits)
  with new token_string show ?thesis by blast
qed

lemma scan_key_shorter: "scan_key fl result s = Inr (k, r) \<Longrightarrow> length r < length s"
  by (blast dest: scan_key_Inr string_token_shorter)

text \<open>
  \<open>parse\<close>, and the loops of \<open>object\<close> and \<open>array\<close> after the opening bracket and the white space that
  follows it; the guards on the remaining length hold always (\<open>parse_shorter\<close>).
\<close>

function (sequential) parse_value :: "(string \<Rightarrow> string) \<Rightarrow> path \<Rightarrow> string \<Rightarrow> (json \<times> string \<times> spans) res"
  and parse_members :: "(string \<Rightarrow> string) \<Rightarrow> path \<Rightarrow> members \<Rightarrow> string \<Rightarrow> (json \<times> string \<times> spans) res"
  and parse_items :: "(string \<Rightarrow> string) \<Rightarrow> path \<Rightarrow> json list \<Rightarrow> string \<Rightarrow> (json \<times> string \<times> spans) res"
where
  "parse_value fl path s =
     (case ws s of
        [] \<Rightarrow> malformed ''Truncated JSON input''
      | c # r \<Rightarrow>
          if c = CHR ''{'' then
            (if startswith (ws r) ''}'' then Inr (JObj [], tl (ws r), [])
             else parse_members fl path [] (ws r))
          else if c = CHR ''['' then
            (if startswith (ws r) '']'' then Inr (JArr [], tl (ws r), [])
             else parse_items fl path [] (ws r))
          else bnd (token fl (ws s)) (\<lambda>(v, u).
            Inr (v, u, [(path, length (ws s), length u)])))"
| "parse_members fl path result s =
     bnd (scan_key fl result s) (\<lambda>ku.
       if \<not> startswith (ws (snd ku)) '':'' then malformed ''Malformed JSON object''
       else bnd (parse_value fl (path @ [Key (fst ku)]) (tl (ws (snd ku)))) (\<lambda>vw.
         let result' = result @ [(fst ku, fst vw)]; w = ws (fst (snd vw)) in
         if \<not> length (fst (snd vw)) < length s \<or> w = [] then malformed ''Truncated JSON object''
         else if startswith w ''}'' then Inr (JObj result', tl w, snd (snd vw))
         else if startswith w '','' then
           bnd (parse_members fl path result' (ws (tl w))) (\<lambda>vw'.
             Inr (fst vw', fst (snd vw'), snd (snd vw) @ snd (snd vw')))
         else malformed ''Malformed JSON object delimiter''))"
| "parse_items fl path result s =
     bnd (parse_value fl (path @ [Idx (length result)]) s) (\<lambda>vw.
       let result' = result @ [fst vw]; w = ws (fst (snd vw)) in
       if \<not> length (fst (snd vw)) < length s \<or> w = [] then malformed ''Truncated JSON array''
       else if startswith w '']'' then Inr (JArr result', tl w, snd (snd vw))
       else if startswith w '','' then
         bnd (parse_items fl path result' (ws (tl w))) (\<lambda>vw'.
           Inr (fst vw', fst (snd vw'), snd (snd vw) @ snd (snd vw')))
       else malformed ''Malformed JSON array delimiter'')"
  by pat_completeness auto
termination
proof (relation "measures [\<lambda>x. case x of Inl (_, _, s) \<Rightarrow> length s
      | Inr (Inl (_, _, _, s)) \<Rightarrow> length s | Inr (Inr (_, _, _, s)) \<Rightarrow> length s,
    \<lambda>x. case x of Inl _ \<Rightarrow> 0 | _ \<Rightarrow> 1]", goal_cases)
  case (2 fl path s c r)
  then show ?case using length_ws [of r] ws_ConsD [of s c r] by simp
next
  case (3 fl path s c r)
  then show ?case using length_ws [of r] ws_ConsD [of s c r] by simp
next
  case (4 fl path result s ku)
  then have "length (snd ku) < length s" by (cases ku) (auto dest: scan_key_shorter)
  then show ?case using length_ws [of "snd ku"] by (simp, linarith)
next
  case (5 fl path result s ku vw result' w)
  then show ?case
    using length_ws [of "fst (snd vw)"] length_ws [of "tl w"] by (simp, linarith)
next
  case (7 fl path result s vw result' w)
  then show ?case
    using length_ws [of "fst (snd vw)"] length_ws [of "tl w"] by (simp, linarith)
qed simp_all

declare parse_value.simps [simp del] parse_members.simps [simp del] parse_items.simps [simp del]

definition json_document :: "(string \<Rightarrow> string) \<Rightarrow> string \<Rightarrow> (string \<times> json \<times> spans) res" where
  "json_document fl text =
     bnd (parse_value fl [] text) (\<lambda>(data, r, spans).
       checks [vp_require (ws r = []) ''Unexpected content after JSON document'']
         (Inr (text, data, map (\<lambda>(p, a, b). (p, length text - a, length text - b)) spans)))"

section \<open>Edit\<close>

definition vp_scalar :: "json \<Rightarrow> json \<Rightarrow> json res" where
  "vp_scalar value old =
     checks [vp_require (is_str old \<or> is_int old) ''Owned version field must be a string or integer'',
             only_if (is_int old)
               (vp_require (is_int value) ''A numeric version field requires a numeric build projection'')]
       (Inr (if is_int old then value else JStr (py_str value)))"

text \<open>\<open>json.dumps(replacement, ensure_ascii=False)\<close> of a string or an integer.\<close>

definition scalar_text :: "json \<Rightarrow> string" where
  "scalar_text v = (case v of JStr s \<Rightarrow> json_string_raw s | _ \<Rightarrow> str_int (the_int v))"

type_synonym edit = "nat \<times> nat \<times> string"

definition json_fields :: "members \<Rightarrow> json \<Rightarrow> path list res" where
  "json_fields declaration data =
     bnd (item_res (JObj declaration) ''format'') (\<lambda>kind.
     if kind = JStr ''npm-lock'' then
       bnd (item_res (JObj declaration) ''package'') (\<lambda>package.
       checks [vp_require (is_dict data \<and> py_eq (dget (the_dict data) ''name'' JNull) package)
                 ''npm lock does not own the selected package'']
        (if \<not> has_key (the_dict data) ''packages'' then Inr [[Key ''version'']]
         else
           bnd (vp_get data [Key ''packages'', Key '''']) (\<lambda>own.
           checks [vp_require (is_dict own \<and>
                     py_eq (dget (the_dict own) ''name'' (dget (the_dict data) ''name'' JNull)) package)
                     ''npm lock root package identity mismatch'']
             (Inr [[Key ''version''], [Key ''packages'', Key '''', Key ''version'']]))))
     else
       bnd (item_res (JObj declaration) ''field'') (\<lambda>field.
       bnd (vp_field field) (\<lambda>names.
       checks [only_if (has_key declaration ''package'')
                 (vp_require (is_dict data \<and> py_eq (dget (the_dict data) ''name'' JNull)
                                                 (dget declaration ''package'' JNull))
                    ''JSON manifest does not own the selected package'')]
         (Inr [map Key names]))))"

text \<open>One turn of the loop over the fields.\<close>

definition plan_edit :: "json \<Rightarrow> spans \<Rightarrow> json \<Rightarrow> edit list \<times> json list \<Rightarrow> path \<Rightarrow> (edit list \<times> json list) res" where
  "plan_edit data spans value acc field =
     bnd (vp_get data field) (\<lambda>old.
     case map_of spans field of
       None \<Rightarrow> Inl (VersionError ''JSON version field is not a scalar'')
     | Some (start, stop) \<Rightarrow>
         bnd (vp_scalar value old) (\<lambda>replacement.
           Inr (if old \<noteq> replacement then fst acc @ [(start, stop, scalar_text replacement)] else fst acc,
                snd acc @ [old])))"

definition splice :: "string \<Rightarrow> edit \<Rightarrow> string" where
  "splice text e = take (fst e) text @ snd (snd e) @ drop (fst (snd e)) text"

definition apply_edits :: "string \<Rightarrow> edit list \<Rightarrow> string" where
  "apply_edits text edits = foldl splice text (rev (sort_key fst edits))"

definition json_edit :: "(string \<Rightarrow> string) \<Rightarrow> string \<Rightarrow> members \<Rightarrow> json \<Rightarrow> (string \<times> json list) res" where
  "json_edit fl raw declaration value =
     bnd (json_document fl raw) (\<lambda>(text, data, spans).
     bnd (json_fields declaration data) (\<lambda>fields.
     bnd (foldres (plan_edit data spans value) ([], []) fields) (\<lambda>(edits, previous).
       Inr (apply_edits text edits, previous))))"

end
