(* ===== verification/Json_Text_Facts.thy ===== *)
theory Json_Text_Facts
  imports Json_Text
begin

text \<open>
  A scalar token does not depend on what follows it, as long as what follows cannot continue a
  number: the lemma behind both directions of the grammar of documents.
\<close>

abbreviation no_digit :: "string \<Rightarrow> bool" where
  "no_digit u \<equiv> u = [] \<or> hd u \<notin> set digits"

lemma no_number_no_digit: "no_number_char u \<Longrightarrow> no_digit u"
  by (auto simp: no_number_char_def)

lemma takeWhile_digits_local:
  assumes "no_digit u"
  shows "takeWhile is_digit (takeWhile is_digit s @ u) = takeWhile is_digit s"
    and "dropWhile is_digit (takeWhile is_digit s @ u) = u"
proof -
  have "set (takeWhile is_digit s) \<subseteq> set digits" by (auto simp: is_digit_def dest: set_takeWhileD)
  then show "takeWhile is_digit (takeWhile is_digit s @ u) = takeWhile is_digit s"
    and "dropWhile is_digit (takeWhile is_digit s @ u) = u" using assms takeWhile_digits by blast+
qed

lemma scan_int_local:
  assumes "scan_int s = Some (i, r)" and "no_digit u"
  shows "scan_int (i @ u) = Some (i, u)"
proof -
  from assms(1) obtain c t where s: "s = c # t" by (cases s) (auto simp: scan_int_def)
  show ?thesis
  proof (cases "c = CHR ''0''")
    case True
    with assms(1) s have "i = [CHR ''0'']" by (simp add: scan_int_def)
    then show ?thesis by (simp add: scan_int_def)
  next
    case False
    with assms(1) s have i: "is_digit c" "i = takeWhile is_digit (c # t)"
      by (auto simp: scan_int_def split: if_splits)
    then have "i = c # takeWhile is_digit t" by simp
    with i False takeWhile_digits_local [OF assms(2), of "c # t"] show ?thesis
      by (simp add: scan_int_def)
  qed
qed

lemma scan_frac_local:
  assumes "scan_frac s = (f, r)" and "f \<noteq> []" and "no_digit u"
  shows "scan_frac (f @ u) = (f, u)"
proof -
  from assms(1,2) obtain d t where s: "s = CHR ''.'' # d # t" "is_digit d" "f = CHR ''.'' # d # takeWhile is_digit t"
    by (auto simp: scan_frac_def split: list.splits if_splits)
  with takeWhile_digits_local [OF assms(3), of t] show ?thesis by (simp add: scan_frac_def)
qed

lemma scan_int_hd: "scan_int s = Some (i, r) \<Longrightarrow> i \<noteq> [] \<and> hd i \<in> set digits"
proof -
  have "CHR ''0'' \<in> set digits" by (simp add: digits_def)
  then show "scan_int s = Some (i, r) \<Longrightarrow> i \<noteq> [] \<and> hd i \<in> set digits"
    by (cases s) (auto simp: scan_int_def is_digit_def split: if_splits)
qed

lemma scan_frac_hd: "scan_frac s = (f, r) \<Longrightarrow> f = [] \<or> hd f = CHR ''.''"
  by (auto simp: scan_frac_def split: list.splits if_splits)

lemma scan_frac_other: "u = [] \<or> hd u \<noteq> CHR ''.'' \<Longrightarrow> scan_frac u = ([], u)"
  by (auto simp: scan_frac_def split: list.splits)

lemma scan_exp_local:
  assumes "scan_exp s = (e, r)" and "e \<noteq> []" and "no_digit u"
  shows "scan_exp (e @ u) = (e, u) \<and> hd e \<in> {CHR ''e'', CHR ''E''}"
proof -
  let ?sg = "\<lambda>q. takeWhile (\<lambda>x. x = CHR ''+'' \<or> x = CHR ''-'') (take 1 q)"
  from assms(1,2) obtain c q where s: "s = c # q" "c = CHR ''e'' \<or> c = CHR ''E''"
    by (auto simp: scan_exp_def split: list.splits if_splits)
  define t where "t = drop (length (?sg q)) q"
  have t: "t \<noteq> []" "is_digit (hd t)" "e = c # ?sg q @ takeWhile is_digit t"
    using assms(1,2) s(2) by (auto simp: scan_exp_def s(1) Let_def t_def split: if_splits)
  have sg: "?sg (?sg q @ takeWhile is_digit t @ u) = ?sg q"
  proof (cases "?sg q")
    case Nil
    from t(1,2) have "hd (takeWhile is_digit t @ u) \<in> set digits" "takeWhile is_digit t @ u \<noteq> []"
      by (cases t; simp add: is_digit_def)+
    with Nil show ?thesis by (cases "takeWhile is_digit t @ u") (auto simp: digits_def)
  next
    case (Cons a as)
    then show ?thesis by (cases q) (auto split: if_splits)
  qed
  have "takeWhile is_digit t \<noteq> []" "is_digit (hd (takeWhile is_digit t @ u))"
    using t(1,2) by (cases t; simp)+
  with s(2) sg takeWhile_digits_local [OF assms(3), of t] show ?thesis
    by (auto simp: scan_exp_def t(3) Let_def)
qed

lemma scan_number_local:
  assumes "scan_number fl (x @ r) = Some (v, r)" and u: "no_number_char u"
  shows "scan_number fl (x @ u) = Some (v, u)
       \<and> (\<exists>c t. c \<in> set digits \<and> (x = c # t \<or> x = CHR ''-'' # c # t))"
proof -
  let ?s = "x @ r"
  let ?sg = "if startswith ?s ''-'' then ''-'' else []"
  let ?t = "if startswith ?s ''-'' then tl ?s else ?s"
  from assms(1) obtain i w where i: "scan_int ?t = Some (i, w)"
    by (simp add: scan_number_def Let_def split: option.splits prod.splits)
  obtain f q where f: "scan_frac w = (f, q)" by force
  obtain e r' where e: "scan_exp q = (e, r')" by force
  have v: "r' = r" "v = (if f = [] \<and> e = []
       then JInt (if startswith ?s ''-'' then - int (nat_of_digits i) else int (nat_of_digits i))
       else JFloat (fl (?sg @ i @ f @ e)))"
    using assms(1) by (simp_all add: scan_number_def Let_def i f e)
  have "?s = ?sg @ ?t" by (cases ?s) (auto simp: startswith_def)
  also have "\<dots> = ?sg @ i @ f @ e @ r"
    using scan_int_prefix [OF i] scan_frac_prefix [OF f] scan_exp_prefix [OF e] v(1) by simp
  finally have x: "x = ?sg @ i @ f @ e" by simp
  have ihd: "i \<noteq> [] \<and> hd i \<in> set digits"
    using scan_int_hd [OF i] .
  have eu: "scan_exp (e @ u) = (e, u)" and ehd: "e = [] \<or> hd e \<in> {CHR ''e'', CHR ''E''}"
    using scan_exp_local [OF e] scan_exp_none [OF u] no_number_no_digit [OF u] by (cases "e = []"; simp)+
  have letters: "CHR ''e'' \<notin> set digits" "CHR ''E'' \<notin> set digits" "CHR ''.'' \<notin> set digits"
    "CHR ''-'' \<notin> set digits" by (simp_all add: digits_def)
  have "no_digit (e @ u) \<and> (e @ u = [] \<or> hd (e @ u) \<noteq> CHR ''.'')"
  proof (cases "e = []")
    case True
    then show ?thesis using u by (auto simp: no_number_char_def)
  next
    case False
    then show ?thesis using ehd letters by auto
  qed
  then have nd: "no_digit (e @ u)" and ndot: "e @ u = [] \<or> hd (e @ u) \<noteq> CHR ''.''" by blast+
  have fu: "scan_frac (f @ e @ u) = (f, e @ u)"
    using scan_frac_local [OF f _ nd] scan_frac_other [OF ndot] by (cases "f = []") simp_all
  have fhd: "f = [] \<or> hd f = CHR ''.''" using scan_frac_hd [OF f] .
  have nf: "no_digit (f @ e @ u)" using fhd nd letters(3) by (cases "f = []") auto
  have iu: "scan_int (i @ f @ e @ u) = Some (i, f @ e @ u)" by (rule scan_int_local [OF i nf])
  from ihd obtain c t where c: "i = c # t" "c \<in> set digits" by (cases i) auto
  have dash: "c \<noteq> CHR ''-''" using c(2) letters(4) by blast
  show ?thesis
  proof (cases "startswith ?s ''-''")
    case True
    then have "x = CHR ''-'' # c # t @ f @ e" using x c by simp
    moreover from this True iu fu eu v(2) c have "scan_number fl (x @ u) = Some (v, u)"
      by (simp add: scan_number_def Let_def startswith_Cons)
    ultimately show ?thesis using c(2) by blast
  next
    case False
    then have "x = c # t @ f @ e" using x c by simp
    moreover from this False iu fu eu v(2) c dash have "scan_number fl (x @ u) = Some (v, u)"
      by (simp add: scan_number_def Let_def startswith_Cons)
    ultimately show ?thesis using c(2) by blast
  qed
qed

lemma literal_local:
  assumes "(w, v) \<in> set literals"
  shows "List.find (\<lambda>(w, _). startswith s w) literals = Some (w, v) \<longleftrightarrow> startswith s w"
proof
  assume "List.find (\<lambda>(w, _). startswith s w) literals = Some (w, v)"
  then show "startswith s w" by (auto dest: find_in_set)
next
  assume "startswith s w"
  then obtain t where s: "s = w @ t" by (auto simp: startswith_iff)
  from assms show "List.find (\<lambda>(w, _). startswith s w) literals = Some (w, v)"
    unfolding literals_def s by (simp, elim disjE; simp add: startswith_Cons)
qed

lemma number_no_literal:
  assumes "c \<in> set digits" and "s = c # t \<or> s = CHR ''-'' # c # t"
  shows "List.find (\<lambda>(w, _). startswith s w) literals = None \<and> \<not> startswith s [CHR 0x22]"
proof -
  have c: "c \<noteq> CHR ''n''" "c \<noteq> CHR ''t''" "c \<noteq> CHR ''f''" "c \<noteq> CHR ''N''" "c \<noteq> CHR ''I''"
    "c \<noteq> CHR 0x22" "c \<noteq> CHR ''-''"
    using assms(1) by (auto simp: digits_def)
  from assms(2) show ?thesis
    unfolding literals_def by (elim disjE) (simp_all add: startswith_Cons c c [symmetric])
qed

lemma token_local:
  assumes "token fl (x @ r) = Inr (v, r)" and u: "no_number_char u"
  shows "token fl (x @ u) = Inr (v, u)"
proof -
  from assms(1) have sc: "scan_scalar fl (x @ r) = Some (v, r)"
    by (auto simp: token_def bad_json_def split: option.splits)
  then have "x \<noteq> []" using scan_scalar_prefix [OF sc] by auto
  have "scan_scalar fl (x @ u) = Some (v, u)"
  proof (cases "startswith (x @ r) [CHR 0x22]")
    case True
    with \<open>x \<noteq> []\<close> obtain y where x: "x = CHR 0x22 # y" by (cases x) (auto simp: startswith_Cons)
    with sc True obtain k where k: "scan_chars (y @ r) = Some (k, r)" "v = JStr k"
      by (auto simp: scan_scalar_def)
    from scan_chars_prefix [OF k(1)] have "scan_chars (y @ u) = Some (k, u)" by auto
    with k(2) show ?thesis by (simp add: x scan_scalar_def startswith_Cons)
  next
    case F: False
    show ?thesis
    proof (cases "List.find (\<lambda>(w, _). startswith (x @ r) w) literals")
      case None
      with F sc have "scan_number fl (x @ r) = Some (v, r)" by (simp add: scan_scalar_def)
      from scan_number_local [OF this u] obtain c t where
        n: "scan_number fl (x @ u) = Some (v, u)" "c \<in> set digits" "x = c # t \<or> x = CHR ''-'' # c # t" by blast
      then have "x @ u = c # t @ u \<or> x @ u = CHR ''-'' # c # t @ u" by auto
      from number_no_literal [OF n(2) this] n(1) show ?thesis by (simp add: scan_scalar_def)
    next
      case (Some p)
      obtain w z where p: "p = (w, z)" by force
      from find_in_set [OF Some] have w: "startswith (x @ r) w" "(w, z) \<in> set literals" by (simp_all add: p)
      from Some F sc have "v = z" "r = drop (length w) (x @ r)" by (simp_all add: scan_scalar_def p)
      with startswith_drop [OF w(1)] have x: "x = w" by simp
      have "startswith (x @ u) w" by (simp add: x startswith_append)
      moreover have "hd w \<noteq> CHR 0x22" using w(2) by (auto simp: literals_def)
      then have "\<not> startswith (x @ u) [CHR 0x22]"
        using \<open>x \<noteq> []\<close> by (cases x) (auto simp: x [symmetric] startswith_Cons)
      ultimately show ?thesis using \<open>v = z\<close> literal_local [OF w(2), of "x @ u"]
        by (simp add: scan_scalar_def x)
    qed
  qed
  then show ?thesis by (simp add: token_def)
qed

lemma string_token_local: "string_token (x @ r) = Inr (k, r) \<Longrightarrow> string_token (x @ u) = Inr (k, u)"
proof -
  assume a: "string_token (x @ r) = Inr (k, r)"
  then have "x \<noteq> []" using string_token_shorter [OF a] by auto
  with a obtain y where x: "x = CHR 0x22 # y"
    by (cases x) (auto simp: string_token_def startswith_Cons bad_json_def split: if_splits)
  with a have "scan_chars (y @ r) = Some (k, r)"
    by (auto simp: string_token_def startswith_Cons bad_json_def split: option.splits)
  from scan_chars_prefix [OF this] show ?thesis by (auto simp: x string_token_def startswith_Cons)
qed

end
