(* ===== verification/Json_Document_Facts.thy ===== *)
theory Json_Document_Facts
  imports Json_Document Json_Text_Facts
begin

text \<open>
  The grammar of the documents that the span-preserving parser accepts (\<open>doc\<close>), with the place of
  every scalar; the parser computes exactly this grammar, and replacing a scalar token by another
  one gives a document whose data differ at that path only.
\<close>

section \<open>White space\<close>

definition is_ws :: "char \<Rightarrow> bool" where
  "is_ws c \<longleftrightarrow> c \<in> {CHR '' '', CHR 0x0A, CHR 0x0D, CHR 0x09}"

definition white :: "string \<Rightarrow> bool" where
  "white w \<longleftrightarrow> list_all is_ws w"

lemma ws_is_ws: "ws s = dropWhile is_ws s"
  unfolding ws_def is_ws_def ..

lemma ws_white [simp]: "white w \<Longrightarrow> ws (w @ s) = ws s"
  by (induction w) (auto simp: white_def ws_is_ws)

lemma white_Nil [simp]: "white []"
  by (simp add: white_def)

lemma ws_split: "\<exists>w. white w \<and> s = w @ ws s"
proof (intro exI conjI)
  show "white (takeWhile is_ws s)" by (auto simp: white_def list_all_iff dest: set_takeWhileD)
  show "s = takeWhile is_ws s @ ws s" by (simp add: ws_is_ws)
qed

lemma ws_fix: "\<not> is_ws c \<Longrightarrow> ws (c # s) = c # s"
  by (simp add: ws_is_ws)

lemma ws_hd: "ws s = c # r \<Longrightarrow> \<not> is_ws c"
  by (metis hd_dropWhile list.sel(1) list.simps(3) ws_is_ws)

lemma ws_ws [simp]: "ws (ws s) = ws s"
  by (cases "ws s") (use ws_hd [of s] in \<open>auto simp: ws_fix ws_is_ws\<close>)

lemma white_no_number:
  assumes "white w" and "r = [] \<or> hd r \<in> {CHR '','', CHR '']'', CHR ''}''}"
  shows "no_number_char (w @ r)"
proof (cases w)
  case Nil
  with assms(2) show ?thesis by (auto simp: no_number_char_def digits_def)
next
  case (Cons c t)
  with assms(1) have "is_ws c" by (simp add: white_def)
  then show ?thesis by (auto simp: Cons is_ws_def no_number_char_def digits_def)
qed

lemma no_number_ws:
  assumes "ws r = [] \<or> hd (ws r) \<in> {CHR '','', CHR '']'', CHR ''}''}"
  shows "no_number_char r"
  using ws_split [of r] white_no_number assms by metis

section \<open>Grammar\<close>

type_synonym places = "(path \<times> string \<times> string \<times> string) list"

definition token_ok :: "(string \<Rightarrow> string) \<Rightarrow> string \<Rightarrow> json \<Rightarrow> bool" where
  "token_ok fl t v \<longleftrightarrow> t \<noteq> [] \<and> \<not> is_ws (hd t) \<and> hd t \<notin> {CHR ''{'', CHR ''['', CHR '']''}
     \<and> (\<forall>u. no_number_char u \<longrightarrow> token fl (t @ u) = Inr (v, u))"

definition key_ok :: "string \<Rightarrow> string \<Rightarrow> bool" where
  "key_ok t k \<longleftrightarrow> (\<exists>y. t = CHR 0x22 # y) \<and> (\<forall>u. string_token (t @ u) = Inr (k, u))"

text \<open>The places of a text put into a larger one.\<close>

definition around :: "string \<Rightarrow> string \<Rightarrow> places \<Rightarrow> places" where
  "around a b sp = map (\<lambda>(q, x, t, y). (q, a @ x, t, y @ b)) sp"

inductive doc :: "(string \<Rightarrow> string) \<Rightarrow> path \<Rightarrow> json \<Rightarrow> string \<Rightarrow> places \<Rightarrow> bool"
  and mems :: "(string \<Rightarrow> string) \<Rightarrow> path \<Rightarrow> string list \<Rightarrow> members \<Rightarrow> string \<Rightarrow> places \<Rightarrow> bool"
  and items :: "(string \<Rightarrow> string) \<Rightarrow> path \<Rightarrow> nat \<Rightarrow> json list \<Rightarrow> string \<Rightarrow> places \<Rightarrow> bool"
  for fl :: "string \<Rightarrow> string"
where
  doc_token: "white w \<Longrightarrow> token_ok fl t v \<Longrightarrow> doc fl p v (w @ t) [(p, w, t, [])]"
| doc_object0: "white w \<Longrightarrow> white w1 \<Longrightarrow> doc fl p (JObj []) (w @ ''{'' @ w1 @ ''}'') []"
| doc_object: "white w \<Longrightarrow> white w1 \<Longrightarrow> mems fl p [] ms t sp \<Longrightarrow>
    doc fl p (JObj ms) (w @ ''{'' @ w1 @ t) (around (w @ ''{'' @ w1) [] sp)"
| doc_array0: "white w \<Longrightarrow> white w1 \<Longrightarrow> doc fl p (JArr []) (w @ ''['' @ w1 @ '']'') []"
| doc_array: "white w \<Longrightarrow> items fl p 0 vs t sp \<Longrightarrow>
    doc fl p (JArr vs) (w @ ''['' @ t) (around (w @ ''['') [] sp)"
| mems_last: "key_ok kt k \<Longrightarrow> k \<notin> set seen \<Longrightarrow> white w1 \<Longrightarrow> white w2 \<Longrightarrow> doc fl (p @ [Key k]) v t sp \<Longrightarrow>
    mems fl p seen [(k, v)] (kt @ w1 @ '':'' @ t @ w2 @ ''}'') (around (kt @ w1 @ '':'') (w2 @ ''}'') sp)"
| mems_more: "key_ok kt k \<Longrightarrow> k \<notin> set seen \<Longrightarrow> white w1 \<Longrightarrow> white w2 \<Longrightarrow> white w3 \<Longrightarrow>
    doc fl (p @ [Key k]) v t sp \<Longrightarrow> mems fl p (seen @ [k]) ms t2 sp2 \<Longrightarrow>
    mems fl p seen ((k, v) # ms) (kt @ w1 @ '':'' @ t @ w2 @ '','' @ w3 @ t2)
      (around (kt @ w1 @ '':'') (w2 @ '','' @ w3 @ t2) sp
       @ around (kt @ w1 @ '':'' @ t @ w2 @ '','' @ w3) [] sp2)"
| items_last: "white w2 \<Longrightarrow> doc fl (p @ [Idx i]) v t sp \<Longrightarrow>
    items fl p i [v] (t @ w2 @ '']'') (around [] (w2 @ '']'') sp)"
| items_more: "white w2 \<Longrightarrow> doc fl (p @ [Idx i]) v t sp \<Longrightarrow> items fl p (Suc i) vs t2 sp2 \<Longrightarrow>
    items fl p i (v # vs) (t @ w2 @ '','' @ t2)
      (around [] (w2 @ '','' @ t2) sp @ around (t @ w2 @ '','') [] sp2)"

lemma around_around [simp]: "around a b (around c d sp) = around (a @ c) (d @ b) sp"
  by (simp add: around_def case_prod_beta)

lemma around_append: "around a b (sp @ sp') = around a b sp @ around a b sp'"
  by (simp add: around_def)

lemma around_simps [simp]: "around [] [] sp = sp" "around a b [] = []"
  "around a b [(q, x, t, y)] = [(q, a @ x, t, y @ b)]"
  by (simp_all add: around_def case_prod_beta)

lemma white_append [simp]: "white (v @ w) \<longleftrightarrow> white v \<and> white w"
  by (simp add: white_def)

lemma doc_white:
  assumes "doc fl p v t sp" and "white w"
  shows "doc fl p v (w @ t) (around w [] sp)"
  using assms(1)
proof (cases rule: doc.cases)
  case (doc_token w' t')
  with assms(2) doc_mems_items.doc_token [of "w @ w'"] show ?thesis by simp
next
  case (doc_object0 w' w1)
  with assms(2) doc_mems_items.doc_object0 [of "w @ w'"] show ?thesis by simp
next
  case (doc_object w' w1 ms t' sp')
  with assms(2) doc_mems_items.doc_object [of "w @ w'" w1 fl p ms t' sp'] show ?thesis by simp
next
  case (doc_array0 w' w1)
  with assms(2) doc_mems_items.doc_array0 [of "w @ w'"] show ?thesis by simp
next
  case (doc_array w' vs t' sp')
  with assms(2) doc_mems_items.doc_array [of "w @ w'" fl p vs t' sp'] show ?thesis by simp
qed

lemma items_white:
  assumes "items fl p i vs t sp" and "white w"
  shows "items fl p i vs (w @ t) (around w [] sp)"
  using assms(1)
proof (cases rule: items.cases)
  case (items_last w2 v t' sp')
  from doc_mems_items.items_last [OF items_last(4) doc_white [OF items_last(5) assms(2)]]
  show ?thesis by (simp add: items_last)
next
  case (items_more w2 v t' sp' vs' t2 sp2)
  from doc_mems_items.items_more [OF items_more(4) doc_white [OF items_more(5) assms(2)] items_more(6)]
  show ?thesis by (simp add: items_more around_append)
qed

lemma ws_append: "ws t = c # u \<Longrightarrow> ws (t @ r) = c # u @ r"
proof -
  assume a: "ws t = c # u"
  obtain w where w: "white w" "t = w @ c # u" using ws_split [of t] a by auto
  show ?thesis using w ws_hd [OF a] by (simp add: ws_fix)
qed

text \<open>No document starts with a closing bracket.\<close>

lemma doc_start: "doc fl p v t sp \<Longrightarrow> \<exists>c u. ws t = c # u \<and> c \<noteq> CHR '']''"
proof (cases rule: doc.cases)
  assume "doc fl p v t sp"
  then show "doc fl p v t sp" .
next
  fix w t'
  assume "t = w @ t'" "white w" "token_ok fl t' v"
  then show ?thesis by (cases t') (auto simp: token_ok_def ws_fix)
qed (auto simp: ws_fix is_ws_def)

lemma items_start: "items fl p i vs t sp \<Longrightarrow> \<exists>c u. ws t = c # u \<and> c \<noteq> CHR '']''"
proof (cases rule: items.cases)
  assume "items fl p i vs t sp"
  then show "items fl p i vs t sp" .
qed (auto dest!: doc_start simp: ws_append)

section \<open>Documents are parsed as they are written\<close>

definition places :: "string \<Rightarrow> places \<Rightarrow> spans" where
  "places r sp = map (\<lambda>(q, x, t, y). (q, length (t @ y @ r), length (y @ r))) sp"

lemma places_around [simp]: "places r (around a b sp) = places (b @ r) sp"
  by (simp add: places_def around_def case_prod_beta)

lemma places_append [simp]: "places r (sp @ sp') = places r sp @ places r sp'"
  by (simp add: places_def)

lemma places_Nil [simp]: "places r [] = []"
  by (simp add: places_def)

lemma has_key_iff: "has_key m k \<longleftrightarrow> k \<in> set (map fst m)"
  by (auto simp: has_key_def map_of_eq_None_iff)

lemma key_ok_scan:
  assumes "key_ok kt k" and "k \<notin> set (map fst result)"
  shows "scan_key fl result (kt @ u) = Inr (k, u)"
proof -
  from assms(1) obtain y where kt: "kt = CHR 0x22 # y" and tok: "string_token (kt @ u) = Inr (k, u)"
    by (auto simp: key_ok_def)
  then have "token fl (kt @ u) = Inr (JStr k, u)" by (simp add: token_string)
  then have "raw_value fl None (kt @ u) = Inr (JStr k, u)" by (simp add: raw_value.simps kt)
  with assms(2) show ?thesis by (simp add: scan_key_def has_key_iff checks_def)
qed

lemma key_ok_length: "key_ok kt k \<Longrightarrow> 0 < length kt"
  by (auto simp: key_ok_def)

lemma doc_length: "doc fl p v t sp \<Longrightarrow> 0 < length t"
  using doc_start [of fl p v t sp] length_ws [of t] by auto

lemma parse_value_ws [simp]: "parse_value fl p (ws s) = parse_value fl p s"
  by (subst (1 2) parse_value.simps) (unfold ws_ws, rule refl)

lemma parse_object:
  assumes "ws s = CHR ''{'' # r" and "ws r = c # u"
  shows "parse_value fl p s = (if c = CHR ''}'' then Inr (JObj [], u, []) else parse_members fl p [] (ws r))"
  using assms by (subst parse_value.simps) (simp add: startswith_Cons)

lemma parse_array:
  assumes "ws s = CHR ''['' # r" and "ws r = c # u"
  shows "parse_value fl p s = (if c = CHR '']'' then Inr (JArr [], u, []) else parse_items fl p [] (ws r))"
  using assms by (subst parse_value.simps) (simp add: startswith_Cons)

lemma parse_token:
  assumes "ws s = c # u" and "c \<noteq> CHR ''{''" and "c \<noteq> CHR ''[''" and "token fl (ws s) = Inr (v, r)"
  shows "parse_value fl p s = Inr (v, r, [(p, length (ws s), length r)])"
  using assms by (subst parse_value.simps) simp

lemma parse_members_step:
  assumes "scan_key fl result s = Inr (k, u)" and "ws u = CHR '':'' # u'"
    and "parse_value fl (p @ [Key k]) u' = Inr (v, w, sp)" and "ws w = c # w'" and "length w < length s"
  shows "parse_members fl p result s =
    (if c = CHR ''}'' then Inr (JObj (result @ [(k, v)]), w', sp)
     else if c = CHR '','' then
       bnd (parse_members fl p (result @ [(k, v)]) (ws w')) (\<lambda>vw'.
         Inr (fst vw', fst (snd vw'), sp @ snd (snd vw')))
     else malformed ''Malformed JSON object delimiter'')"
  using assms by (subst parse_members.simps) (simp add: startswith_Cons Let_def)

lemma parse_items_step:
  assumes "parse_value fl (p @ [Idx (length result)]) s = Inr (v, w, sp)" and "ws w = c # w'"
    and "length w < length s"
  shows "parse_items fl p result s =
    (if c = CHR '']'' then Inr (JArr (result @ [v]), w', sp)
     else if c = CHR '','' then
       bnd (parse_items fl p (result @ [v]) (ws w')) (\<lambda>vw'.
         Inr (fst vw', fst (snd vw'), sp @ snd (snd vw')))
     else malformed ''Malformed JSON array delimiter'')"
  using assms by (subst parse_items.simps) (simp add: startswith_Cons Let_def)

lemma ws_punct [simp]:
  "ws (CHR '':'' # s) = CHR '':'' # s" "ws (CHR '','' # s) = CHR '','' # s"
  "ws (CHR ''{'' # s) = CHR ''{'' # s" "ws (CHR ''}'' # s) = CHR ''}'' # s"
  "ws (CHR ''['' # s) = CHR ''['' # s" "ws (CHR '']'' # s) = CHR '']'' # s"
  by (simp_all add: ws_fix is_ws_def)

lemma mems_start: "mems fl p seen ms t sp \<Longrightarrow> \<exists>u. t = CHR 0x22 # u"
  by (cases rule: mems.cases) (auto simp: key_ok_def)

lemma ws_quote [simp]: "ws (CHR 0x22 # s) = CHR 0x22 # s"
  by (simp add: ws_fix is_ws_def)

lemma value_then:
  assumes "\<forall>r. no_number_char r \<longrightarrow> parse_value fl p (t @ r) = Inr (v, r, places r sp)"
    and "white w" and "c \<in> {CHR '','', CHR '']'', CHR ''}''}"
  shows "parse_value fl p (t @ w @ c # r) = Inr (v, w @ c # r, places (w @ c # r) sp)"
proof -
  have "no_number_char (w @ c # r)" using assms(2,3) by (intro white_no_number) auto
  with assms(1) show ?thesis by blast
qed

lemma doc_parse_token:
  assumes "white w" and "token_ok fl t v" and "no_number_char r"
  shows "parse_value fl p ((w @ t) @ r) = Inr (v, r, places r [(p, w, t, [])])"
proof -
  from assms(2) obtain c u where t: "t = c # u" "\<not> is_ws c" "c \<noteq> CHR ''{''" "c \<noteq> CHR ''[''"
    by (cases t) (auto simp: token_ok_def)
  have s: "ws ((w @ t) @ r) = t @ r" using assms(1) t by (simp add: ws_fix)
  have "token fl (t @ r) = Inr (v, r)" using assms(2,3) by (simp add: token_ok_def)
  with t parse_token [of "(w @ t) @ r" c "u @ r" fl v r p] show ?thesis
    unfolding s by (simp add: places_def)
qed

lemma doc_parse_object0:
  assumes "white w" and "white w1"
  shows "parse_value fl p ((w @ ''{'' @ w1 @ ''}'') @ r) = Inr (JObj [], r, [])"
proof -
  have a: "ws ((w @ ''{'' @ w1 @ ''}'') @ r) = CHR ''{'' # (w1 @ CHR ''}'' # r)" using assms(1) by simp
  have b: "ws (w1 @ CHR ''}'' # r) = CHR ''}'' # r" using assms(2) by simp
  show ?thesis unfolding parse_object [OF a b] by simp
qed

lemma doc_parse_array0:
  assumes "white w" and "white w1"
  shows "parse_value fl p ((w @ ''['' @ w1 @ '']'') @ r) = Inr (JArr [], r, [])"
proof -
  have a: "ws ((w @ ''['' @ w1 @ '']'') @ r) = CHR ''['' # (w1 @ CHR '']'' # r)" using assms(1) by simp
  have b: "ws (w1 @ CHR '']'' # r) = CHR '']'' # r" using assms(2) by simp
  show ?thesis unfolding parse_array [OF a b] by simp
qed

lemma doc_parse_object:
  assumes "white w" and "white w1" and "t = CHR 0x22 # u"
    and "parse_members fl p [] (t @ r) = Inr (v, r, q)"
  shows "parse_value fl p ((w @ ''{'' @ w1 @ t) @ r) = Inr (v, r, q)"
proof -
  have a: "ws ((w @ ''{'' @ w1 @ t) @ r) = CHR ''{'' # (w1 @ t @ r)" using assms(1) by simp
  have s: "ws (w1 @ t @ r) = CHR 0x22 # (u @ r)" using assms(2,3) by simp
  show ?thesis unfolding parse_object [OF a s] using assms(3,4) s by simp
qed

lemma doc_parse_array:
  assumes "white w" and "ws t = c # u" and "c \<noteq> CHR '']''"
    and "parse_items fl p [] (ws (t @ r)) = Inr (v, r, q)"
  shows "parse_value fl p ((w @ ''['' @ t) @ r) = Inr (v, r, q)"
proof -
  have a: "ws ((w @ ''['' @ t) @ r) = CHR ''['' # (t @ r)" using assms(1) by simp
  have b: "ws (t @ r) = c # (u @ r)" using assms(2) by (rule ws_append)
  show ?thesis unfolding parse_array [OF a b] using assms(3,4) by simp
qed

lemma doc_parse_member:
  assumes "key_ok kt k" and "k \<notin> set (map fst result)" and "white w1" and "white w2" and "0 < length t"
    and v: "\<forall>r. no_number_char r \<longrightarrow> parse_value fl (p @ [Key k]) (t @ r) = Inr (v, r, places r sp)"
    and c: "c \<in> {CHR '','', CHR ''}''}"
  shows "parse_members fl p result (kt @ w1 @ CHR '':'' # t @ w2 @ c # r) =
    (if c = CHR ''}'' then Inr (JObj (result @ [(k, v)]), r, places (w2 @ c # r) sp)
     else bnd (parse_members fl p (result @ [(k, v)]) (ws r)) (\<lambda>vw'.
       Inr (fst vw', fst (snd vw'), places (w2 @ c # r) sp @ snd (snd vw'))))"
proof -
  let ?s = "kt @ w1 @ CHR '':'' # t @ w2 @ c # r"
  have 1: "scan_key fl result ?s = Inr (k, w1 @ CHR '':'' # t @ w2 @ c # r)"
    using assms(1,2) by (rule key_ok_scan)
  have 2: "ws (w1 @ CHR '':'' # t @ w2 @ c # r) = CHR '':'' # (t @ w2 @ c # r)" using assms(3) by simp
  have 3: "parse_value fl (p @ [Key k]) (t @ w2 @ c # r) = Inr (v, w2 @ c # r, places (w2 @ c # r) sp)"
    using v assms(4) c by (intro value_then) auto
  have 4: "ws (w2 @ c # r) = c # r" using assms(4) c by auto
  have 5: "length (w2 @ c # r) < length ?s" using assms(5) by simp
  show ?thesis unfolding parse_members_step [OF 1 2 3 4 5] using c by auto
qed

lemma doc_parse_item:
  assumes "white w2" and cu: "ws t = d # u"
    and v: "\<forall>r. no_number_char r \<longrightarrow> parse_value fl (p @ [Idx (length result)]) (t @ r) = Inr (v, r, places r sp)"
    and c: "c \<in> {CHR '','', CHR '']''}"
  shows "parse_items fl p result (ws (t @ w2 @ c # r)) =
    (if c = CHR '']'' then Inr (JArr (result @ [v]), r, places (w2 @ c # r) sp)
     else bnd (parse_items fl p (result @ [v]) (ws r)) (\<lambda>vw'.
       Inr (fst vw', fst (snd vw'), places (w2 @ c # r) sp @ snd (snd vw'))))"
proof -
  let ?s = "t @ w2 @ c # r"
  have 3: "parse_value fl (p @ [Idx (length result)]) (ws ?s) = Inr (v, w2 @ c # r, places (w2 @ c # r) sp)"
    unfolding parse_value_ws using v assms(1) c by (intro value_then) auto
  have 4: "ws (w2 @ c # r) = c # r" using assms(1) c by auto
  have 5: "length (w2 @ c # r) < length (ws ?s)" by (simp add: ws_append [OF cu])
  show ?thesis unfolding parse_items_step [OF 3 4 5] using c by auto
qed

lemma doc_parse:
  "doc fl p v t sp \<Longrightarrow> \<forall>r. no_number_char r \<longrightarrow> parse_value fl p (t @ r) = Inr (v, r, places r sp)"
  "mems fl p seen ms t sp \<Longrightarrow> \<forall>result r. map fst result = seen \<longrightarrow>
     parse_members fl p result (t @ r) = Inr (JObj (result @ ms), r, places r sp)"
  "items fl p i vs t sp \<Longrightarrow> \<forall>result r. length result = i \<longrightarrow>
     parse_items fl p result (ws (t @ r)) = Inr (JArr (result @ vs), r, places r sp)"
proof (induction rule: doc_mems_items.inducts)
  case (doc_token w t v p)
  then show ?case by (intro allI impI doc_parse_token)
next
  case (doc_object0 w w1 p)
  then show ?case by (simp only: doc_parse_object0 places_Nil simp_thms)
next
  case (doc_object w w1 p ms t sp)
  obtain u where u: "t = CHR 0x22 # u" using mems_start [OF doc_object(3)] by blast
  have "parse_members fl p [] (t @ r) = Inr (JObj ms, r, places r sp)" for r
    using doc_object(4) by simp
  from doc_parse_object [OF doc_object(1,2) u this] show ?case by simp
next
  case (doc_array0 w w1 p)
  then show ?case by (simp only: doc_parse_array0 places_Nil simp_thms)
next
  case (doc_array w p vs t sp)
  obtain c u where u: "ws t = c # u" "c \<noteq> CHR '']''" using items_start [OF doc_array(2)] by blast
  have "parse_items fl p [] (ws (t @ r)) = Inr (JArr vs, r, places r sp)" for r
    using doc_array(3) by simp
  from doc_parse_array [OF doc_array(1) u this] show ?case by simp
next
  case (mems_last kt k seen w1 w2 p v t sp)
  have "parse_members fl p result (kt @ w1 @ CHR '':'' # t @ w2 @ CHR ''}'' # r)
      = Inr (JObj (result @ [(k, v)]), r, places (w2 @ CHR ''}'' # r) sp)"
    if "map fst result = seen" for result r
    using doc_parse_member [OF mems_last(1) _ mems_last(3,4) doc_length [OF mems_last(5)]
        mems_last(6), of result "CHR ''}''" r] mems_last(2) that by simp
  then show ?case by simp
next
  case (mems_more kt k seen w1 w2 w3 p v t sp ms t2 sp2)
  obtain u where "t2 = CHR 0x22 # u" using mems_start [OF mems_more(8)] by blast
  then have skip: "ws (w3 @ t2 @ r) = t2 @ r" for r using mems_more(5) by simp
  have "parse_members fl p result (kt @ w1 @ CHR '':'' # t @ w2 @ CHR '','' # w3 @ t2 @ r)
      = Inr (JObj (result @ (k, v) # ms), r, places (w2 @ CHR '','' # w3 @ t2 @ r) sp @ places r sp2)"
    if "map fst result = seen" for result r
  proof -
    have "parse_members fl p (result @ [(k, v)]) (t2 @ r) = Inr (JObj (result @ (k, v) # ms), r, places r sp2)"
      using mems_more(9) that by simp
    then show ?thesis
      using doc_parse_member [OF mems_more(1) _ mems_more(3,4) doc_length [OF mems_more(6)]
          mems_more(7), of result "CHR '',''" "w3 @ t2 @ r"] mems_more(2) that skip by simp
  qed
  then show ?case by simp
next
  case (items_last w2 p i v t sp)
  obtain c u where cu: "ws t = c # u" using doc_start [OF items_last(2)] by blast
  have "parse_items fl p result (ws (t @ w2 @ CHR '']'' # r))
      = Inr (JArr (result @ [v]), r, places (w2 @ CHR '']'' # r) sp)"
    if i: "length result = i" for result r
    using doc_parse_item [OF items_last(1) cu, of fl p result v sp "CHR '']''" r] items_last(3) i by simp
  then show ?case by simp
next
  case (items_more w2 p i v t sp vs t2 sp2)
  obtain c u where cu: "ws t = c # u" using doc_start [OF items_more(2)] by blast
  have "parse_items fl p result (ws (t @ w2 @ CHR '','' # t2 @ r))
      = Inr (JArr (result @ v # vs), r, places (w2 @ CHR '','' # t2 @ r) sp @ places r sp2)"
    if i: "length result = i" for result r
  proof -
    have "parse_items fl p (result @ [v]) (ws (t2 @ r)) = Inr (JArr (result @ v # vs), r, places r sp2)"
      using items_more(5) i by simp
    then show ?thesis
      using doc_parse_item [OF items_more(1) cu, of fl p result v sp "CHR '',''" "t2 @ r"]
        items_more(3) i by simp
  qed
  then show ?case by simp
qed

section \<open>Everything parsed is a document\<close>

lemma startswith_single: "startswith s [c] \<longleftrightarrow> (\<exists>r. s = c # r)"
  by (cases s) (auto simp: startswith_Cons startswith_def)

lemma malformed_Inr [simp]: "malformed m \<noteq> Inr x"
  by (simp add: malformed_def)

lemma parse_value_cases:
  assumes "parse_value fl p s = Inr (v, r, q)"
  obtains (object0) u where "ws s = CHR ''{'' # u" "ws u = CHR ''}'' # r" "v = JObj []" "q = []"
  | (object) u where "ws s = CHR ''{'' # u" "parse_members fl p [] (ws u) = Inr (v, r, q)"
  | (array0) u where "ws s = CHR ''['' # u" "ws u = CHR '']'' # r" "v = JArr []" "q = []"
  | (array) u where "ws s = CHR ''['' # u" "parse_items fl p [] (ws u) = Inr (v, r, q)"
  | (token) c u where "ws s = c # u" "c \<noteq> CHR ''{''" "c \<noteq> CHR ''[''" "token fl (ws s) = Inr (v, r)"
      "q = [(p, length (ws s), length r)]"
proof (cases "ws s")
  case Nil
  with assms show thesis by (subst (asm) parse_value.simps) simp
next
  case s: (Cons c u)
  consider "c = CHR ''{''" | "c = CHR ''[''" | "c \<noteq> CHR ''{''" "c \<noteq> CHR ''[''" by blast
  then show thesis
  proof cases
    case 1
    show thesis
    proof (cases "startswith (ws u) ''}''")
      case True
      then obtain w where "ws u = CHR ''}'' # w" by (auto simp: startswith_single)
      with assms s 1 True show thesis by (subst (asm) parse_value.simps) (auto intro: object0)
    next
      case False
      with assms s 1 show thesis by (subst (asm) parse_value.simps) (auto intro: object)
    qed
  next
    case 2
    show thesis
    proof (cases "startswith (ws u) '']''")
      case True
      then obtain w where "ws u = CHR '']'' # w" by (auto simp: startswith_single)
      with assms s 2 True show thesis by (subst (asm) parse_value.simps) (auto intro: array0)
    next
      case False
      with assms s 2 show thesis by (subst (asm) parse_value.simps) (auto intro: array)
    qed
  next
    case 3
    with assms s show thesis by (subst (asm) parse_value.simps) (auto intro: token)
  qed
qed

lemma parse_members_cases:
  assumes "parse_members fl p result s = Inr (v, r, q)"
  obtains k u u' x w sp c w' where "scan_key fl result s = Inr (k, u)" "ws u = CHR '':'' # u'"
    "parse_value fl (p @ [Key k]) u' = Inr (x, w, sp)" "ws w = c # w'"
    "c = CHR ''}'' \<and> v = JObj (result @ [(k, x)]) \<and> r = w' \<and> q = sp
     \<or> c = CHR '','' \<and> (\<exists>sp'. parse_members fl p (result @ [(k, x)]) (ws w') = Inr (v, r, sp') \<and> q = sp @ sp')"
proof -
  from assms obtain k u x w sp where 1: "scan_key fl result s = Inr (k, u)" "startswith (ws u) '':''"
    "parse_value fl (p @ [Key k]) (tl (ws u)) = Inr (x, w, sp)" "length w < length s" "ws w \<noteq> []"
    by (subst (asm) parse_members.simps) (auto simp: Let_def split: if_splits)
  then obtain u' c w' where 2: "ws u = CHR '':'' # u'" "ws w = c # w'"
    by (cases "ws w") (auto simp: startswith_single)
  with 1 have "parse_members fl p result s =
    (if c = CHR ''}'' then Inr (JObj (result @ [(k, x)]), w', sp)
     else if c = CHR '','' then
       bnd (parse_members fl p (result @ [(k, x)]) (ws w')) (\<lambda>vw'.
         Inr (fst vw', fst (snd vw'), sp @ snd (snd vw')))
     else malformed ''Malformed JSON object delimiter'')"
    by (intro parse_members_step) auto
  with assms have "c = CHR ''}'' \<and> v = JObj (result @ [(k, x)]) \<and> r = w' \<and> q = sp
     \<or> c = CHR '','' \<and> (\<exists>sp'. parse_members fl p (result @ [(k, x)]) (ws w') = Inr (v, r, sp') \<and> q = sp @ sp')"
    by (auto split: if_splits)
  with 1(1,3) 2 that show thesis by auto
qed

lemma parse_items_cases:
  assumes "parse_items fl p result s = Inr (v, r, q)"
  obtains x w sp c w' where "parse_value fl (p @ [Idx (length result)]) s = Inr (x, w, sp)" "ws w = c # w'"
    "length w < length s"
    "c = CHR '']'' \<and> v = JArr (result @ [x]) \<and> r = w' \<and> q = sp
     \<or> c = CHR '','' \<and> (\<exists>sp'. parse_items fl p (result @ [x]) (ws w') = Inr (v, r, sp') \<and> q = sp @ sp')"
proof -
  from assms obtain x w sp where 1: "parse_value fl (p @ [Idx (length result)]) s = Inr (x, w, sp)"
    "length w < length s" "ws w \<noteq> []"
    by (subst (asm) parse_items.simps) (auto simp: Let_def split: if_splits)
  then obtain c w' where 2: "ws w = c # w'" by (cases "ws w") auto
  from assms [unfolded parse_items_step [OF 1(1) 2 1(2)]]
  have "c = CHR '']'' \<and> v = JArr (result @ [x]) \<and> r = w' \<and> q = sp
     \<or> c = CHR '','' \<and> (\<exists>sp'. parse_items fl p (result @ [x]) (ws w') = Inr (v, r, sp') \<and> q = sp @ sp')"
    by (auto split: if_splits)
  with 1 2 that show thesis by blast
qed

lemma token_ok_parsed:
  assumes "ws s = c # u" and "c \<noteq> CHR ''{''" and "c \<noteq> CHR ''[''" and "token fl (ws s) = Inr (v, r)"
  shows "\<exists>t. ws s = t @ r \<and> token_ok fl t v"
proof -
  have sc: "scan_scalar fl (ws s) = Some (v, r)"
    using assms(4) by (auto simp: token_def bad_json_def split: option.splits)
  then obtain t where t: "t \<noteq> []" "ws s = t @ r" using scan_scalar_prefix by blast
  have hd: "hd t = c" using t assms(1) by (cases t) auto
  have "c \<noteq> CHR '']''"
  proof
    assume "c = CHR '']''"
    with sc assms(1) show False
      by (simp add: scan_scalar_def literals_def startswith_Cons scan_number_def scan_int_def is_digit_def digits_def)
  qed
  moreover have "\<not> is_ws c" using ws_hd [OF assms(1)] .
  moreover have "token fl (t @ x) = Inr (v, x)" if "no_number_char x" for x
    using token_local that assms(4) t(2) by metis
  ultimately show ?thesis using t hd assms(2,3) unfolding token_ok_def by auto
qed

lemma key_ok_parsed:
  assumes "scan_key fl result s = Inr (k, u)"
  shows "\<exists>kt. s = kt @ u \<and> key_ok kt k \<and> k \<notin> set (map fst result)"
proof -
  from scan_key_Inr [OF assms] have k: "string_token s = Inr (k, u)" "k \<notin> set (map fst result)"
    by (auto simp: has_key_iff)
  then obtain y where s: "s = CHR 0x22 # y" and sc: "scan_chars y = Some (k, u)"
    by (cases s) (auto simp: string_token_def bad_json_def startswith_Cons split: if_splits option.splits)
  from scan_chars_prefix [OF sc] obtain x where x: "y = x @ u" by blast
  have "string_token ((CHR 0x22 # x) @ r) = Inr (k, r)" for r
    using string_token_local [of "CHR 0x22 # x" u k] k(1) s x by simp
  then have "key_ok (CHR 0x22 # x) k" unfolding key_ok_def by blast
  with k(2) s x show ?thesis by (intro exI [of _ "CHR 0x22 # x"]) simp
qed

definition value_doc :: "(string \<Rightarrow> string) \<Rightarrow> string \<Rightarrow> bool" where
  "value_doc fl s \<longleftrightarrow> (\<forall>p v r q. parse_value fl p s = Inr (v, r, q) \<longrightarrow>
      (\<exists>t sp. s = t @ r \<and> doc fl p v t sp \<and> q = places r sp))"

definition members_doc :: "(string \<Rightarrow> string) \<Rightarrow> string \<Rightarrow> bool" where
  "members_doc fl s \<longleftrightarrow> (\<forall>p result v r q. parse_members fl p result s = Inr (v, r, q) \<longrightarrow>
      (\<exists>ms t sp. v = JObj (result @ ms) \<and> s = t @ r \<and> mems fl p (map fst result) ms t sp \<and> q = places r sp))"

definition items_doc :: "(string \<Rightarrow> string) \<Rightarrow> string \<Rightarrow> bool" where
  "items_doc fl s \<longleftrightarrow> (\<forall>p result v r q. parse_items fl p result s = Inr (v, r, q) \<longrightarrow>
      (\<exists>vs t sp. v = JArr (result @ vs) \<and> s = t @ r \<and> items fl p (length result) vs t sp \<and> q = places r sp))"

lemma value_docD: "value_doc fl s \<Longrightarrow> parse_value fl p s = Inr (v, r, q) \<Longrightarrow>
    \<exists>t sp. s = t @ r \<and> doc fl p v t sp \<and> q = places r sp"
  by (simp add: value_doc_def)

lemma members_docD: "members_doc fl s \<Longrightarrow> parse_members fl p result s = Inr (v, r, q) \<Longrightarrow>
    \<exists>ms t sp. v = JObj (result @ ms) \<and> s = t @ r \<and> mems fl p (map fst result) ms t sp \<and> q = places r sp"
  by (simp add: members_doc_def)

lemma items_docD: "items_doc fl s \<Longrightarrow> parse_items fl p result s = Inr (v, r, q) \<Longrightarrow>
    \<exists>vs t sp. v = JArr (result @ vs) \<and> s = t @ r \<and> items fl p (length result) vs t sp \<and> q = places r sp"
  by (simp add: items_doc_def)

lemma inner_shorter: "ws s = c # u \<Longrightarrow> length (ws u) < length s"
  using ws_ConsD [of s c u] length_ws [of u] by linarith

lemma value_doc_step:
  assumes M: "\<And>s'. length s' < length s \<Longrightarrow> members_doc fl s'"
    and I: "\<And>s'. length s' < length s \<Longrightarrow> items_doc fl s'"
  shows "value_doc fl s"
  unfolding value_doc_def
proof (intro allI impI)
  fix p v r q assume "parse_value fl p s = Inr (v, r, q)"
  then show "\<exists>t sp. s = t @ r \<and> doc fl p v t sp \<and> q = places r sp"
  proof (cases rule: parse_value_cases)
    case (object0 u)
    obtain w w1 where w: "white w" "s = w @ ws s" "white w1" "u = w1 @ ws u" using ws_split by metis
    then have "s = (w @ ''{'' @ w1 @ ''}'') @ r" using object0(1,2) by simp
    with doc_object0 [OF w(1,3), of fl p] object0(3,4) show ?thesis by fastforce
  next
    case (object u)
    obtain w w1 where w: "white w" "s = w @ ws s" "white w1" "u = w1 @ ws u" using ws_split by metis
    obtain ms t sp where m: "v = JObj ms" "ws u = t @ r" "mems fl p [] ms t sp" "q = places r sp"
      using members_docD [OF M [OF inner_shorter [OF object(1)]] object(2)] by auto
    then have "s = (w @ ''{'' @ w1 @ t) @ r" using w object(1) by simp
    with doc_object [OF w(1,3) m(3)] m(1,4) show ?thesis by fastforce
  next
    case (array0 u)
    obtain w w1 where w: "white w" "s = w @ ws s" "white w1" "u = w1 @ ws u" using ws_split by metis
    then have "s = (w @ ''['' @ w1 @ '']'') @ r" using array0(1,2) by simp
    with doc_array0 [OF w(1,3), of fl p] array0(3,4) show ?thesis by fastforce
  next
    case (array u)
    obtain w w1 where w: "white w" "s = w @ ws s" "white w1" "u = w1 @ ws u" using ws_split by metis
    obtain vs t sp where i: "v = JArr vs" "ws u = t @ r" "items fl p 0 vs t sp" "q = places r sp"
      using items_docD [OF I [OF inner_shorter [OF array(1)]] array(2)] by auto
    then have "s = (w @ ''['' @ (w1 @ t)) @ r" using w array(1) by simp
    with doc_array [OF w(1) items_white [OF i(3) w(3)]] i(1,4) show ?thesis by fastforce
  next
    case (token c u)
    obtain w where w: "white w" "s = w @ ws s" using ws_split by metis
    obtain t where t: "ws s = t @ r" "token_ok fl t v" using token_ok_parsed token(1-4) by metis
    then have "s = (w @ t) @ r" using w(2) by simp
    moreover have "q = places r [(p, w, t, [])]" using token(5) t(1) by (simp add: places_def)
    ultimately show ?thesis using doc_token [OF w(1) t(2), of p] by blast
  qed
qed

lemma members_doc_step:
  assumes V: "\<And>s'. length s' < length s \<Longrightarrow> value_doc fl s'"
    and M: "\<And>s'. length s' < length s \<Longrightarrow> members_doc fl s'"
  shows "members_doc fl s"
  unfolding members_doc_def
proof (intro allI impI)
  fix p result v r q assume "parse_members fl p result s = Inr (v, r, q)"
  then obtain k u u' x w sp c w' where a: "scan_key fl result s = Inr (k, u)" "ws u = CHR '':'' # u'"
    "parse_value fl (p @ [Key k]) u' = Inr (x, w, sp)" "ws w = c # w'"
    and rest: "c = CHR ''}'' \<and> v = JObj (result @ [(k, x)]) \<and> r = w' \<and> q = sp
     \<or> c = CHR '','' \<and> (\<exists>sp'. parse_members fl p (result @ [(k, x)]) (ws w') = Inr (v, r, sp') \<and> q = sp @ sp')"
    by (rule parse_members_cases)
  obtain kt where kt: "s = kt @ u" "key_ok kt k" "k \<notin> set (map fst result)" using key_ok_parsed [OF a(1)] by blast
  obtain w1 where w1: "white w1" "u = w1 @ CHR '':'' # u'" using ws_split [of u] a(2) by auto
  obtain w2 where w2: "white w2" "w = w2 @ c # w'" using ws_split [of w] a(4) by auto
  have "length u' < length s" using kt(1) w1(2) by simp
  then obtain t sq where t: "u' = t @ w" "doc fl (p @ [Key k]) x t sq" "sp = places w sq"
    using value_docD [OF V a(3)] by blast
  from rest show "\<exists>ms t sp. v = JObj (result @ ms) \<and> s = t @ r \<and> mems fl p (map fst result) ms t sp \<and> q = places r sp"
  proof (elim disjE conjE exE)
    assume c: "c = CHR ''}''" "v = JObj (result @ [(k, x)])" "r = w'" "q = sp"
    then have "s = (kt @ w1 @ '':'' @ t @ w2 @ ''}'') @ r" using kt(1) w1(2) w2(2) t(1) by simp
    with mems_last [OF kt(2,3) w1(1) w2(1) t(2)] c(2-4) t(3) w2(2) c(1) show ?thesis by fastforce
  next
    fix sp' assume c: "c = CHR '',''" "parse_members fl p (result @ [(k, x)]) (ws w') = Inr (v, r, sp')" "q = sp @ sp'"
    obtain w3 where w3: "white w3" "w' = w3 @ ws w'" using ws_split by blast
    have "length (ws w') < length s" using kt(1) w1(2) t(1) w2(2) length_ws [of w'] by simp
    then obtain ms t2 sp2 where m: "v = JObj ((result @ [(k, x)]) @ ms)" "ws w' = t2 @ r"
      "mems fl p (map fst (result @ [(k, x)])) ms t2 sp2" "sp' = places r sp2"
      using members_docD [OF M c(2)] by blast
    then have m3: "mems fl p (map fst result @ [k]) ms t2 sp2" by simp
    have "s = (kt @ w1 @ '':'' @ t @ w2 @ '','' @ w3 @ t2) @ r"
      using kt(1) w1(2) w2(2) t(1) w3(2) c(1) m(2) by simp
    moreover have "q = places r (around (kt @ w1 @ '':'') (w2 @ '','' @ w3 @ t2) sq
        @ around (kt @ w1 @ '':'' @ t @ w2 @ '','' @ w3) [] sp2)"
      using c(1,3) t(3) m(2,4) w2(2) w3(2) by simp
    moreover have "v = JObj (result @ (k, x) # ms)" using m(1) by simp
    ultimately show ?thesis using mems_more [OF kt(2,3) w1(1) w2(1) w3(1) t(2) m3] by blast
  qed
qed

lemma items_doc_step:
  assumes V: "value_doc fl s" and I: "\<And>s'. length s' < length s \<Longrightarrow> items_doc fl s'"
  shows "items_doc fl s"
  unfolding items_doc_def
proof (intro allI impI)
  fix p result v r q assume "parse_items fl p result s = Inr (v, r, q)"
  then obtain x w sp c w' where a: "parse_value fl (p @ [Idx (length result)]) s = Inr (x, w, sp)" "ws w = c # w'"
    "length w < length s"
    and rest: "c = CHR '']'' \<and> v = JArr (result @ [x]) \<and> r = w' \<and> q = sp
     \<or> c = CHR '','' \<and> (\<exists>sp'. parse_items fl p (result @ [x]) (ws w') = Inr (v, r, sp') \<and> q = sp @ sp')"
    by (rule parse_items_cases)
  obtain w2 where w2: "white w2" "w = w2 @ c # w'" using ws_split [of w] a(2) by auto
  obtain t sq where t: "s = t @ w" "doc fl (p @ [Idx (length result)]) x t sq" "sp = places w sq"
    using value_docD [OF V a(1)] by blast
  from rest show "\<exists>vs t sp. v = JArr (result @ vs) \<and> s = t @ r \<and> items fl p (length result) vs t sp \<and> q = places r sp"
  proof (elim disjE conjE exE)
    assume c: "c = CHR '']''" "v = JArr (result @ [x])" "r = w'" "q = sp"
    then have "s = (t @ w2 @ '']'') @ r" using w2(2) t(1) by simp
    with items_last [OF w2(1) t(2)] c t(3) w2(2) show ?thesis by fastforce
  next
    fix sp' assume c: "c = CHR '',''" "parse_items fl p (result @ [x]) (ws w') = Inr (v, r, sp')" "q = sp @ sp'"
    obtain w3 where w3: "white w3" "w' = w3 @ ws w'" using ws_split by blast
    have "length (ws w') < length s" using a(3) w2(2) length_ws [of w'] by simp
    then obtain vs t2 sp2 where m: "v = JArr ((result @ [x]) @ vs)" "ws w' = t2 @ r"
      "items fl p (length (result @ [x])) vs t2 sp2" "sp' = places r sp2"
      using items_docD [OF I c(2)] by blast
    from m(3) have m3: "items fl p (Suc (length result)) vs t2 sp2" by simp
    have "s = (t @ w2 @ '','' @ (w3 @ t2)) @ r" using w2(2) t(1) w3(2) c(1) m(2) by simp
    moreover have "q = places r (around [] (w2 @ '','' @ w3 @ t2) sq
        @ around (t @ w2 @ '','') [] (around w3 [] sp2))"
      using c(1,3) t(3) m(2,4) w2(2) w3(2) by simp
    moreover have "v = JArr (result @ x # vs)" using m(1) by simp
    ultimately show ?thesis using items_more [OF w2(1) t(2) items_white [OF m3 w3(1)]] by blast
  qed
qed

lemma parse_doc: "value_doc fl s \<and> members_doc fl s \<and> items_doc fl s"
proof (induction "length s" arbitrary: s rule: less_induct)
  case less
  note V = less.hyps [THEN conjunct1] and M = less.hyps [THEN conjunct2, THEN conjunct1]
    and I = less.hyps [THEN conjunct2, THEN conjunct2]
  have v: "value_doc fl s" by (rule value_doc_step [OF M I])
  have m: "members_doc fl s" by (rule members_doc_step [OF V M])
  have i: "items_doc fl s" by (rule items_doc_step [OF v I])
  from v m i show ?case by blast
qed

end
