(* ===== verification/Json_Edit_Facts.thy ===== *)
theory Json_Edit_Facts
  imports Json_Document_Facts "HOL-Library.Multiset"
begin

text \<open>
  What \<open>_json_edit\<close> promises: the edited text is again a JSON document, and its data are the old
  data with the selected fs replaced.
\<close>

section \<open>Places of a document\<close>

lemma around_mem [simp]: "(q, x, t, y) \<in> set (around a b sp) \<longleftrightarrow>
    (\<exists>x' y'. (q, x', t, y') \<in> set sp \<and> x = a @ x' \<and> y = y' @ b)"
  by (force simp: around_def)

lemma mems_keys:
  "mems fl p seen ms t sp \<Longrightarrow> distinct (map fst ms) \<and> set (map fst ms) \<inter> set seen = {}"
proof (induction rule: doc_mems_items.inducts(2) [where ?P1.0 = "\<lambda>_ _ _ _. True" and ?P3.0 = "\<lambda>_ _ _ _ _. True"])
qed auto

lemma vp_get_Cons_member:
  "map_of ms k = Some z \<Longrightarrow> vp_get (JObj ms) (Key k # q) = vp_get z q"
  by (simp add: checks_def vp_require_def ensure_def)

lemma vp_get_Cons_item:
  "i < length vs \<Longrightarrow> vp_get (JArr vs) (Idx i # q) = vp_get (vs ! i) q"
  by (simp add: checks_def vp_require_def ensure_def)

definition value_places :: "(string \<Rightarrow> string) \<Rightarrow> path \<Rightarrow> json \<Rightarrow> string \<Rightarrow> places \<Rightarrow> bool" where
  "value_places fl p v t sp \<longleftrightarrow> (\<forall>q x tok y. (q, x, tok, y) \<in> set sp \<longrightarrow> t = x @ tok @ y \<and>
     (\<exists>q' old. q = p @ q' \<and> vp_get v q' = Inr old \<and> token_ok fl tok old))"

definition member_places :: "(string \<Rightarrow> string) \<Rightarrow> path \<Rightarrow> members \<Rightarrow> string \<Rightarrow> places \<Rightarrow> bool" where
  "member_places fl p ms t sp \<longleftrightarrow> (\<forall>q x tok y. (q, x, tok, y) \<in> set sp \<longrightarrow> t = x @ tok @ y \<and>
     (\<exists>k q' z old. q = p @ Key k # q' \<and> map_of ms k = Some z \<and> vp_get z q' = Inr old \<and> token_ok fl tok old))"

definition item_places :: "(string \<Rightarrow> string) \<Rightarrow> path \<Rightarrow> nat \<Rightarrow> json list \<Rightarrow> string \<Rightarrow> places \<Rightarrow> bool" where
  "item_places fl p i vs t sp \<longleftrightarrow> (\<forall>q x tok y. (q, x, tok, y) \<in> set sp \<longrightarrow> t = x @ tok @ y \<and>
     (\<exists>j q' old. q = p @ Idx (i + j) # q' \<and> j < length vs \<and> vp_get (vs ! j) q' = Inr old \<and> token_ok fl tok old))"

lemma value_placesE:
  assumes "value_places fl p v t sp" and "(q, x, tok, y) \<in> set sp"
  obtains q' old where "t = x @ tok @ y" "q = p @ q'" "vp_get v q' = Inr old" "token_ok fl tok old"
  using assms unfolding value_places_def by blast

lemma member_placesE:
  assumes "member_places fl p ms t sp" and "(q, x, tok, y) \<in> set sp"
  obtains k q' z old where "t = x @ tok @ y" "q = p @ Key k # q'" "map_of ms k = Some z" "vp_get z q' = Inr old"
    "token_ok fl tok old"
  using assms unfolding member_places_def by blast

lemma item_placesE:
  assumes "item_places fl p i vs t sp" and "(q, x, tok, y) \<in> set sp"
  obtains j q' old where "t = x @ tok @ y" "q = p @ Idx (i + j) # q'" "j < length vs" "vp_get (vs ! j) q' = Inr old"
    "token_ok fl tok old"
  using assms unfolding item_places_def by blast

lemma member_places_value:
  "member_places fl p ms t sp \<Longrightarrow> value_places fl p (JObj ms) (a @ t) (around a [] sp)"
  unfolding value_places_def
  by (auto elim!: member_placesE simp del: vp_get.simps intro: exI [of _ "Key _ # _"] simp: vp_get_Cons_member)

lemma item_places_value:
  "item_places fl p 0 vs t sp \<Longrightarrow> value_places fl p (JArr vs) (a @ t) (around a [] sp)"
  unfolding value_places_def
  by (auto elim!: item_placesE simp del: vp_get.simps intro: exI [of _ "Idx _ # _"] simp: vp_get_Cons_item)

lemma value_places_member:
  "value_places fl (p @ [Key k]) v t sp \<Longrightarrow> member_places fl p ((k, v) # ms) (a @ t @ b) (around a b sp)"
  unfolding member_places_def by (auto elim!: value_placesE)

lemma member_places_Cons:
  assumes "member_places fl p ms t sp" and "k \<notin> fst ` set ms"
  shows "member_places fl p ((k, v) # ms) (a @ t) (around a [] sp)"
proof -
  have "k' \<noteq> k" if "map_of ms k' = Some z" for k' z using that assms(2) by (force dest: map_of_SomeD)
  with assms(1) show ?thesis unfolding member_places_def [of _ _ "_ # _"]
    by (auto elim!: member_placesE) blast
qed

lemma value_places_item:
  "value_places fl (p @ [Idx i]) v t sp \<Longrightarrow> item_places fl p i (v # vs) (t @ b) (around [] b sp)"
  unfolding item_places_def by (auto elim!: value_placesE intro!: exI [of _ 0])

lemma item_places_Cons:
  "item_places fl p (Suc i) vs t sp \<Longrightarrow> item_places fl p i (v # vs) (a @ t) (around a [] sp)"
  unfolding item_places_def [of _ _ i] by (auto elim!: item_placesE intro!: exI [of _ "Suc _"])

lemma member_places_append:
  "member_places fl p ms t sp \<Longrightarrow> member_places fl p ms t sp' \<Longrightarrow> member_places fl p ms t (sp @ sp')"
  unfolding member_places_def by auto

lemma item_places_append:
  "item_places fl p i vs t sp \<Longrightarrow> item_places fl p i vs t sp' \<Longrightarrow> item_places fl p i vs t (sp @ sp')"
  unfolding item_places_def by auto

lemma doc_places:
  "doc fl p v t sp \<Longrightarrow> value_places fl p v t sp"
  "mems fl p seen ms t sp \<Longrightarrow> member_places fl p ms t sp"
  "items fl p i vs t sp \<Longrightarrow> item_places fl p i vs t sp"
proof (induction rule: doc_mems_items.inducts)
  case (doc_token w t v p)
  then show ?case by (simp add: value_places_def)
next
  case (doc_object w w1 p ms t sp)
  from member_places_value [OF doc_object(4), of "w @ ''{'' @ w1"] show ?case by simp
next
  case (doc_array w p vs t sp)
  from item_places_value [OF doc_array(3), of "w @ ''[''"] show ?case by simp
next
  case (mems_last kt k seen w1 w2 p v t sp)
  from value_places_member [OF mems_last(6), of "[]" "kt @ w1 @ '':''" "w2 @ ''}''"] show ?case by simp
next
  case (mems_more kt k seen w1 w2 w3 p v t sp ms t2 sp2)
  have "k \<notin> fst ` set ms" using mems_keys [OF mems_more(8)] by auto
  from member_places_Cons [OF mems_more(9) this, of v "kt @ w1 @ '':'' @ t @ w2 @ '','' @ w3"]
    value_places_member [OF mems_more(7), of ms "kt @ w1 @ '':''" "w2 @ '','' @ w3 @ t2"]
  show ?case by (intro member_places_append) simp_all
next
  case (items_last w2 p i v t sp)
  from value_places_item [OF items_last(3)] show ?case .
next
  case (items_more w2 p i v t sp vs t2 sp2)
  from item_places_Cons [OF items_more(5), of v "t @ w2 @ '',''"]
    value_places_item [OF items_more(3), of vs "w2 @ '','' @ t2"]
  show ?case by (intro item_places_append) simp_all
qed (simp_all add: value_places_def)

text \<open>The places are listed from left to right and do not overlap.\<close>

definition before :: "path \<times> string \<times> string \<times> string \<Rightarrow> path \<times> string \<times> string \<times> string \<Rightarrow> bool" where
  "before a b \<longleftrightarrow> length (fst (snd a)) + length (fst (snd (snd a))) \<le> length (fst (snd b))"

lemma sorted_around:
  "sorted_wrt before sp \<Longrightarrow> sorted_wrt before (around a b sp)"
  unfolding around_def sorted_wrt_map by (erule sorted_wrt_mono_rel [rotated]) (auto simp: before_def)

lemma sorted_two:
  assumes "sorted_wrt before sp" and "sorted_wrt before sp2"
    and "value_places fl p v t sp"
    and "length a + length t \<le> length c"
  shows "sorted_wrt before (around a b sp @ around c d sp2)"
proof -
  have sub: "length x + length tok \<le> length t" if "(q, x, tok, y) \<in> set sp" for q x tok y
    using assms(3) that by (rule value_placesE) simp
  have "before u v" if mu: "u \<in> set (around a b sp)" and mv: "v \<in> set (around c d sp2)" for u v
  proof -
    obtain q x tok y where u: "u = (q, a @ x, tok, y @ b)" "(q, x, tok, y) \<in> set sp"
      using mu by (auto simp: around_def)
    obtain q2 x2 tok2 y2 where v: "v = (q2, c @ x2, tok2, y2)" using mv by (auto simp: around_def)
    from sub [OF u(2)] assms(4) show ?thesis by (simp add: before_def u(1) v)
  qed
  then show ?thesis using sorted_around assms(1,2) by (auto simp: sorted_wrt_append)
qed

lemma doc_sorted:
  "doc fl p v t sp \<Longrightarrow> sorted_wrt before sp"
  "mems fl p seen ms t sp \<Longrightarrow> sorted_wrt before sp"
  "items fl p i vs t sp \<Longrightarrow> sorted_wrt before sp"
proof (induction rule: doc_mems_items.inducts)
  case (mems_more kt k seen w1 w2 w3 p v t sp ms t2 sp2)
  then show ?case using doc_places(1) [OF mems_more(6)] by (intro sorted_two [of _ _ fl _ v t]) auto
next
  case (items_more w2 p i v t sp vs t2 sp2)
  then show ?case using doc_places(1) [OF items_more(2)] by (intro sorted_two [of _ _ fl _ v t]) auto
qed (auto intro: sorted_around)

section \<open>Replacing one token\<close>

text \<open>
  The result of replacing the token at a place by one for the value \<open>v'\<close>: a document over the same
  text with the token exchanged, whose data differ at the path only and whose places left of the
  token are the old ones.
\<close>

definition keeps :: "nat \<Rightarrow> places \<Rightarrow> places \<Rightarrow> bool" where
  "keeps n sp sp' \<longleftrightarrow> (\<forall>q x tok y. (q, x, tok, y) \<in> set sp \<longrightarrow> length x < n \<longrightarrow>
      (\<exists>y'. (q, x, tok, y') \<in> set sp'))"

lemma keepsE:
  assumes "keeps n sp sp'" and "(q, x, tok, y) \<in> set sp" and "length x < n"
  obtains y' where "(q, x, tok, y') \<in> set sp'"
  using assms unfolding keeps_def by blast

lemma keeps_around: "keeps n sp sp' \<Longrightarrow> keeps (length a + n) (around a b sp) (around a d sp')"
  unfolding keeps_def [of "length a + n"] by (auto elim!: keepsE)

lemma keeps_append_left:
  assumes "keeps n sp sp'" and "length a + n \<le> length c"
  shows "keeps (length a + n) (around a b sp @ around c d sp2) (around a b' sp' @ r)"
  unfolding keeps_def [of "length a + n"] using assms(2) by (auto elim!: keepsE [OF assms(1)])

lemma keeps_append_right:
  assumes "keeps n sp2 sp2'"
  shows "keeps (length c + n) (around a b sp @ around c d sp2) (around a b' sp @ around c d' sp2')"
  unfolding keeps_def [of "length c + n"]
  by (auto elim!: keepsE [OF assms]) (metis around_mem in_set_conv_nth nth_mem)?

definition value_edit where
  "value_edit fl tok' v' p v t sp \<longleftrightarrow> (\<forall>q x tok y. (q, x, tok, y) \<in> set sp \<longrightarrow>
     (\<exists>q' sp'. q = p @ q' \<and> doc fl p (put_path v q' v') (x @ tok' @ y) sp' \<and> keeps (length x) sp sp'))"

definition member_edit where
  "member_edit fl tok' v' p seen ms t sp \<longleftrightarrow> (\<forall>q x tok y. (q, x, tok, y) \<in> set sp \<longrightarrow>
     (\<exists>k q' sp'. q = p @ Key k # q' \<and> k \<in> fst ` set ms
        \<and> mems fl p seen (map_key ms k (\<lambda>z. put_path z q' v')) (x @ tok' @ y) sp' \<and> keeps (length x) sp sp'))"

definition item_edit where
  "item_edit fl tok' v' p i vs t sp \<longleftrightarrow> (\<forall>q x tok y. (q, x, tok, y) \<in> set sp \<longrightarrow>
     (\<exists>j q' sp'. q = p @ Idx (i + j) # q' \<and> j < length vs
        \<and> items fl p i (vs[j := put_path (vs ! j) q' v']) (x @ tok' @ y) sp' \<and> keeps (length x) sp sp'))"

lemma value_editE:
  assumes "value_edit fl tok' v' p v t sp" and "(q, x, tok, y) \<in> set sp"
  obtains q' sp' where "q = p @ q'" "doc fl p (put_path v q' v') (x @ tok' @ y) sp'" "keeps (length x) sp sp'"
  using assms(1) [unfolded value_edit_def, rule_format, OF assms(2)] by (elim exE conjE) (rule that)

lemma member_editE:
  assumes "member_edit fl tok' v' p seen ms t sp" and "(q, x, tok, y) \<in> set sp"
  obtains k q' sp' where "q = p @ Key k # q'" "k \<in> fst ` set ms"
    "mems fl p seen (map_key ms k (\<lambda>z. put_path z q' v')) (x @ tok' @ y) sp'" "keeps (length x) sp sp'"
  using assms(1) [unfolded member_edit_def, rule_format, OF assms(2)] by (elim exE conjE) (rule that)

lemma item_editE:
  assumes "item_edit fl tok' v' p i vs t sp" and "(q, x, tok, y) \<in> set sp"
  obtains j q' sp' where "q = p @ Idx (i + j) # q'" "j < length vs"
    "items fl p i (vs[j := put_path (vs ! j) q' v']) (x @ tok' @ y) sp'" "keeps (length x) sp sp'"
  using assms(1) [unfolded item_edit_def, rule_format, OF assms(2)] by (elim exE conjE) (rule that)

lemma edit_token:
  assumes "white w" and "token_ok fl tok' v'"
  shows "value_edit fl tok' v' p v (w @ t) [(p, w, t, [])]"
  unfolding value_edit_def
proof (intro allI impI)
  fix q and x tok y :: string assume "(q, x, tok, y) \<in> set [(p, w, t, [])]"
  then have q: "q = p @ []" and x: "x = w" "y = []" by simp_all
  have "doc fl p (put_path v [] v') (x @ tok' @ y) [(p, w, tok', [])]"
    using doc_token [OF assms, of p] by (simp add: x)
  moreover have "keeps (length x) [(p, w, t, [])] [(p, w, tok', [])]" by (simp add: keeps_def x)
  ultimately show "\<exists>q' sp'. q = p @ q' \<and> doc fl p (put_path v q' v') (x @ tok' @ y) sp'
      \<and> keeps (length x) [(p, w, t, [])] sp'" using q by (intro exI conjI)
qed

lemma edit_object:
  assumes "white w" and "white w1" and IH: "member_edit fl tok' v' p [] ms t sp"
  shows "value_edit fl tok' v' p (JObj ms) (w @ ''{'' @ w1 @ t) (around (w @ ''{'' @ w1) [] sp)"
  unfolding value_edit_def
proof (intro allI impI)
  fix q x tok y assume "(q, x, tok, y) \<in> set (around (w @ ''{'' @ w1) [] sp)"
  then obtain x' where x: "(q, x', tok, y) \<in> set sp" "x = (w @ ''{'' @ w1) @ x'" by auto
  from IH x(1) obtain k q' sp' where e: "q = p @ Key k # q'"
    "mems fl p [] (map_key ms k (\<lambda>z. put_path z q' v')) (x' @ tok' @ y) sp'" "keeps (length x') sp sp'"
    by (rule member_editE)
  from doc_object [OF assms(1,2) e(2)] keeps_around [OF e(3), of "w @ ''{'' @ w1" "[]" "[]"] e(1)
  show "\<exists>q' sp'. q = p @ q' \<and> doc fl p (put_path (JObj ms) q' v') (x @ tok' @ y) sp'
      \<and> keeps (length x) (around (w @ ''{'' @ w1) [] sp) sp'"
    by (intro exI [of _ "Key k # q'"] exI [of _ "around (w @ ''{'' @ w1) [] sp'"]) (simp add: x(2) add.assoc)
qed

lemma edit_array:
  assumes "white w" and IH: "item_edit fl tok' v' p 0 vs t sp"
  shows "value_edit fl tok' v' p (JArr vs) (w @ ''['' @ t) (around (w @ ''['') [] sp)"
  unfolding value_edit_def
proof (intro allI impI)
  fix q x tok y assume "(q, x, tok, y) \<in> set (around (w @ ''['') [] sp)"
  then obtain x' where x: "(q, x', tok, y) \<in> set sp" "x = (w @ ''['') @ x'" by auto
  from IH x(1) obtain j q' sp' where e: "q = p @ Idx (0 + j) # q'" "j < length vs"
    "items fl p 0 (vs[j := put_path (vs ! j) q' v']) (x' @ tok' @ y) sp'" "keeps (length x') sp sp'"
    by (rule item_editE)
  from doc_array [OF assms(1) e(3)] keeps_around [OF e(4), of "w @ ''[''" "[]" "[]"] e(1,2)
  show "\<exists>q' sp'. q = p @ q' \<and> doc fl p (put_path (JArr vs) q' v') (x @ tok' @ y) sp'
      \<and> keeps (length x) (around (w @ ''['') [] sp) sp'"
    by (intro exI [of _ "Idx j # q'"] exI [of _ "around (w @ ''['') [] sp'"]) (simp add: x(2) add.assoc)
qed

lemma edit_last:
  assumes k: "key_ok kt k" "k \<notin> set seen" "white w1" "white w2"
    and IH: "value_edit fl tok' v' (p @ [Key k]) v t sp"
  shows "member_edit fl tok' v' p seen [(k, v)] (kt @ w1 @ '':'' @ t @ w2 @ ''}'')
           (around (kt @ w1 @ '':'') (w2 @ ''}'') sp)"
  unfolding member_edit_def
proof (intro allI impI)
  fix q x tok y assume "(q, x, tok, y) \<in> set (around (kt @ w1 @ '':'') (w2 @ ''}'') sp)"
  then obtain x' y' where x: "(q, x', tok, y') \<in> set sp" "x = (kt @ w1 @ '':'') @ x'" "y = y' @ w2 @ ''}''" by auto
  from IH x(1) obtain q' sp' where e: "q = (p @ [Key k]) @ q'"
    "doc fl (p @ [Key k]) (put_path v q' v') (x' @ tok' @ y') sp'" "keeps (length x') sp sp'" by (rule value_editE)
  from mems_last [OF k e(2)] keeps_around [OF e(3), of "kt @ w1 @ '':''" "w2 @ ''}''" "w2 @ ''}''"] e(1)
  show "\<exists>k' q' sp'. q = p @ Key k' # q' \<and> k' \<in> fst ` set [(k, v)]
      \<and> mems fl p seen (map_key [(k, v)] k' (\<lambda>z. put_path z q' v')) (x @ tok' @ y) sp'
      \<and> keeps (length x) (around (kt @ w1 @ '':'') (w2 @ ''}'') sp) sp'"
    by (intro exI [of _ k] exI [of _ q'] exI [of _ "around (kt @ w1 @ '':'') (w2 @ ''}'') sp'"])
      (simp add: x(2,3) add.assoc)
qed

lemma edit_more_head:
  assumes k: "key_ok kt k" "k \<notin> set seen" "white w1" "white w2" "white w3"
    and IH: "value_edit fl tok' v' (p @ [Key k]) v t sp" and pl: "value_places fl (p @ [Key k]) v t sp"
    and rest: "mems fl p (seen @ [k]) ms t2 sp2"
    and x: "(q, x', tok, y') \<in> set sp"
  shows "\<exists>q' sp'. q = p @ Key k # q' \<and> mems fl p seen ((k, put_path v q' v') # ms)
      ((kt @ w1 @ '':'' @ x') @ tok' @ (y' @ w2 @ '','' @ w3 @ t2)) sp'
      \<and> keeps (length (kt @ w1 @ '':'' @ x')) (around (kt @ w1 @ '':'') (w2 @ '','' @ w3 @ t2) sp
       @ around (kt @ w1 @ '':'' @ t @ w2 @ '','' @ w3) [] sp2) sp'"
proof -
  from IH x obtain q' sp' where e: "q = (p @ [Key k]) @ q'"
    "doc fl (p @ [Key k]) (put_path v q' v') (x' @ tok' @ y') sp'" "keeps (length x') sp sp'" by (rule value_editE)
  from pl x have t: "t = x' @ tok @ y'" by (rule value_placesE)
  have "length (kt @ w1 @ '':'') + length x' \<le> length (kt @ w1 @ '':'' @ t @ w2 @ '','' @ w3)"
    by (simp add: t)
  from keeps_append_left [OF e(3) this] have "keeps (length (kt @ w1 @ '':'' @ x'))
      (around (kt @ w1 @ '':'') (w2 @ '','' @ w3 @ t2) sp
       @ around (kt @ w1 @ '':'' @ t @ w2 @ '','' @ w3) [] sp2)
      (around (kt @ w1 @ '':'') (w2 @ '','' @ w3 @ t2) sp'
       @ around (kt @ w1 @ '':'' @ (x' @ tok' @ y') @ w2 @ '','' @ w3) [] sp2)"
    by (simp add: add.assoc)
  moreover from mems_more [OF k e(2) rest] have "mems fl p seen ((k, put_path v q' v') # ms)
      ((kt @ w1 @ '':'' @ x') @ tok' @ (y' @ w2 @ '','' @ w3 @ t2))
      (around (kt @ w1 @ '':'') (w2 @ '','' @ w3 @ t2) sp'
       @ around (kt @ w1 @ '':'' @ (x' @ tok' @ y') @ w2 @ '','' @ w3) [] sp2)" by simp
  ultimately show ?thesis using e(1) by auto
qed

lemma edit_more_tail:
  assumes k: "key_ok kt k" "k \<notin> set seen" "white w1" "white w2" "white w3"
    and v: "doc fl (p @ [Key k]) v t sp"
    and rest: "mems fl p (seen @ [k]) ms t2 sp2" and IH: "member_edit fl tok' v' p (seen @ [k]) ms t2 sp2"
    and x: "(q, x', tok, y) \<in> set sp2"
  shows "\<exists>k' q' sp'. q = p @ Key k' # q' \<and> k' \<in> fst ` set ms \<and> k' \<noteq> k
      \<and> mems fl p seen ((k, v) # map_key ms k' (\<lambda>z. put_path z q' v'))
          ((kt @ w1 @ '':'' @ t @ w2 @ '','' @ w3 @ x') @ tok' @ y) sp'
      \<and> keeps (length (kt @ w1 @ '':'' @ t @ w2 @ '','' @ w3 @ x'))
          (around (kt @ w1 @ '':'') (w2 @ '','' @ w3 @ t2) sp
           @ around (kt @ w1 @ '':'' @ t @ w2 @ '','' @ w3) [] sp2) sp'"
proof -
  from IH x obtain k' q' sp' where e: "q = p @ Key k' # q'" "k' \<in> fst ` set ms"
    "mems fl p (seen @ [k]) (map_key ms k' (\<lambda>z. put_path z q' v')) (x' @ tok' @ y) sp'" "keeps (length x') sp2 sp'"
    by (rule member_editE)
  have "k' \<noteq> k" using mems_keys [OF rest] e(2) by auto
  moreover from keeps_append_right [OF e(4), of "kt @ w1 @ '':'' @ t @ w2 @ '','' @ w3" "kt @ w1 @ '':''"
      "w2 @ '','' @ w3 @ t2" sp "[]" "w2 @ '','' @ w3 @ x' @ tok' @ y" "[]"]
  have "keeps (length (kt @ w1 @ '':'' @ t @ w2 @ '','' @ w3 @ x'))
      (around (kt @ w1 @ '':'') (w2 @ '','' @ w3 @ t2) sp
       @ around (kt @ w1 @ '':'' @ t @ w2 @ '','' @ w3) [] sp2)
      (around (kt @ w1 @ '':'') (w2 @ '','' @ w3 @ x' @ tok' @ y) sp
       @ around (kt @ w1 @ '':'' @ t @ w2 @ '','' @ w3) [] sp')"
    by (simp add: add.assoc)
  moreover from mems_more [OF k v e(3)] have "mems fl p seen ((k, v) # map_key ms k' (\<lambda>z. put_path z q' v'))
      ((kt @ w1 @ '':'' @ t @ w2 @ '','' @ w3 @ x') @ tok' @ y)
      (around (kt @ w1 @ '':'') (w2 @ '','' @ w3 @ x' @ tok' @ y) sp
       @ around (kt @ w1 @ '':'' @ t @ w2 @ '','' @ w3) [] sp')" by simp
  ultimately show ?thesis using e(1,2) by blast
qed

lemma edit_more:
  assumes k: "key_ok kt k" "k \<notin> set seen" "white w1" "white w2" "white w3"
    and v: "doc fl (p @ [Key k]) v t sp" and IHv: "value_edit fl tok' v' (p @ [Key k]) v t sp"
    and rest: "mems fl p (seen @ [k]) ms t2 sp2" and IH: "member_edit fl tok' v' p (seen @ [k]) ms t2 sp2"
  shows "member_edit fl tok' v' p seen ((k, v) # ms) (kt @ w1 @ '':'' @ t @ w2 @ '','' @ w3 @ t2)
     (around (kt @ w1 @ '':'') (w2 @ '','' @ w3 @ t2) sp
       @ around (kt @ w1 @ '':'' @ t @ w2 @ '','' @ w3) [] sp2)" (is "member_edit _ _ _ _ _ ?ms _ ?sp")
  unfolding member_edit_def
proof (intro allI impI)
  fix q and x tok y :: string assume "(q, x, tok, y) \<in> set ?sp"
  then consider (head) x' y' where "(q, x', tok, y') \<in> set sp" "x = kt @ w1 @ '':'' @ x'" "y = y' @ w2 @ '','' @ w3 @ t2"
    | (tail) x' where "(q, x', tok, y) \<in> set sp2" "x = kt @ w1 @ '':'' @ t @ w2 @ '','' @ w3 @ x'" by auto
  then show "\<exists>k' q' sp'. q = p @ Key k' # q' \<and> k' \<in> fst ` set ?ms
      \<and> mems fl p seen (map_key ?ms k' (\<lambda>z. put_path z q' v')) (x @ tok' @ y) sp' \<and> keeps (length x) ?sp sp'"
  proof cases
    case head
    from edit_more_head [OF k IHv doc_places(1) [OF v] rest head(1)] obtain q' sp' where
      "q = p @ Key k # q'" "mems fl p seen ((k, put_path v q' v') # ms)
         ((kt @ w1 @ '':'' @ x') @ tok' @ (y' @ w2 @ '','' @ w3 @ t2)) sp'"
      "keeps (length (kt @ w1 @ '':'' @ x')) ?sp sp'" by blast
    then show ?thesis unfolding head(2,3)
      by (intro exI [of _ k] exI [of _ q'] exI [of _ sp']) simp
  next
    case tail
    from edit_more_tail [OF k v rest IH tail(1)] obtain k' q' sp' where
      "q = p @ Key k' # q'" "k' \<in> fst ` set ms" "k' \<noteq> k"
      "mems fl p seen ((k, v) # map_key ms k' (\<lambda>z. put_path z q' v'))
          ((kt @ w1 @ '':'' @ t @ w2 @ '','' @ w3 @ x') @ tok' @ y) sp'"
      "keeps (length (kt @ w1 @ '':'' @ t @ w2 @ '','' @ w3 @ x')) ?sp sp'" by blast
    then show ?thesis unfolding tail(2)
      by (intro exI [of _ k'] exI [of _ q'] exI [of _ sp']) simp
  qed
qed

lemma edit_item_head:
  assumes w: "white w2" and IH: "value_edit fl tok' v' (p @ [Idx i]) v t sp"
    and pl: "value_places fl (p @ [Idx i]) v t sp"
    and x: "(q, x, tok, y') \<in> set sp"
    and mk: "\<And>z u sp'. doc fl (p @ [Idx i]) z u sp' \<Longrightarrow> items fl p i (z # vs) (u @ w2 @ b) (around [] (w2 @ b) sp' @ around (u @ w2 @ c) [] sp2)"
  shows "\<exists>q' sp'. q = p @ Idx i # q' \<and> items fl p i (put_path v q' v' # vs) (x @ tok' @ (y' @ w2 @ b)) sp'
      \<and> keeps (length x) (around [] (w2 @ b) sp @ around (t @ w2 @ c) [] sp2) sp'"
proof -
  from IH x obtain q' sp' where e: "q = (p @ [Idx i]) @ q'"
    "doc fl (p @ [Idx i]) (put_path v q' v') (x @ tok' @ y') sp'" "keeps (length x) sp sp'" by (rule value_editE)
  from pl x have t: "t = x @ tok @ y'" by (rule value_placesE)
  have "length ([] :: string) + length x \<le> length (t @ w2 @ c)" by (simp add: t)
  from keeps_append_left [OF e(3) this] have "keeps (length x)
      (around [] (w2 @ b) sp @ around (t @ w2 @ c) [] sp2)
      (around [] (w2 @ b) sp' @ around ((x @ tok' @ y') @ w2 @ c) [] sp2)" by simp
  moreover from mk [OF e(2)] have "items fl p i (put_path v q' v' # vs) (x @ tok' @ (y' @ w2 @ b))
      (around [] (w2 @ b) sp' @ around ((x @ tok' @ y') @ w2 @ c) [] sp2)" by simp
  ultimately show ?thesis using e(1) by auto
qed

lemma edit_item_last:
  assumes w: "white w2" and v: "doc fl (p @ [Idx i]) v t sp"
    and IH: "value_edit fl tok' v' (p @ [Idx i]) v t sp"
  shows "item_edit fl tok' v' p i [v] (t @ w2 @ '']'') (around [] (w2 @ '']'') sp)" (is "item_edit _ _ _ _ _ _ _ ?sp")
  unfolding item_edit_def
proof (intro allI impI)
  fix q and x tok y :: string assume "(q, x, tok, y) \<in> set ?sp"
  then obtain y' where y: "(q, x, tok, y') \<in> set sp" "y = y' @ w2 @ '']''" by auto
  from edit_item_head [where ?sp2.0 = "[]" and c = "[]" and vs = "[]" and b = "'']''",
      OF w IH doc_places(1) [OF v] y(1)] items_last [OF w]
  obtain q' sp' where e: "q = p @ Idx i # q'" "items fl p i [put_path v q' v'] (x @ tok' @ (y' @ w2 @ '']'')) sp'"
    "keeps (length x) ?sp sp'" by auto
  then show "\<exists>j q' sp'. q = p @ Idx (i + j) # q' \<and> j < length [v]
      \<and> items fl p i ([v][j := put_path ([v] ! j) q' v']) (x @ tok' @ y) sp' \<and> keeps (length x) ?sp sp'"
    unfolding y(2) by (intro exI [of _ 0] exI [of _ q'] exI [of _ sp']) simp
qed

lemma edit_item_more:
  assumes w: "white w2" and v: "doc fl (p @ [Idx i]) v t sp"
    and IHv: "value_edit fl tok' v' (p @ [Idx i]) v t sp"
    and rest: "items fl p (Suc i) vs t2 sp2" and IH: "item_edit fl tok' v' p (Suc i) vs t2 sp2"
  shows "item_edit fl tok' v' p i (v # vs) (t @ w2 @ '','' @ t2)
      (around [] (w2 @ '','' @ t2) sp @ around (t @ w2 @ '','') [] sp2)" (is "item_edit _ _ _ _ _ _ _ ?sp")
  unfolding item_edit_def
proof (intro allI impI)
  fix q and x tok y :: string assume "(q, x, tok, y) \<in> set ?sp"
  then consider (head) y' where "(q, x, tok, y') \<in> set sp" "y = y' @ w2 @ '','' @ t2"
    | (tail) x' where "(q, x', tok, y) \<in> set sp2" "x = t @ w2 @ '','' @ x'" by auto
  then show "\<exists>j q' sp'. q = p @ Idx (i + j) # q' \<and> j < length (v # vs)
      \<and> items fl p i ((v # vs)[j := put_path ((v # vs) ! j) q' v']) (x @ tok' @ y) sp' \<and> keeps (length x) ?sp sp'"
  proof cases
    case head
    from edit_item_head [where ?sp2.0 = sp2 and c = "'',''" and vs = vs and b = "'','' @ t2",
        OF w IHv doc_places(1) [OF v] head(1)] items_more [OF w _ rest]
    obtain q' sp' where "q = p @ Idx i # q'"
      "items fl p i (put_path v q' v' # vs) (x @ tok' @ (y' @ w2 @ '','' @ t2)) sp'" "keeps (length x) ?sp sp'" by auto
    then show ?thesis unfolding head(2)
      by (intro exI [of _ 0] exI [of _ q'] exI [of _ sp']) simp
  next
    case tail
    from IH tail(1) obtain j q' sp' where e: "q = p @ Idx (Suc i + j) # q'" "j < length vs"
      "items fl p (Suc i) (vs[j := put_path (vs ! j) q' v']) (x' @ tok' @ y) sp'" "keeps (length x') sp2 sp'"
      by (rule item_editE)
    from keeps_append_right [OF e(4), of "t @ w2 @ '',''" "[]" "w2 @ '','' @ t2" sp "[]" "w2 @ '','' @ x' @ tok' @ y" "[]"]
    have "keeps (length x) ?sp (around [] (w2 @ '','' @ x' @ tok' @ y) sp @ around (t @ w2 @ '','') [] sp')"
      by (simp add: tail(2) add.assoc)
    moreover from items_more [OF w v e(3)] have "items fl p i (v # vs[j := put_path (vs ! j) q' v']) (x @ tok' @ y)
        (around [] (w2 @ '','' @ x' @ tok' @ y) sp @ around (t @ w2 @ '','') [] sp')" by (simp add: tail(2))
    ultimately show ?thesis using e(1,2)
      by (intro exI [of _ "Suc j"] exI [of _ q']
          exI [of _ "around [] (w2 @ '','' @ x' @ tok' @ y) sp @ around (t @ w2 @ '','') [] sp'"]) simp
  qed
qed

lemma doc_edit:
  assumes tok: "token_ok fl tok' v'"
  shows "doc fl p v t sp \<Longrightarrow> value_edit fl tok' v' p v t sp"
    and "mems fl p seen ms t sp \<Longrightarrow> member_edit fl tok' v' p seen ms t sp"
    and "items fl p i vs t sp \<Longrightarrow> item_edit fl tok' v' p i vs t sp"
proof (induction rule: doc_mems_items.inducts)
  case (doc_token w t v p)
  then show ?case by (intro edit_token tok)
next
  case (doc_object w w1 p ms t sp)
  then show ?case by (intro edit_object)
next
  case (doc_array w p vs t sp)
  then show ?case by (intro edit_array)
next
  case (mems_last kt k seen w1 w2 p v t sp)
  then show ?case by (intro edit_last)
next
  case (mems_more kt k seen w1 w2 w3 p v t sp ms t2 sp2)
  then show ?case by (intro edit_more)
next
  case (items_last w2 p i v t sp)
  then show ?case by (intro edit_item_last)
next
  case (items_more w2 p i v t sp vs t2 sp2)
  then show ?case by (intro edit_item_more)
qed (simp_all add: value_edit_def)

section \<open>Whole documents\<close>

definition indices :: "places \<Rightarrow> spans" where
  "indices sp = map (\<lambda>(q, x, tok, y). (q, length x, length x + length tok)) sp"

lemma indices_places:
  assumes "value_places fl p v t sp"
  shows "map (\<lambda>(q, a, b). (q, length (t @ w) - a, length (t @ w) - b)) (places w sp) = indices sp"
proof -
  have "length (t @ w) - length (tok @ y @ w) = length x \<and> length (t @ w) - length (y @ w) = length x + length tok"
    if "(q, x, tok, y) \<in> set sp" for q x tok y
    using assms that by (rule value_placesE) simp
  then show ?thesis unfolding places_def indices_def by (auto simp: case_prod_beta)
qed

text \<open>The parser of a whole text accepts exactly the documents of the grammar.\<close>

lemma document_iff:
  "json_document fl text = Inr (text', data, spans) \<longleftrightarrow>
   text' = text \<and> (\<exists>t w sp. white w \<and> text = t @ w \<and> doc fl [] data t sp \<and> spans = indices sp)"
proof
  assume "json_document fl text = Inr (text', data, spans)"
  then obtain r q where r: "parse_value fl [] text = Inr (data, r, q)" "ws r = []" "text' = text"
    "spans = map (\<lambda>(p, a, b). (p, length text - a, length text - b)) q"
    by (auto simp: json_document_def)
  from value_docD [OF parse_doc [THEN conjunct1] r(1)] obtain t sp where
    t: "text = t @ r" "doc fl [] data t sp" "q = places r sp" by blast
  have "white r" using ws_split [of r] r(2) by auto
  with r(3,4) t indices_places [OF doc_places(1) [OF t(2)], of r] show "text' = text \<and>
      (\<exists>t w sp. white w \<and> text = t @ w \<and> doc fl [] data t sp \<and> spans = indices sp)" by auto
next
  assume "text' = text \<and> (\<exists>t w sp. white w \<and> text = t @ w \<and> doc fl [] data t sp \<and> spans = indices sp)"
  then obtain t w sp where t: "text' = text" "white w" "text = t @ w" "doc fl [] data t sp" "spans = indices sp" by blast
  have "no_number_char (w @ [])" using t(2) by (intro white_no_number) auto
  with doc_parse(1) [OF t(4)] have "parse_value fl [] text = Inr (data, w, places w sp)" by (simp add: t(3))
  moreover have "ws w = []" using ws_white [OF t(2), of "[]"] by (simp add: ws_is_ws)
  ultimately show "json_document fl text = Inr (text', data, spans)"
    using indices_places [OF doc_places(1) [OF t(4)], of w] t(1,3,5)
    by (simp add: json_document_def checks_def vp_require_def ensure_def)
qed

lemma splice_place:
  "splice ((x @ tok @ y) @ w) (length x, length x + length tok, new) = (x @ new @ y) @ w"
  by (simp add: splice_def)

text \<open>A change: the path, the new value, and the edit that makes it.\<close>

type_synonym change = "path \<times> json \<times> edit"

definition change_at :: "(string \<Rightarrow> string) \<Rightarrow> places \<Rightarrow> change \<Rightarrow> bool" where
  "change_at fl sp c \<longleftrightarrow> (case c of (q, v', start, stop, new) \<Rightarrow>
     \<exists>x tok y. (q, x, tok, y) \<in> set sp \<and> start = length x \<and> stop = length x + length tok \<and> token_ok fl new v')"

lemma changes_doc:
  assumes "doc fl [] d t sp" and "white w" and "\<forall>c \<in> set cs. change_at fl sp c"
    and "sorted_wrt (\<lambda>c c'. fst (snd (snd c')) < fst (snd (snd c))) cs"
  shows "\<exists>t' sp'. foldl splice (t @ w) (map (snd \<circ> snd) cs) = t' @ w
     \<and> doc fl [] (foldl (\<lambda>d (q, v', _). put_path d q v') d cs) t' sp'"
  using assms
proof (induction cs arbitrary: d t sp)
  case (Cons c cs)
  obtain q v' start stop new where c: "c = (q, v', start, stop, new)" by (cases c) auto
  from Cons.prems(3) obtain x tok y where pl: "(q, x, tok, y) \<in> set sp" "start = length x"
    "stop = length x + length tok" "token_ok fl new v'" by (auto simp: change_at_def c)
  from doc_places(1) [OF Cons.prems(1)] pl(1) have t: "t = x @ tok @ y" by (rule value_placesE)
  from doc_edit(1) [OF pl(4) Cons.prems(1)] pl(1) obtain sp' where
    e: "doc fl [] (put_path d q v') (x @ new @ y) sp'" "keeps (length x) sp sp'"
    by (rule value_editE) simp
  have "change_at fl sp' c'" if "c' \<in> set cs" for c'
  proof -
    obtain q2 v2 s2 e2 n2 where c': "c' = (q2, v2, s2, e2, n2)" by (cases c') auto
    from that Cons.prems(3) obtain x2 tok2 y2 where p2: "(q2, x2, tok2, y2) \<in> set sp" "s2 = length x2"
      "e2 = length x2 + length tok2" "token_ok fl n2 v2" by (fastforce simp: change_at_def c')
    from that Cons.prems(4) have "s2 < start" by (auto simp: c c')
    with e(2) p2(1,2) pl(2) obtain y3 where "(q2, x2, tok2, y3) \<in> set sp'" by (auto elim: keepsE)
    with p2 show ?thesis by (auto simp: change_at_def c')
  qed
  then have "\<exists>t' sp''. foldl splice ((x @ new @ y) @ w) (map (snd \<circ> snd) cs) = t' @ w
     \<and> doc fl [] (foldl (\<lambda>d (q, v', _). put_path d q v') (put_path d q v') cs) t' sp''"
    using Cons.prems(2,4) by (intro Cons.IH [OF e(1)]) auto
  moreover have "splice (t @ w) (start, stop, new) = (x @ new @ y) @ w"
    unfolding t pl(2,3) by (rule splice_place)
  ultimately show ?case by (simp add: c comp_def)
qed auto

section \<open>The edit\<close>

lemma token_ok_scan:
  assumes "\<And>u. no_number_char u \<Longrightarrow> scan_scalar fl (t @ u) = Some (v, u)" and "t = c # s"
    and "c \<in> set (CHR 0x22 # CHR ''-'' # digits)"
  shows "token_ok fl t v"
  using assms by (auto simp: token_ok_def token_def is_ws_def digits_def)

lemma scalar_text_token:
  assumes "is_str v \<or> is_int v"
  shows "token_ok fl (scalar_text v) v"
proof -
  from assms consider (str) s where "v = JStr s" | (int) i where "v = JInt i" by auto
  then show ?thesis
  proof cases
    case str
    obtain u where "json_string_raw s = CHR 0x22 # u" by (simp add: json_string_raw_def)
    then have "scalar_text v = CHR 0x22 # u" by (simp add: scalar_text_def str)
    moreover have "scan_scalar fl (scalar_text v @ r) = Some (v, r)" for r
      by (simp add: scalar_text_def str scan_scalar_raw)
    ultimately show ?thesis by (intro token_ok_scan) auto
  next
    case int
    obtain c s where cs: "str_nat (nat \<bar>i\<bar>) = c # s" by (cases "str_nat (nat \<bar>i\<bar>)") auto
    then have "c \<in> set digits" using str_nat_digits [of "nat \<bar>i\<bar>"] by auto
    moreover have "str_int i = c # s \<or> str_int i = CHR ''-'' # c # s" using cs by (auto simp: str_int_def)
    ultimately obtain d u where "str_int i = d # u" "d \<in> set (CHR 0x22 # CHR ''-'' # digits)" by auto
    moreover have "scan_scalar fl (scalar_text v @ r) = Some (v, r)" if "no_number_char r" for r
      using that by (simp add: scalar_text_def int scan_scalar_int)
    ultimately show ?thesis by (intro token_ok_scan) (auto simp: scalar_text_def int)
  qed
qed

definition new_scalar :: "json \<Rightarrow> json \<Rightarrow> json" where
  "new_scalar value old = (if is_int old then value else JStr (py_str value))"

lemma vp_scalar_Inr:
  "vp_scalar value old = Inr v \<Longrightarrow> v = new_scalar value old \<and> (is_str v \<or> is_int v)"
  by (auto simp: vp_scalar_def new_scalar_def split: if_splits)

text \<open>The changes an edit makes: the fields whose value differs from the projected one.\<close>

definition changes :: "json \<Rightarrow> (path \<times> json) list \<Rightarrow> (path \<times> json) list" where
  "changes data = filter (\<lambda>(f, v). vp_get data f \<noteq> Inr v)"

lemma plan_edits:
  assumes "foldres (plan_edit data (indices sp) value) (es, ps) fs = Inr (edits, previous)"
  shows "\<exists>cs olds. edits = es @ map (snd \<circ> snd) cs \<and> previous = ps @ olds \<and> mapres (vp_get data) fs = Inr olds
     \<and> map (\<lambda>(q, v, _). (q, v)) cs = changes data (zip fs (map (new_scalar value) olds))
     \<and> (\<forall>c \<in> set cs. change_at fl sp c)"
  using assms
proof (induction fs arbitrary: es ps)
  case Nil
  then show ?case by (intro exI [of _ "[]"]) (simp add: changes_def)
next
  case (Cons f fs)
  from Cons.prems obtain es' ps' where s: "plan_edit data (indices sp) value (es, ps) f = Inr (es', ps')"
    "foldres (plan_edit data (indices sp) value) (es', ps') fs = Inr (edits, previous)" by auto
  then obtain old start stop v where o: "vp_get data f = Inr old" "map_of (indices sp) f = Some (start, stop)"
    "vp_scalar value old = Inr v" "ps' = ps @ [old]"
    "es' = (if old \<noteq> v then es @ [(start, stop, scalar_text v)] else es)"
    by (auto simp: plan_edit_def split: option.splits)
  from Cons.IH [OF s(2)] obtain cs olds where IH: "edits = es' @ map (snd \<circ> snd) cs" "previous = ps' @ olds"
    "mapres (vp_get data) fs = Inr olds"
    "map (\<lambda>(q, v, _). (q, v)) cs = changes data (zip fs (map (new_scalar value) olds))"
    "\<forall>c \<in> set cs. change_at fl sp c" by blast
  from map_of_SomeD [OF o(2)] obtain x tok y where "(f, x, tok, y) \<in> set sp" "start = length x"
    "stop = length x + length tok" by (auto simp: indices_def)
  moreover have v: "v = new_scalar value old" "token_ok fl (scalar_text v) v"
    using vp_scalar_Inr [OF o(3)] scalar_text_token [of v fl] by auto
  ultimately have c: "change_at fl sp (f, v, start, stop, scalar_text v)" unfolding change_at_def by blast
  show ?case
    using IH o c v(1)
    by (intro exI [of _ "(if old \<noteq> v then [(f, v, start, stop, scalar_text v)] else []) @ cs"] exI [of _ "old # olds"])
      (auto simp: changes_def)
qed

text \<open>Distinct fields start at distinct places.\<close>

lemma place_starts:
  assumes "sorted_wrt before sp" and "(q, x, tok, y) \<in> set sp" and "(q2, x2, tok2, y2) \<in> set sp"
    and "tok \<noteq> []" and "tok2 \<noteq> []" and "q \<noteq> q2"
  shows "length x \<noteq> length x2"
proof -
  obtain i j where ij: "i < length sp" "sp ! i = (q, x, tok, y)" "j < length sp" "sp ! j = (q2, x2, tok2, y2)"
    using assms(2,3) by (auto simp: in_set_conv_nth)
  then have "i \<noteq> j" using assms(6) by auto
  then consider "i < j" | "j < i" by linarith
  then show ?thesis
  proof cases
    case 1
    then have "before (sp ! i) (sp ! j)" using assms(1) ij(3) by (simp add: sorted_wrt_iff_nth_less)
    with assms(4) show ?thesis unfolding ij(2,4) by (auto simp: before_def)
  next
    case 2
    then have "before (sp ! j) (sp ! i)" using assms(1) ij(1) by (simp add: sorted_wrt_iff_nth_less)
    with assms(5) show ?thesis unfolding ij(2,4) by (auto simp: before_def)
  qed
qed

lemma insort_key_map: "insort_key f (g x) (map g xs) = map g (insort_key (\<lambda>x. f (g x)) x xs)"
  by (induction xs) auto

lemma sort_key_map: "sort_key f (map g xs) = map g (sort_key (\<lambda>x. f (g x)) xs)"
  by (induction xs) (simp_all add: insort_key_map)

lemma json_fields_distinct: "json_fields declaration data = Inr fs \<Longrightarrow> distinct fs"
  by (auto simp: json_fields_def split: if_splits)

lemma changes_distinct: "distinct fs \<Longrightarrow> distinct (map fst (changes data (zip fs vs)))"
proof -
  assume "distinct fs"
  then have "distinct (map fst (zip fs vs))" by (simp add: map_fst_zip_take)
  then show ?thesis by (simp add: changes_def distinct_map_filter)
qed

lemma place_token: "doc fl p d t sp \<Longrightarrow> (q, x, tok, y) \<in> set sp \<Longrightarrow> tok \<noteq> []"
  by (erule value_placesE [OF doc_places(1)]) (auto simp: token_ok_def)

lemma change_starts:
  assumes "doc fl p d t sp" and "change_at fl sp c" and "change_at fl sp c'" and "fst c \<noteq> fst c'"
  shows "fst (snd (snd c)) \<noteq> fst (snd (snd c'))"
proof -
  obtain x tok y where c: "(fst c, x, tok, y) \<in> set sp" "fst (snd (snd c)) = length x"
    using assms(2) by (cases c) (auto simp: change_at_def)
  obtain x2 tok2 y2 where c': "(fst c', x2, tok2, y2) \<in> set sp" "fst (snd (snd c')) = length x2"
    using assms(3) by (cases c') (auto simp: change_at_def)
  have "tok \<noteq> []" "tok2 \<noteq> []"
    using place_token assms(1) c(1) c'(1) by blast+
  with place_starts [OF doc_sorted(1) [OF assms(1)] c(1) c'(1)] assms(4) c(2) c'(2) show ?thesis by simp
qed

text \<open>Changes at distinct places, applied from the right.\<close>

lemma sorted_changes:
  assumes d: "doc fl [] data t sp" "white w" and cs: "\<forall>c \<in> set cs. change_at fl sp c" "distinct (map fst cs)"
  shows "\<exists>t' sp' order. mset order = mset (map (\<lambda>(q, v, _). (q, v)) cs)
     \<and> apply_edits (t @ w) (map (snd \<circ> snd) cs) = t' @ w
     \<and> doc fl [] (foldl (\<lambda>d (f, v). put_path d f v) data order) t' sp'"
proof -
  let ?start = "\<lambda>c :: change. fst (snd (snd c))"
  let ?cs = "rev (sort_key ?start cs)"
  have "distinct (map ?start cs)"
    unfolding distinct_conv_nth
  proof (intro allI impI)
    fix i j assume ij: "i < length (map ?start cs)" "j < length (map ?start cs)" "i \<noteq> j"
    then have "fst (cs ! i) \<noteq> fst (cs ! j)" using cs(2) by (auto simp: distinct_conv_nth)
    then show "map ?start cs ! i \<noteq> map ?start cs ! j"
      using change_starts [OF d(1)] cs(1) ij(1,2) by simp
  qed
  then have "sorted_wrt (<) (map ?start (sort_key ?start cs))"
    by (simp add: strict_sorted_iff distinct_map)
  then have "sorted_wrt (\<lambda>c c'. ?start c' < ?start c) ?cs"
    by (simp add: sorted_wrt_rev sorted_wrt_map)
  with changes_doc [OF d, of ?cs] cs(1) obtain t' sp' where r:
    "foldl splice (t @ w) (map (snd \<circ> snd) ?cs) = t' @ w"
    "doc fl [] (foldl (\<lambda>d (q, v', _). put_path d q v') data ?cs) t' sp'" by auto
  have "apply_edits (t @ w) (map (snd \<circ> snd) cs) = t' @ w"
    unfolding apply_edits_def sort_key_map rev_map using r(1) by (simp add: comp_def)
  moreover have "foldl (\<lambda>d (q, v', _). put_path d q v') data ?cs
      = foldl (\<lambda>d (f, v). put_path d f v) data (map (\<lambda>(q, v, _). (q, v)) ?cs)"
    unfolding foldl_map by (rule foldl_cong) auto
  moreover have "mset (map (\<lambda>(q, v, _). (q, v)) ?cs) = mset (map (\<lambda>(q, v, _). (q, v)) cs)" by simp
  ultimately show ?thesis using r(2) by metis
qed

text \<open>
  C4: a version edit of a JSON file touches the selected fields only.  When \<open>_json_edit\<close> succeeds,
  the edited text is again a JSON document, read by the same parser, and its data are the data of
  the original with each selected field whose value differs replaced by the projected one (each
  exactly once, in some order); the values reported as previous are the ones that were there.
\<close>

theorem json_edit_replaces:
  assumes "json_edit fl raw declaration value = Inr (new, previous)"
  shows "\<exists>data spans fs order spans'. json_document fl raw = Inr (raw, data, spans)
     \<and> json_fields declaration data = Inr fs \<and> mapres (vp_get data) fs = Inr previous
     \<and> mset order = mset (changes data (zip fs (map (new_scalar value) previous)))
     \<and> json_document fl new = Inr (new, foldl (\<lambda>d (f, v). put_path d f v) data order, spans')"
proof -
  from assms obtain raw2 data spans fs edits where a0: "json_document fl raw = Inr (raw2, data, spans)"
    and a: "json_fields declaration data = Inr fs"
    "foldres (plan_edit data spans value) ([], []) fs = Inr (edits, previous)" "new = apply_edits raw2 edits"
    by (auto simp: json_edit_def)
  from a0 [unfolded document_iff] obtain t w sp where d: "raw2 = raw" "white w" "raw = t @ w"
    "doc fl [] data t sp" "spans = indices sp" by blast
  from plan_edits [OF a(2) [unfolded d(5)], of fl] obtain cs where cs: "edits = map (snd \<circ> snd) cs"
    "mapres (vp_get data) fs = Inr previous"
    "map (\<lambda>(q, v, _). (q, v)) cs = changes data (zip fs (map (new_scalar value) previous))"
    "\<forall>c \<in> set cs. change_at fl sp c" by auto
  have "map fst cs = map fst (map (\<lambda>(q, v, _). (q, v)) cs)" by (simp add: comp_def case_prod_beta)
  then have "distinct (map fst cs)"
    unfolding cs(3) using changes_distinct json_fields_distinct [OF a(1)] by simp
  from sorted_changes [OF d(4,2) cs(4) this] obtain t' sp' order where r:
    "mset order = mset (changes data (zip fs (map (new_scalar value) previous)))" "new = t' @ w"
    "doc fl [] (foldl (\<lambda>d (f, v). put_path d f v) data order) t' sp'"
    using a(3) cs(1,3) d(1,3) by auto
  have "json_document fl new = Inr (new, foldl (\<lambda>d (f, v). put_path d f v) data order, indices sp')"
    unfolding document_iff using r(2,3) d(2) by blast
  with a0 a(1) cs(2) r(1) d(1) show ?thesis by blast
qed

text \<open>An edit of a small manifest, for the concrete run of C6.\<close>

definition quoted :: "string \<Rightarrow> string" where
  "quoted s = CHR 0x22 # s @ [CHR 0x22]"

definition sample_manifest :: "string \<Rightarrow> string" where
  "sample_manifest version =
     ''{ '' @ quoted ''name'' @ '': '' @ quoted ''app'' @ '', '' @ quoted ''size'' @ '': [1, 2],''
     @ quoted ''version'' @ '':'' @ quoted version @ ''}''"

definition sample_declaration :: members where
  "sample_declaration = [(''path'', JStr ''package.json''), (''format'', JStr ''json''), (''field'', JStr ''version'')]"

lemma sample_edit:
  "json_edit id (sample_manifest ''1.2.3'') sample_declaration (JStr ''1.3.0-rc.1'')
     = Inr (sample_manifest ''1.3.0-rc.1'', [JStr ''1.2.3''])"
  by code_simp

theorem json_edit_replaces_witness:
  "\<exists>data spans fs order spans'.
       json_document id (sample_manifest ''1.2.3'') = Inr (sample_manifest ''1.2.3'', data, spans)
     \<and> json_fields sample_declaration data = Inr fs \<and> mapres (vp_get data) fs = Inr [JStr ''1.2.3'']
     \<and> mset order = mset (changes data (zip fs (map (new_scalar (JStr ''1.3.0-rc.1'')) [JStr ''1.2.3''])))
     \<and> json_document id (sample_manifest ''1.3.0-rc.1'')
         = Inr (sample_manifest ''1.3.0-rc.1'', foldl (\<lambda>d (f, v). put_path d f v) data order, spans')"
  by (rule json_edit_replaces [OF sample_edit])

text \<open>
  C5: the offsets the parser retains are exact.  In an accepted document every recorded span lies in
  the text, the spans follow each other without overlap, and the text of a span is, alone, the
  token of the scalar found at its path in the data.
\<close>

theorem json_document_spans:
  assumes "json_document fl raw = Inr (raw', data, spans)"
  shows "sorted_wrt (\<lambda>(_, _, j) (_, i, _). j \<le> i) spans
     \<and> (\<forall>(q, i, j) \<in> set spans. i < j \<and> j \<le> length raw
          \<and> (\<exists>v. vp_get data q = Inr v \<and> token fl (take (j - i) (drop i raw)) = Inr (v, [])))"
proof -
  from assms [unfolded document_iff] obtain t w sp where d: "white w" "raw = t @ w"
    "doc fl [] data t sp" "spans = indices sp" by blast
  have "sorted_wrt (\<lambda>(_, _, j) (_, i, _). j \<le> i) spans"
    unfolding d(4) indices_def sorted_wrt_map
    by (rule sorted_wrt_mono_rel [OF _ doc_sorted(1) [OF d(3)]]) (auto simp: before_def)
  moreover have "length x < length x + length tok \<and> length x + length tok \<le> length raw
      \<and> (\<exists>v. vp_get data q = Inr v \<and> token fl (take (length tok) (drop (length x) raw)) = Inr (v, []))"
    if "(q, x, tok, y) \<in> set sp" for q x tok y
    using doc_places(1) [OF d(3)] that
  proof (rule value_placesE)
    fix q' old assume p: "t = x @ tok @ y" "q = [] @ q'" "vp_get data q' = Inr old" "token_ok fl tok old"
    then have "tok \<noteq> []" "token fl tok = Inr (old, [])"
      unfolding token_ok_def by (auto simp: no_number_char_def dest: spec [of _ "[]"])
    with p show ?thesis by (simp add: d(2))
  qed
  ultimately show ?thesis by (auto simp: d(4) indices_def)
qed

theorem json_document_spans_witness:
  "\<exists>data spans. json_document id (sample_manifest ''1.2.3'') = Inr (sample_manifest ''1.2.3'', data, spans)
     \<and> sorted_wrt (\<lambda>(_, _, j) (_, i, _). j \<le> i) spans"
proof -
  have "\<not> isl (json_document id (sample_manifest ''1.2.3''))" by code_simp
  then obtain r data spans where d: "json_document id (sample_manifest ''1.2.3'') = Inr (r, data, spans)"
    by (cases "json_document id (sample_manifest ''1.2.3'')") auto
  then have "r = sample_manifest ''1.2.3''" by (simp add: document_iff)
  with d json_document_spans [OF d] show ?thesis by auto
qed

end
