(* ===== verification/Actions.thy ===== *)
theory Actions
  imports Prelude
begin

text \<open>
  Effects.  An action takes the state of the outside world, whose type is left open, and returns a
  result and a new state.  What the modules call outside of themselves (the \<open>gh\<close> and \<open>git\<close> programs,
  the clock, the file system, the firewall) enters the model as a parameter of this type.
\<close>

type_synonym ('w, 'a) act = "'w \<Rightarrow> 'a res \<times> 'w"

definition ret :: "'a \<Rightarrow> ('w, 'a) act" where
  "ret x w = (Inr x, w)"

definition lift :: "'a res \<Rightarrow> ('w, 'a) act" where
  "lift r w = (r, w)"

definition act_bind :: "('w, 'a) act \<Rightarrow> ('a \<Rightarrow> ('w, 'b) act) \<Rightarrow> ('w, 'b) act" where
  "act_bind m f w = (case m w of (Inl e, w') \<Rightarrow> (Inl e, w') | (Inr x, w') \<Rightarrow> f x w')"

definition act_then :: "('w, unit) act \<Rightarrow> ('w, 'b) act \<Rightarrow> ('w, 'b) act" where
  "act_then m k = act_bind m (\<lambda>_. k)"

definition act_when :: "bool \<Rightarrow> ('w, unit) act \<Rightarrow> ('w, unit) act" where
  "act_when c m = (if c then m else ret ())"

lemma ret_apply [simp]: "ret x w = (Inr x, w)"
  by (simp add: ret_def)

lemma lift_apply [simp]: "lift r w = (r, w)"
  by (simp add: lift_def)

lemma act_bind_Inr [res_simps]:
  "act_bind m f w = (Inr y, w'') \<longleftrightarrow> (\<exists>x w'. m w = (Inr x, w') \<and> f x w' = (Inr y, w''))"
  by (auto simp: act_bind_def split: prod.splits sum.splits)

lemma act_then_Inr [res_simps]:
  "act_then m f w = (Inr y, w'') \<longleftrightarrow> (\<exists>w'. m w = (Inr (), w') \<and> f w' = (Inr y, w''))"
  by (auto simp: act_then_def act_bind_Inr)

text \<open>\<open>try\<close> with an \<open>except\<close> clause for the exceptions in \<open>p\<close>, on actions and on results.\<close>

definition act_catch :: "('w, 'a) act \<Rightarrow> (exn \<Rightarrow> bool) \<Rightarrow> (exn \<Rightarrow> ('w, 'a) act) \<Rightarrow> ('w, 'a) act" where
  "act_catch m p h w =
     (case m w of (Inl e, w') \<Rightarrow> if p e then h e w' else (Inl e, w') | (Inr x, w') \<Rightarrow> (Inr x, w'))"

definition res_catch :: "'a res \<Rightarrow> (exn \<Rightarrow> bool) \<Rightarrow> (exn \<Rightarrow> 'a res) \<Rightarrow> 'a res" where
  "res_catch r p h = (case r of Inl e \<Rightarrow> if p e then h e else Inl e | Inr x \<Rightarrow> Inr x)"

lemma act_catch_Inr [res_simps]:
  "act_catch m p h w = (Inr y, w'') \<longleftrightarrow>
     m w = (Inr y, w'') \<or> (\<exists>e w'. m w = (Inl e, w') \<and> p e \<and> h e w' = (Inr y, w''))"
  by (auto simp: act_catch_def split: prod.splits sum.splits)

lemma res_catch_Inr [res_simps]:
  "res_catch r p h = Inr y \<longleftrightarrow> r = Inr y \<or> (\<exists>e. r = Inl e \<and> p e \<and> h e = Inr y)"
  by (auto simp: res_catch_def split: sum.splits)

text \<open>A loop over a list, each step an action.\<close>

fun act_each :: "('a \<Rightarrow> ('w, unit) act) \<Rightarrow> 'a list \<Rightarrow> ('w, unit) act" where
  "act_each f [] = ret ()"
| "act_each f (x # xs) = act_then (f x) (act_each f xs)"

lemma act_bind_assoc: "act_bind (act_bind m f) h = act_bind m (\<lambda>x. act_bind (f x) h)"
  by (rule ext) (simp add: act_bind_def split: prod.splits sum.splits)

lemma act_bind_ret: "act_bind (ret x) f = f x"
  by (rule ext) (simp add: act_bind_def)

section \<open>State invariants of actions\<close>

text \<open>\<open>keeps P m\<close>: the action leaves \<open>P\<close> true of the state, whether it returns or raises.\<close>

named_theorems keeps_intros \<open>composition of actions that keep a predicate of the state\<close>

definition keeps :: "('w \<Rightarrow> bool) \<Rightarrow> ('w, 'a) act \<Rightarrow> bool" where
  "keeps P m \<longleftrightarrow> (\<forall>w. P w \<longrightarrow> P (snd (m w)))"

lemma keepsD: "keeps P m \<Longrightarrow> P w \<Longrightarrow> m w = (x, w') \<Longrightarrow> P w'"
  by (force simp: keeps_def)

lemma keeps_ret [keeps_intros]: "keeps P (ret x)"
  by (simp add: keeps_def)

lemma keeps_lift [keeps_intros]: "keeps P (lift r)"
  by (simp add: keeps_def)

lemma keeps_bind [keeps_intros]: "keeps P m \<Longrightarrow> (\<And>x. keeps P (f x)) \<Longrightarrow> keeps P (act_bind m f)"
  by (auto simp: keeps_def act_bind_def split: prod.splits sum.splits)

lemma keeps_then [keeps_intros]: "keeps P m \<Longrightarrow> keeps P k \<Longrightarrow> keeps P (act_then m k)"
  by (simp add: act_then_def keeps_bind)

lemma keeps_when [keeps_intros]: "(c \<Longrightarrow> keeps P m) \<Longrightarrow> keeps P (act_when c m)"
  by (simp add: act_when_def keeps_ret)

lemma keeps_each [keeps_intros]: "(\<And>x. x \<in> set xs \<Longrightarrow> keeps P (f x)) \<Longrightarrow> keeps P (act_each f xs)"
  by (induction xs) (simp_all add: keeps_ret keeps_then)

lemma keeps_catch [keeps_intros]: "keeps P m \<Longrightarrow> (\<And>e. keeps P (h e)) \<Longrightarrow> keeps P (act_catch m p h)"
  by (auto simp: keeps_def act_catch_def split: prod.splits sum.splits)

lemma keeps_if [keeps_intros]: "keeps P m \<Longrightarrow> keeps P k \<Longrightarrow> keeps P (if c then m else k)"
  by simp

lemma keeps_Pair [keeps_intros]: "keeps P (Pair r)"
  by (simp add: keeps_def)

text \<open>An invariant that rests on laws \<open>L\<close> of the outside world, as one predicate.\<close>

lemma keeps_given_iff: "keeps (\<lambda>w. L \<longrightarrow> P w) m \<longleftrightarrow> (L \<longrightarrow> keeps P m)"
  by (auto simp: keeps_def)

section \<open>Methods of objects\<close>

text \<open>
  A method of an object is an action on the pair of the object's state and the outside world:
  \<open>outside m\<close> acts on the world, \<open>self\<close> reads the object and \<open>update f\<close> changes it.
\<close>

type_synonym ('s, 'w, 'a) obj_act = "('s \<times> 'w, 'a) act"

definition outside :: "('w, 'a) act \<Rightarrow> ('s, 'w, 'a) obj_act" where
  "outside m gw = (case m (snd gw) of (r, w) \<Rightarrow> (r, (fst gw, w)))"

definition self :: "('s, 'w, 's) obj_act" where
  "self gw = (Inr (fst gw), gw)"

definition update :: "('s \<Rightarrow> 's) \<Rightarrow> ('s, 'w, unit) obj_act" where
  "update f gw = (Inr (), (f (fst gw), snd gw))"

lemma outside_Inr [res_simps]:
  "outside m gw = (Inr x, gw') \<longleftrightarrow> (\<exists>w. m (snd gw) = (Inr x, w) \<and> gw' = (fst gw, w))"
  by (auto simp: outside_def split: prod.splits)

lemma outside_keeps: "snd (outside m gw) = (fst gw, snd (m (snd gw)))"
  by (simp add: outside_def split: prod.splits)

lemma update_apply [simp]: "update f gw = (Inr (), (f (fst gw), snd gw))"
  by (simp add: update_def)

lemma self_apply [simp]: "self gw = (Inr (fst gw), gw)"
  by (simp add: self_def)

lemma keeps_outside [keeps_intros]: "keeps (\<lambda>gw. P (fst gw)) (outside m)"
  by (simp add: keeps_def outside_keeps)

lemma keeps_self [keeps_intros]: "keeps P self"
  by (simp add: keeps_def)

lemma keeps_update: "(\<And>g w. P (g, w) \<Longrightarrow> P (f g, w)) \<Longrightarrow> keeps P (update f)"
  by (auto simp: keeps_def)

end
