(* ===== verification/Gh_Client.thy ===== *)
theory Gh_Client
  imports Json_Text Actions
begin

text \<open>
  The GitHub client of \<open>scripts/release_control.py\<close> above its transport.  The transport
  \<open>GitHub.request\<close>, which runs the \<open>gh\<close> program, is the parameter \<open>rq\<close> of the record \<open>client\<close>, and
  \<open>api\<close>, \<open>optional\<close> and \<open>pages\<close> are the methods built on it.
\<close>

section \<open>Checks\<close>

definition rc_require :: "bool \<Rightarrow> string \<Rightarrow> unit res" where
  "rc_require c m = ensure c (ReleaseError m)"

lemma rc_require_Inr [simp, res_simps]: "rc_require c m = Inr u \<longleftrightarrow> c"
  by (simp add: rc_require_def)

text \<open>\<open>positive\<close>: a positive integer given as an integer or as its decimal text.\<close>

definition rc_positive :: "json \<Rightarrow> string \<Rightarrow> int res" where
  "rc_positive value name =
     checks [rc_require (is_str value \<or> is_int value) ''Invalid'',
             rc_require (rx_match pos_int_rx (py_str value)) ''Invalid'']
       (Inr (int (nat_of_digits (py_str value))))"

definition parse_json :: "(string \<Rightarrow> string) \<Rightarrow> string \<Rightarrow> json res" where
  "parse_json fl data =
     (case loads fl (Some (ReleaseError ''Duplicate JSON field'')) data of
        Inl e \<Rightarrow> Inl (if is_ValueError e then ReleaseError ''Invalid JSON'' else e)
      | Inr v \<Rightarrow> Inr v)"

section \<open>Requests\<close>

record 'w client =
  rq :: "string \<Rightarrow> string \<Rightarrow> json option \<Rightarrow> string \<Rightarrow> ('w, string) act"
  float_text :: "string \<Rightarrow> string"

definition byte_space :: "char \<Rightarrow> bool" where
  "byte_space c \<longleftrightarrow> of_char c \<in> {9, 10, 11, 12, 13, 32 :: nat}"

definition api :: "'w client \<Rightarrow> string \<Rightarrow> string \<Rightarrow> json option \<Rightarrow> ('w, json) act" where
  "api gh path method body =
     act_bind (rq gh path method body ''json'') (\<lambda>raw.
       lift (if strip byte_space raw = [] then Inr JNull else parse_json (float_text gh) raw))"

text \<open>\<open>None\<close> only for a resource that GitHub reports as missing.\<close>

definition optional :: "'w client \<Rightarrow> string \<Rightarrow> ('w, json) act" where
  "optional gh path w =
     (case api gh path ''GET'' None w of
        (Inl (GitHubError m not_found), w') \<Rightarrow>
          (if not_found then Inr JNull else Inl (GitHubError m not_found), w')
      | r \<Rightarrow> r)"

definition page_records :: "string option \<Rightarrow> json list \<Rightarrow> json \<Rightarrow> json list res" where
  "page_records field acc page =
     (let values = (case field of
                      Some f \<Rightarrow> if is_dict page then dget (the_dict page) f JNull else page
                    | None \<Rightarrow> page)
      in checks [rc_require (is_list values) ''Invalid paginated records''] (Inr (acc @ the_list values)))"

definition pages :: "'w client \<Rightarrow> string \<Rightarrow> string option \<Rightarrow> ('w, json list) act" where
  "pages gh path field =
     act_bind (rq gh path ''GET'' None ''pages'') (\<lambda>raw. lift
       (bnd (parse_json (float_text gh) raw) (\<lambda>ps.
        checks [rc_require (is_list ps) ''Invalid pagination response'']
          (foldres (page_records field) [] (the_list ps)))))"

section \<open>Paths and tags\<close>

text \<open>\<open>urllib.parse.quote(text, safe="")\<close>.\<close>

definition quote_char :: "char \<Rightarrow> string" where
  "quote_char c =
     (let n = of_char c :: nat in
      if c \<in> set (alnum @ ''_.-~'') then [c]
      else if n < 128 then CHR ''%'' # map (\<lambda>d. if d \<in> set ''abcdef'' then char_of (of_char d - 32 :: nat) else d) (hex2 n)
      else concat (map (\<lambda>b. CHR ''%'' # map (\<lambda>d. if d \<in> set ''abcdef'' then char_of (of_char d - 32 :: nat) else d) (hex2 b))
             [192 + n div 64, 128 + n mod 64]))"

definition url_quote :: "string \<Rightarrow> string" where
  "url_quote s = concat (map quote_char s)"

text \<open>\<open>value.get(name)\<close> of every record, as the comprehensions over pages take it.\<close>

definition record_field :: "string \<Rightarrow> json \<Rightarrow> json \<Rightarrow> json res" where
  "record_field name d v = get_res v name d"

text \<open>\<open>any(release.get("tag_name") == tag for release in ...)\<close>.\<close>

fun any_tag :: "string \<Rightarrow> json list \<Rightarrow> bool res" where
  "any_tag tag [] = Inr False"
| "any_tag tag (r # rs) =
     bnd (record_field ''tag_name'' JNull r) (\<lambda>name. if name = JStr tag then Inr True else any_tag tag rs)"

definition ensure_absent :: "'w client \<Rightarrow> string \<Rightarrow> ('w, unit) act" where
  "ensure_absent gh tag =
     act_bind (optional gh (''git/ref/tags/'' @ url_quote tag)) (\<lambda>r.
     act_then (lift (rc_require (is_null r) ''Tag already exists''))
     (act_bind (optional gh (''releases/tags/'' @ url_quote tag)) (\<lambda>r.
      act_then (lift (rc_require (is_null r) ''Release already exists''))
      (act_bind (pages gh ''releases'' None) (\<lambda>releases.
       lift (bnd (any_tag tag releases) (\<lambda>found.
         rc_require (\<not> found) ''Draft release already exists'')))))))"

definition version_rx :: rx where
  "version_rx = Seqs [nat_rx, Lit ''.'', nat_rx, Lit ''.'', nat_rx]"

definition rc_version :: "string \<Rightarrow> string res" where
  "rc_version value =
     checks [rc_require (rx_match version_rx value) ''Version must be strict X.Y.Z without leading zeros''] (Inr value)"

text \<open>The number of one tag, when it has the prefix and a positive decimal suffix.\<close>

definition tag_number :: "string \<Rightarrow> json \<Rightarrow> int list res" where
  "tag_number prefix tag =
     guard (is_str tag) (AttributeError ''startswith'')
       (Inr (if startswith (the_str tag) prefix \<and> rx_match pos_int_rx (drop (length prefix) (the_str tag))
             then [int (nat_of_digits (drop (length prefix) (the_str tag)))] else []))"

definition max_default :: "int \<Rightarrow> int list \<Rightarrow> int" where
  "max_default d xs = (if xs = [] then d else Max (set xs))"

definition sequence_prefix :: "string \<Rightarrow> string \<Rightarrow> string" where
  "sequence_prefix base channel = ''v'' @ base @ ''-'' @ channel @ ''.''"

definition next_sequence :: "'w client \<Rightarrow> string \<Rightarrow> string \<Rightarrow> ('w, int) act" where
  "next_sequence gh base channel =
     act_then (lift (rc_require (channel \<in> {''beta'', ''rc''}) ''Sequence only applies to beta and rc''))
     (act_bind (lift (rc_version base)) (\<lambda>base.
      act_bind (pages gh ''tags'' None) (\<lambda>tag_pages.
      act_bind (lift (mapres (record_field ''name'' (JStr '''')) tag_pages)) (\<lambda>tags.
      act_bind (pages gh ''releases'' None) (\<lambda>release_pages.
      act_bind (lift (mapres (record_field ''tag_name'' (JStr '''')) release_pages)) (\<lambda>more.
      lift (bnd (mapres (tag_number (sequence_prefix base channel)) (tags @ more)) (\<lambda>numbers.
        Inr (max_default 0 (concat numbers) + 1)))))))))"

text \<open>\<open>candidate_tag\<close>; \<open>stamp\<close> is the UTC time of the run formatted as fourteen digits.\<close>

definition candidate_tag ::
  "'w client \<Rightarrow> string \<Rightarrow> string \<Rightarrow> json \<Rightarrow> json \<Rightarrow> json \<Rightarrow> string \<Rightarrow> ('w, string) act" where
  "candidate_tag gh channel base run_id attempt sequence stamp =
     act_bind (lift (rc_version base)) (\<lambda>base.
     (let prefix = sequence_prefix base channel in
      if channel = ''nightly'' then
        act_then (lift (rc_require (is_null sequence) ''Nightly tags do not accept a sequence''))
          (ret (prefix @ stamp @ ''.'' @ py_str run_id @ ''.'' @ py_str attempt))
      else
        act_then (lift (rc_require (channel \<in> {''beta'', ''rc''}) ''Invalid candidate channel''))
          (act_bind (if is_null sequence then next_sequence gh base channel
                     else lift (rc_positive sequence ''sequence'')) (\<lambda>n. ret (prefix @ str_int n)))))"

end
