(* ===== verification/Base64.thy ===== *)
theory Base64
  imports Prelude
begin

text \<open>
  \<open>base64.b64encode\<close> and \<open>base64.b64decode(..., validate=True)\<close>, the form in which GitHub's contents
  interface carries the version ledger, with their round trip.
\<close>

definition b64_alphabet :: string where
  "b64_alphabet = upper_letters @ lower_letters @ digits @ ''+/''"

definition b64_char :: "nat \<Rightarrow> char" where
  "b64_char n = b64_alphabet ! (n mod 64)"

definition b64_value :: "char \<Rightarrow> nat option" where
  "b64_value c = map_of (zip b64_alphabet [0..<64]) c"

definition code :: "char \<Rightarrow> nat" where
  "code c = of_char c"

fun b64_encode :: "string \<Rightarrow> string" where
  "b64_encode [] = []"
| "b64_encode [a] = [b64_char (code a div 4), b64_char (code a mod 4 * 16), CHR ''='', CHR ''='']"
| "b64_encode [a, b] =
     [b64_char (code a div 4), b64_char (code a mod 4 * 16 + code b div 16), b64_char (code b mod 16 * 4), CHR ''='']"
| "b64_encode (a # b # c # s) =
     b64_char (code a div 4) # b64_char (code a mod 4 * 16 + code b div 16)
     # b64_char (code b mod 16 * 4 + code c div 64) # b64_char (code c mod 64) # b64_encode s"

text \<open>The bytes of a group, from the values of its characters.\<close>

definition byte1 :: "nat \<Rightarrow> nat \<Rightarrow> char" where
  "byte1 p q = char_of (p * 4 + q div 16)"

definition byte2 :: "nat \<Rightarrow> nat \<Rightarrow> char" where
  "byte2 q r = char_of (q mod 16 * 16 + r div 4)"

definition byte3 :: "nat \<Rightarrow> nat \<Rightarrow> char" where
  "byte3 r s = char_of (r mod 4 * 64 + s)"

text \<open>
  Strict decoding: the text comes in groups of four characters of the alphabet, and only the last
  group may end in one or two padding characters.  Bits of the last group that no byte takes are
  dropped, as Python does.
\<close>

fun b64_decode :: "string \<Rightarrow> string option" where
  "b64_decode [] = Some []"
| "b64_decode [a, b, c, d] =
     (case (b64_value a, b64_value b) of
        (Some p, Some q) \<Rightarrow>
          if c = CHR ''='' \<and> d = CHR ''='' then Some [byte1 p q]
          else (case b64_value c of
                  None \<Rightarrow> None
                | Some r \<Rightarrow>
                    if d = CHR ''='' then Some [byte1 p q, byte2 q r]
                    else (case b64_value d of
                            None \<Rightarrow> None
                          | Some s \<Rightarrow> Some [byte1 p q, byte2 q r,
                                           byte3 r s]))
      | _ \<Rightarrow> None)"
| "b64_decode (a # b # c # d # t) =
     (case (b64_value a, b64_value b, b64_value c, b64_value d, b64_decode t) of
        (Some p, Some q, Some r, Some s, Some u) \<Rightarrow>
          Some (byte1 p q # byte2 q r # byte3 r s # u)
      | _ \<Rightarrow> None)"
| "b64_decode _ = None"

lemma b64_value_char: "n < 64 \<Longrightarrow> b64_value (b64_char n) = Some n"
proof -
  assume n: "n < 64"
  have len: "length b64_alphabet = 64" "distinct b64_alphabet"
    by (simp_all add: b64_alphabet_def upper_letters_def lower_letters_def digits_def)
  then have "map_of (zip b64_alphabet [0..<64]) (b64_alphabet ! n) = Some ([0..<64] ! n)"
    using n by (intro map_of_zip_nth) simp_all
  with n show ?thesis by (simp add: b64_value_def b64_char_def)
qed

lemma b64_char_not_pad: "b64_char n \<noteq> CHR ''=''"
proof -
  have "n mod 64 < length b64_alphabet"
    by (simp add: b64_alphabet_def upper_letters_def lower_letters_def digits_def)
  then have "b64_char n \<in> set b64_alphabet" unfolding b64_char_def by (rule nth_mem)
  then show ?thesis by (auto simp: b64_alphabet_def upper_letters_def lower_letters_def digits_def)
qed

lemma code_less: "code c < 256"
  by (simp add: code_def)

lemma char_of_code [simp]: "char_of (code c) = c"
  by (simp add: code_def)

lemma code_bounds [simp]: "code a div 4 < 64" "code a mod 4 * 16 + code b div 16 < 64"
  "code b mod 16 * 4 + code c div 64 < 64" "code a mod 4 * 16 < 64" "code b mod 16 * 4 < 64"
  using code_less [of a] code_less [of b] code_less [of c] by linarith+

lemma scaled_div: "y < k \<Longrightarrow> (m * k + y) div k = (m :: nat)" "y < k \<Longrightarrow> (m * k + y) mod k = (y :: nat)"
  by simp_all

lemma code_parts: "code b div 16 < 16" "code c div 64 < 4"
  using code_less [of b] code_less [of c] by linarith+

lemma byte1_code [simp]:
  "byte1 (code a div 4) (code a mod 4 * 16 + code b div 16) = a" "byte1 (code a div 4) (code a mod 4 * 16) = a"
  unfolding byte1_def scaled_div(1) [OF code_parts(1)] by simp_all

lemma byte2_code [simp]:
  "byte2 (code a mod 4 * 16 + code b div 16) (code b mod 16 * 4 + code c div 64) = b"
  "byte2 (code a mod 4 * 16 + code b div 16) (code b mod 16 * 4) = b"
  unfolding byte2_def scaled_div(2) [OF code_parts(1)] scaled_div(1) [OF code_parts(2)] by simp_all

lemma byte3_code [simp]: "byte3 (code b mod 16 * 4 + code c div 64) (code c mod 64) = c"
  unfolding byte3_def scaled_div(2) [OF code_parts(2)] by simp

theorem b64_round_trip: "b64_decode (b64_encode s) = Some s"
proof (induction s rule: b64_encode.induct)
  case (4 a b c s)
  show ?case
  proof (cases "b64_encode s")
    case Nil
    then have "s = []" by (cases s rule: b64_encode.cases) auto
    then show ?thesis by (simp add: b64_value_char b64_char_not_pad)
  next
    case (Cons x t)
    with 4 show ?thesis by (simp add: b64_value_char)
  qed
qed (simp_all add: b64_value_char b64_char_not_pad)

end
