(* ===== verification/Release_Ledger.thy ===== *)
theory Release_Ledger
  imports Version_Plan Gh_Client Base64
begin

text \<open>
  \<open>scripts/release_state.py\<close>: the version ledger kept in one file of a metadata branch and changed
  only by compare-and-swap writes of that file.  The ledger is the JSON object the code works on;
  decisions that need no request are separate definitions, and the operations of the module are
  actions over the GitHub client.
\<close>

definition ledger_branch :: string where
  "ledger_branch = ''release-version-state''"

definition ledger_file :: string where
  "ledger_file = ''release-version-state.json''"

definition read_path :: string where
  "read_path = ''contents/'' @ ledger_file @ ''?ref='' @ ledger_branch"

definition write_path :: string where
  "write_path = ''contents/'' @ ledger_file"

definition ref_path :: string where
  "ref_path = ''git/ref/heads/'' @ ledger_branch"

section \<open>Access to the file\<close>

text \<open>
  \<open>StateGitHub.request\<close>: what it allows itself before running the transport; every other request
  goes to the rules of the general client.
\<close>

definition state_request_ok :: "string \<Rightarrow> string \<Rightarrow> json option \<Rightarrow> string \<Rightarrow> bool res" where
  "state_request_ok path method body mode =
     (let is_read = (method = ''GET'' \<and> path \<in> {read_path, ref_path} \<and> body = None);
          is_write = (method = ''PUT'' \<and> path = write_path \<and> (\<exists>m. body = Some (JObj m)))
      in if \<not> (is_read \<or> is_write) then Inr False
         else checks
           [rc_require (mode = ''json'') ''Ledger API supports only JSON'',
            (case body of
               Some (JObj m) \<Rightarrow> checks
                 [rc_require (dget m ''branch'' JNull = JStr ledger_branch) ''Ledger write branch mismatch'',
                  rc_require (keys_within m [''branch'', ''content'', ''message'', ''sha'']) ''Invalid ledger write'']
                 (Inr ())
             | _ \<Rightarrow> Inr ())]
           (Inr True))"

section \<open>Reading\<close>

definition empty_ledger :: members where
  "empty_ledger = [(''schema'', JInt 1), (''counter'', JInt 0), (''publication_floor'', JInt 0), (''plans'', JObj [])]"

definition counter :: "members \<Rightarrow> int" where
  "counter state = the_int (dget state ''counter'' JNull)"

definition publication_floor :: "members \<Rightarrow> int" where
  "publication_floor state = the_int (dget state ''publication_floor'' JNull)"

definition plans :: "members \<Rightarrow> members" where
  "plans state = the_dict (dget state ''plans'' JNull)"

definition plan_of :: "json \<Rightarrow> members" where
  "plan_of record = the_dict (dget (the_dict record) ''plan'' JNull)"

definition build_of :: "members \<Rightarrow> json" where
  "build_of plan = dget plan ''build_number'' JNull"

text \<open>\<open>plan["build_number"] <= bound\<close> raises \<open>TypeError\<close> for a plan without number.\<close>

definition build_res :: "members \<Rightarrow> int res" where
  "build_res plan = guard (is_int (build_of plan)) (TypeError ''NoneType'') (Inr (the_int (build_of plan)))"

definition check_record :: "members \<Rightarrow> string \<times> json \<Rightarrow> unit res" where
  "check_record state kr =
     checks [ignore (rc_positive (JStr (fst kr)) ''ledger run ID''),
             rc_require (is_dict (snd kr)) ''Invalid version reservation'']
      (bnd (validate_plan (dget (the_dict (snd kr)) ''plan'' JNull) None None) (\<lambda>plan.
       bnd (build_res plan) (\<lambda>build.
         rc_require (build \<le> counter state) ''Ledger counter moved backwards'')))"

text \<open>The checks of a decoded ledger.\<close>

definition check_state :: "json \<Rightarrow> unit res" where
  "check_state v =
     checks [rc_require (is_dict v \<and> dget (the_dict v) ''schema'' JNull = JInt 1) ''Unsupported version ledger schema'']
      (let state = the_dict v in
       checks [rc_require (is_int (dget state ''counter'' JNull) \<and> 0 \<le> counter state) ''Invalid ledger counter'',
               rc_require (is_int (dget state ''publication_floor'' JNull) \<and> 0 \<le> publication_floor state
                           \<and> publication_floor state \<le> counter state) ''Invalid ledger publication floor'',
               rc_require (is_dict (dget state ''plans'' JNull)) ''Invalid ledger plans'',
               each (check_record state) (plans state)]
         (Inr ()))"

definition sha40 :: rx where
  "sha40 = hex_rx 40"

text \<open>From the answer of the contents interface to the ledger and its blob identity.\<close>

definition decode_content :: "(string \<Rightarrow> string) \<Rightarrow> json \<Rightarrow> (members \<times> json) res" where
  "decode_content fl content =
     bnd (get_res content ''type'' JNull) (\<lambda>t.
     bnd (get_res content ''encoding'' JNull) (\<lambda>e.
     checks [rc_require (t = JStr ''file'' \<and> e = JStr ''base64'') ''Ledger must be a regular JSON file'']
      (bnd (item_res content ''content'') (\<lambda>data.
       guard (is_str data) (AttributeError ''split'')
       (case b64_decode (filter (\<lambda>c. \<not> is_space c) (the_str data)) of
          None \<Rightarrow> Inl (ValueError ''binascii.Error'')
        | Some raw \<Rightarrow>
            checks [rc_require (length raw \<le> 4000000) ''Ledger requires compaction before another allocation'']
             (bnd (parse_json fl raw) (\<lambda>state.
              checks [check_state state]
               (bnd (get_res content ''sha'' (JStr '''')) (\<lambda>sha.
                guard (is_str sha) (TypeError ''expected string'')
                (checks [rc_require (rx_match sha40 (the_str sha)) ''Invalid ledger blob SHA'']
                  (Inr (the_dict state, sha))))))))))))"

definition read_state :: "'w client \<Rightarrow> ('w, members \<times> json) act" where
  "read_state gh =
     act_bind (optional gh read_path) (\<lambda>content.
       if is_null content then
         act_bind (optional gh ref_path) (\<lambda>ref.
         act_then (lift (rc_require (is_null ref)
             ''Version ledger is missing from its existing branch; restore it from history''))
           (ret (empty_ledger, JNull)))
       else lift (decode_content (float_text gh) content))"

definition write_body :: "members \<Rightarrow> json \<Rightarrow> string \<Rightarrow> json" where
  "write_body state previous t =
     JObj ([(''branch'', JStr ledger_branch), (''message'', JStr ''Reserve release version plan''),
            (''content'', JStr (b64_encode t))]
           @ (if truthy previous then [(''sha'', previous)] else []))"

definition write_state :: "'w client \<Rightarrow> members \<Rightarrow> json \<Rightarrow> ('w, unit) act" where
  "write_state gh state previous =
     act_bind (lift (json_bytes (JObj state))) (\<lambda>t.
     act_bind (api gh write_path ''PUT'' (Some (write_body state previous t))) (\<lambda>_. ret ()))"

section \<open>Reservation\<close>

text \<open>A run that reserved before gets its plan again, provided every input is the same.\<close>

definition retry_plan ::
  "json \<Rightarrow> json \<Rightarrow> string \<Rightarrow> string \<Rightarrow> string \<Rightarrow> json \<Rightarrow> members res" where
  "retry_plan record policy base channel source_sha parent =
     bnd (item_res record ''plan'') (\<lambda>p.
     bnd (validate_plan p (Some policy) (Some (JStr source_sha))) (\<lambda>plan.
     checks [rc_require (dget plan ''base_version'' JNull = JStr base \<and> dget plan ''channel'' JNull = JStr channel)
               ''Run already reserved a different release identity'',
             rc_require (py_eq (dget (the_dict record) ''parent'' JNull) parent)
               ''Run already reserved a different RC'']
       (Inr plan)))"

definition reserved_sequences :: "members \<Rightarrow> string \<Rightarrow> string \<Rightarrow> int list" where
  "reserved_sequences state base channel =
     map (\<lambda>(_, record). the_int (dget (plan_of record) ''sequence'' JNull))
       (filter (\<lambda>(_, record). dget (plan_of record) ''base_version'' JNull = JStr base
                             \<and> dget (plan_of record) ''channel'' JNull = JStr channel) (plans state))"

definition choose_sequence ::
  "'w client \<Rightarrow> members \<Rightarrow> string \<Rightarrow> string \<Rightarrow> json \<Rightarrow> json \<Rightarrow> string \<Rightarrow> ('w, json) act" where
  "choose_sequence gh state base channel run_id attempt stamp =
     (if channel \<in> {''beta'', ''rc''} then
        act_bind (next_sequence gh base channel) (\<lambda>n.
          ret (JInt (max n (max_default 0 (reserved_sequences state base channel) + 1))))
      else if channel = ''nightly'' then
        ret (JStr (stamp @ ''.'' @ py_str run_id @ ''.'' @ py_str attempt))
      else ret JNull)"

definition policy_floor :: "json \<Rightarrow> int res" where
  "policy_floor policy =
     bnd (item_res policy ''versioning'') (\<lambda>v.
     bnd (get_res v ''build_number_floor'' (JInt 0)) (\<lambda>f.
     checks [rc_require (is_int f \<and> 0 \<le> the_int f) ''Invalid native build counter floor''] (Inr (the_int f))))"

text \<open>The plan of a new reservation and the ledger that records it.\<close>

definition new_reservation ::
  "members \<Rightarrow> json \<Rightarrow> string \<Rightarrow> string \<Rightarrow> string \<Rightarrow> json \<Rightarrow> (members \<times> int) res" where
  "new_reservation state policy base channel source_sha sequence =
     bnd (policy_floor policy) (\<lambda>floor.
     (let number = max (counter state) floor + 1 in
      bnd (create_plan (JStr base) (JStr channel) sequence (JStr source_sha) policy (JInt number)) (\<lambda>plan.
        Inr (plan, number))))"

definition record_plan :: "members \<Rightarrow> string \<Rightarrow> members \<Rightarrow> json \<Rightarrow> int \<Rightarrow> members" where
  "record_plan state run_key plan parent n =
     dput (dput state ''counter'' (JInt n)) ''plans''
       (JObj (dput (plans state) run_key (JObj [(''plan'', JObj plan), (''parent'', parent)])))"

text \<open>The part of \<open>reserve_plan\<close> for a run that has no reservation yet.\<close>

definition reserve_fresh ::
  "'w client \<Rightarrow> json \<Rightarrow> string \<Rightarrow> string \<Rightarrow> string \<Rightarrow> json \<Rightarrow> json \<Rightarrow> string \<Rightarrow> json
   \<Rightarrow> members \<Rightarrow> json \<Rightarrow> string \<Rightarrow> ('w, members) act" where
  "reserve_fresh gh policy base channel source_sha run_id attempt stamp parent state previous run_key =
     act_bind (choose_sequence gh state base channel run_id attempt stamp) (\<lambda>sequence.
     act_bind (lift (new_reservation state policy base channel source_sha sequence)) (\<lambda>pn.
     act_then (ensure_absent gh (the_str (dget (fst pn) ''tag'' JNull)))
     (act_bind (optional gh ref_path) (\<lambda>ref.
      act_then (act_when (is_null ref)
          (act_bind (api gh ''git/refs'' ''POST''
             (Some (JObj [(''ref'', JStr (''refs/heads/'' @ ledger_branch)), (''sha'', JStr source_sha)])))
             (\<lambda>_. ret ())))
      (act_then (write_state gh (record_plan state run_key (fst pn) parent (snd pn)) previous)
        (ret (fst pn)))))))"

definition reserve_plan ::
  "'w client \<Rightarrow> json \<Rightarrow> string \<Rightarrow> string \<Rightarrow> string \<Rightarrow> json \<Rightarrow> json \<Rightarrow> string \<Rightarrow> json \<Rightarrow> ('w, members) act" where
  "reserve_plan gh policy base channel source_sha run_id attempt stamp parent =
     act_bind (lift (rc_positive run_id ''run ID'')) (\<lambda>run.
     act_bind (read_state gh) (\<lambda>sp.
       case map_of (plans (fst sp)) (str_int run) of
         Some record \<Rightarrow> lift (retry_plan record policy base channel source_sha parent)
       | None \<Rightarrow> reserve_fresh gh policy base channel source_sha run_id attempt stamp parent
                   (fst sp) (snd sp) (str_int run)))"

section \<open>Publication\<close>

text \<open>The tags of published (not draft) releases, as the set comprehension collects them.\<close>

definition published_tag :: "json \<Rightarrow> json list res" where
  "published_tag release =
     bnd (get_res release ''draft'' JNull) (\<lambda>d.
     if d = JBool False then bnd (get_res release ''tag_name'' JNull) (\<lambda>t. Inr [t]) else Inr [])"

definition published_tags :: "'w client \<Rightarrow> ('w, json list) act" where
  "published_tags gh =
     act_bind (pages gh ''releases'' None) (\<lambda>rs. lift (bnd (mapres published_tag rs) (\<lambda>ts. Inr (concat ts))))"

definition newer_published :: "members \<Rightarrow> json list \<Rightarrow> (members \<Rightarrow> bool) \<Rightarrow> members list" where
  "newer_published state published newer =
     filter (\<lambda>p. dget p ''tag'' JNull \<in> set published \<and> newer p) (map (\<lambda>(_, r). plan_of r) (plans state))"

text \<open>What \<open>_verify_reservation\<close> checks before and after it asks for the published releases.\<close>

definition reservation_matches :: "members \<Rightarrow> members \<Rightarrow> json \<Rightarrow> json \<Rightarrow> unit res" where
  "reservation_matches state plan run_id parent =
     checks [ignore (validate_plan (JObj plan) None None)]
      (bnd (rc_positive run_id ''run ID'') (\<lambda>run.
       checks [rc_require (case map_of (plans state) (str_int run) of
                             None \<Rightarrow> False
                           | Some record \<Rightarrow> py_eq record (JObj [(''plan'', JObj plan), (''parent'', parent)]))
                 ''Version reservation differs from build plan'']
        (bnd (build_res plan) (\<lambda>build.
           rc_require (publication_floor state < build)
             ''Build number has already reached or fallen below the publication floor''))))"

definition verify_reservation_ledger ::
  "'w client \<Rightarrow> members \<Rightarrow> members \<Rightarrow> json \<Rightarrow> json \<Rightarrow> ('w, unit) act" where
  "verify_reservation_ledger gh state plan run_id parent =
     act_then (lift (reservation_matches state plan run_id parent))
     (act_bind (published_tags gh) (\<lambda>published.
      lift (rc_require
        (newer_published state published (\<lambda>p. the_int (build_of plan) \<le> the_int (build_of p)) = [])
        ''A package with this or a newer build number was already published'')))"

definition verify_reservation :: "'w client \<Rightarrow> members \<Rightarrow> json \<Rightarrow> json \<Rightarrow> ('w, unit) act" where
  "verify_reservation gh plan run_id parent =
     act_bind (read_state gh) (\<lambda>sp. verify_reservation_ledger gh (fst sp) plan run_id parent)"

definition promotion_matches :: "members \<Rightarrow> members \<Rightarrow> unit res" where
  "promotion_matches state plan =
     checks
      [ignore (validate_plan (JObj plan) None None),
       rc_require (dget plan ''channel'' JNull = JStr ''rc'' \<and> dget plan ''promotion'' JNull = JStr ''promote-bytes'')
         ''Byte promotion requires a promote-bytes RC plan'',
       rc_require (length (filter (\<lambda>(_, r). py_eq (dget (the_dict r) ''plan'' JNull) (JObj plan)) (plans state)) = 1)
         ''Accepted RC has no unique durable version reservation'']
      (bnd (build_res plan) (\<lambda>build.
         rc_require (publication_floor state \<le> build) ''Accepted RC build number is below the publication floor''))"

definition verify_promotion_ledger :: "'w client \<Rightarrow> members \<Rightarrow> members \<Rightarrow> ('w, unit) act" where
  "verify_promotion_ledger gh state plan =
     act_then (lift (promotion_matches state plan))
     (act_bind (published_tags gh) (\<lambda>published.
      act_then (lift (rc_require (dget plan ''tag'' JNull \<in> set published) ''Accepted RC is no longer published''))
      (lift (rc_require
        (newer_published state published (\<lambda>p. dget p ''tag'' JNull \<noteq> dget plan ''tag'' JNull
           \<and> the_int (build_of plan) < the_int (build_of p)) = [])
        ''A newer native build was published after the accepted RC''))))"

definition verify_promotion_order :: "'w client \<Rightarrow> members \<Rightarrow> ('w, unit) act" where
  "verify_promotion_order gh plan =
     act_bind (read_state gh) (\<lambda>sp. verify_promotion_ledger gh (fst sp) plan)"

definition raise_floor :: "members \<Rightarrow> members \<Rightarrow> members" where
  "raise_floor state plan = dput state ''publication_floor'' (build_of plan)"

definition begin_publication ::
  "'w client \<Rightarrow> members \<Rightarrow> json \<Rightarrow> json \<Rightarrow> json \<Rightarrow> ('w, string) act" where
  "begin_publication gh plan run_id parent promotion =
     act_then (lift (ignore (rc_positive run_id ''run ID'')))
     (act_then (lift (rc_require (is_bool promotion) ''Invalid publication promotion flag''))
     (act_bind (read_state gh) (\<lambda>sp.
      act_then (if promotion = JBool True then verify_promotion_ledger gh (fst sp) plan
                else verify_reservation_ledger gh (fst sp) plan run_id parent)
      (act_then (write_state gh (raise_floor (fst sp) plan) (snd sp))
        (lift (json_bytes (JObj (raise_floor (fst sp) plan))))))))"

end
