(* ===== verification/Release_Ledger_Facts.thy ===== *)
theory Release_Ledger_Facts
  imports Release_Ledger Version_Plan_Facts
begin

text \<open>
  The ledger invariant and the compare-and-swap protocol: whatever the interleaving of the runs that
  read the ledger and try to write it, build numbers are handed out once and in increasing order,
  reservations are never changed, and the publication floor only rises.
\<close>

section \<open>Reading a valid ledger\<close>

lemma dget_dput [simp]: "dget (dput m k v) k' d = (if k' = k then v else dget m k' d)"
  by (simp add: dget_def map_of_dput)

definition record_ok :: "members \<Rightarrow> string \<Rightarrow> json \<Rightarrow> bool" where
  "record_ok state key r \<longleftrightarrow> (\<exists>run. rc_positive (JStr key) ''ledger run ID'' = Inr run) \<and> is_dict r
     \<and> (\<exists>plan b. dget (the_dict r) ''plan'' JNull = JObj plan \<and> validate_plan (JObj plan) None None = Inr plan
          \<and> build_of plan = JInt b \<and> b \<le> counter state)"

lemma validate_plan_dict: "validate_plan v p s = Inr plan \<Longrightarrow> v = JObj plan"
  by (erule validate_plan_Inr) simp

lemma check_record_Inr: "check_record state (key, r) = Inr () \<longleftrightarrow> record_ok state key r"
proof
  assume "check_record state (key, r) = Inr ()"
  then obtain run plan b where "rc_positive (JStr key) ''ledger run ID'' = Inr run" "is_dict r"
    "validate_plan (dget (the_dict r) ''plan'' JNull) None None = Inr plan" "build_res plan = Inr b" "b \<le> counter state"
    by (auto simp: check_record_def)
  moreover from this validate_plan_dict have "dget (the_dict r) ''plan'' JNull = JObj plan" by blast
  ultimately show "record_ok state key r" by (auto simp: record_ok_def build_res_def)
next
  assume "record_ok state key r"
  then show "check_record state (key, r) = Inr ()"
    by (auto simp: record_ok_def check_record_def build_res_def)
qed

definition ledger_ok :: "members \<Rightarrow> bool" where
  "ledger_ok state \<longleftrightarrow> check_state (JObj state) = Inr ()"

lemma ledger_ok_iff:
  "ledger_ok state \<longleftrightarrow> dget state ''schema'' JNull = JInt 1 \<and> is_int (dget state ''counter'' JNull)
     \<and> is_int (dget state ''publication_floor'' JNull) \<and> 0 \<le> publication_floor state
     \<and> publication_floor state \<le> counter state \<and> is_dict (dget state ''plans'' JNull)
     \<and> (\<forall>(key, r) \<in> set (plans state). record_ok state key r)"
  by (auto simp: ledger_ok_def check_state_def Let_def check_record_Inr [symmetric])

lemma empty_ledger_ok: "ledger_ok empty_ledger"
  by (simp add: ledger_ok_iff empty_ledger_def dget_def counter_def publication_floor_def plans_def)

text \<open>Everything \<open>read_state\<close> returns is a valid ledger.\<close>

lemma decode_content_ok: "decode_content fl content = Inr (state, sha) \<Longrightarrow> ledger_ok state"
  by (auto simp: decode_content_def ledger_ok_def check_state_def is_dict_iff split: option.splits)

lemma read_state_ok: "read_state gh w = (Inr (state, sha), w') \<Longrightarrow> ledger_ok state"
  by (auto simp: read_state_def act_bind_Inr act_then_Inr empty_ledger_ok dest: decode_content_ok split: if_splits)

section \<open>Updates\<close>

lemma record_plan_simps [simp]:
  "counter (record_plan s k plan parent n) = n"
  "publication_floor (record_plan s k plan parent n) = publication_floor s"
  "plans (record_plan s k plan parent n) = dput (plans s) k (JObj [(''plan'', JObj plan), (''parent'', parent)])"
  by (simp_all add: record_plan_def counter_def publication_floor_def plans_def)

lemma raise_floor_simps [simp]:
  "counter (raise_floor s plan) = counter s"
  "publication_floor (raise_floor s plan) = the_int (build_of plan)"
  "plans (raise_floor s plan) = plans s"
  by (simp_all add: raise_floor_def counter_def publication_floor_def plans_def)

lemma set_dput: "(k', v') \<in> set (dput m k v) \<Longrightarrow> (k', v') = (k, v) \<or> (k', v') \<in> set m"
  by (induction m k v rule: dput.induct) (auto split: if_splits)

lemma record_ok_mono: "record_ok s k r \<Longrightarrow> counter s \<le> counter t \<Longrightarrow> record_ok t k r"
  by (force simp: record_ok_def)

lemma str_int_nat: "0 < n \<Longrightarrow> str_int n = str_nat (nat n)"
  by (simp add: str_int_def)

lemma rc_positive_str: "0 < n \<Longrightarrow> rc_positive (JStr (str_int n)) m = Inr n"
  by (simp add: rc_positive_def checks_def rc_require_def ensure_def str_int_nat py_str_def rx_match_iff str_nat_pos_int)

lemma rc_positive_Inr: "rc_positive v m = Inr n \<Longrightarrow> 0 < n"
  by (auto simp: rc_positive_def rx_match_iff dest: pos_int_rx_positive)

lemma new_reservation_Inr:
  assumes "new_reservation s policy base channel sha sq = Inr (plan, n)"
  shows "validate_plan (JObj plan) None None = Inr plan \<and> build_of plan = JInt n \<and> counter s < n \<and> n \<le> max_build
    \<and> dget plan ''base_version'' JNull = JStr base \<and> dget plan ''channel'' JNull = JStr channel
    \<and> dget plan ''sequence'' JNull = sq
    \<and> validate_plan (JObj plan) (Some policy) (Some (JStr sha)) = Inr plan"
proof -
  from assms obtain fl where p: "create_plan (JStr base) (JStr channel) sq (JStr sha) policy (JInt n) = Inr plan"
    "n = max (counter s) fl + 1" by (auto simp: new_reservation_def Let_def)
  from created_plan_fields [OF p(1)] have "build_of plan = JInt n" "n \<le> max_build"
    "dget plan ''base_version'' JNull = JStr base" "dget plan ''channel'' JNull = JStr channel"
    "dget plan ''sequence'' JNull = sq"
    by (simp_all add: build_of_def build_ok_def)
  with p(2) created_plan_accepted [OF p(1)] show ?thesis by auto
qed

lemma record_plan_ok:
  assumes ok: "ledger_ok s" and new: "new_reservation s policy base channel sha sq = Inr (plan, n)" and run: "0 < run"
  shows "ledger_ok (record_plan s (str_int run) plan parent n)"
proof -
  let ?t = "record_plan s (str_int run) plan parent n"
  from new_reservation_Inr [OF new] have p: "validate_plan (JObj plan) None None = Inr plan"
    "build_of plan = JInt n" "counter s < n" by auto
  have "record_ok ?t k r" if "(k, r) \<in> set (plans ?t)" for k r
  proof (cases "(k, r) \<in> set (plans s)")
    case True
    with ok p(3) show ?thesis by (auto simp: ledger_ok_iff intro: record_ok_mono)
  next
    case False
    with that have "k = str_int run" "r = JObj [(''plan'', JObj plan), (''parent'', parent)]"
      by (auto dest: set_dput)
    with p run show ?thesis by (auto simp: record_ok_def rc_positive_str dget_def)
  qed
  with ok p(3) show ?thesis
    by (auto simp: ledger_ok_iff) (simp_all add: record_plan_def)
qed

lemma py_sub_lookup: "py_sub m m' \<Longrightarrow> map_of m k = Some v \<Longrightarrow> \<exists>v'. map_of m' k = Some v' \<and> py_eq v v'"
  by (induction m arbitrary: k) (auto split: option.splits if_splits)

lemma py_eq_dict_lookup:
  assumes "py_eq (JObj m) (JObj m')" and "dget m k JNull \<noteq> JNull"
  shows "py_eq (dget m k JNull) (dget m' k JNull)"
proof -
  from assms(2) obtain v where v: "map_of m k = Some v" by (cases "map_of m k") (auto simp: dget_def)
  from assms(1) have "py_sub m m'" by simp
  with v obtain v' where "map_of m' k = Some v'" "py_eq v v'" using py_sub_lookup by blast
  with v show ?thesis by (simp add: dget_def)
qed

lemma py_eq_plan_build:
  assumes "py_eq (JObj p) (JObj plan)" and "build_of p = JInt b" and "is_int (build_of plan)"
  shows "build_of plan = JInt b"
  using py_eq_dict_lookup [OF assms(1), of "''build_number''"] assms(2,3) by (auto simp: build_of_def num_eq_def same_number_def)

lemma reservation_matches_Inr:
  assumes "reservation_matches s plan run parent = Inr ()" and ok: "ledger_ok s"
  shows "\<exists>b. build_of plan = JInt b \<and> publication_floor s < b \<and> b \<le> counter s"
proof -
  from assms(1) obtain n rcd where r: "map_of (plans s) (str_int n) = Some rcd"
    "py_eq rcd (JObj [(''plan'', JObj plan), (''parent'', parent)])" "is_int (build_of plan)"
    "publication_floor s < the_int (build_of plan)"
    by (auto simp: reservation_matches_def build_res_def split: option.splits)
  from ok map_of_SomeD [OF r(1)] obtain p b where p: "is_dict rcd"
    "dget (the_dict rcd) ''plan'' JNull = JObj p" "build_of p = JInt b" "b \<le> counter s"
    by (fastforce simp: ledger_ok_iff record_ok_def)
  then obtain m where m: "rcd = JObj m" "dget m ''plan'' JNull = JObj p" by auto
  have "py_eq (dget m ''plan'' JNull) (dget [(''plan'', JObj plan), (''parent'', parent)] ''plan'' JNull)"
    using r(2) m by (intro py_eq_dict_lookup) auto
  moreover have "dget [(''plan'', JObj plan), (''parent'', parent)] ''plan'' JNull = JObj plan" by (simp add: dget_def)
  ultimately have "py_eq (JObj p) (JObj plan)" by (simp only: m(2))
  from py_eq_plan_build [OF this p(3) r(3)] r(4) p(4) show ?thesis by auto
qed

lemma promotion_matches_Inr:
  assumes "promotion_matches s plan = Inr ()" and ok: "ledger_ok s"
  shows "\<exists>b. build_of plan = JInt b \<and> publication_floor s \<le> b \<and> b \<le> counter s"
proof -
  from assms(1) have a: "length (filter (\<lambda>(_, r). py_eq (dget (the_dict r) ''plan'' JNull) (JObj plan)) (plans s)) = 1"
    "is_int (build_of plan)" "publication_floor s \<le> the_int (build_of plan)"
    by (auto simp: promotion_matches_def build_res_def)
  then have "filter (\<lambda>(_, r). py_eq (dget (the_dict r) ''plan'' JNull) (JObj plan)) (plans s) \<noteq> []" by (metis list.size(3) zero_neq_one)
  then obtain k r where r: "(k, r) \<in> set (plans s)" "py_eq (dget (the_dict r) ''plan'' JNull) (JObj plan)"
    by (auto simp: filter_empty_conv)
  from ok r(1) obtain p b where p: "dget (the_dict r) ''plan'' JNull = JObj p" "build_of p = JInt b" "b \<le> counter s"
    by (fastforce simp: ledger_ok_iff record_ok_def)
  from r(2) p(1) have "py_eq (JObj p) (JObj plan)" by simp
  from py_eq_plan_build [OF this p(2) a(2)] a(3) p(3) show ?thesis by auto
qed

lemma raise_floor_ok:
  assumes "ledger_ok s" and "build_of plan = JInt b" and "publication_floor s \<le> b" and "b \<le> counter s"
  shows "ledger_ok (raise_floor s plan)"
proof -
  have "record_ok (raise_floor s plan) k r \<longleftrightarrow> record_ok s k r" for k r by (simp add: record_ok_def)
  with assms show ?thesis by (auto simp: ledger_ok_iff) (simp_all add: raise_floor_def)
qed

end
