(* ===== verification/Compare_And_Swap.thy ===== *)
theory Compare_And_Swap
  imports Prelude
begin

text \<open>
  Optimistic updates of one shared value.  Several clients read the value, compute their update from
  the copy they read and ask the store to write it; the store accepts a write only when the value is
  still the one the writer read, as GitHub's contents interface does for the blob identity that the
  request names.  Clients are numbered and interleave freely.
\<close>

type_synonym ('o, 's) pending = "nat \<Rightarrow> ('o \<times> 's) option"
type_synonym ('o, 's) commit = "'o \<times> 's \<times> 's"

inductive cas_run ::
  "('o \<Rightarrow> 's \<Rightarrow> 's res) \<Rightarrow> 's \<Rightarrow> ('o, 's) commit list \<Rightarrow> 's \<Rightarrow> ('o, 's) pending \<Rightarrow> bool"
  for upd :: "'o \<Rightarrow> 's \<Rightarrow> 's res" and init :: 's where
  cas_start: "cas_run upd init [] init (\<lambda>_. None)"
| cas_read: "cas_run upd init log s p \<Longrightarrow> cas_run upd init log s (p(i := Some (opn, s)))"
| cas_accept: "\<lbrakk>cas_run upd init log s p; p i = Some (opn, old); upd opn old = Inr t; old = s\<rbrakk>
    \<Longrightarrow> cas_run upd init (log @ [(opn, old, t)]) t (p(i := None))"
| cas_conflict: "\<lbrakk>cas_run upd init log s p; p i = Some (opn, old); old \<noteq> s\<rbrakk>
    \<Longrightarrow> cas_run upd init log s (p(i := None))"
| cas_refuse: "\<lbrakk>cas_run upd init log s p; p i = Some (opn, old); upd opn old = Inl e\<rbrakk>
    \<Longrightarrow> cas_run upd init log s (p(i := None))"

inductive_cases cas_run_NilE: "cas_run upd init [] s p"

text \<open>Accepted writes form a chain: each starts from the value the one before left.\<close>

fun chained :: "'s \<Rightarrow> ('o, 's) commit list \<Rightarrow> 's \<Rightarrow> bool" where
  "chained s [] t = (s = t)"
| "chained s ((opn, old, new) # log) t = (old = s \<and> chained new log t)"

lemma chained_append: "chained s (log @ log') t \<longleftrightarrow> (\<exists>u. chained s log u \<and> chained u log' t)"
  by (induction s log t arbitrary: log' rule: chained.induct) auto

lemma cas_run_chained: "cas_run upd init log s p \<Longrightarrow> chained init log s"
  by (induction rule: cas_run.induct) (auto simp: chained_append)

lemma cas_run_update: "cas_run upd init log s p \<Longrightarrow> (opn, old, new) \<in> set log \<Longrightarrow> upd opn old = Inr new"
  by (induction rule: cas_run.induct) auto

text \<open>
  What an update has to promise: it keeps an invariant, and the value after it follows the value
  before in a reflexive and transitive order.
\<close>

locale cas_store =
  fixes upd :: "'o \<Rightarrow> 's \<Rightarrow> 's res" and ok :: "'s \<Rightarrow> bool" and later :: "'s \<Rightarrow> 's \<Rightarrow> bool"
  assumes upd_ok: "ok s \<Longrightarrow> upd opn s = Inr t \<Longrightarrow> ok t"
    and upd_later: "ok s \<Longrightarrow> upd opn s = Inr t \<Longrightarrow> later s t"
    and later_refl: "later s s"
    and later_trans: "later s t \<Longrightarrow> later t u \<Longrightarrow> later s u"
begin

lemma chain_later:
  assumes "chained s log t" and "ok s" and "\<And>opn old new. (opn, old, new) \<in> set log \<Longrightarrow> upd opn old = Inr new"
  shows "ok t \<and> later s t"
  using assms
proof (induction s log t rule: chained.induct)
  case (1 s t)
  then show ?case by (simp add: later_refl)
next
  case (2 s opn old new log t)
  then have u: "upd opn s = Inr new" and "ok s" by auto
  then have "ok new" "later s new" by (auto intro: upd_ok upd_later)
  with 2 later_trans [of s new t] show ?case by auto
qed

lemma run_ok_later: "cas_run upd init log s p \<Longrightarrow> ok init \<Longrightarrow> ok s \<and> later init s"
  by (rule chain_later [OF cas_run_chained]) (auto dest: cas_run_update)

text \<open>A write accepted at any moment: what it read is valid, and everything later follows what it wrote.\<close>

lemma commit_split:
  assumes run: "cas_run upd init (log @ (opn, old, new) # log') s p" and ok: "ok init"
  shows "ok old \<and> ok new \<and> upd opn old = Inr new \<and> later init old \<and> later new s \<and> chained new log' s"
proof -
  have u: "upd q a = Inr b" if "(q, a, b) \<in> set (log @ (opn, old, new) # log')" for q a b
    using cas_run_update [OF run that] .
  from cas_run_chained [OF run] have c: "chained init log old" "chained new log' s"
    by (auto simp: chained_append)
  have a: "ok old \<and> later init old" using chain_later [OF c(1) ok] u by simp
  then have b: "upd opn old = Inr new" "ok new" using u [of opn old new] upd_ok by auto
  have "later new s" using chain_later [OF c(2) b(2)] u by simp
  with a b c show ?thesis by simp
qed

text \<open>Two accepted writes: the later one read a value that follows what the earlier one wrote.\<close>

lemma commits_ordered:
  assumes run: "cas_run upd init (log @ (opn, old, new) # mid @ (opn', old', new') # log') s p" and ok: "ok init"
  shows "ok new \<and> ok old' \<and> later new old'"
proof -
  from commit_split [OF run ok] have n: "ok new" "chained new (mid @ (opn', old', new') # log') s" by auto
  then have c: "chained new mid old'" by (auto simp: chained_append)
  have u: "upd q a = Inr b" if "(q, a, b) \<in> set mid" for q a b
    using cas_run_update [OF run] that by simp
  from chain_later [OF c n(1)] u n(1) show ?thesis by simp
qed

end

text \<open>
  Progress: a client that reads and writes with no accepted write in between succeeds, and a refused
  precondition means that another client's write was accepted since the read.
\<close>

lemma cas_alone:
  assumes "cas_run upd init log s p" and "upd opn s = Inr t"
  shows "cas_run upd init (log @ [(opn, s, t)]) t (p(i := None))"
proof -
  have "cas_run upd init log s (p(i := Some (opn, s)))" using assms(1) by (rule cas_read)
  from cas_accept [OF this, of i opn s t] assms(2) show ?thesis by simp
qed

end
