(* ===== verification/Ledger_Protocol.thy ===== *)
theory Ledger_Protocol
  imports Release_Ledger_Facts Compare_And_Swap
begin

text \<open>
  The ledger under concurrent runs.  An operation is what a run computes from the ledger it read:
  a reservation, the floor of an ordinary publication, or that of a promoted release candidate.  The
  store of \<open>Compare_And_Swap\<close> is instantiated with these updates, so that its lemmas hold of every
  interleaving of \<open>reserve_plan\<close> and \<open>begin_publication\<close>.
\<close>

datatype ledger_op =
    Reserve (op_run: int) (op_policy: json) (op_base: string) (op_channel: string)
      (op_sha: string) (op_sequence: json) (op_parent: json)
  | Begin (op_plan: members) (op_run_id: json) (op_parent: json)
  | Promote (op_plan: members)

definition ledger_update :: "ledger_op \<Rightarrow> members \<Rightarrow> members res" where
  "ledger_update opn state =
     (case opn of
        Reserve run policy base channel sha sq parent \<Rightarrow>
          checks [rc_require (0 < run) ''Invalid'',
                  rc_require (map_of (plans state) (str_int run) = None) ''Run already reserved'']
            (bnd (new_reservation state policy base channel sha sq) (\<lambda>pn.
               Inr (record_plan state (str_int run) (fst pn) parent (snd pn))))
      | Begin plan run_id parent \<Rightarrow>
          checks [reservation_matches state plan run_id parent] (Inr (raise_floor state plan))
      | Promote plan \<Rightarrow> checks [promotion_matches state plan] (Inr (raise_floor state plan)))"

section \<open>The actions write exactly these updates\<close>

lemma begin_publication_update:
  assumes "begin_publication gh plan run_id parent promotion w = (Inr t, w')"
  shows "\<exists>state previous w1 w2. read_state gh w = (Inr (state, previous), w1)
    \<and> ledger_update (if promotion = JBool True then Promote plan else Begin plan run_id parent) state
        = Inr (raise_floor state plan)
    \<and> write_state gh (raise_floor state plan) previous w2 = (Inr (), w')
    \<and> json_bytes (JObj (raise_floor state plan)) = Inr t"
  using assms
  by (auto simp: begin_publication_def act_bind_Inr act_then_Inr ledger_update_def
        verify_promotion_ledger_def verify_reservation_ledger_def split: if_splits)

section \<open>What every update keeps\<close>

text \<open>Reserved builds: the number recorded for a run.\<close>

definition reserved_build :: "members \<Rightarrow> string \<Rightarrow> int option" where
  "reserved_build state key = map_option (\<lambda>r. the_int (build_of (plan_of r))) (map_of (plans state) key)"

definition ledger_inv :: "members \<Rightarrow> bool" where
  "ledger_inv state \<longleftrightarrow> ledger_ok state \<and> distinct (map fst (plans state))
     \<and> (\<forall>k k' b. reserved_build state k = Some b \<longrightarrow> reserved_build state k' = Some b \<longrightarrow> k = k')"

definition ledger_later :: "members \<Rightarrow> members \<Rightarrow> bool" where
  "ledger_later s t \<longleftrightarrow> counter s \<le> counter t \<and> publication_floor s \<le> publication_floor t
     \<and> (\<forall>k r. map_of (plans s) k = Some r \<longrightarrow> map_of (plans t) k = Some r)
     \<and> (\<forall>k b. map_of (plans s) k = None \<longrightarrow> reserved_build t k = Some b \<longrightarrow> counter s < b)"

lemma reserved_build_bound: "ledger_ok s \<Longrightarrow> reserved_build s k = Some b \<Longrightarrow> b \<le> counter s"
  by (fastforce simp: reserved_build_def ledger_ok_iff record_ok_def plan_of_def dest: map_of_SomeD)

lemma reserved_build_record:
  "build_of plan = JInt n \<Longrightarrow>
   reserved_build (record_plan s key plan parent n) k = (if k = key then Some n else reserved_build s k)"
  by (simp add: reserved_build_def map_of_dput plan_of_def dget_def)

lemma reserved_build_floor [simp]: "reserved_build (raise_floor s plan) = reserved_build s"
  by (simp add: reserved_build_def fun_eq_iff)

lemma reservation_keeps:
  assumes new: "new_reservation s policy base channel sha sq = Inr (plan, n)" and run: "0 < run"
    and free: "map_of (plans s) (str_int run) = None" and inv: "ledger_inv s"
  shows "ledger_inv (record_plan s (str_int run) plan parent n)
       \<and> ledger_later s (record_plan s (str_int run) plan parent n)"
proof -
  let ?t = "record_plan s (str_int run) plan parent n"
  from inv have ok: "ledger_ok s" by (simp add: ledger_inv_def)
  from new_reservation_Inr [OF new] have b: "build_of plan = JInt n" "counter s < n" by auto
  note built = reserved_build_record [OF b(1), of s "str_int run" parent]
  have fresh: "c < n" if "reserved_build s k = Some c" for k c
    using reserved_build_bound [OF ok that] b(2) by simp
  have "k = k'" if "reserved_build ?t k = Some c" "reserved_build ?t k' = Some c" for k k' c
    using that [unfolded built] fresh [of k c] fresh [of k' c] inv [unfolded ledger_inv_def]
    by (auto split: if_splits)
  moreover have "distinct (map fst (plans ?t))" using inv by (simp add: ledger_inv_def distinct_dput)
  ultimately have "ledger_inv ?t" using record_plan_ok [OF ok new run] by (auto simp: ledger_inv_def)
  moreover have "counter s < c" if "map_of (plans s) k = None" "reserved_build ?t k = Some c" for k c
  proof (cases "k = str_int run")
    case True
    with that(2) b(2) show ?thesis by (simp add: built)
  next
    case False
    with that(2) have "reserved_build s k = Some c" by (simp add: built)
    with that(1) show ?thesis by (simp add: reserved_build_def)
  qed
  moreover have "map_of (plans ?t) k = Some r" if "map_of (plans s) k = Some r" for k r
    using that free by (auto simp: map_of_dput)
  ultimately show ?thesis using b(2) by (simp add: ledger_later_def)
qed

lemma floor_keeps:
  assumes "build_of plan = JInt b" and "publication_floor s \<le> b" and "b \<le> counter s" and inv: "ledger_inv s"
  shows "ledger_inv (raise_floor s plan) \<and> ledger_later s (raise_floor s plan)"
  using raise_floor_ok [OF _ assms(1-3)] inv assms
  by (auto simp: ledger_inv_def ledger_later_def reserved_build_def)

lemma ledger_update_Inr:
  assumes "ledger_update opn s = Inr t" and inv: "ledger_inv s"
  shows "ledger_inv t \<and> ledger_later s t"
proof (cases opn)
  case (Reserve run policy base channel sha sq parent)
  with assms(1) obtain plan n where "new_reservation s policy base channel sha sq = Inr (plan, n)"
    "0 < run" "map_of (plans s) (str_int run) = None" "t = record_plan s (str_int run) plan parent n"
    by (auto simp: ledger_update_def)
  with reservation_keeps inv show ?thesis by simp
next
  case (Begin plan run_id parent)
  with assms have "reservation_matches s plan run_id parent = Inr ()" and t: "t = raise_floor s plan"
    by (auto simp: ledger_update_def)
  then obtain b where "build_of plan = JInt b" "publication_floor s < b" "b \<le> counter s"
    using reservation_matches_Inr inv unfolding ledger_inv_def by blast
  with floor_keeps [of plan b s] inv t show ?thesis by simp
next
  case (Promote plan)
  with assms have "promotion_matches s plan = Inr ()" and t: "t = raise_floor s plan"
    by (auto simp: ledger_update_def)
  then obtain b where "build_of plan = JInt b" "publication_floor s \<le> b" "b \<le> counter s"
    using promotion_matches_Inr inv unfolding ledger_inv_def by blast
  with floor_keeps [of plan b s] inv t show ?thesis by simp
qed

lemma ledger_later_trans: "ledger_later s t \<Longrightarrow> ledger_later t u \<Longrightarrow> ledger_later s u"
proof -
  assume a: "ledger_later s t" and b: "ledger_later t u"
  have "counter s < c" if "map_of (plans s) k = None" "reserved_build u k = Some c" for k c
  proof (cases "map_of (plans t) k")
    case None
    with b that(2) have "counter t < c" by (auto simp: ledger_later_def)
    with a show ?thesis by (simp add: ledger_later_def)
  next
    case (Some r)
    with b that(2) have "reserved_build t k = Some c" by (auto simp: ledger_later_def reserved_build_def)
    with a that(1) show ?thesis by (auto simp: ledger_later_def)
  qed
  with a b show ?thesis by (auto simp: ledger_later_def)
qed

interpretation ledger: cas_store ledger_update ledger_inv ledger_later
proof unfold_locales
  show "ledger_later s s" for s by (auto simp: ledger_later_def reserved_build_def)
qed (use ledger_update_Inr in \<open>blast intro: ledger_later_trans\<close>)+

lemma empty_ledger_inv: "ledger_inv empty_ledger"
  using empty_ledger_ok
  by (simp add: ledger_inv_def reserved_build_def) (simp add: empty_ledger_def plans_def dget_def)

section \<open>Concrete runs\<close>

text \<open>
  A repository without ledger and with one tag: every lookup is missing, every write accepted, and the
  world is the list of the requests made.
\<close>

definition sample_client :: "string list client" where
  "sample_client = \<lparr>rq = (\<lambda>path method body mode w.
       (if mode = ''pages'' then Inr (if path = ''tags'' then ''[[{\"name\":\"v1.2.3-rc.3\"}]]'' else ''[]'') else if method = ''GET'' then Inl (GitHubError ''missing'' True)
        else Inr ''{}'', w @ [method @ '' '' @ path])), float_text = (\<lambda>s. s)\<rparr>"

definition sample_source :: string where
  "sample_source = the_str sample_sha"

lemma sample_reservation:
  assumes d: "policy_digest sample_policy = Inr d" and n: "counter s = n - 1" "n \<in> {1, 7, 8}"
  shows "new_reservation s sample_policy ''1.2.3'' ''rc'' sample_source (JInt 4) = Inr (sample_plan d n, n)"
proof -
  have floor: "policy_floor sample_policy = Inr 0" by code_simp
  have sha: "is_str sample_sha \<and> rx_match sha_rx (the_str sample_sha)" by code_simp
  have build: "build_ok (JInt n) \<and> above_floor (JInt n) sample_config" using n(2) by (elim insertE emptyE) (simp_all, code_simp+)
  have prom: "dget sample_config ''promotion'' JNull = JStr ''promote-bytes''" by code_simp
  have proj: "check_projections (sample_plan d n) sample_config = Inr ()"
    using n(2) by (elim insertE emptyE) (simp_all, code_simp+)
  have src: "JStr sample_source = sample_sha" by code_simp
  have "create_plan (JStr ''1.2.3'') (JStr ''rc'') (JInt 4) sample_sha sample_policy (JInt n) = Inr (sample_plan d n)"
    using d sha build prom proj
    by (simp add: create_plan_def sample_policy_ok sample_identity Let_def sample_plan_def)
  moreover from n have "max (counter s) 0 + 1 = n" by auto
  ultimately show ?thesis by (simp add: new_reservation_def floor src Let_def)
qed

definition sample_ledger :: members where
  "sample_ledger = [(''schema'', JInt 1), (''counter'', JInt 6), (''publication_floor'', JInt 0), (''plans'', JObj [])]"

definition sample_op :: "int \<Rightarrow> ledger_op" where
  "sample_op run = Reserve run sample_policy ''1.2.3'' ''rc'' sample_source (JInt 4) JNull"

lemma sample_ledger_inv: "ledger_inv sample_ledger"
proof -
  have "ledger_ok sample_ledger" unfolding ledger_ok_def by code_simp
  moreover have "plans sample_ledger = []" by code_simp
  ultimately show ?thesis by (simp add: ledger_inv_def reserved_build_def)
qed

definition sample_next :: "string \<Rightarrow> members \<Rightarrow> int \<Rightarrow> int \<Rightarrow> members" where
  "sample_next d s run n = record_plan s (str_int run) (sample_plan d n) JNull n"

lemma sample_runs:
  assumes d: "policy_digest sample_policy = Inr d"
  defines "s1 \<equiv> sample_next d sample_ledger 11 7" and "s2 \<equiv> sample_next d (sample_next d sample_ledger 11 7) 12 8"
  shows "cas_run ledger_update sample_ledger
           ([] @ (sample_op 11, sample_ledger, s1) # [] @ (sample_op 12, s1, s2) # []) s2 (\<lambda>_. None)"
proof -
  have p0: "plans sample_ledger = []" "counter sample_ledger = 6" by code_simp+
  have keys: "str_int 11 \<noteq> str_int 12" by simp
  have u1: "ledger_update (sample_op 11) sample_ledger = Inr s1"
    using sample_reservation [OF d, of sample_ledger 7] p0
    by (simp add: ledger_update_def sample_op_def s1_def sample_next_def checks_Cons rc_require_def ensure_def)
  have u2: "ledger_update (sample_op 12) s1 = Inr s2"
    using sample_reservation [OF d, of s1 8] p0 keys
    by (simp add: ledger_update_def sample_op_def s1_def s2_def sample_next_def checks_Cons rc_require_def ensure_def)
  from cas_alone [OF cas_start [of ledger_update sample_ledger] u1, of undefined] have "cas_run ledger_update sample_ledger
    [(sample_op 11, sample_ledger, s1)] s1 (\<lambda>_. None)" by simp
  from cas_alone [OF this u2, of undefined] show ?thesis by simp
qed

section \<open>Properties of the ledger\<close>

text \<open>
  C6: the ledger stays valid under every interleaving.  Whatever reservations and publications
  concurrent runs attempt, the ledger that results passes the checks of \<open>read_state\<close>, holds at most
  one plan per run and never the same build number twice, its counter and publication floor have only
  risen, and every plan reserved at the start is still recorded unchanged.
\<close>

theorem ledger_interleaving:
  assumes "cas_run ledger_update init log s p" and "ledger_inv init"
  shows "ledger_inv s \<and> ledger_later init s"
  using assms by (rule ledger.run_ok_later)

theorem ledger_interleaving_witness:
  "\<exists>d. ledger_inv (sample_next d (sample_next d sample_ledger 11 7) 12 8)"
proof -
  obtain d where "policy_digest sample_policy = Inr d" using sample_policy_digest by blast
  from ledger_interleaving [OF sample_runs [OF this] sample_ledger_inv] show ?thesis by blast
qed

text \<open>
  C7: build numbers are handed out once and in order.  Of two reservations that the store accepted,
  however the runs interleaved, the later one belongs to another run and has a greater build number,
  and the number of the earlier one is still recorded at the end.
\<close>

theorem ledger_builds_increase:
  assumes "cas_run ledger_update init
      (log @ (Reserve r po ba ch sh sq pa, a, b) # mid @ (Reserve r' po' ba' ch' sh' sq' pa', a', b') # log') s p"
    and "ledger_inv init"
  shows "\<exists>m n. reserved_build b (str_int r) = Some m \<and> reserved_build b' (str_int r') = Some n
           \<and> m < n \<and> r \<noteq> r' \<and> reserved_build s (str_int r) = Some m"
proof -
  note split = ledger.commit_split [OF assms]
  have run': "cas_run ledger_update init
      ((log @ (Reserve r po ba ch sh sq pa, a, b) # mid) @ (Reserve r' po' ba' ch' sh' sq' pa', a', b') # log') s p"
    using assms(1) by simp
  note split' = ledger.commit_split [OF run' assms(2)]
  have later: "ledger_later b a'" using ledger.commits_ordered [OF assms] by simp
  obtain plan m where m: "new_reservation a po ba ch sh sq = Inr (plan, m)" "b = record_plan a (str_int r) plan pa m"
    using split by (auto simp: ledger_update_def)
  obtain plan' n where n: "new_reservation a' po' ba' ch' sh' sq' = Inr (plan', n)"
    "b' = record_plan a' (str_int r') plan' pa' n" "map_of (plans a') (str_int r') = None"
    using split' by (auto simp: ledger_update_def)
  have b: "reserved_build b (str_int r) = Some m" "counter b = m"
    using new_reservation_Inr [OF m(1)] by (simp_all add: m(2) reserved_build_record)
  have b': "reserved_build b' (str_int r') = Some n" "counter a' < n"
    using new_reservation_Inr [OF n(1)] by (simp_all add: n(2) reserved_build_record)
  have kept: "reserved_build t (str_int r) = Some m" if "ledger_later b t" for t
    using that b(1) by (auto simp: ledger_later_def reserved_build_def)
  have "r \<noteq> r'" using kept [OF later] n(3) by (auto simp: reserved_build_def)
  moreover have "m < n" using b'(2) b(2) later by (simp add: ledger_later_def)
  ultimately show ?thesis using b(1) b'(1) kept split by blast
qed

theorem ledger_builds_increase_witness:
  "\<exists>d m n. reserved_build (sample_next d sample_ledger 11 7) (str_int 11) = Some m
     \<and> reserved_build (sample_next d (sample_next d sample_ledger 11 7) 12 8) (str_int 12) = Some n \<and> m < n"
proof -
  obtain d where d: "policy_digest sample_policy = Inr d" using sample_policy_digest by blast
  from ledger_builds_increase [OF sample_runs [OF d, unfolded sample_op_def] sample_ledger_inv] show ?thesis by blast
qed

text \<open>
  C8: a package is published at most once.  After an accepted ordinary publication, no run that reads
  the ledger at any later moment can begin an ordinary publication with the same or a smaller build
  number.
\<close>

theorem publication_begins_once:
  assumes "cas_run ledger_update init (log @ (Begin plan run_id parent, a, b) # log') s p" and "ledger_inv init"
    and "the_int (build_of plan') \<le> the_int (build_of plan)"
  shows "\<exists>e. ledger_update (Begin plan' run_id' parent') s = Inl e"
proof (cases "ledger_update (Begin plan' run_id' parent') s")
  case (Inr t)
  note split = ledger.commit_split [OF assms(1,2)]
  have "publication_floor b = the_int (build_of plan)" using split by (auto simp: ledger_update_def)
  moreover have "publication_floor b \<le> publication_floor s" using split by (simp add: ledger_later_def)
  moreover have "ledger_ok s" using split ledger.run_ok_later [OF assms(1,2)] by (simp add: ledger_inv_def)
  moreover from Inr have "reservation_matches s plan' run_id' parent' = Inr ()" by (auto simp: ledger_update_def)
  ultimately have False using reservation_matches_Inr [of s plan' run_id' parent'] assms(3) by fastforce
  then show ?thesis ..
qed simp

text \<open>The ledger with one reservation, whose plan is published.\<close>

definition sample_held :: members where
  "sample_held = sample_next (replicate 64 CHR ''a'') sample_ledger 11 7"

definition sample_begin :: ledger_op where
  "sample_begin = Begin (sample_plan (replicate 64 CHR ''a'') 7) (JInt 11) JNull"

lemma sample_begin_accepted: "ledger_update sample_begin sample_held = Inr (raise_floor sample_held (sample_plan (replicate 64 CHR ''a'') 7))"
  by code_simp

lemma sample_held_inv: "ledger_inv sample_held"
proof -
  have "ledger_ok sample_held" unfolding ledger_ok_def by code_simp
  moreover have "plans sample_held = [(''11'', JObj [(''plan'', JObj (sample_plan (replicate 64 CHR ''a'') 7)), (''parent'', JNull)])]"
    by code_simp
  ultimately show ?thesis by (simp add: ledger_inv_def reserved_build_def split: if_splits)
qed

theorem publication_begins_once_witness:
  "\<exists>e. ledger_update sample_begin (raise_floor sample_held (sample_plan (replicate 64 CHR ''a'') 7)) = Inl e"
proof -
  from cas_alone [OF cas_start [of ledger_update sample_held] sample_begin_accepted, of undefined]
  have "cas_run ledger_update sample_held
     ([] @ (Begin (sample_plan (replicate 64 CHR ''a'') 7) (JInt 11) JNull, sample_held,
            raise_floor sample_held (sample_plan (replicate 64 CHR ''a'') 7)) # [])
     (raise_floor sample_held (sample_plan (replicate 64 CHR ''a'') 7)) (\<lambda>_. None)"
    by (simp add: sample_begin_def)
  from publication_begins_once [OF this sample_held_inv order.refl] show ?thesis by (simp add: sample_begin_def)
qed

text \<open>
  C9: a retry gets its reservation back.  A run whose reservation was accepted and that runs again
  with the same policy, identity, commit and parent at any later moment receives the very plan it
  reserved, so it needs no second write.
\<close>

theorem retried_run_keeps_plan:
  assumes "cas_run ledger_update init (log @ (Reserve run policy base channel sha sq parent, a, b) # log') s p"
    and "ledger_inv init" and "py_eq parent parent"
  shows "\<exists>plan n rcd. new_reservation a policy base channel sha sq = Inr (plan, n)
    \<and> map_of (plans s) (str_int run) = Some rcd \<and> retry_plan rcd policy base channel sha parent = Inr plan"
proof -
  note split = ledger.commit_split [OF assms(1,2)]
  obtain plan n where n: "new_reservation a policy base channel sha sq = Inr (plan, n)"
    "b = record_plan a (str_int run) plan parent n"
    using split by (auto simp: ledger_update_def)
  define rcd where "rcd = JObj [(''plan'', JObj plan), (''parent'', parent)]"
  have "map_of (plans b) (str_int run) = Some rcd" by (simp add: n(2) map_of_dput rcd_def)
  then have "map_of (plans s) (str_int run) = Some rcd" using split by (simp add: ledger_later_def)
  moreover have "retry_plan rcd policy base channel sha parent = Inr plan"
    using new_reservation_Inr [OF n(1)] assms(3) by (simp add: retry_plan_def rcd_def dget_def)
  ultimately show ?thesis using n(1) by blast
qed

theorem retried_run_keeps_plan_witness:
  "\<exists>d rcd plan. retry_plan rcd sample_policy ''1.2.3'' ''rc'' sample_source JNull = Inr plan
     \<and> map_of (plans (sample_next d (sample_next d sample_ledger 11 7) 12 8)) (str_int 11) = Some rcd"
proof -
  obtain d where d: "policy_digest sample_policy = Inr d" using sample_policy_digest by blast
  from retried_run_keeps_plan [OF sample_runs [OF d, unfolded sample_op_def] sample_ledger_inv]
  show ?thesis by fastforce
qed




lemma sample_pages [simp]:
  "pages sample_client ''releases'' None w = (Inr [], w @ [''GET releases''])"
  "pages sample_client ''tags'' None w = (Inr [JObj [(''name'', JStr ''v1.2.3-rc.3'')]], w @ [''GET tags''])"
proof -
  have "parse_json (\<lambda>s. s) ''[]'' = Inr (JArr [])" by code_simp
  then show "pages sample_client ''releases'' None w = (Inr [], w @ [''GET releases''])"
    by (simp add: pages_def sample_client_def act_bind_def checks_def)
  have "parse_json (\<lambda>s. s) ''[[{\"name\":\"v1.2.3-rc.3\"}]]'' = Inr (JArr [JArr [JObj [(''name'', JStr ''v1.2.3-rc.3'')]]])"
    by code_simp
  then show "pages sample_client ''tags'' None w = (Inr [JObj [(''name'', JStr ''v1.2.3-rc.3'')]], w @ [''GET tags''])"
    by (simp add: pages_def sample_client_def act_bind_def checks_def page_records_def)
qed

lemma sample_missing [simp]: "optional sample_client p w = (Inr JNull, w @ [''GET '' @ p])"
  by (simp add: optional_def api_def sample_client_def act_bind_def)

lemma sample_written [simp]:
  "method \<noteq> ''GET'' \<Longrightarrow> api sample_client p method body w = (Inr (JObj []), w @ [method @ '' '' @ p])"
proof -
  have "parse_json (\<lambda>s. s) ''{}'' = Inr (JObj [])" by code_simp
  moreover have "strip byte_space ''{}'' \<noteq> []" by code_simp
  ultimately show "method \<noteq> ''GET'' \<Longrightarrow> ?thesis" by (simp add: api_def sample_client_def act_bind_def)
qed

lemma sample_sequence: "choose_sequence sample_client empty_ledger ''1.2.3'' ''rc'' run attempt [] w
    = (Inr (JInt 4), w @ [''GET tags'', ''GET releases''])"
proof -
  have v: "rc_version ''1.2.3'' = Inr ''1.2.3''" by code_simp
  have n: "tag_number (sequence_prefix ''1.2.3'' ''rc'') (JStr ''v1.2.3-rc.3'') = Inr [3]" by code_simp
  have r: "reserved_sequences empty_ledger ''1.2.3'' ''rc'' = []" by code_simp
  show ?thesis
    by (simp add: choose_sequence_def next_sequence_def act_bind_def act_then_def v n r rc_require_def ensure_def
          record_field_def get_res_def dget_def max_default_def)
qed

lemma sample_written_bytes:
  "\<exists>t. json_bytes (JObj (record_plan empty_ledger (str_int 11) (sample_plan d 1) JNull 1)) = Inr t"
  by (simp add: json_bytes_def record_plan_def empty_ledger_def plans_def dget_def sample_plan_def plan_object_def sample_sha_def)


end
