(* ===== verification/Posix_Path.thy ===== *)
theory Posix_Path
  imports Prelude
begin

text \<open>
  \<open>pathlib.PurePosixPath\<close> of Python 3.12: the parts of a path, its text, the suffix and the stem of
  its name; and the strict UTF-8 decoding of \<open>bytes.decode\<close>, into the characters of the model (a code
  point above U+00FF has no character here and is rejected).
\<close>

definition path_root :: "string \<Rightarrow> string" where
  "path_root s =
     (if startswith s ''//'' \<and> \<not> startswith s ''///'' then ''//'' else if startswith s ''/'' then ''/'' else [])"

definition path_tail :: "string \<Rightarrow> string list" where
  "path_tail s = filter (\<lambda>c. c \<noteq> [] \<and> c \<noteq> ''.'') (split CHR ''/'' s)"

definition path_parts :: "string \<Rightarrow> string list" where
  "path_parts s = (if path_root s = [] then [] else [path_root s]) @ path_tail s"

definition path_str :: "string \<Rightarrow> string" where
  "path_str s = (if path_parts s = [] then ''.'' else path_root s @ join ''/'' (path_tail s))"

definition is_absolute :: "string \<Rightarrow> bool" where
  "is_absolute s \<longleftrightarrow> path_root s \<noteq> []"

definition path_name :: "string \<Rightarrow> string" where
  "path_name s = (if path_tail s = [] then [] else last (path_tail s))"

text \<open>Where the last dot of a name is, when it is neither first nor last.\<close>

definition suffix_at :: "string \<Rightarrow> nat option" where
  "suffix_at name =
     (let i = length name - 1 - length (takeWhile (\<lambda>c. c \<noteq> CHR ''.'') (rev name))
      in if CHR ''.'' \<in> set name \<and> 0 < i \<and> i < length name - 1 then Some i else None)"

definition path_suffix :: "string \<Rightarrow> string" where
  "path_suffix s = (case suffix_at (path_name s) of None \<Rightarrow> [] | Some i \<Rightarrow> drop i (path_name s))"

definition path_stem :: "string \<Rightarrow> string" where
  "path_stem s = (case suffix_at (path_name s) of None \<Rightarrow> path_name s | Some i \<Rightarrow> take i (path_name s))"

section \<open>Bytes\<close>

definition continuation :: "char \<Rightarrow> bool" where
  "continuation c \<longleftrightarrow> (let n = of_char c :: nat in 128 \<le> n \<and> n < 192)"

fun utf8_decode :: "string \<Rightarrow> string option" where
  "utf8_decode [] = Some []"
| "utf8_decode (c # s) =
     (let n = of_char c :: nat in
      if n < 128 then map_option (Cons c) (utf8_decode s)
      else (case s of
              d # t \<Rightarrow> if (n = 194 \<or> n = 195) \<and> continuation d
                       then map_option (Cons (char_of ((n - 194) * 64 + of_char d :: nat))) (utf8_decode t)
                       else None
            | [] \<Rightarrow> None))"

text \<open>\<open>bytes.split()\<close>: the runs of characters between ASCII white space.\<close>

definition ascii_space :: "char \<Rightarrow> bool" where
  "ascii_space c \<longleftrightarrow> of_char c \<in> {9, 10, 11, 12, 13, 32 :: nat}"

fun runs :: "string \<Rightarrow> string \<Rightarrow> string list" where
  "runs w [] = (if w = [] then [] else [rev w])"
| "runs w (c # s) = (if ascii_space c then (if w = [] then runs [] s else rev w # runs [] s) else runs (c # w) s)"

definition bytes_split :: "string \<Rightarrow> string list" where
  "bytes_split s = runs [] s"

lemma path_str_tail: "path_root s = [] \<Longrightarrow> path_tail s \<noteq> [] \<Longrightarrow> path_str s = join ''/'' (path_tail s)"
  by (simp add: path_str_def path_parts_def)

lemma path_tail_no_slash: "c \<in> set (path_tail s) \<Longrightarrow> CHR ''/'' \<notin> set c"
  by (auto simp: path_tail_def dest: split_no_sep)

end
