(* ===== verification/Change_Scope.thy ===== *)
theory Change_Scope
  imports Json_Text Actions Posix_Path
begin

text \<open>
  \<open>scripts/change_scope.py\<close>: the decision whether a change needs the full pipeline.  Only a complete
  Git diff of ordinary documentation files is let off.  The \<open>git\<close> program and the directory it runs
  in are the parameters of the record \<open>git_host\<close>; the event file is an argument.
\<close>

section \<open>Paths\<close>

definition revision_rx :: rx where
  "revision_rx = hex_rx 40"

definition DOCUMENT_NAMES :: "string list" where
  "DOCUMENT_NAMES = [''readme'', ''changelog'', ''contributing'', ''security'', ''releasing'', ''code_of_conduct'']"

definition PROTECTED_PARTS :: "string list" where
  "PROTECTED_PARTS =
     [''src'', ''source'', ''sources'', ''test'', ''tests'', ''testdata'', ''fixtures'', ''__tests__'',
      ''snapshots'', ''resources'', ''assets'', ''templates'', ''scripts'', ''script'', ''tools'', ''ci'',
      ''workflows'', ''actions'', ''hooks'', ''bin'', ''lib'', ''app'', ''apps'', ''build'', ''dist'',
      ''target'', ''config'', ''configs'', ''configuration'', ''dependencies'', ''deps'', ''packages'',
      ''package'', ''packaging'', ''node_modules'', ''gradle'', ''cmake'', ''docker'', ''deploy'',
      ''deployment'', ''migrations'', ''charts'', ''helm'', ''k8s'', ''vendor-bin'']"

definition MAX_DIFF_BYTES :: int where
  "MAX_DIFF_BYTES = 8 * 1024 * 1024"

record decision =
  run_ci :: bool
  reason :: string

definition decide_run :: "bool \<Rightarrow> string \<Rightarrow> decision" where
  "decide_run run why = \<lparr>run_ci = run, reason = why\<rparr>"

definition literal_path :: "json \<Rightarrow> bool" where
  "literal_path v \<longleftrightarrow>
     is_str v \<and> the_str v \<noteq> [] \<and> CHR 0x5C \<notin> set (the_str v) \<and> CHR 0x00 \<notin> set (the_str v)
     \<and> \<not> is_absolute (the_str v) \<and> path_str (the_str v) = the_str v \<and> path_parts (the_str v) \<noteq> []
     \<and> ''..'' \<notin> set (path_parts (the_str v))
     \<and> \<not> list_ex (\<lambda>c. c \<in> set (the_str v)) ''*?[''"

definition document_name :: "json \<Rightarrow> bool" where
  "document_name v \<longleftrightarrow> literal_path v \<and> lower (path_suffix (the_str v)) \<in> {''.md'', ''.rst''}"

definition documentation_path :: "string \<Rightarrow> string list \<Rightarrow> bool" where
  "documentation_path path explicit =
     (if \<not> document_name (JStr path) then False
      else (let parts = map lower (path_parts path) in
        if list_ex (\<lambda>part. startswith part ''.'' \<or> part \<in> set PROTECTED_PARTS) (butlast parts) then False
        else if startswith (last parts) ''.'' then False
        else path \<in> set explicit
             \<or> (length parts = 1 \<and> lower (path_stem path) \<in> set DOCUMENT_NAMES)
             \<or> (1 < length parts \<and> hd parts = ''docs'')))"

section \<open>Revisions\<close>

definition revision_ok :: "json \<Rightarrow> bool" where
  "revision_ok v \<longleftrightarrow> is_str v \<and> rx_match revision_rx (the_str v) \<and> the_str v \<noteq> replicate 40 CHR ''0''"

definition event_revisions :: "string \<Rightarrow> json \<Rightarrow> (string \<times> string \<times> string) res" where
  "event_revisions event_name event =
     guard (is_dict event) (TypeError ''Invalid event object'')
      (bnd (if event_name = ''pull_request'' then
              bnd (item_res event ''pull_request'') (\<lambda>pull.
              bnd (item_res pull ''base'') (\<lambda>b. bnd (item_res b ''sha'') (\<lambda>base.
              bnd (item_res pull ''head'') (\<lambda>h. bnd (item_res h ''sha'') (\<lambda>head.
                Inr (base, head, ''...''))))))
            else if event_name = ''merge_group'' then
              bnd (item_res event ''merge_group'') (\<lambda>group.
              bnd (item_res group ''base_sha'') (\<lambda>base. bnd (item_res group ''head_sha'') (\<lambda>head.
                Inr (base, head, ''..''))))
            else
              bnd (item_res event ''before'') (\<lambda>base. bnd (item_res event ''after'') (\<lambda>head.
                Inr (base, head, ''..''))))
        (\<lambda>(base, head, separator).
           checks [ensure (revision_ok base) (ValueError ''Expected nonzero full commit SHA''),
                   ensure (revision_ok head) (ValueError ''Expected nonzero full commit SHA'')]
             (Inr (the_str base, the_str head, separator))))"

section \<open>Git\<close>

text \<open>
  \<open>repo_dir\<close> resolves the repository directory and says whether it is one; \<open>run_argv\<close> runs a
  program there and returns its output, raising \<open>CalledProcessError\<close> or \<open>TimeoutExpired\<close>.
\<close>

record 'w git_host =
  repo_dir :: "string \<Rightarrow> ('w, bool) act"
  run_argv :: "string \<Rightarrow> string list \<Rightarrow> ('w, string) act"

definition range_rx :: rx where
  "range_rx = Seqs [hex_rx 40, Lit ''..'', Opt (Lit ''.''), hex_rx 40]"

definition git_argv :: "string \<Rightarrow> string \<Rightarrow> string list res" where
  "git_argv operation revision =
     (if operation = ''shallow'' \<and> revision = [] then Inr [''git'', ''rev-parse'', ''--is-shallow-repository'']
      else if operation = ''commit-type'' then
        guard (rx_match revision_rx revision) (ValueError ''Expected one exact object ID'')
          (Inr [''git'', ''cat-file'', ''-t'', ''--'', revision])
      else if operation = ''diff'' then
        guard (rx_match range_rx revision) (ValueError ''Expected an exact two-commit range'')
          (Inr [''git'', ''diff'', ''--raw'', ''--no-abbrev'', ''-z'', ''--no-renames'', ''--no-ext-diff'',
                ''--no-textconv'', ''--no-relative'', ''--ignore-submodules=none'', ''--end-of-options'',
                revision, ''--''])
      else Inl (ValueError ''Unsupported Git read operation''))"

definition git :: "'w git_host \<Rightarrow> string \<Rightarrow> string \<Rightarrow> string \<Rightarrow> ('w, string) act" where
  "git host repo operation revision =
     act_bind (repo_dir host repo) (\<lambda>is_dir.
     act_then (lift (ensure is_dir (ValueError ''Expected a repository directory'')))
     (act_bind (lift (git_argv operation revision)) (\<lambda>argv. run_argv host repo argv)))"

section \<open>The diff\<close>

definition ascii_decode :: "string \<Rightarrow> string res" where
  "ascii_decode s = guard (list_all (\<lambda>c. of_char c < (128 :: nat)) s) (ValueError ''UnicodeDecodeError'') (Inr s)"

text \<open>\<open>all(REVISION.fullmatch(value.decode("ascii")) for value in hashes)\<close>.\<close>

fun all_revisions :: "string list \<Rightarrow> bool res" where
  "all_revisions [] = Inr True"
| "all_revisions (h # hs) =
     bnd (ascii_decode h) (\<lambda>t. if rx_match revision_rx t then all_revisions hs else Inr False)"

definition expected_modes :: "string \<Rightarrow> (string \<times> string) option" where
  "expected_modes status =
     map_of [(''A'', (''000000'', ''100644'')), (''D'', (''100644'', ''000000'')), (''M'', (''100644'', ''100644''))] status"

text \<open>\<open>None\<close> lets the next record be read.\<close>

definition classify_record ::
  "string \<Rightarrow> string \<Rightarrow> string list \<Rightarrow> string list \<Rightarrow> decision option res" where
  "classify_record header raw_path explicit required =
     (case bytes_split header of
        [before, after, old_hash, new_hash, status] \<Rightarrow>
          if \<not> startswith before '':'' then Inr (Some (decide_run True ''invalid-diff''))
          else bnd (all_revisions [old_hash, new_hash]) (\<lambda>hashes.
            if \<not> hashes then Inr (Some (decide_run True ''invalid-diff''))
            else if expected_modes status \<noteq> Some (tl before, after) then
              Inr (Some (decide_run True ''non-regular-or-mode-change''))
            else (case utf8_decode raw_path of
                    None \<Rightarrow> Inl (ValueError ''UnicodeDecodeError'')
                  | Some path \<Rightarrow>
                      if path \<in> set required then Inr (Some (decide_run True ''required-path-change''))
                      else if \<not> documentation_path path explicit then
                        Inr (Some (decide_run True ''non-documentation-change''))
                      else Inr None))
      | _ \<Rightarrow> Inr (Some (decide_run True ''invalid-diff'')))"

fun classify_records :: "string list \<Rightarrow> string list \<Rightarrow> string list \<Rightarrow> decision res" where
  "classify_records (header # raw_path # records) explicit required =
     bnd (classify_record header raw_path explicit required) (\<lambda>result.
       case result of Some d \<Rightarrow> Inr d | None \<Rightarrow> classify_records records explicit required)"
| "classify_records _ explicit required = Inr (decide_run False ''documentation-only'')"

definition classify_diff :: "string \<Rightarrow> string list \<Rightarrow> string list \<Rightarrow> decision res" where
  "classify_diff raw explicit required =
     (if raw = [] then Inr (decide_run True ''empty-diff'')
      else if MAX_DIFF_BYTES < int (length raw) \<or> \<not> endswith raw [CHR 0x00] then Inr (decide_run True ''invalid-diff'')
      else (let records = split CHR 0x00 (butlast raw) in
        if odd (length records) then Inr (decide_run True ''invalid-diff'')
        else classify_records records explicit required))"

section \<open>The decision\<close>

definition is_scope_event :: "string \<Rightarrow> bool" where
  "is_scope_event e \<longleftrightarrow> e \<in> {''pull_request'', ''merge_group'', ''push''}"

text \<open>The body of the last \<open>try\<close> of \<open>classify\<close>.\<close>

definition classify_range ::
  "'w git_host \<Rightarrow> string \<Rightarrow> string \<times> string \<times> string \<Rightarrow> string list \<Rightarrow> string list \<Rightarrow> ('w, decision) act" where
  "classify_range host repo revs explicit required =
     (case revs of (base, head, separator) \<Rightarrow>
        act_bind (git host repo ''shallow'' []) (\<lambda>shallow.
        if strip ascii_space shallow \<noteq> ''false'' then ret (decide_run True ''incomplete-history'')
        else act_bind (git host repo ''commit-type'' base) (\<lambda>t.
        if strip ascii_space t \<noteq> ''commit'' then ret (decide_run True ''invalid-revisions'')
        else act_bind (git host repo ''commit-type'' head) (\<lambda>t.
        if strip ascii_space t \<noteq> ''commit'' then ret (decide_run True ''invalid-revisions'')
        else act_bind (git host repo ''diff'' (base @ separator @ head)) (\<lambda>raw.
          lift (classify_diff raw explicit required))))))"

definition classify ::
  "'w git_host \<Rightarrow> string \<Rightarrow> string \<Rightarrow> json \<Rightarrow> json \<Rightarrow> json \<Rightarrow> bool \<Rightarrow> ('w, decision) act" where
  "classify host repo event_name event documentation_paths required_paths force =
     (if force then ret (decide_run True ''forced'')
      else if \<not> is_scope_event event_name then ret (decide_run True ''unsupported-event'')
      else if \<not> (is_list documentation_paths \<and> list_all document_name (the_list documentation_paths)) then
        ret (decide_run True ''invalid-documentation-paths'')
      else if \<not> (is_list required_paths \<and> list_all literal_path (the_list required_paths)) then
        ret (decide_run True ''invalid-required-paths'')
      else (case event_revisions event_name event of
        Inl e \<Rightarrow> if is_KeyError e \<or> is_TypeError e \<or> is_ValueError e
                 then ret (decide_run True ''invalid-revisions'') else lift (Inl e)
      | Inr revs \<Rightarrow>
          act_catch (classify_range host repo revs (map the_str (the_list documentation_paths))
                       (map the_str (the_list required_paths)))
            (\<lambda>e. is_OSError e \<or> is_ValueError e \<or> is_SubprocessError e)
            (\<lambda>_. ret (decide_run True ''git-error''))))"

section \<open>Arguments\<close>

record scope_args =
  arg_repo :: string
  arg_event_name :: string
  arg_documentation_path :: "string list"
  arg_documentation_paths_json :: string
  arg_require_path :: "string list"
  arg_required_paths_json :: string
  arg_force :: bool

definition json_paths :: "(string \<Rightarrow> string) \<Rightarrow> string \<Rightarrow> string list \<Rightarrow> json res" where
  "json_paths fl value repeated =
     bnd (loads fl None value) (\<lambda>paths.
       guard (is_list paths) (TypeError ''Expected an array of exact paths'')
         (Inr (JArr (map JStr repeated @ the_list paths))))"

text \<open>The text of the event file, which the runner selects, is the action \<open>event_file\<close>.\<close>

definition from_arguments ::
  "(string \<Rightarrow> string) \<Rightarrow> 'w git_host \<Rightarrow> ('w, string) act \<Rightarrow> scope_args \<Rightarrow> ('w, decision) act" where
  "from_arguments fl host event_file args =
     (if arg_force args \<or> \<not> is_scope_event (arg_event_name args) then
        classify host (arg_repo args) (arg_event_name args) JNull (JArr []) (JArr []) (arg_force args)
      else (case json_paths fl (arg_documentation_paths_json args) (arg_documentation_path args) of
        Inl e \<Rightarrow> if is_TypeError e \<or> is_ValueError e
                 then ret (decide_run True ''invalid-documentation-paths'') else lift (Inl e)
      | Inr documentation_paths \<Rightarrow>
          (case json_paths fl (arg_required_paths_json args) (arg_require_path args) of
             Inl e \<Rightarrow> if is_TypeError e \<or> is_ValueError e
                      then ret (decide_run True ''invalid-required-paths'') else lift (Inl e)
           | Inr required_paths \<Rightarrow>
               act_bind (act_catch (act_bind event_file (\<lambda>text. lift (bnd (loads fl None text) (\<lambda>v. Inr (Some v)))))
                          (\<lambda>e. is_OSError e \<or> is_ValueError e) (\<lambda>_. ret None))
                 (\<lambda>event. case event of
                    None \<Rightarrow> ret (decide_run True ''invalid-event-file'')
                  | Some v \<Rightarrow> classify host (arg_repo args) (arg_event_name args) v documentation_paths
                                required_paths False))))"

end
