(* ===== verification/Change_Scope_Facts.thy ===== *)
theory Change_Scope_Facts
  imports Change_Scope
begin

text \<open>
  What a skip decision means: an exact description of the diffs that are let off, of the paths they
  may touch, and of everything that has to hold before \<open>classify\<close> answers that no run is needed.
\<close>

section \<open>Records of the diff\<close>

definition ordinary_change :: "string list \<Rightarrow> string list \<Rightarrow> string \<times> string \<Rightarrow> bool" where
  "ordinary_change explicit required hp \<longleftrightarrow>
     (\<exists>before after old_hash new_hash status path.
        bytes_split (fst hp) = ['':'' @ before, after, old_hash, new_hash, status]
        \<and> old_hash \<in> lang revision_rx \<and> new_hash \<in> lang revision_rx
        \<and> (status, before, after) \<in> {(''A'', ''000000'', ''100644''), (''D'', ''100644'', ''000000''),
              (''M'', ''100644'', ''100644'')}
        \<and> utf8_decode (snd hp) = Some path \<and> path \<notin> set required \<and> documentation_path path explicit)"

lemma revision_ascii: "h \<in> lang revision_rx \<Longrightarrow> ascii_decode h = Inr h"
  by (auto simp: revision_rx_def ascii_decode_def list_all_iff lower_hex_def digits_def)

lemma all_revisions_True: "all_revisions hs = Inr True \<longleftrightarrow> (\<forall>h \<in> set hs. h \<in> lang revision_rx)"
proof (induction hs)
  case (Cons h hs)
  show ?case
  proof (cases "h \<in> lang revision_rx")
    case True
    with Cons revision_ascii show ?thesis by (simp add: rx_match_iff)
  next
    case False
    then show ?thesis by (auto simp: ascii_decode_def rx_match_iff)
  qed
qed simp

lemma expected_modes_Some:
  "expected_modes status = Some (before, after) \<longleftrightarrow>
     (status, before, after) \<in> {(''A'', ''000000'', ''100644''), (''D'', ''100644'', ''000000''), (''M'', ''100644'', ''100644'')}"
  by (auto simp: expected_modes_def split: if_splits)

lemma startswith_colon: "startswith s '':'' \<longleftrightarrow> (\<exists>t. s = '':'' @ t)"
  by (simp add: startswith_iff)

lemma classify_record_None:
  "classify_record h p explicit required = Inr None \<longleftrightarrow> ordinary_change explicit required (h, p)"
  (is "?l \<longleftrightarrow> ?r")
proof
  assume ?l
  then obtain b a oh nh st where f: "bytes_split h = [b, a, oh, nh, st]"
    by (auto simp: classify_record_def split: list.splits)
  with \<open>?l\<close> show ?r
    by (auto simp: classify_record_def ordinary_change_def startswith_colon all_revisions_True
        expected_modes_Some simp del: all_revisions.simps split: if_splits option.splits)
next
  assume ?r
  then show ?l
    by (auto simp: classify_record_def ordinary_change_def startswith_colon all_revisions_True expected_modes_Some
        simp del: all_revisions.simps)
qed

lemma classify_record_runs: "classify_record h p explicit required = Inr (Some d) \<Longrightarrow> run_ci d"
  by (auto simp: classify_record_def decide_run_def split: list.splits if_splits option.splits)

fun pair_up :: "'a list \<Rightarrow> ('a \<times> 'a) list" where
  "pair_up (x # y # rest) = (x, y) # pair_up rest"
| "pair_up _ = []"

lemma classify_records_skip:
  "classify_records zs explicit required = Inr d \<Longrightarrow>
   \<not> run_ci d \<longleftrightarrow> (\<forall>hp \<in> set (pair_up zs). ordinary_change explicit required hp)"
proof (induction zs explicit required rule: classify_records.induct)
  case (1 h p zs explicit required)
  then obtain r where r: "classify_record h p explicit required = Inr r" by auto
  show ?case
  proof (cases r)
    case None
    with 1 r have "ordinary_change explicit required (h, p)" by (simp add: classify_record_None)
    moreover from 1 None r have "classify_records zs explicit required = Inr d" by simp
    ultimately show ?thesis using 1 None r by auto
  next
    case (Some d')
    with r have "\<not> ordinary_change explicit required (h, p)" by (simp flip: classify_record_None)
    with 1 Some r classify_record_runs show ?thesis by auto
  qed
qed (auto simp: decide_run_def)

lemma classify_records_all:
  "\<forall>hp \<in> set (pair_up zs). ordinary_change explicit required hp \<Longrightarrow>
   classify_records zs explicit required = Inr (decide_run False ''documentation-only'')"
  by (induction zs rule: pair_up.induct) (auto simp: classify_record_None [THEN iffD2])

section \<open>The raw text\<close>

definition raw_of :: "(string \<times> string) list \<Rightarrow> string" where
  "raw_of recs = concat (map (\<lambda>(h, p). h @ [CHR 0x00] @ p @ [CHR 0x00]) recs)"

definition nul_free :: "string \<times> string \<Rightarrow> bool" where
  "nul_free hp \<longleftrightarrow> CHR 0x00 \<notin> set (fst hp) \<and> CHR 0x00 \<notin> set (snd hp)"

fun fields_of :: "(string \<times> string) list \<Rightarrow> string list" where
  "fields_of [] = []"
| "fields_of ((h, p) # recs) = h # p # fields_of recs"

lemma pair_up_fields [simp]: "pair_up (fields_of recs) = recs"
  by (induction recs rule: fields_of.induct) auto

lemma fields_pair_up: "even (length zs) \<Longrightarrow> fields_of (pair_up zs) = zs"
  by (induction zs rule: pair_up.induct) auto

lemma even_fields: "even (length (fields_of recs))"
  by (induction recs rule: fields_of.induct) auto

lemma join_end: "zs \<noteq> [] \<Longrightarrow> join [c] zs @ [c] = concat (map (\<lambda>w. w @ [c]) zs)"
proof (induction zs)
  case (Cons w zs)
  then show ?case by (cases zs) simp_all
qed simp

lemma raw_of_fields: "raw_of recs = concat (map (\<lambda>w. w @ [CHR 0x00]) (fields_of recs))"
  by (induction recs rule: fields_of.induct) (auto simp: raw_of_def)

lemma raw_records:
  assumes "raw \<noteq> []" and "endswith raw [CHR 0x00]" and "even (length (split CHR 0x00 (butlast raw)))"
  defines "recs \<equiv> pair_up (split CHR 0x00 (butlast raw))"
  shows "recs \<noteq> [] \<and> raw = raw_of recs \<and> (\<forall>hp \<in> set recs. nul_free hp)"
proof -
  let ?zs = "split CHR 0x00 (butlast raw)"
  have f: "fields_of recs = ?zs" using assms(3) by (simp add: recs_def fields_pair_up)
  have "last raw = CHR 0x00" using assms(2) by (auto simp: endswith_iff)
  then have "raw = butlast raw @ [CHR 0x00]" using assms(1) by (metis append_butlast_last_id)
  also have "\<dots> = join [CHR 0x00] ?zs @ [CHR 0x00]" by simp
  finally have raw: "raw = raw_of recs" by (simp only: raw_of_fields f join_end [OF split_not_Nil])
  have "\<forall>w \<in> set (fields_of recs). CHR 0x00 \<notin> set w" unfolding f using split_no_sep by fast
  then have "\<forall>hp \<in> set recs. nul_free hp"
    by (induction recs rule: fields_of.induct) (auto simp: nul_free_def)
  moreover have "recs \<noteq> []" using f [symmetric] split_not_Nil [of "CHR 0x00" "butlast raw"] by (cases recs) auto
  ultimately show ?thesis using raw by simp
qed

lemma raw_of_split:
  assumes "recs \<noteq> []" and "\<forall>hp \<in> set recs. nul_free hp"
  shows "raw_of recs \<noteq> [] \<and> endswith (raw_of recs) [CHR 0x00] \<and> split CHR 0x00 (butlast (raw_of recs)) = fields_of recs"
proof -
  have ne: "fields_of recs \<noteq> []" using assms(1) by (cases recs rule: fields_of.cases) auto
  have free: "CHR 0x00 \<notin> set w" if "w \<in> set (fields_of recs)" for w
    using assms(2) that by (induction recs rule: fields_of.induct) (auto simp: nul_free_def)
  have raw: "raw_of recs = join [CHR 0x00] (fields_of recs) @ [CHR 0x00]"
    by (simp only: raw_of_fields join_end [OF ne])
  show ?thesis unfolding raw using split_join [OF ne free] by (simp add: endswith_iff)
qed

section \<open>Documentation paths\<close>

lemma documentation_path_parts:
  assumes "documentation_path path explicit"
  shows "\<exists>dirs name. path = join ''/'' (dirs @ [name]) \<and> \<not> is_absolute path
    \<and> lower (path_suffix path) \<in> {''.md'', ''.rst''} \<and> \<not> startswith (lower name) ''.''
    \<and> (\<forall>c \<in> set (dirs @ [name]). c \<notin> {'''', ''.'', ''..''} \<and> CHR ''/'' \<notin> set c)
    \<and> (\<forall>d \<in> set dirs. \<not> startswith (lower d) ''.'' \<and> lower d \<notin> set PROTECTED_PARTS)"
proof -
  from assms have d: "document_name (JStr path)" by (auto simp: documentation_path_def split: if_splits)
  then have root: "path_root path = []" "path_parts path = path_tail path"
    by (simp_all add: document_name_def literal_path_def is_absolute_def path_parts_def)
  from d have n: "path_tail path \<noteq> []" "''..'' \<notin> set (path_tail path)" "path_str path = path"
    "lower (path_suffix path) \<in> {''.md'', ''.rst''}"
    by (simp_all add: document_name_def literal_path_def root)
  then obtain dirs name where t: "path_tail path = dirs @ [name]" by (metis rev_exhaust)
  have "path = join ''/'' (dirs @ [name])" using path_str_tail [OF root(1) n(1)] n(3) t by simp
  moreover have "c \<notin> {'''', ''.'', ''..''} \<and> CHR ''/'' \<notin> set c" if "c \<in> set (dirs @ [name])" for c
    using that n(2) path_tail_no_slash [of c path] unfolding t [symmetric] by (auto simp: path_tail_def)
  moreover have "\<not> startswith (lower name) ''.''" "\<forall>d \<in> set dirs. \<not> startswith (lower d) ''.'' \<and> lower d \<notin> set PROTECTED_PARTS"
    using assms d unfolding documentation_path_def root t
    by (auto simp: Let_def list_ex_iff split: if_splits)
  ultimately show ?thesis using n(4) root(1) by (simp add: is_absolute_def) blast
qed

section \<open>Properties\<close>


text \<open>
  C13: no protected location hides behind a documentation name.  A path that counts as documentation
  is relative, has no empty, dot or parent component, ends in \<open>.md\<close> or \<open>.rst\<close>, is not hidden, and
  none of its directories is hidden or protected, in any spelling of upper and lower case.
\<close>

theorem documentation_path_confined:
  assumes "documentation_path path explicit"
  shows "\<exists>dirs name. path = join ''/'' (dirs @ [name]) \<and> \<not> is_absolute path
    \<and> lower (path_suffix path) \<in> {''.md'', ''.rst''} \<and> \<not> startswith (lower name) ''.''
    \<and> (\<forall>c \<in> set (dirs @ [name]). c \<notin> {'''', ''.'', ''..''} \<and> CHR ''/'' \<notin> set c)
    \<and> (\<forall>d \<in> set dirs. \<not> startswith (lower d) ''.'' \<and> lower d \<notin> set PROTECTED_PARTS)"
  using assms by (rule documentation_path_parts)

theorem documentation_path_confined_witness:
  "\<exists>dirs name. ''docs/Setup.md'' = join ''/'' (dirs @ [name]) \<and> \<not> startswith (lower name) ''.''"
proof -
  have "documentation_path ''docs/Setup.md'' []" by code_simp
  from documentation_path_confined [OF this] show ?thesis by blast
qed

text \<open>
  C14: the decision fails closed.  \<open>classify\<close> says that no run is needed only when it was not forced,
  the event is a known one with two full nonzero commits, Git reported a complete clone and a commit
  object for both, and the diff it printed for exactly this range is let off.
\<close>

theorem classify_fails_closed:
  assumes "classify host repo event_name event documentation_paths required_paths force w = (Inr d, w')"
    and "\<not> run_ci d"
  shows "\<not> force \<and> is_scope_event event_name \<and> (\<exists>base head sep w1 w2 w3 shallow t1 t2 raw.
    event_revisions event_name event = Inr (base, head, sep)
    \<and> git host repo ''shallow'' [] w = (Inr shallow, w1) \<and> strip ascii_space shallow = ''false''
    \<and> git host repo ''commit-type'' base w1 = (Inr t1, w2) \<and> strip ascii_space t1 = ''commit''
    \<and> git host repo ''commit-type'' head w2 = (Inr t2, w3) \<and> strip ascii_space t2 = ''commit''
    \<and> git host repo ''diff'' (base @ sep @ head) w3 = (Inr raw, w')
    \<and> classify_diff raw (map the_str (the_list documentation_paths)) (map the_str (the_list required_paths)) = Inr d)"
proof -
  from assms have c: "\<not> force" "is_scope_event event_name"
    by (auto simp: classify_def decide_run_def split: if_splits)
  with assms obtain revs where r: "event_revisions event_name event = Inr revs"
    "act_catch (classify_range host repo revs (map the_str (the_list documentation_paths))
                       (map the_str (the_list required_paths)))
            (\<lambda>e. is_OSError e \<or> is_ValueError e \<or> is_SubprocessError e)
            (\<lambda>_. ret (decide_run True ''git-error'')) w = (Inr d, w')"
    by (auto simp: classify_def decide_run_def split: if_splits sum.splits)
  obtain base head sep where revs: "revs = (base, head, sep)" by (cases revs)
  from r(2) assms(2) have "classify_range host repo revs (map the_str (the_list documentation_paths))
      (map the_str (the_list required_paths)) w = (Inr d, w')"
    by (auto simp: act_catch_Inr decide_run_def)
  with assms(2) have "\<exists>w1 w2 w3 shallow t1 t2 raw.
    git host repo ''shallow'' [] w = (Inr shallow, w1) \<and> strip ascii_space shallow = ''false''
    \<and> git host repo ''commit-type'' base w1 = (Inr t1, w2) \<and> strip ascii_space t1 = ''commit''
    \<and> git host repo ''commit-type'' head w2 = (Inr t2, w3) \<and> strip ascii_space t2 = ''commit''
    \<and> git host repo ''diff'' (base @ sep @ head) w3 = (Inr raw, w')
    \<and> classify_diff raw (map the_str (the_list documentation_paths)) (map the_str (the_list required_paths)) = Inr d"
    by (auto simp: classify_range_def revs act_bind_Inr decide_run_def split: if_splits)
  with c r(1) revs show ?thesis by blast
qed

text \<open>A clone in which one commit changed the text of a page under \<open>docs\<close>.\<close>

definition sample_base :: string where
  "sample_base = replicate 40 CHR ''a''"

definition sample_head :: string where
  "sample_head = replicate 40 CHR ''b''"

definition sample_raw :: string where
  "sample_raw = '':100644 100644 '' @ sample_base @ '' '' @ sample_head @ '' M'' @ [CHR 0x00] @ ''docs/Setup.md'' @ [CHR 0x00]"

definition sample_host :: "unit git_host" where
  "sample_host = \<lparr>repo_dir = (\<lambda>_. ret True), run_argv = (\<lambda>_ argv. ret
     (if ''diff'' \<in> set argv then sample_raw else if ''cat-file'' \<in> set argv then ''commit'' @ [CHR 0x0A]
      else ''false'' @ [CHR 0x0A]))\<rparr>"

definition sample_push :: json where
  "sample_push = JObj [(''before'', JStr sample_base), (''after'', JStr sample_head)]"

theorem classify_fails_closed_witness:
  "event_revisions ''push'' sample_push = Inr (sample_base, sample_head, ''..'')
   \<and> fst (git sample_host ''.'' ''shallow'' [] ()) = Inr (''false'' @ [CHR 0x0A])"
proof -
  have "classify sample_host ''.'' ''push'' sample_push (JArr []) (JArr []) False ()
      = (Inr (decide_run False ''documentation-only''), ())" by code_simp
  from classify_fails_closed [OF this] have "\<exists>base head sep. event_revisions ''push'' sample_push = Inr (base, head, sep)"
    by (simp add: decide_run_def) blast
  moreover have "event_revisions ''push'' sample_push = Inr (sample_base, sample_head, ''..'')" by code_simp
  moreover have "fst (git sample_host ''.'' ''shallow'' [] ()) = Inr (''false'' @ [CHR 0x0A])" by code_simp
  ultimately show ?thesis by simp
qed

end
