(* ===== verification/Resource_Amounts.thy ===== *)
theory Resource_Amounts
  imports PyJson Regex
begin

text \<open>
  \<open>deploy/arc-private/capacity_preflight.py\<close>, first part: Kubernetes quantities as exact decimals,
  resource maps and their sum and maximum, and the peak requests and limits of a pod.
\<close>

definition RESOURCES :: "string list" where
  "RESOURCES = [''cpu'', ''memory'', ''ephemeral-storage'']"

definition cap_require :: "bool \<Rightarrow> string \<Rightarrow> unit res" where
  "cap_require c m = ensure c (Unable m)"

lemma cap_require_Inr [simp, res_simps]: "cap_require c m = Inr u \<longleftrightarrow> c"
  by (simp add: cap_require_def)

section \<open>Quantities\<close>

text \<open>
  A finite \<open>Decimal\<close>: coefficient and exponent.  A quantity has at most 64 digits and a factor at most
  31, so that the precision of 128 digits never rounds and multiplication is exact.
\<close>

type_synonym decimal = "int \<times> int"

definition dec_mul :: "decimal \<Rightarrow> decimal \<Rightarrow> decimal" where
  "dec_mul a b = (fst a * fst b, snd a + snd b)"

definition dec_le :: "decimal \<Rightarrow> decimal \<Rightarrow> bool" where
  "dec_le a b \<longleftrightarrow> (let e = min (snd a) (snd b) in
     fst a * 10 ^ nat (snd a - e) \<le> fst b * 10 ^ nat (snd b - e))"

definition dec_integral :: "decimal \<Rightarrow> bool" where
  "dec_integral a \<longleftrightarrow> 10 ^ nat (- snd a) dvd fst a"

text \<open>\<open>int\<close> of an integral decimal.\<close>

definition dec_int :: "decimal \<Rightarrow> int" where
  "dec_int a = (if 0 \<le> snd a then fst a * 10 ^ nat (snd a) else fst a div 10 ^ nat (- snd a))"

definition number_rx :: rx where
  "number_rx = Seqs [Opt (Lit ''+''), Alts [Seqs [Plus Digit, Opt (Seqs [Lit ''.'', Star Digit])], Seqs [Lit ''.'', Plus Digit]]]"

definition suffix_rx :: rx where
  "suffix_rx = Alts [Seqs [Cls ''eE'', Opt (Cls ''+-''), Plus Digit], Cls ''numkKMGTPE'', Seqs [Cls ''KMGTPE'', Lit ''i'']]"

text \<open>The groups of \<open>PATTERN\<close>: the number takes no letter, so the split is forced.\<close>

definition quantity_groups :: "string \<Rightarrow> (string \<times> string) option" where
  "quantity_groups s =
     (let n = takeWhile (\<lambda>c. c \<in> set (''+.'' @ digits)) s; u = drop (length n) s in
      if rx_match number_rx n \<and> (u = [] \<or> rx_match suffix_rx u) then Some (n, u) else None)"

definition dec_of_number :: "string \<Rightarrow> decimal" where
  "dec_of_number s =
     (let d = filter (\<lambda>c. c \<noteq> CHR ''+'') s; i = takeWhile (\<lambda>c. c \<noteq> CHR ''.'') d; f = drop (length i + 1) d
      in (int (nat_of_digits (i @ f)), - int (length f)))"

definition UNITS :: "(string \<times> decimal) list" where
  "UNITS =
     [('''', (1, 0)), (''n'', (1, -9)), (''u'', (1, -6)), (''m'', (1, -3)), (''k'', (1000, 0)), (''K'', (1000, 0)),
      (''M'', (1000 ^ 2, 0)), (''G'', (1000 ^ 3, 0)), (''T'', (1000 ^ 4, 0)), (''P'', (1000 ^ 5, 0)), (''E'', (1000 ^ 6, 0)),
      (''Ki'', (1024, 0)), (''Mi'', (1024 ^ 2, 0)), (''Gi'', (1024 ^ 3, 0)), (''Ti'', (1024 ^ 4, 0)),
      (''Pi'', (1024 ^ 5, 0)), (''Ei'', (1024 ^ 6, 0))]"

definition unit_factor :: "string \<Rightarrow> decimal res" where
  "unit_factor suffix =
     (if (startswith suffix ''e'' \<or> startswith suffix ''E'') \<and> 1 < length suffix then
        bnd (int_of_signed (tl suffix)) (\<lambda>exponent.
        checks [cap_require (abs exponent \<le> 30) ''Quantity exponent out of bounds''] (Inr (1, exponent)))
      else (case map_of UNITS suffix of
              None \<Rightarrow> Inl (Unable ''Unsupported quantity'') | Some f \<Rightarrow> Inr f))"

definition max_quantity :: int where
  "max_quantity = 2 ^ 63 - 1"

definition quantity :: "json \<Rightarrow> decimal res" where
  "quantity value =
     checks [cap_require (is_str value \<or> is_int value) ''Invalid quantity type'',
             cap_require (length (py_str value) \<le> 64) ''Excessive quantity'']
      (case quantity_groups (py_str value) of
         None \<Rightarrow> Inl (Unable ''Unsupported quantity'')
       | Some (n, u) \<Rightarrow>
           bnd (unit_factor u) (\<lambda>f.
           (let result = dec_mul (dec_of_number n) f in
            checks [cap_require (dec_le (0, 0) result \<and> dec_le result (max_quantity, 0)) ''Quantity out of bounds'']
              (Inr result))))"

definition amount :: "string \<Rightarrow> json \<Rightarrow> int res" where
  "amount resource value =
     bnd (quantity value) (\<lambda>q.
     (let result = dec_mul q (if resource = ''cpu'' then 1000 else 1, 0) in
      checks [cap_require (dec_integral result) ''Unsupported sub-unit quantity''] (Inr (dec_int result))))"

section \<open>Resource maps\<close>

type_synonym amounts = "(string \<times> int) list"

definition get0 :: "amounts \<Rightarrow> string \<Rightarrow> int" where
  "get0 m k = (case map_of m k of None \<Rightarrow> 0 | Some n \<Rightarrow> n)"

definition keyed :: "amounts \<Rightarrow> string \<Rightarrow> bool" where
  "keyed m k \<longleftrightarrow> map_of m k \<noteq> None"

definition keys :: "amounts \<Rightarrow> string list" where
  "keys m = map fst m"

text \<open>\<open>set(a) <= set(b)\<close> and \<open>a == b\<close> of two dictionaries.\<close>

definition keys_sub :: "amounts \<Rightarrow> amounts \<Rightarrow> bool" where
  "keys_sub a b \<longleftrightarrow> list_all (keyed b) (keys a)"

definition same_amounts :: "amounts \<Rightarrow> amounts \<Rightarrow> bool" where
  "same_amounts a b \<longleftrightarrow> list_all (\<lambda>k. map_of a k = map_of b k) (keys a @ keys b)"

definition resource_map :: "json \<Rightarrow> amounts res" where
  "resource_map raw =
     checks [cap_require (is_dict raw) ''Resource map must be an object'',
             cap_require (keys_within (the_dict raw) RESOURCES) ''Unsupported resource dimension'']
      (mapres (\<lambda>(k, v). bnd (amount k v) (\<lambda>n. Inr (k, n))) (the_dict raw))"

text \<open>The order of a Python set is open; the model lists the keys of the left side first.\<close>

definition plus :: "amounts \<Rightarrow> amounts \<Rightarrow> amounts" where
  "plus l r = map (\<lambda>k. (k, get0 l k + get0 r k)) (remdups (keys l @ keys r))"

definition maximum :: "amounts \<Rightarrow> amounts \<Rightarrow> amounts" where
  "maximum l r = map (\<lambda>k. (k, max (get0 l k) (get0 r k))) (remdups (keys l @ keys r))"

section \<open>Containers\<close>

definition container_resources :: "json \<Rightarrow> (amounts \<times> amounts) res" where
  "container_resources container =
     checks [cap_require (is_dict container \<and> truthy (dget (the_dict container) ''name'' JNull)) ''Container lacks name'',
             cap_require (\<not> truthy (dget (the_dict container) ''resizePolicy'' JNull)) ''In-place resize policy unsupported'']
      (let raw = dget (the_dict container) ''resources'' (JObj []) in
       checks [cap_require (is_dict raw \<and> keys_within (the_dict raw) [''requests'', ''limits''])
                 ''Container resource claims unsupported'']
        (bnd (resource_map (dget (the_dict raw) ''requests'' (JObj []))) (\<lambda>req.
         bnd (resource_map (dget (the_dict raw) ''limits'' (JObj []))) (\<lambda>lim.
         checks [cap_require (keys_sub lim req) ''Missing request with limit: admission defaulting not qualified'',
                 cap_require (list_all (\<lambda>k. keyed lim k \<longrightarrow> get0 req k \<le> get0 lim k) (keys req)) ''Request exceeds limit'']
           (Inr (req, lim))))))"

section \<open>Pods\<close>

text \<open>\<open>a + b\<close> of two values that are then iterated.\<close>

definition list_plus :: "json \<Rightarrow> json \<Rightarrow> json list res" where
  "list_plus a b =
     (case (a, b) of
        (JArr xs, JArr ys) \<Rightarrow> Inr (xs @ ys)
      | (JStr s, JStr t) \<Rightarrow> Inr (map (\<lambda>c. JStr [c]) (s @ t))
      | _ \<Rightarrow> Inl (TypeError ''unsupported operand''))"

definition check_status :: "json \<Rightarrow> unit res" where
  "check_status entry =
     bnd (get_res entry ''allocatedResources'' JNull) (\<lambda>a.
     if truthy a then Inl (Unable ''Allocated/actual resize resources unsupported'')
     else bnd (get_res entry ''resources'' JNull) (\<lambda>r.
       cap_require (\<not> truthy r) ''Allocated/actual resize resources unsupported''))"

text \<open>Membership in a set of hashable values.\<close>

definition set_member :: "json \<Rightarrow> json list \<Rightarrow> bool res" where
  "set_member v seen =
     guard (\<not> is_list v \<and> \<not> is_dict v) (TypeError ''unhashable type'') (Inr (list_ex (py_eq v) seen))"

fun check_names :: "json list \<Rightarrow> json list \<Rightarrow> unit res" where
  "check_names seen [] = Inr ()"
| "check_names seen (c # cs) =
     checks [cap_require (is_dict c) ''Invalid/duplicate container'']
      (let name = dget (the_dict c) ''name'' JNull in
       bnd (set_member name seen) (\<lambda>found.
       checks [cap_require (\<not> found) ''Invalid/duplicate container''] (check_names (name # seen) cs)))"

definition add_container :: "amounts \<times> amounts \<Rightarrow> json \<Rightarrow> (amounts \<times> amounts) res" where
  "add_container rl container =
     checks [cap_require (\<not> truthy (dget (the_dict container) ''restartPolicy'' JNull)) ''Unexpected regular-container restartPolicy'']
      (bnd (container_resources container) (\<lambda>c. Inr (plus (fst rl) (fst c), plus (snd rl) (snd c))))"

text \<open>
  The sums while init containers run: of the pod so far, of the restartable ones started so far, and
  the maximum over the stages.
\<close>

record init_state =
  total :: "amounts \<times> amounts"
  sides :: "amounts \<times> amounts"
  stage_max :: "amounts \<times> amounts"

definition plus2 :: "amounts \<times> amounts \<Rightarrow> amounts \<times> amounts \<Rightarrow> amounts \<times> amounts" where
  "plus2 a b = (plus (fst a) (fst b), plus (snd a) (snd b))"

definition maximum2 :: "amounts \<times> amounts \<Rightarrow> amounts \<times> amounts \<Rightarrow> amounts \<times> amounts" where
  "maximum2 a b = (maximum (fst a) (fst b), maximum (snd a) (snd b))"

definition add_init :: "init_state \<Rightarrow> json \<Rightarrow> init_state res" where
  "add_init st container =
     bnd (container_resources container) (\<lambda>c.
     (let restart = dget (the_dict container) ''restartPolicy'' JNull in
      checks [cap_require (restart \<in> {JNull, JStr ''Always''}) ''Unsupported init restartPolicy'']
       (if restart = JStr ''Always'' then
          (let s = plus2 (sides st) c in
           Inr \<lparr>total = plus2 (total st) c, sides = s, stage_max = maximum2 (stage_max st) s\<rparr>)
        else Inr (st\<lparr>stage_max := maximum2 (stage_max st) (plus2 (sides st) c)\<rparr>))))"

text \<open>The overhead of a candidate has to be the one its runtime class declares.\<close>

definition candidate_overhead :: "members \<Rightarrow> (string \<times> json) list \<Rightarrow> amounts \<Rightarrow> amounts res" where
  "candidate_overhead spec runtimes overhead =
     (let runtime = dget spec ''runtimeClassName'' JNull in
      if truthy runtime then
        bnd (hash_in runtime (map fst runtimes)) (\<lambda>known.
        checks [cap_require known ''RuntimeClass missing from snapshot'']
         (bnd (item_res (JObj runtimes) (the_str runtime)) (\<lambda>class.
          bnd (get_res class ''overhead'' (JObj [])) (\<lambda>o1.
          bnd (get_res o1 ''podFixed'' (JObj [])) (\<lambda>fixed.
          bnd (resource_map fixed) (\<lambda>expected.
          checks [cap_require (\<not> has_key spec ''overhead'' \<or> same_amounts overhead expected)
                    ''Candidate overhead differs from RuntimeClass''] (Inr expected)))))))
      else checks [cap_require (overhead = []) ''Candidate overhead without RuntimeClass''] (Inr overhead))"

definition add_overhead :: "amounts \<Rightarrow> amounts \<times> amounts \<Rightarrow> amounts \<times> amounts" where
  "add_overhead overhead rl =
     (plus (fst rl) overhead, map (\<lambda>(k, v). (k, v + (if v \<noteq> 0 then get0 overhead k else 0))) (snd rl))"

text \<open>Requests and limits at the peak of the pod, without overhead.\<close>

definition peak_resources :: "json list \<Rightarrow> json list \<Rightarrow> (amounts \<times> amounts) res" where
  "peak_resources containers init =
     bnd (foldres add_container ([], []) containers) (\<lambda>rl.
     bnd (foldres add_init \<lparr>total = rl, sides = ([], []), stage_max = ([], [])\<rparr> init) (\<lambda>st.
       Inr (maximum2 (total st) (stage_max st))))"

text \<open>\<open>pod_resources\<close> after the types of specification and status are known.\<close>

definition spec_resources :: "members \<Rightarrow> members \<Rightarrow> (string \<times> json) list \<Rightarrow> bool \<Rightarrow> (amounts \<times> amounts) res" where
  "spec_resources spec status runtimes candidate =
     checks [cap_require (\<not> truthy (dget spec ''resources'' JNull) \<and> \<not> truthy (dget spec ''resourceClaims'' JNull))
               ''Pod-level resources/claims unsupported'',
             cap_require (\<not> truthy (dget status ''resize'' JNull)) ''In-place resize unsupported'']
      (bnd (list_plus (dget status ''containerStatuses'' (JArr [])) (dget status ''initContainerStatuses'' (JArr []))) (\<lambda>entries.
       (let containers = dget spec ''containers'' JNull; init = dget spec ''initContainers'' (JArr []) in
        checks [each check_status entries,
                cap_require (is_list containers \<and> the_list containers \<noteq> [] \<and> is_list init) ''Missing containers'',
                cap_require (length (the_list containers) + length (the_list init) \<le> 100) ''Too many containers'',
                check_names [] (the_list containers @ the_list init)]
         (bnd (peak_resources (the_list containers) (the_list init)) (\<lambda>peak.
          bnd (resource_map (dget spec ''overhead'' (JObj []))) (\<lambda>overhead.
          bnd (if candidate then candidate_overhead spec runtimes overhead else Inr overhead) (\<lambda>overhead.
            Inr (add_overhead overhead peak))))))))"

definition pod_resources :: "json \<Rightarrow> (string \<times> json) list \<Rightarrow> bool \<Rightarrow> (amounts \<times> amounts) res" where
  "pod_resources pod runtimes candidate =
     bnd (get_res pod ''spec'' (JObj [])) (\<lambda>spec. bnd (get_res pod ''status'' (JObj [])) (\<lambda>status.
     checks [cap_require (is_dict spec \<and> is_dict status) ''Malformed Pod'']
       (spec_resources (the_dict spec) (the_dict status) runtimes candidate)))"

end
