(* ===== verification/Capacity_Preflight.thy ===== *)
theory Capacity_Preflight
  imports Resource_Amounts Actions Datetime
begin

text \<open>
  \<open>deploy/arc-private/capacity_preflight.py\<close>, second part: the offline analysis of a cluster snapshot
  against a candidate pod.  \<open>analyze\<close> fills a report step by step and keeps what it has when a step
  raises, so its steps are actions on the report.  A blocker is the message of the source as a
  constructor with the values it interpolates.
\<close>

section \<open>The report\<close>

datatype blocker =
    BelowMinimum string json string
  | AboveMaximum string json string
  | BadRatio string json string
  | NodeShort string string int int
  | QuotaShort string string int int

datatype verdict = Unable_To_Qualify | Blocked | Headroom_Passes

record node_row =
  allocatable :: int
  assigned :: int
  available :: int
  candidate_needs :: int

record quota_row =
  quota_name :: string
  quota_resource :: string
  hard_limit :: int
  used_now :: int
  observed_pods :: int
  quota_candidate :: int
  quota_available :: int

record pending_row =
  pending_pod :: string
  assigned_node :: json
  pending_requests :: amounts
  pending_limits :: amounts

record report =
  verdict :: verdict
  blockers :: "blocker list"
  unknowns :: "exn list"
  node_resources :: "(string \<times> node_row) list"
  quotas :: "quota_row list"
  pending_reservations :: "pending_row list"
  server :: "json option"
  candidate_requests :: "amounts option"
  candidate_limits :: "amounts option"

definition empty_report :: report where
  "empty_report = \<lparr>verdict = Unable_To_Qualify, blockers = [], unknowns = [], node_resources = [], quotas = [],
     pending_reservations = [], server = None, candidate_requests = None, candidate_limits = None\<rparr>"

type_synonym 'a step = "(report, 'a) act"

definition modify :: "(report \<Rightarrow> report) \<Rightarrow> unit step" where
  "modify f r = (Inr (), f r)"

definition block :: "blocker \<Rightarrow> unit step" where
  "block b = modify (\<lambda>r. r\<lparr>blockers := blockers r @ [b]\<rparr>)"

definition demand :: "bool \<Rightarrow> string \<Rightarrow> unit step" where
  "demand c m = lift (cap_require c m)"

section \<open>Objects of the snapshot\<close>

definition nonempty_str :: "json \<Rightarrow> bool" where
  "nonempty_str v \<longleftrightarrow> is_str v \<and> the_str v \<noteq> []"

definition object_meta :: "json \<Rightarrow> string \<Rightarrow> json option \<Rightarrow> members res" where
  "object_meta obj kind namespace =
     checks [cap_require (is_dict obj \<and> dget (the_dict obj) ''kind'' JNull = JStr kind) ''Expected kind'']
      (let meta = dget (the_dict obj) ''metadata'' (JObj []) in
       checks [cap_require (is_dict meta) ''metadata must be an object'',
               cap_require (list_all (\<lambda>k. nonempty_str (dget (the_dict meta) k JNull)) [''name'', ''uid'', ''resourceVersion''])
                 ''lacks persisted identity/resourceVersion'',
               (case namespace of None \<Rightarrow> Inr ()
                | Some n \<Rightarrow> cap_require (py_eq (dget (the_dict meta) ''namespace'' JNull) n) ''namespace mismatch'')]
         (Inr (the_dict meta)))"

fun check_items :: "string \<Rightarrow> json option \<Rightarrow> json list \<Rightarrow> json list \<Rightarrow> unit res" where
  "check_items kind namespace seen [] = Inr ()"
| "check_items kind namespace seen (item # items) =
     bnd (object_meta item kind namespace) (\<lambda>meta.
     checks [cap_require (dget meta ''uid'' JNull \<notin> set seen) ''contains duplicate object'']
       (check_items kind namespace (dget meta ''uid'' JNull # seen) items))"

definition listed :: "members \<Rightarrow> string \<Rightarrow> string \<Rightarrow> json option \<Rightarrow> json list res" where
  "listed snapshot key kind namespace =
     (let obj = dget snapshot key (JObj []) in
      checks [cap_require (is_dict obj \<and> dget (the_dict obj) ''kind'' JNull \<in> {JStr (kind @ ''List''), JStr ''List''}) ''Missing list'']
       (let meta = dget (the_dict obj) ''metadata'' (JObj []) in
        checks [cap_require (is_dict meta) ''list metadata must be an object'',
                cap_require (nonempty_str (dget (the_dict meta) ''resourceVersion'' JNull)) ''lacks list resourceVersion'',
                cap_require (\<not> truthy (dget (the_dict meta) ''continue'' JNull)
                             \<and> \<not> truthy (dget (the_dict meta) ''remainingItemCount'' JNull)) ''is paginated/incomplete'']
         (let items = dget (the_dict obj) ''items'' JNull in
          checks [cap_require (is_list items \<and> int (length (the_list items)) \<le> 20000) ''items missing or excessive'',
                  check_items kind namespace [] (the_list items)]
            (Inr (the_list items)))))"

text \<open>The metadata of an item that \<open>listed\<close> accepted, and \<open>v["name"]\<close> of it.\<close>

definition meta_of :: "json \<Rightarrow> members" where
  "meta_of item = the_dict (dget (the_dict item) ''metadata'' (JObj []))"

definition name_of :: "json \<Rightarrow> string" where
  "name_of item = the_str (dget (meta_of item) ''name'' JNull)"

definition cap_timestamp :: "json \<Rightarrow> datetime res" where
  "cap_timestamp value =
     checks [cap_require (is_str value) ''Missing capture time'']
      (case from_isoformat (replace_zulu (the_str value)) of
         None \<Rightarrow> Inl (Unable ''Invalid capture time'')
       | Some t \<Rightarrow> checks [cap_require (utc_offset t \<noteq> None) ''Capture time lacks timezone''] (Inr t))"

text \<open>\<open>text.partition(c)\<close>: what is before, whether \<open>c\<close> occurs, what is after.\<close>

definition partition :: "char \<Rightarrow> string \<Rightarrow> string \<times> bool \<times> string" where
  "partition c s = (let a = takeWhile (\<lambda>x. x \<noteq> c) s in (a, c \<in> set s, drop (length a + 1) s))"

definition server_version :: "json \<Rightarrow> json res" where
  "server_version value =
     checks [cap_require (is_str value \<and> length (the_str value) \<le> 128) ''Missing/unsupported server version'']
      (case partition CHR ''+'' (the_str value) of (core_and_pre, has_build, build) \<Rightarrow>
       case partition CHR ''-'' core_and_pre of (core, has_pre, pre) \<Rightarrow>
        (let components = split CHR ''.'' core;
             suffix_ok = (\<lambda>s. list_all (\<lambda>part. rx_match (Plus (Cls (alnum @ ''-''))) part) (split CHR ''.'' s)) in
         checks [cap_require (length components = 3 \<and> hd components = ''v1''
                              \<and> list_all (rx_match (Plus Digit)) (tl components)) ''Missing/unsupported server version'',
                 only_if has_pre (cap_require (suffix_ok pre) ''Missing/unsupported server version''),
                 only_if has_build (cap_require (suffix_ok build) ''Missing/unsupported server version'')]
           (Inr value)))"

section \<open>Quotas and limit ranges\<close>

definition quota_usage :: "amounts \<Rightarrow> amounts \<Rightarrow> bool \<Rightarrow> amounts" where
  "quota_usage req lim terminal =
     (''count/pods'', 1) #
     (if terminal then []
      else (''pods'', 1) # concat (map (\<lambda>r. [(r, get0 req r), (''requests.'' @ r, get0 req r), (''limits.'' @ r, get0 lim r)]) RESOURCES))"

definition removeprefix :: "string \<Rightarrow> string \<Rightarrow> string" where
  "removeprefix p s = (if startswith s p then drop (length p) s else s)"

definition quota_dimension :: "string \<Rightarrow> string" where
  "quota_dimension key = removeprefix ''limits.'' (removeprefix ''requests.'' key)"

definition quota_amount :: "string \<Rightarrow> json \<Rightarrow> int res" where
  "quota_amount key value =
     checks [cap_require (quota_dimension key \<in> set RESOURCES \<or> key \<in> {''pods'', ''count/pods''}) ''Unsupported quota dimension'']
       (amount (quota_dimension key) value)"

definition quota_map :: "members \<Rightarrow> amounts res" where
  "quota_map m = mapres (\<lambda>(k, v). bnd (quota_amount k v) (\<lambda>n. Inr (k, n))) m"

text \<open>\<open>Decimal(limit) > ratio * request\<close>.\<close>

definition exceeds_ratio :: "int \<Rightarrow> decimal \<Rightarrow> int \<Rightarrow> bool" where
  "exceeds_ratio limit ratio request \<longleftrightarrow> \<not> dec_le (limit, 0) (dec_mul ratio (request, 0))"

text \<open>One container against one rule of a limit range.\<close>

definition limit_container ::
  "string \<Rightarrow> amounts \<Rightarrow> amounts \<Rightarrow> amounts \<times> amounts \<Rightarrow> members \<Rightarrow> json \<Rightarrow> unit step" where
  "limit_container name mins maxes defaults ratios container =
     act_bind (lift (container_resources container)) (\<lambda>rl.
     (let req = fst rl; lim = snd rl; c = dget (the_dict container) ''name'' JNull in
      act_then (demand (keys_sub (fst defaults) req \<and> keys_sub (snd defaults) lim) ''LimitRange would default candidate resources'')
      (act_then (act_each (\<lambda>(key, value).
          act_when (\<not> keyed req key \<or> get0 req key < value \<or> (keyed lim key \<and> get0 lim key < value))
            (block (BelowMinimum name c key))) mins)
      (act_then (act_each (\<lambda>(key, value).
          act_when (\<not> keyed lim key \<or> value < get0 lim key \<or> value < get0 req key)
            (block (AboveMaximum name c key))) maxes)
      (act_each (\<lambda>(key, raw). act_bind (lift (quantity raw)) (\<lambda>ratio.
          act_when (\<not> keyed lim key \<or> get0 req key = 0 \<or> exceeds_ratio (get0 lim key) ratio (get0 req key))
            (block (BadRatio name c key)))) ratios)))))"

text \<open>\<open>candidate["spec"]["containers"] + candidate["spec"].get("initContainers", [])\<close>.\<close>

definition candidate_containers :: "json \<Rightarrow> json list" where
  "candidate_containers candidate =
     (let spec = the_dict (dget (the_dict candidate) ''spec'' (JObj [])) in
      the_list (dget spec ''containers'' JNull) @ the_list (dget spec ''initContainers'' (JArr [])))"

definition limit_rule :: "string \<Rightarrow> json list \<Rightarrow> json \<Rightarrow> unit step" where
  "limit_rule name containers rule =
     act_bind (lift (get_res rule ''type'' JNull)) (\<lambda>t.
     act_then (demand (t = JStr ''Container'') ''Unsupported LimitRange type'')
     (act_then (demand (keys_within (the_dict rule) [''type'', ''min'', ''max'', ''default'', ''defaultRequest'', ''maxLimitRequestRatio''])
        ''Unsupported LimitRange fields'')
     (act_bind (lift (resource_map (dget (the_dict rule) ''min'' (JObj [])))) (\<lambda>mins.
      act_bind (lift (resource_map (dget (the_dict rule) ''max'' (JObj [])))) (\<lambda>maxes.
      act_bind (lift (resource_map (dget (the_dict rule) ''defaultRequest'' (JObj [])))) (\<lambda>d1.
      act_bind (lift (resource_map (dget (the_dict rule) ''default'' (JObj [])))) (\<lambda>d2.
      (let ratios = dget (the_dict rule) ''maxLimitRequestRatio'' (JObj []) in
       act_then (demand (is_dict ratios \<and> keys_within (the_dict ratios) RESOURCES) ''Unsupported LimitRange ratio'')
         (act_each (limit_container name mins maxes (d1, d2) (the_dict ratios)) containers)))))))))"

definition limit_range :: "json list \<Rightarrow> json \<Rightarrow> unit step" where
  "limit_range containers item =
     act_bind (lift (get_res item ''spec'' (JObj []))) (\<lambda>spec.
     act_bind (lift (get_res spec ''limits'' JNull)) (\<lambda>limits.
     act_then (demand (is_list limits \<and> the_list limits \<noteq> []) ''LimitRange has no limits'')
       (act_each (limit_rule (name_of item) containers) (the_list limits))))"

definition limit_checks :: "json \<Rightarrow> json list \<Rightarrow> unit step" where
  "limit_checks candidate ranges = act_each (limit_range (candidate_containers candidate)) ranges"

section \<open>Usage of the node and of the namespace\<close>

fun all_contained :: "json \<Rightarrow> string list \<Rightarrow> bool res" where
  "all_contained v [] = Inr True"
| "all_contained v (k # ks) = bnd (contains_res v k) (\<lambda>b. if b then all_contained v ks else Inr False)"

definition node_keys :: "string list" where
  "node_keys = RESOURCES @ [''pods'']"

definition node_allocatable :: "members \<Rightarrow> amounts res" where
  "node_allocatable node =
     bnd (get_res (dget node ''status'' (JObj [])) ''allocatable'' (JObj [])) (\<lambda>allocatable.
     bnd (all_contained allocatable node_keys) (\<lambda>complete.
     checks [cap_require complete ''Node allocatable dimensions incomplete'']
       (mapres (\<lambda>k. bnd (item_res allocatable k) (\<lambda>v. bnd (amount k v) (\<lambda>n. Inr (k, n)))) node_keys)))"

definition phases :: "string list" where
  "phases = [''Pending'', ''Running'', ''Unknown'', ''Succeeded'', ''Failed'']"

definition is_phase :: "json \<Rightarrow> string list \<Rightarrow> bool" where
  "is_phase v names \<longleftrightarrow> is_str v \<and> the_str v \<in> set names"

text \<open>One pod of the cluster: what it uses of the node, and of the quotas of the namespace.\<close>

definition count_pod ::
  "string \<Rightarrow> json \<Rightarrow> (string \<times> json) list \<Rightarrow> amounts \<times> amounts \<Rightarrow> json \<Rightarrow> (amounts \<times> amounts) step" where
  "count_pod namespace node_name runtimes acc pod =
     act_bind (lift (get_res (dget (the_dict pod) ''status'' (JObj [])) ''phase'' JNull)) (\<lambda>phase.
     act_then (demand (is_phase phase phases) ''Pod phase missing or unsupported'')
     (let terminal = is_phase phase [''Succeeded'', ''Failed'']; pns = dget (meta_of pod) ''namespace'' JNull in
      act_then (demand (nonempty_str pns) ''Pod namespace missing'')
      (act_bind (lift (get_res (dget (the_dict pod) ''spec'' (JObj [])) ''nodeName'' JNull)) (\<lambda>node.
       (let here = (node = node_name); ours = (pns = JStr namespace) in
        act_bind (lift (if terminal \<or> \<not> (here \<or> ours) then Inr ([], []) else pod_resources pod runtimes False)) (\<lambda>rl.
        (let acc' = ((if here \<and> \<not> terminal then plus (fst acc) (plus (fst rl) [(''pods'', 1)]) else fst acc),
                     (if ours then plus (snd acc) (quota_usage (fst rl) (snd rl) terminal) else snd acc)) in
         act_then (act_when (ours \<and> phase = JStr ''Pending'') (modify (\<lambda>r. r\<lparr>pending_reservations := pending_reservations r @
             [\<lparr>pending_pod = name_of pod, assigned_node = node, pending_requests = fst rl, pending_limits = snd rl\<rparr>]\<rparr>)))
           (ret acc'))))))))"

fun count_pods ::
  "string \<Rightarrow> json \<Rightarrow> (string \<times> json) list \<Rightarrow> amounts \<times> amounts \<Rightarrow> json list \<Rightarrow> (amounts \<times> amounts) step" where
  "count_pods namespace node_name runtimes acc [] = ret acc"
| "count_pods namespace node_name runtimes acc (pod # pods) =
     act_bind (count_pod namespace node_name runtimes acc pod) (\<lambda>acc'. count_pods namespace node_name runtimes acc' pods)"

definition check_node :: "string \<Rightarrow> amounts \<Rightarrow> amounts \<Rightarrow> string \<times> int \<Rightarrow> unit step" where
  "check_node node_name creq used kc =
     (let key = fst kc; capacity = snd kc; requested = (if key = ''pods'' then 1 else get0 creq key);
          free = capacity - get0 used key in
      act_then (modify (\<lambda>r. r\<lparr>node_resources := node_resources r @
          [(key, \<lparr>allocatable = capacity, assigned = get0 used key, available = free, candidate_needs = requested\<rparr>)]\<rparr>))
        (act_when (free < requested) (block (NodeShort node_name key requested free))))"

text \<open>One entry of one quota.\<close>

fun explicit_everywhere :: "string \<Rightarrow> string \<Rightarrow> json list \<Rightarrow> unit res" where
  "explicit_everywhere grp dimension [] = Inr ()"
| "explicit_everywhere grp dimension (c # cs) =
     bnd (get_res c ''resources'' (JObj [])) (\<lambda>r. bnd (get_res r grp (JObj [])) (\<lambda>g.
     bnd (contains_res g dimension) (\<lambda>found.
     checks [cap_require found ''candidate lacks explicit resources''] (explicit_everywhere grp dimension cs))))"

definition check_quota_entry ::
  "string \<Rightarrow> json list \<Rightarrow> amounts \<Rightarrow> amounts \<Rightarrow> json \<Rightarrow> string \<times> int \<Rightarrow> unit step" where
  "check_quota_entry name containers observed incoming consumed kv =
     (let key = fst kv; value = snd kv; dimension = quota_dimension key in
      act_bind (lift (bnd (item_res consumed key) (quota_amount key))) (\<lambda>current.
      act_then (demand (get0 observed key \<le> current) ''status.used undercounts observed Pods'')
      (act_then (lift (only_if (dimension \<in> {''cpu'', ''memory''})
          (explicit_everywhere (if startswith key ''limits.'' then ''limits'' else ''requests'') dimension containers)))
      (act_then (modify (\<lambda>r. r\<lparr>quotas := quotas r @
          [\<lparr>quota_name = name, quota_resource = key, hard_limit = value, used_now = current,
            observed_pods = get0 observed key, quota_candidate = get0 incoming key, quota_available = value - current\<rparr>]\<rparr>))
        (act_when (value < current + get0 incoming key)
          (block (QuotaShort name key (get0 incoming key) (value - current))))))))"

definition check_quota :: "json list \<Rightarrow> amounts \<Rightarrow> amounts \<Rightarrow> json \<Rightarrow> unit step" where
  "check_quota containers observed incoming quota =
     act_bind (lift (get_res quota ''spec'' (JObj []))) (\<lambda>spec.
     act_bind (lift (get_res quota ''status'' (JObj []))) (\<lambda>status.
     act_bind (lift (get_res spec ''scopes'' JNull)) (\<lambda>scopes.
     act_then (demand (\<not> truthy scopes \<and> \<not> truthy (dget (the_dict spec) ''scopeSelector'' JNull)) ''scoped quotas unsupported'')
     (act_bind (lift (get_res status ''hard'' JNull)) (\<lambda>hard.
     (let declared = dget (the_dict spec) ''hard'' JNull; consumed = dget (the_dict status) ''used'' JNull in
      act_then (demand (is_dict hard \<and> is_dict declared \<and> is_dict consumed \<and> truthy hard) ''status incomplete'')
      (act_bind (lift (quota_map (the_dict hard))) (\<lambda>limits.
       act_bind (lift (quota_map (the_dict declared))) (\<lambda>spec_limits.
       act_then (demand (same_amounts limits spec_limits) ''status.hard has not converged to spec.hard'')
       (act_then (demand (keys_are (the_dict consumed) (keys limits)) ''status.used incomplete'')
         (act_each (check_quota_entry (name_of quota) containers observed incoming consumed) limits)))))))))))"

text \<open>\<open>except Unable\<close> of one quota.\<close>

fun is_Unable :: "exn \<Rightarrow> bool" where
  "is_Unable (Unable _) = True"
| "is_Unable _ = False"

fun is_AttributeError :: "exn \<Rightarrow> bool" where
  "is_AttributeError (AttributeError _) = True"
| "is_AttributeError _ = False"

definition note_unknown :: "exn \<Rightarrow> unit step" where
  "note_unknown e = modify (\<lambda>r. r\<lparr>unknowns := unknowns r @ [e]\<rparr>)"

section \<open>The analysis\<close>

definition COVERAGE :: string where
  "COVERAGE = ''all-pods-and-runtimeclasses;all-target-namespace-quotas-and-limitranges''"

text \<open>The candidate has to be an unadmitted pod of the namespace.\<close>

definition check_candidate :: "json \<Rightarrow> json \<Rightarrow> unit res" where
  "check_candidate candidate namespace =
     bnd (get_res candidate ''kind'' JNull) (\<lambda>kind.
     checks [cap_require (kind = JStr ''Pod'' \<and> dget (the_dict candidate) ''apiVersion'' JNull = JStr ''v1'') ''Candidate must be a v1 Pod'']
      (bnd (get_res (dget (the_dict candidate) ''metadata'' (JObj [])) ''namespace'' JNull) (\<lambda>ns.
       checks [cap_require (ns = namespace) ''Candidate namespace mismatch'',
               cap_require (\<not> truthy (dget (meta_of candidate) ''uid'' JNull)
                            \<and> \<not> truthy (dget (the_dict candidate) ''status'' JNull)) ''Candidate is already admitted'']
        (bnd (get_res (dget (the_dict candidate) ''spec'' (JObj [])) ''nodeName'' JNull) (\<lambda>n.
          cap_require (\<not> truthy n) ''Candidate must not bypass scheduler with nodeName'')))))"

definition check_times :: "members \<Rightarrow> int \<Rightarrow> unit res" where
  "check_times snapshot now =
     bnd (cap_timestamp (dget snapshot ''started_at'' JNull)) (\<lambda>start.
     bnd (cap_timestamp (dget snapshot ''finished_at'' JNull)) (\<lambda>finish.
     checks [cap_require (0 \<le> instant finish - instant start \<and> instant finish - instant start \<le> 30 * second_us)
               ''Capture duration exceeds 30 seconds'',
             cap_require (0 \<le> now - instant finish \<and> now - instant finish \<le> 60 * second_us)
               ''Snapshot stale or from the future''] (Inr ())))"

record cluster =
  cl_namespace :: string
  cl_node :: members
  cl_node_name :: json
  cl_pods :: "json list"
  cl_quotas :: "json list"
  cl_ranges :: "json list"
  cl_runtimes :: "(string \<times> json) list"

text \<open>The checks of the snapshot before any arithmetic.\<close>

definition open_snapshot :: "json \<Rightarrow> int \<Rightarrow> cluster step" where
  "open_snapshot snap now =
     act_then (demand (is_dict snap \<and> dget (the_dict snap) ''schema'' JNull = JInt 1
                       \<and> dget (the_dict snap) ''coverage'' JNull = JStr COVERAGE) ''Unsupported/incomplete snapshot coverage'')
     (let snapshot = the_dict snap in
      act_then (lift (check_times snapshot now))
      (act_bind (lift (bnd (get_res (dget snapshot ''server_version'' (JObj [])) ''gitVersion'' JNull) server_version)) (\<lambda>version.
       act_then (modify (\<lambda>r. r\<lparr>server := Some version\<rparr>))
       (let namespace = dget snapshot ''namespace'' JNull; node = dget snapshot ''node'' JNull in
        act_then (demand (nonempty_str namespace) ''Missing namespace'')
        (act_bind (lift (object_meta node ''Node'' None)) (\<lambda>node_meta.
         act_bind (lift (listed snapshot ''pods'' ''Pod'' None)) (\<lambda>pods.
         act_bind (lift (listed snapshot ''quotas'' ''ResourceQuota'' (Some namespace))) (\<lambda>quotas.
         act_bind (lift (listed snapshot ''limitranges'' ''LimitRange'' (Some namespace))) (\<lambda>ranges.
         act_bind (lift (listed snapshot ''runtimeclasses'' ''RuntimeClass'' None)) (\<lambda>runtime_list.
         act_then (demand (distinct (map name_of runtime_list)) ''Duplicate RuntimeClass name'')
           (ret \<lparr>cl_namespace = the_str namespace, cl_node = the_dict node, cl_node_name = dget node_meta ''name'' JNull,
                 cl_pods = pods, cl_quotas = quotas, cl_ranges = ranges,
                 cl_runtimes = map (\<lambda>x. (name_of x, x)) runtime_list\<rparr>)))))))))))"

definition final_verdict :: "report \<Rightarrow> verdict" where
  "final_verdict r = (if unknowns r \<noteq> [] then Unable_To_Qualify else if blockers r \<noteq> [] then Blocked else Headroom_Passes)"

text \<open>The candidate with its peak \<open>c\<close> against limit ranges, node and quotas.\<close>

definition weigh_candidate :: "json \<Rightarrow> cluster \<Rightarrow> amounts \<times> amounts \<Rightarrow> unit step" where
  "weigh_candidate candidate cl c =
     act_then (limit_checks candidate (cl_ranges cl))
     (act_bind (lift (node_allocatable (cl_node cl))) (\<lambda>allocated.
      act_bind (count_pods (cl_namespace cl) (cl_node_name cl) (cl_runtimes cl) ([(''pods'', 0)], []) (cl_pods cl)) (\<lambda>use.
      act_then (act_each (check_node (the_str (cl_node_name cl)) (fst c) (fst use)) allocated)
        (act_each (\<lambda>quota. act_catch
            (check_quota (candidate_containers candidate) (snd use) (quota_usage (fst c) (snd c) False) quota)
            is_Unable note_unknown) (cl_quotas cl)))))"

definition analyze_steps :: "json \<Rightarrow> json \<Rightarrow> int \<Rightarrow> unit step" where
  "analyze_steps snapshot candidate now =
     act_bind (open_snapshot snapshot now) (\<lambda>cl.
     act_then (lift (check_candidate candidate (JStr (cl_namespace cl))))
     (act_bind (lift (pod_resources candidate (cl_runtimes cl) True)) (\<lambda>c.
      act_then (modify (\<lambda>r. r\<lparr>candidate_requests := Some (fst c), candidate_limits := Some (snd c)\<rparr>))
        (weigh_candidate candidate cl c))))"

definition analyze_body :: "json \<Rightarrow> json \<Rightarrow> int \<Rightarrow> unit step" where
  "analyze_body snapshot candidate now =
     act_then (analyze_steps snapshot candidate now) (modify (\<lambda>r. r\<lparr>verdict := final_verdict r\<rparr>))"

text \<open>The handler around the body; other exceptions escape.\<close>

definition analyze :: "json \<Rightarrow> json \<Rightarrow> int \<Rightarrow> report res" where
  "analyze snapshot candidate now =
     (case analyze_body snapshot candidate now empty_report of
        (Inr _, r) \<Rightarrow> Inr r
      | (Inl e, r) \<Rightarrow>
          if is_Unable e \<or> is_TypeError e \<or> is_KeyError e \<or> is_AttributeError e then
            Inr (r\<lparr>unknowns := unknowns r @ [e]\<rparr>)
          else Inl e)"

end
