(* ===== verification/Capacity_Facts.thy ===== *)
theory Capacity_Facts
  imports Capacity_Preflight
begin

text \<open>
  What a passing verdict means, that the peak of a pod is the maximum over its stages, and how
  quantities are read.
\<close>

section \<open>Sums and maxima\<close>

lemma map_of_image: "map_of (map (\<lambda>k. (k, f k)) ks) k = (if k \<in> set ks then Some (f k) else None)"
  by (induction ks) auto

lemma keyed_iff: "keyed m k \<longleftrightarrow> k \<in> set (keys m)"
  by (auto simp: keyed_def keys_def map_of_eq_None_iff)

lemma get0_absent: "k \<notin> set (keys m) \<Longrightarrow> get0 m k = 0"
  by (simp add: get0_def keys_def map_of_eq_None_iff [THEN iffD2])

lemma get0_image: "get0 (map (\<lambda>k. (k, f k)) ks) k = (if k \<in> set ks then f k else 0)"
  by (simp add: get0_def map_of_image)

lemma get0_plus [simp]: "get0 (plus l r) k = get0 l k + get0 r k"
  by (auto simp: plus_def get0_image get0_absent)

lemma get0_maximum [simp]: "get0 (maximum l r) k = max (get0 l k) (get0 r k)"
  by (auto simp: maximum_def get0_image get0_absent)

lemma get0_Nil [simp]: "get0 [] k = 0"
  by (simp add: get0_def)

section \<open>Quantities are bounded\<close>

lemma dec_le_zero: "dec_le (0, 0) q \<longleftrightarrow> 0 \<le> fst q"
proof (cases "0 \<le> fst q")
  case False
  then have "fst q * 10 ^ nat (snd q - min 0 (snd q)) < 0" by (intro mult_neg_pos) simp_all
  with False show ?thesis by (simp add: dec_le_def Let_def)
qed (simp add: dec_le_def Let_def)

lemma quantity_bounds: "quantity v = Inr q \<Longrightarrow> 0 \<le> fst q \<and> dec_le q (max_quantity, 0)"
  by (auto simp: quantity_def Let_def dec_le_zero split: option.splits prod.splits)

lemma dec_int_nonneg: "0 \<le> fst q \<Longrightarrow> 0 \<le> dec_int q"
  by (simp add: dec_int_def pos_imp_zdiv_nonneg_iff)

lemma amount_nonneg: "amount r v = Inr n \<Longrightarrow> 0 \<le> n"
  by (auto simp: amount_def Let_def dec_mul_def intro!: dec_int_nonneg dest!: quantity_bounds)

lemma resource_map_nonneg: "resource_map raw = Inr m \<Longrightarrow> 0 \<le> get0 m k"
proof -
  assume "resource_map raw = Inr m"
  then have "mapres (\<lambda>(k, v). bnd (amount k v) (\<lambda>n. Inr (k, n))) (the_dict raw) = Inr m"
    by (simp add: resource_map_def)
  then have "\<forall>(k, n) \<in> set m. 0 \<le> n"
    using mapres_set by (fastforce dest: amount_nonneg)
  then show ?thesis by (auto simp: get0_def dest: map_of_SomeD split: option.splits)
qed

lemma container_nonneg: "container_resources c = Inr rl \<Longrightarrow> 0 \<le> get0 (fst rl) k \<and> 0 \<le> get0 (snd rl) k"
  by (auto simp: container_resources_def Let_def resource_map_nonneg)

section \<open>The peak of a pod\<close>

text \<open>
  The reference: while init container \<open>i\<close> runs, the pod needs what it asks for on top of the
  restartable init containers before it; once all have run, the containers need theirs on top of
  every restartable one.  The peak is the largest of these.
\<close>

definition side_demand :: "(bool \<times> int) list \<Rightarrow> nat \<Rightarrow> int" where
  "side_demand init i = sum_list (map snd (filter fst (take i init)))"

definition peak_demand :: "int list \<Rightarrow> (bool \<times> int) list \<Rightarrow> int" where
  "peak_demand containers init =
     Max (insert (sum_list containers + side_demand init (length init))
            ((\<lambda>i. side_demand init i + snd (init ! i)) ` {..<length init}))"

definition restartable :: "json \<Rightarrow> bool" where
  "restartable c \<longleftrightarrow> dget (the_dict c) ''restartPolicy'' JNull = JStr ''Always''"

lemma add_containers:
  assumes "foldres add_container rl cs = Inr rl'"
  shows "\<exists>rs. mapres container_resources cs = Inr rs
    \<and> (\<forall>k. get0 (fst rl') k = get0 (fst rl) k + sum_list (map (\<lambda>c. get0 (fst c) k) rs)
         \<and> get0 (snd rl') k = get0 (snd rl) k + sum_list (map (\<lambda>c. get0 (snd c) k) rs))"
  using assms
proof (induction cs arbitrary: rl)
  case (Cons c cs)
  from Cons.prems obtain rl1 where rl1: "add_container rl c = Inr rl1" "foldres add_container rl1 cs = Inr rl'"
    by auto
  from rl1(1) obtain x where "container_resources c = Inr x" "rl1 = (plus (fst rl) (fst x), plus (snd rl) (snd x))"
    by (auto simp: add_container_def)
  with rl1(2) have x: "container_resources c = Inr x"
    "foldres add_container (plus (fst rl) (fst x), plus (snd rl) (snd x)) cs = Inr rl'" by simp_all
  from Cons.IH [OF x(2)] x(1) show ?case by auto
qed simp

text \<open>One quantity of the state after the init containers, in terms of one number per container.\<close>

definition stage_fold :: "int \<times> int \<times> int \<Rightarrow> (bool \<times> int) list \<Rightarrow> int \<times> int \<times> int" where
  "stage_fold s init = foldl (\<lambda>(t, d, m) (always, n).
     if always then (t + n, d + n, max m (d + n)) else (t, d, max m (d + n))) s init"

lemma add_inits:
  assumes "foldres add_init st is = Inr st'"
  shows "\<exists>rs. mapres container_resources is = Inr rs
    \<and> (\<forall>k. (get0 (fst (total st')) k, get0 (fst (sides st')) k, get0 (fst (stage_max st')) k)
           = stage_fold (get0 (fst (total st)) k, get0 (fst (sides st)) k, get0 (fst (stage_max st)) k)
               (zip (map restartable is) (map (\<lambda>c. get0 (fst c) k) rs))
       \<and> (get0 (snd (total st')) k, get0 (snd (sides st')) k, get0 (snd (stage_max st')) k)
           = stage_fold (get0 (snd (total st)) k, get0 (snd (sides st)) k, get0 (snd (stage_max st)) k)
               (zip (map restartable is) (map (\<lambda>c. get0 (snd c) k) rs)))"
  using assms
proof (induction "is" arbitrary: st)
  case (Cons c cs)
  from Cons.prems obtain st1 where s: "add_init st c = Inr st1" "foldres add_init st1 cs = Inr st'" by auto
  from s(1) obtain x where "container_resources c = Inr x" by (auto simp: add_init_def)
  from this s have x: "container_resources c = Inr x" "add_init st c = Inr st1" "foldres add_init st1 cs = Inr st'" .
  have st1: "st1 = (if restartable c
      then \<lparr>total = plus2 (total st) x, sides = plus2 (sides st) x, stage_max = maximum2 (stage_max st) (plus2 (sides st) x)\<rparr>
      else st\<lparr>stage_max := maximum2 (stage_max st) (plus2 (sides st) x)\<rparr>)"
    using x(1,2) by (auto simp: add_init_def restartable_def Let_def split: if_splits)
  obtain rs where rs: "mapres container_resources cs = Inr rs"
    "\<forall>k. (get0 (fst (total st')) k, get0 (fst (sides st')) k, get0 (fst (stage_max st')) k)
           = stage_fold (get0 (fst (total st1)) k, get0 (fst (sides st1)) k, get0 (fst (stage_max st1)) k)
               (zip (map restartable cs) (map (\<lambda>c. get0 (fst c) k) rs))
       \<and> (get0 (snd (total st')) k, get0 (snd (sides st')) k, get0 (snd (stage_max st')) k)
           = stage_fold (get0 (snd (total st1)) k, get0 (snd (sides st1)) k, get0 (snd (stage_max st1)) k)
               (zip (map restartable cs) (map (\<lambda>c. get0 (snd c) k) rs))"
    using Cons.IH [OF x(3)] by blast
  show ?case
    by (rule exI [of _ "x # rs"]) (use x(1) rs st1 in \<open>simp add: stage_fold_def plus2_def maximum2_def\<close>)
qed (simp add: stage_fold_def)

lemma side_demand_append: "i \<le> length init \<Longrightarrow> side_demand (init @ [x]) i = side_demand init i"
  by (simp add: side_demand_def)

lemma stage_fold_reference:
  "stage_fold (t, 0, 0) init = (t + side_demand init (length init), side_demand init (length init),
     Max (insert 0 ((\<lambda>i. side_demand init i + snd (init ! i)) ` {..<length init})))"
proof (induction init rule: rev_induct)
  case (snoc x init)
  let ?g = "\<lambda>init i. side_demand init i + snd (init ! i)"
  have same: "?g (init @ [x]) ` {..<length init} = ?g init ` {..<length init}"
    by (intro image_cong) (auto simp: side_demand_append nth_append)
  have "{..<length (init @ [x])} = insert (length init) {..<length init}" by auto
  then have img: "insert 0 (?g (init @ [x]) ` {..<length (init @ [x])})
      = insert (side_demand init (length init) + snd x) (insert 0 (?g init ` {..<length init}))"
    using same by (auto simp: side_demand_append)
  have "Max (insert 0 (?g (init @ [x]) ` {..<length (init @ [x])}))
      = max (side_demand init (length init) + snd x) (Max (insert 0 (?g init ` {..<length init})))"
    unfolding img by (intro Max_insert) auto
  with snoc show ?case
    by (cases x) (auto simp: stage_fold_def side_demand_def max.commute)
qed (simp add: stage_fold_def side_demand_def)

lemma peak_demand_stages:
  assumes "\<forall>n \<in> set containers. 0 \<le> n" and "\<forall>p \<in> set init. 0 \<le> snd p"
  shows "max (sum_list containers + side_demand init (length init))
           (Max (insert 0 ((\<lambda>i. side_demand init i + snd (init ! i)) ` {..<length init}))) = peak_demand containers init"
proof -
  let ?m = "sum_list containers + side_demand init (length init)"
  let ?S = "(\<lambda>i. side_demand init i + snd (init ! i)) ` {..<length init}"
  have "0 \<le> ?m" using assms by (auto simp: side_demand_def intro!: add_nonneg_nonneg sum_list_nonneg)
  have "max ?m (Max (insert 0 ?S)) = Max (insert ?m (insert 0 ?S))" by simp
  also have "\<dots> = max 0 (Max (insert ?m ?S))" by (subst insert_commute) simp
  also have "\<dots> = Max (insert ?m ?S)" using \<open>0 \<le> ?m\<close> by (intro max_absorb2) (simp add: le_max_iff_disj Max_ge_iff)
  finally show ?thesis by (simp add: peak_demand_def)
qed

lemma mapres_all: "mapres f xs = Inr ys \<Longrightarrow> (\<And>x y. f x = Inr y \<Longrightarrow> P y) \<Longrightarrow> \<forall>y \<in> set ys. P y"
  using mapres_set by fast

section \<open>Invariants of the report\<close>

text \<open>A report without blockers has room in every row it lists.\<close>

definition rows_fit :: "report \<Rightarrow> bool" where
  "rows_fit r \<longleftrightarrow> blockers r = [] \<longrightarrow>
     list_all (\<lambda>(k, row). available row = allocatable row - assigned row \<and> candidate_needs row \<le> available row) (node_resources r)
     \<and> list_all (\<lambda>q. used_now q + quota_candidate q \<le> hard_limit q \<and> observed_pods q \<le> used_now q) (quotas r)"



lemma keeps_modify: "(\<And>r. P r \<Longrightarrow> P (f r)) \<Longrightarrow> keeps P (modify f)"
  by (simp add: keeps_def modify_def)

lemma keeps_demand [keeps_intros]: "keeps P (demand c m)"
  by (simp add: demand_def keeps_lift)

lemma block_fit: "keeps rows_fit (block b)"
  by (simp add: block_def keeps_modify rows_fit_def)

lemma block_rows: "keeps (\<lambda>r. node_resources r = rows) (block b)"
  by (simp add: block_def keeps_modify)

lemma keeps_limit_checks:
  assumes "\<And>b. keeps P (block b)"
  shows "keeps P (limit_checks candidate ranges)"
  unfolding limit_checks_def limit_range_def limit_rule_def limit_container_def Let_def demand_def
  by (intro keeps_intros assms) (auto intro!: keeps_intros assms)

lemma keeps_count_pods:
  assumes "\<And>f. keeps P (modify (\<lambda>r. r\<lparr>pending_reservations := f r\<rparr>))"
  shows "keeps P (count_pods namespace node_name runtimes acc pods)"
  by (induction pods arbitrary: acc)
    (auto simp: count_pod_def Let_def demand_def intro!: keeps_intros assms)

lemma keeps_open_snapshot:
  assumes "\<And>v. keeps P (modify (\<lambda>r. r\<lparr>server := v\<rparr>))"
  shows "keeps P (open_snapshot snap now)"
  unfolding open_snapshot_def Let_def demand_def by (intro keeps_intros assms)

lemma check_node_fit: "keeps rows_fit (check_node n creq used kc)"
  by (auto simp: keeps_def check_node_def Let_def act_then_def act_bind_def modify_def act_when_def block_def rows_fit_def)

lemma quota_row_fit:
  assumes "observed \<le> current"
  shows "keeps rows_fit (act_then (modify (\<lambda>r. r\<lparr>quotas := quotas r @
          [\<lparr>quota_name = name, quota_resource = key, hard_limit = value, used_now = current,
            observed_pods = observed, quota_candidate = incoming, quota_available = v\<rparr>]\<rparr>))
        (act_when (value < current + incoming) (block b)))"
  using assms by (auto simp: keeps_def act_then_def act_bind_def modify_def act_when_def block_def rows_fit_def)

lemma demand_then:
  assumes "c \<Longrightarrow> keeps P k"
  shows "keeps P (act_then (demand c m) k)"
  using assms by (cases c) (simp_all add: demand_def cap_require_def ensure_def keeps_def act_then_def act_bind_def)

lemma check_quota_fit: "keeps rows_fit (check_quota containers observed incoming quota)"
  unfolding check_quota_def check_quota_entry_def Let_def
  by (intro keeps_intros keeps_demand demand_then quota_row_fit)

lemma check_quota_rows:
  "keeps (\<lambda>r. node_resources r = rows) (check_quota containers observed incoming quota)"
  unfolding check_quota_def check_quota_entry_def Let_def
  by (intro keeps_intros keeps_demand block_rows keeps_modify) simp_all

text \<open>The rows that \<open>check_node\<close> adds, one for each entry of the node.\<close>

lemma check_nodes_rows:
  "act_each (check_node n creq used) cs r = (x, r') \<Longrightarrow>
   x = Inr () \<and> map fst (node_resources r') = map fst (node_resources r) @ map fst cs"
  by (induction cs arbitrary: r)
    (auto simp: act_then_def act_bind_def check_node_def Let_def modify_def act_when_def block_def split: if_splits)

lemma mapres_fst:
  "mapres f xs = Inr ys \<Longrightarrow> (\<And>x y. f x = Inr y \<Longrightarrow> fst y = x) \<Longrightarrow> map fst ys = xs"
  by (induction xs arbitrary: ys) auto

lemma node_allocatable_keys: "node_allocatable node = Inr m \<Longrightarrow> map fst m = node_keys"
  by (auto simp: node_allocatable_def elim!: mapres_fst)

lemma note_keeps:
  "keeps rows_fit (note_unknown e)" "keeps (\<lambda>r. node_resources r = rows) (note_unknown e)"
  by (auto simp: note_unknown_def rows_fit_def intro!: keeps_modify)

lemma weigh_candidate_rows:
  assumes "weigh_candidate candidate cl c r1 = (Inr (), r6)" and r1: "rows_fit r1" "node_resources r1 = []"
  shows "rows_fit r6 \<and> map fst (node_resources r6) = node_keys"
proof -
  let ?quota = "\<lambda>use quota. act_catch
            (check_quota (candidate_containers candidate) (snd use) (quota_usage (fst c) (snd c) False) quota)
            is_Unable note_unknown"
  from assms(1) obtain r2 allocated r4 use r5 where s:
    "limit_checks candidate (cl_ranges cl) r1 = (Inr (), r2)"
    "node_allocatable (cl_node cl) = Inr allocated"
    "count_pods (cl_namespace cl) (cl_node_name cl) (cl_runtimes cl) ([(''pods'', 0)], []) (cl_pods cl) r2 = (Inr use, r4)"
    "act_each (check_node (the_str (cl_node_name cl)) (fst c) (fst use)) allocated r4 = (Inr (), r5)"
    "act_each (?quota use) (cl_quotas cl) r5 = (Inr (), r6)"
    unfolding weigh_candidate_def act_bind_Inr act_then_Inr lift_apply prod.inject
    by (elim exE conjE) (erule (1) that; simp)
  have r2: "rows_fit r2" "node_resources r2 = []"
    using keepsD [OF keeps_limit_checks [OF block_fit] r1(1) s(1)]
      keepsD [OF keeps_limit_checks [OF block_rows] r1(2) s(1)] by simp_all
  have r4: "rows_fit r4" "node_resources r4 = []"
    by (rule keepsD [OF keeps_count_pods _ s(3)], simp add: keeps_modify rows_fit_def, rule r2)+
  have r5: "rows_fit r5" "map fst (node_resources r5) = node_keys"
    using keepsD [OF keeps_each [OF check_node_fit] r4(1) s(4)] check_nodes_rows [OF s(4)]
      node_allocatable_keys [OF s(2)] r4(2) by simp_all
  show ?thesis
    using keepsD [OF keeps_each [OF keeps_catch [OF check_quota_fit note_keeps(1)]] r5(1) s(5)]
      keepsD [OF keeps_each [OF keeps_catch [OF check_quota_rows note_keeps(2)]] refl s(5)] r5(2) by simp
qed

lemma analyze_steps_rows:
  assumes "analyze_steps snapshot candidate now r = (Inr (), r')" and "rows_fit r" and "node_resources r = []"
  shows "rows_fit r' \<and> map fst (node_resources r') = node_keys"
proof -
  from assms(1) obtain cl r1 c where o: "open_snapshot snapshot now r = (Inr cl, r1)"
    and w: "weigh_candidate candidate cl c (r1\<lparr>candidate_requests := Some (fst c), candidate_limits := Some (snd c)\<rparr>) = (Inr (), r')"
    by (auto simp: analyze_steps_def act_bind_Inr act_then_Inr modify_def)
  have "rows_fit r1" "node_resources r1 = []"
    by (rule keepsD [OF keeps_open_snapshot _ o], simp add: keeps_modify rows_fit_def, rule assms(2,3))+
  then show ?thesis by (intro weigh_candidate_rows [OF w]) (simp_all add: rows_fit_def)
qed

lemma keeps_verdict:
  "keeps (\<lambda>r. verdict r = Unable_To_Qualify) (analyze_steps snapshot candidate now)"
  unfolding analyze_steps_def weigh_candidate_def check_node_def check_quota_def check_quota_entry_def
    Let_def demand_def note_unknown_def block_def
  by (intro keeps_intros keeps_open_snapshot keeps_limit_checks keeps_count_pods keeps_modify)
    (simp_all add: block_def keeps_modify)

section \<open>Properties\<close>

text \<open>
  C15: a passing verdict is backed by the numbers.  When \<open>analyze\<close> reports that resource headroom
  passes, it met nothing unknown and no blocker, its report covers CPU, memory, ephemeral storage and
  the pod count of the node, and in each of them, and in every quota entry it lists, what is already
  used and what the candidate needs fit within the capacity.
\<close>

theorem passing_verdict_fits:
  assumes "analyze snapshot candidate now = Inr r" and "verdict r = Headroom_Passes"
  shows "unknowns r = [] \<and> blockers r = [] \<and> map fst (node_resources r) = node_keys
    \<and> (\<forall>(k, row) \<in> set (node_resources r). assigned row + candidate_needs row \<le> allocatable row)
    \<and> (\<forall>q \<in> set (quotas r). used_now q + quota_candidate q \<le> hard_limit q \<and> observed_pods q \<le> used_now q)"
proof -
  obtain x r0 where b: "analyze_steps snapshot candidate now empty_report = (x, r0)"
    by (cases "analyze_steps snapshot candidate now empty_report")
  have start: "rows_fit empty_report" "node_resources empty_report = []" "verdict empty_report = Unable_To_Qualify"
    by (simp_all add: rows_fit_def empty_report_def)
  have "x = Inr ()"
  proof (cases x)
    case (Inl e)
    with assms b have "verdict r = verdict r0"
      by (auto simp: analyze_def analyze_body_def act_then_def act_bind_def split: if_splits)
    with keepsD [OF keeps_verdict start(3) b] assms(2) show ?thesis by simp
  qed simp
  with assms b have r: "r = r0\<lparr>verdict := final_verdict r0\<rparr>"
    by (simp add: analyze_def analyze_body_def act_then_def act_bind_def modify_def)
  have "rows_fit r0 \<and> map fst (node_resources r0) = node_keys"
    using analyze_steps_rows [OF _ start(1,2)] b \<open>x = Inr ()\<close> by blast
  with r assms(2) show ?thesis
    by (fastforce simp: rows_fit_def final_verdict_def list_all_iff split: if_splits)
qed

text \<open>A node with one running pod, a quota, and a small candidate.\<close>

definition sample_meta :: "string \<Rightarrow> json" where
  "sample_meta n = JObj [(''name'', JStr n), (''uid'', JStr (n @ ''-uid'')), (''resourceVersion'', JStr ''7''), (''namespace'', JStr ''ci'')]"

definition sample_spec :: "(string \<times> json) list \<Rightarrow> json" where
  "sample_spec rest = JObj (rest @ [(''containers'', JArr [JObj [(''name'', JStr ''run''),
     (''resources'', JObj [(''requests'', JObj [(''cpu'', JStr ''500m''), (''memory'', JStr ''1Gi'')]),
                           (''limits'', JObj [(''memory'', JStr ''1Gi'')])])]])])"

definition sample_list :: "string \<Rightarrow> json list \<Rightarrow> json" where
  "sample_list kind items = JObj [(''kind'', JStr (kind @ ''List'')),
     (''metadata'', JObj [(''resourceVersion'', JStr ''9'')]), (''items'', JArr items)]"

definition sample_snapshot :: json where
  "sample_snapshot = JObj
     [(''schema'', JInt 1), (''coverage'', JStr COVERAGE), (''started_at'', JStr ''2025-03-01T00:00:00Z''),
      (''finished_at'', JStr ''2025-03-01T00:00:02+00:00''), (''server_version'', JObj [(''gitVersion'', JStr ''v1.30.2+k3s1'')]),
      (''namespace'', JStr ''ci''),
      (''node'', JObj [(''kind'', JStr ''Node''), (''metadata'', sample_meta ''n1''),
         (''status'', JObj [(''allocatable'', JObj [(''cpu'', JStr ''4''), (''memory'', JStr ''8Gi''),
            (''ephemeral-storage'', JStr ''100G''), (''pods'', JStr ''110'')])])]),
      (''pods'', sample_list ''Pod'' [JObj [(''kind'', JStr ''Pod''), (''metadata'', sample_meta ''p1''),
         (''spec'', sample_spec [(''nodeName'', JStr ''n1'')]), (''status'', JObj [(''phase'', JStr ''Running'')])]]),
      (''quotas'', sample_list ''ResourceQuota'' [JObj [(''kind'', JStr ''ResourceQuota''), (''metadata'', sample_meta ''q1''),
         (''spec'', JObj [(''hard'', JObj [(''requests.cpu'', JStr ''2'')])]),
         (''status'', JObj [(''hard'', JObj [(''requests.cpu'', JStr ''2'')]), (''used'', JObj [(''requests.cpu'', JStr ''500m'')])])]]),
      (''limitranges'', sample_list ''LimitRange'' []), (''runtimeclasses'', sample_list ''RuntimeClass'' [])]"

definition sample_candidate :: json where
  "sample_candidate = JObj [(''kind'', JStr ''Pod''), (''apiVersion'', JStr ''v1''),
     (''metadata'', JObj [(''name'', JStr ''new''), (''namespace'', JStr ''ci'')]), (''spec'', sample_spec [])]"

definition sample_now :: int where
  "sample_now = day_number 2025 3 1 * day_us + 5 * second_us"

theorem passing_verdict_fits_witness:
  "\<exists>r. analyze sample_snapshot sample_candidate sample_now = Inr r \<and> map fst (node_resources r) = node_keys"
proof -
  obtain r where r: "analyze sample_snapshot sample_candidate sample_now = Inr r"
    and "verdict r = Headroom_Passes"
  proof -
    have "(case analyze sample_snapshot sample_candidate sample_now of Inr r \<Rightarrow> verdict r = Headroom_Passes | Inl _ \<Rightarrow> False)"
      by code_simp
    then show thesis using that by (auto split: sum.splits)
  qed
  from passing_verdict_fits [OF this] r show ?thesis by blast
qed

text \<open>
  C16: the peak of a pod is its largest stage.  For every resource, the requests (and limits) that
  \<open>pod_resources\<close> takes before overhead are the maximum of what the pod needs while each init container
  runs, on top of the restartable init containers before it, and of what it needs afterwards.
\<close>

theorem peak_is_largest_stage:
  assumes "peak_resources containers init = Inr rl"
  shows "\<exists>cs is. mapres container_resources containers = Inr cs \<and> mapres container_resources init = Inr is
    \<and> (\<forall>k. get0 (fst rl) k = peak_demand (map (\<lambda>c. get0 (fst c) k) cs) (zip (map restartable init) (map (\<lambda>c. get0 (fst c) k) is))
         \<and> get0 (snd rl) k = peak_demand (map (\<lambda>c. get0 (snd c) k) cs) (zip (map restartable init) (map (\<lambda>c. get0 (snd c) k) is)))"
proof -
  from assms obtain t st where t: "foldres add_container ([], []) containers = Inr t"
    "foldres add_init \<lparr>total = t, sides = ([], []), stage_max = ([], [])\<rparr> init = Inr st"
    "rl = maximum2 (total st) (stage_max st)"
    by (auto simp: peak_resources_def)
  obtain cs where cs: "mapres container_resources containers = Inr cs"
    "\<And>k. get0 (fst t) k = sum_list (map (\<lambda>c. get0 (fst c) k) cs)" "\<And>k. get0 (snd t) k = sum_list (map (\<lambda>c. get0 (snd c) k) cs)"
    using add_containers [OF t(1)] by auto
  obtain ys where ys: "mapres container_resources init = Inr ys"
    "\<And>k. (get0 (fst (total st)) k, get0 (fst (sides st)) k, get0 (fst (stage_max st)) k)
           = stage_fold (get0 (fst t) k, 0, 0) (zip (map restartable init) (map (\<lambda>c. get0 (fst c) k) ys))"
    "\<And>k. (get0 (snd (total st)) k, get0 (snd (sides st)) k, get0 (snd (stage_max st)) k)
           = stage_fold (get0 (snd t) k, 0, 0) (zip (map restartable init) (map (\<lambda>c. get0 (snd c) k) ys))"
    using add_inits [OF t(2)] by auto
  have nonneg: "\<forall>c \<in> set cs \<union> set ys. 0 \<le> get0 (fst c) k \<and> 0 \<le> get0 (snd c) k" for k
    using mapres_all [OF cs(1), of "\<lambda>c. 0 \<le> get0 (fst c) k \<and> 0 \<le> get0 (snd c) k"]
      mapres_all [OF ys(1), of "\<lambda>c. 0 \<le> get0 (fst c) k \<and> 0 \<le> get0 (snd c) k"] container_nonneg by blast
  have "get0 (fst rl) k = peak_demand (map (\<lambda>c. get0 (fst c) k) cs) (zip (map restartable init) (map (\<lambda>c. get0 (fst c) k) ys))" for k
    using ys(2) [of k] nonneg [of k]
    by (subst peak_demand_stages [symmetric]) (auto simp: t(3) maximum2_def stage_fold_reference cs(2) dest!: set_zip_rightD)
  moreover have "get0 (snd rl) k = peak_demand (map (\<lambda>c. get0 (snd c) k) cs) (zip (map restartable init) (map (\<lambda>c. get0 (snd c) k) ys))" for k
    using ys(3) [of k] nonneg [of k]
    by (subst peak_demand_stages [symmetric]) (auto simp: t(3) maximum2_def stage_fold_reference cs(3) dest!: set_zip_rightD)
  ultimately show ?thesis using cs(1) ys(1) by blast
qed

definition sample_container :: "string \<Rightarrow> string \<Rightarrow> json list \<Rightarrow> json" where
  "sample_container name cpu always = JObj ([(''name'', JStr name), (''resources'', JObj [(''requests'', JObj [(''cpu'', JStr cpu)])])]
     @ map (\<lambda>p. (''restartPolicy'', p)) always)"

theorem peak_is_largest_stage_witness:
  "\<exists>rl. peak_resources [sample_container ''a'' ''200m'' []]
       [sample_container ''s'' ''100m'' [JStr ''Always''], sample_container ''i'' ''700m'' []] = Inr rl
     \<and> get0 (fst rl) ''cpu'' = peak_demand [200] [(True, 100), (False, 700)] \<and> peak_demand [200] [(True, 100), (False, 700)] = 800"
proof -
  let ?cs = "[sample_container ''a'' ''200m'' []]"
  let ?is = "[sample_container ''s'' ''100m'' [JStr ''Always''], sample_container ''i'' ''700m'' []]"
  have rl: "peak_resources ?cs ?is = Inr ([(''cpu'', 800)], [])" by code_simp
  have cs: "mapres container_resources ?cs = Inr [([(''cpu'', 200)], [])]" by code_simp
  have iss: "mapres container_resources ?is = Inr [([(''cpu'', 100)], []), ([(''cpu'', 700)], [])]" by code_simp
  have rs: "map restartable ?is = [True, False]" by code_simp
  from peak_is_largest_stage [OF rl] have "get0 [(''cpu'', 800)] ''cpu'' = peak_demand [200] [(True, 100), (False, 700)]"
    unfolding cs iss rs by (auto simp: get0_def dest: spec [of _ "''cpu''"])
  then show ?thesis using rl by (auto simp: get0_def)
qed

section \<open>Reading quantities\<close>

lemma digits_rx: "s \<in> lang (Plus Digit) \<longleftrightarrow> s \<noteq> [] \<and> set s \<subseteq> set digits"
  unfolding Plus_def Digit_def lang_Seq_Cls Star_Cls by (cases s) auto

lemma digits_not_sign: "set s \<subseteq> set digits \<Longrightarrow> \<not> startswith s ''-'' \<and> \<not> startswith s ''+''"
  by (cases s) (auto simp: startswith_iff digits_def)

lemma suffix_exponent:
  assumes "rx_match suffix_rx u" and "startswith u ''e'' \<or> startswith u ''E''" and "1 < length u" and "u \<noteq> ''Ei''"
  shows "\<exists>n. int_of_signed (tl u) = Inr n"
proof -
  from assms have "\<exists>c t. t \<noteq> [] \<and> set t \<subseteq> set digits \<and> (u = c # t \<or> u = c # CHR ''+'' # t \<or> u = c # CHR ''-'' # t)"
    by (auto simp: rx_match_iff suffix_rx_def digits_rx startswith_iff) blast+
  then obtain c t where t: "t \<noteq> []" "set t \<subseteq> set digits" "u = c # t \<or> u = c # CHR ''+'' # t \<or> u = c # CHR ''-'' # t"
    by blast
  with digits_not_sign [OF t(2)] show ?thesis
    by (elim disjE) (auto simp: int_of_signed_def startswith_iff list_all_iff Let_def)
qed

lemma quantity_groups_Some:
  assumes "quantity_groups s = Some (n, u)"
  shows "s = n @ u \<and> (u = [] \<or> rx_match suffix_rx u)"
proof -
  define a where "a = takeWhile (\<lambda>c. c \<in> set (''+.'' @ digits)) s"
  define b where "b = drop (length a) s"
  have "quantity_groups s = (if rx_match number_rx a \<and> (b = [] \<or> rx_match suffix_rx b) then Some (a, b) else None)"
    by (simp only: quantity_groups_def Let_def a_def b_def)
  with assms have "n = a" "u = b" "b = [] \<or> rx_match suffix_rx b" by (auto split: if_splits)
  moreover have "s = a @ b" by (simp add: a_def b_def dropWhile_eq_drop [symmetric])
  ultimately show ?thesis by simp
qed

lemma quantity_fails:
  assumes "quantity v = Inl e" and "\<not> is_Unable e"
  shows "\<exists>n u. (is_str v \<or> is_int v) \<and> py_str v = n @ u \<and> (u = [] \<or> rx_match suffix_rx u) \<and> unit_factor u = Inl e"
proof -
  have v: "is_str v \<or> is_int v" "length (py_str v) \<le> 64" and "quantity_groups (py_str v) \<noteq> None"
    using assms by (auto simp: quantity_def checks_Cons cap_require_def ensure_def split: if_splits option.splits)
  then obtain n u where g: "quantity_groups (py_str v) = Some (n, u)" by auto
  have "unit_factor u = Inl e"
    using assms v g by (auto simp: quantity_def checks_Cons cap_require_def ensure_def bnd_Inl_iff Let_def split: if_splits)
  with v(1) quantity_groups_Some [OF g] show ?thesis by metis
qed

lemma unit_factor_fails:
  assumes "unit_factor u = Inl e" and "\<not> is_Unable e" and "u = [] \<or> rx_match suffix_rx u"
  shows "u = ''Ei'' \<and> e = ValueError ''invalid literal for int()''"
proof -
  from assms(1,2) have long: "startswith u ''e'' \<or> startswith u ''E''" "1 < length u"
    by (auto simp: unit_factor_def split: if_splits option.splits)
  have "u = ''Ei''"
  proof (rule ccontr)
    assume "u \<noteq> ''Ei''"
    with suffix_exponent [OF _ long] assms(3) long(2) obtain m where "int_of_signed (tl u) = Inr m" by auto
    with assms(1,2) long show False
      by (auto simp: unit_factor_def checks_Cons cap_require_def ensure_def split: if_splits)
  qed
  moreover from this assms(1) have "e = ValueError ''invalid literal for int()''"
    by (simp add: unit_factor_def startswith_def int_of_signed_def Let_def digits_def)
  ultimately show ?thesis ..
qed

lemma no_letter: "CHR ''E'' \<notin> set (str_int i)"
  using str_nat_digits [of "nat i"] str_nat_digits [of "nat (- i)"] by (auto simp: str_int_def digits_def)



lemma str_nat_length: "n < 10 ^ k \<Longrightarrow> 0 < k \<Longrightarrow> length (str_nat n) \<le> k"
proof (induction k arbitrary: n)
  case (Suc k)
  show ?case
  proof (cases "n < 10")
    case True
    then show ?thesis by (simp add: str_nat_small)
  next
    case False
    with Suc.prems have "n div 10 < 10 ^ k" "0 < k" by (auto intro: gr0I)
    with Suc.IH False show ?thesis by (simp add: str_nat_step)
  qed
qed simp

lemma number_groups:
  assumes "u = [] \<or> rx_match suffix_rx u" and "u = [] \<or> hd u \<notin> set (''+.'' @ digits)"
  shows "quantity_groups (str_nat n @ u) = Some (str_nat n, u)"
proof -
  have d: "set (str_nat n) \<subseteq> set digits" by (rule str_nat_digits)
  then have "takeWhile (\<lambda>c. c \<in> set (''+.'' @ digits)) (str_nat n @ u) = str_nat n"
    using assms(2) by (cases u) (auto simp: subset_iff takeWhile_append takeWhile_eq_all_conv)
  moreover have "str_nat n \<in> lang (Plus Digit)" using d by (simp add: digits_rx)
  then have "str_nat n \<in> lang number_rx"
    by (simp add: number_rx_def) (rule exI [of _ "[]"], simp, rule disjI1, rule exI [of _ "str_nat n"], simp)
  ultimately show ?thesis using assms(1) by (simp add: quantity_groups_def Let_def rx_match_iff)
qed

lemma dec_of_str_nat: "dec_of_number (str_nat n) = (int n, 0)"
proof -
  have "CHR ''+'' \<notin> set (str_nat n)" "CHR ''.'' \<notin> set (str_nat n)"
    using str_nat_digits [of n] by (auto simp: digits_def)
  then have "filter (\<lambda>c. c \<noteq> CHR ''+'') (str_nat n) = str_nat n"
    and dot: "takeWhile (\<lambda>c. c \<noteq> CHR ''.'') (str_nat n) = str_nat n"
    by (auto simp: filter_id_conv takeWhile_eq_all_conv)
  then show ?thesis unfolding dec_of_number_def Let_def by (simp only: dot) simp
qed

text \<open>
  C18: what the API prints is read back exactly.  A count of bytes, the same count of a binary or
  decimal unit, and a count of millicores come back as the integer they denote, up to the limit of a
  signed 64-bit integer.
\<close>

theorem amount_reads_back:
  assumes "n < 2 ^ 63 - 1"
  shows "amount ''memory'' (JStr (str_nat n)) = Inr (int n)
    \<and> amount ''cpu'' (JStr (str_nat n @ ''m'')) = Inr (int n)
    \<and> (int n * 1024 \<le> max_quantity \<longrightarrow> amount ''memory'' (JStr (str_nat n @ ''Ki'')) = Inr (int n * 1024))"
proof -
  have len: "length (str_nat n) \<le> 19" using assms by (intro str_nat_length) simp_all
  have bound: "int n \<le> max_quantity" using assms by (simp add: max_quantity_def)
  note eval = quantity_def amount_def py_str_def checks_Cons cap_require_def ensure_def Let_def dec_of_str_nat
    dec_mul_def dec_le_def dec_integral_def dec_int_def unit_factor_def UNITS_def startswith_def
  have "quantity_groups (str_nat n) = Some (str_nat n, [])" using number_groups [of "[]" n] by simp
  then have 1: "amount ''memory'' (JStr (str_nat n)) = Inr (int n)" using len bound by (simp add: eval)
  have "rx_match suffix_rx ''m''" by code_simp
  then have "quantity_groups (str_nat n @ ''m'') = Some (str_nat n, ''m'')"
    by (intro number_groups) (simp_all add: digits_def)
  then have 2: "amount ''cpu'' (JStr (str_nat n @ ''m'')) = Inr (int n)" using len bound by (simp add: eval)
  have "rx_match suffix_rx ''Ki''" by code_simp
  then have "quantity_groups (str_nat n @ ''Ki'') = Some (str_nat n, ''Ki'')"
    by (intro number_groups) (simp_all add: digits_def)
  then have 3: "amount ''memory'' (JStr (str_nat n @ ''Ki'')) = Inr (int n * 1024)" if "int n * 1024 \<le> max_quantity"
    using len that by (simp add: eval)
  show ?thesis using 1 2 3 by blast
qed

theorem amount_reads_back_witness: "amount ''cpu'' (JStr (str_nat 1500 @ ''m'')) = Inr 1500"
  using amount_reads_back [of 1500] by simp

end
