(* ===== verification/Capacity_Capture.thy ===== *)
theory Capacity_Capture
  imports Capacity_Preflight Gh_Client
begin

text \<open>
  \<open>deploy/arc-private/capacity_preflight.py\<close>, last part: what a capture asks the cluster for and what it
  keeps of the answers.  \<open>bounded_get\<close>, which runs \<open>kubectl\<close> under a deadline, and the two clocks are
  the parameters of the record \<open>cluster_host\<close>; POSIX is taken for granted.
\<close>

section \<open>Projection\<close>

definition pick :: "string list \<Rightarrow> members \<Rightarrow> members" where
  "pick names m = map (\<lambda>k. (k, dget m k JNull)) (filter (has_key m) names)"

text \<open>\<open>{**a, **b}\<close>.\<close>

definition merge :: "members \<Rightarrow> members \<Rightarrow> members" where
  "merge a b = foldl (\<lambda>m (k, v). dput m k v) a b"

definition list_kinds :: "(string \<times> string) list" where
  "list_kinds = [(''PodList'', ''Pod''), (''ResourceQuotaList'', ''ResourceQuota''),
                 (''LimitRangeList'', ''LimitRange''), (''RuntimeClassList'', ''RuntimeClass'')]"

text \<open>The arrays of containers and of container statuses, each entry reduced to the fields \<open>names\<close>.\<close>

definition project_group :: "string list \<Rightarrow> string \<Rightarrow> members \<Rightarrow> string \<Rightarrow> members \<Rightarrow> members res" where
  "project_group names err source grp target =
     (if has_key source grp then
        (let v = dget source grp JNull in
         checks [cap_require (is_list v \<and> list_all is_dict (the_list v)) err]
           (Inr (dput target grp (JArr (map (\<lambda>c. JObj (pick names (the_dict c))) (the_list v))))))
      else Inr target)"

definition container_fields :: "string list" where
  "container_fields = [''name'', ''resources'', ''restartPolicy'', ''resizePolicy'']"

definition status_fields :: "string list" where
  "status_fields = [''allocatedResources'', ''resources'']"

definition project_pod :: "members \<Rightarrow> members \<Rightarrow> members res" where
  "project_pod obj result =
     (let spec = the_dict (dget obj ''spec'' (JObj [])); status = the_dict (dget obj ''status'' (JObj [])) in
      bnd (project_group container_fields ''Invalid API container array'' spec ''containers''
             (pick [''nodeName'', ''runtimeClassName'', ''overhead'', ''resources'', ''resourceClaims''] spec)) (\<lambda>s1.
      bnd (project_group container_fields ''Invalid API container array'' spec ''initContainers'' s1) (\<lambda>s2.
      bnd (project_group status_fields ''Invalid API status array'' status ''containerStatuses''
             (pick [''phase'', ''resize''] status)) (\<lambda>t1.
      bnd (project_group status_fields ''Invalid API status array'' status ''initContainerStatuses'' t1) (\<lambda>t2.
        Inr (dput (dput result ''spec'' (JObj s2)) ''status'' (JObj t2)))))))"

definition field_dict :: "members \<Rightarrow> string \<Rightarrow> unit res" where
  "field_dict obj field = cap_require (\<not> has_key obj field \<or> is_dict (dget obj field JNull)) ''API field must be an object''"

definition project_single :: "members \<Rightarrow> json res" where
  "project_single obj =
     (let meta = dget obj ''metadata'' (JObj []) in
      checks [cap_require (is_dict meta) ''API metadata must be an object'',
              field_dict obj ''spec'', field_dict obj ''status'', field_dict obj ''overhead'']
       (let result = pick [''kind'', ''apiVersion''] obj
              @ [(''metadata'', JObj (pick [''name'', ''namespace'', ''uid'', ''resourceVersion'', ''deletionTimestamp''] (the_dict meta)))];
            kind = dget obj ''kind'' JNull in
        if kind = JStr ''Pod'' then bnd (project_pod obj result) (\<lambda>m. Inr (JObj m))
        else if kind = JStr ''Node'' then
          Inr (JObj (dput result ''status''
            (JObj (pick [''allocatable'', ''nodeInfo''] (the_dict (dget obj ''status'' (JObj [])))))))
        else Inr (JObj (merge result (pick [''spec'', ''status'', ''overhead''] obj)))))"

text \<open>An item of a typed list inherits the type of the list.\<close>

definition typed_child :: "members \<Rightarrow> string \<Rightarrow> json \<Rightarrow> json res" where
  "typed_child obj kind child =
     checks [cap_require (is_dict child) ''Invalid typed list item'',
             cap_require (dget (the_dict child) ''kind'' (JStr kind) = JStr kind
                \<and> py_eq (dget (the_dict child) ''apiVersion'' (dget obj ''apiVersion'' JNull)) (dget obj ''apiVersion'' JNull))
               ''Typed list item identity mismatch'']
      (bnd (item_res (JObj obj) ''apiVersion'') (\<lambda>version.
        Inr (JObj (merge [(''kind'', JStr kind), (''apiVersion'', version)] (the_dict child)))))"

definition items_of :: "json \<Rightarrow> json list" where
  "items_of v = (if is_dict v then the_list (dget (the_dict v) ''items'' JNull) else [])"

definition nested :: "json \<Rightarrow> nat" where
  "nested v = size_list size (items_of v)"

lemma dget_merge: "dget (merge a b) k d = (case map_of (rev b) k of Some v \<Rightarrow> v | None \<Rightarrow> dget a k d)"
  by (induction b rule: rev_induct) (auto simp: merge_def dget_def map_of_dput split: option.splits)

lemma map_of_size: "map_of m k = Some v \<Longrightarrow> size v < size (JObj m)"
  by (induction m) (auto split: if_splits)

lemma map_of_rev_size: "map_of (rev m) k = Some v \<Longrightarrow> size v < size (JObj m)"
proof -
  assume "map_of (rev m) k = Some v"
  then have "(k, v) \<in> set m" by (auto dest: map_of_SomeD)
  then show ?thesis by (induction m) auto
qed

lemma typed_child_nested:
  assumes "typed_child obj kind child = Inr c" and "child \<in> set (items_of v)"
  shows "nested c < nested v"
proof -
  from assms(1) obtain version where c: "is_dict child"
    "c = JObj (merge [(''kind'', JStr kind), (''apiVersion'', version)] (the_dict child))"
    by (auto simp: typed_child_def)
  have "nested c < size child"
  proof (cases "map_of (rev (the_dict child)) ''items''")
    case None
    then have "nested c = 0" by (simp add: nested_def items_of_def c(2) dget_merge) (simp add: dget_def)
    then show ?thesis using c(1) by auto
  next
    case (Some x)
    then have "nested c = size_list size (the_list x)" by (simp add: nested_def items_of_def c(2) dget_merge)
    also have "\<dots> < Suc (size x)" by (cases x) auto
    finally show ?thesis using map_of_rev_size [OF Some] c(1) by auto
  qed
  also have "size child \<le> nested v"
    using assms(2) unfolding nested_def by (simp add: size_list_estimation' [OF assms(2)])
  finally show ?thesis .
qed

function project_object :: "json \<Rightarrow> json res" where
  "project_object obj =
     checks [cap_require (is_dict obj) ''API object must be an object'']
      (if has_key (the_dict obj) ''items'' then
         bnd (hash_in (dget (the_dict obj) ''kind'' JNull) (map fst list_kinds)) (\<lambda>known.
         checks [cap_require known ''Unknown typed API list'',
                 cap_require (is_list (dget (the_dict obj) ''items'' JNull)) ''API list items must be an array'']
          (bnd (mapres (\<lambda>child. bnd (typed_child (the_dict obj)
                  (the (map_of list_kinds (the_str (dget (the_dict obj) ''kind'' JNull)))) child) project_object)
                  (items_of obj)) (\<lambda>children.
            Inr (JObj (dput (pick [''kind'', ''apiVersion'', ''metadata''] (the_dict obj)) ''items'' (JArr children))))))
       else project_single (the_dict obj))"
  by pat_completeness auto
termination
  by (relation "measure nested") (auto dest: typed_child_nested)

declare project_object.simps [simp del]

section \<open>Capture\<close>

text \<open>
  \<open>raw_get\<close> is \<open>bounded_get\<close> of one route under the deadline; \<open>clock\<close> and \<open>utc_text\<close> are
  \<open>time.monotonic()\<close> in microseconds and the current time as \<open>isoformat\<close> prints it.
\<close>

record 'w cluster_host =
  raw_get :: "string list \<Rightarrow> int \<Rightarrow> ('w, json) act"
  clock :: "('w, int) act"
  utc_text :: "('w, string) act"

definition label_rx :: rx where
  "label_rx = (let a = lower_letters @ digits in Seqs [Cls a, Opt (Seqs [Star (Cls (''-'' @ a)), Cls a])])"

definition target_ok :: "json \<Rightarrow> bool" where
  "target_ok v \<longleftrightarrow> nonempty_str v \<and> \<not> startswith (the_str v) ''-''"

record query =
  q_key :: string
  q_route :: string
  q_kind :: string
  q_version :: string

definition queries :: "string \<Rightarrow> string \<Rightarrow> query list" where
  "queries node namespace =
     (let prefix = ''/api/v1/namespaces/'' @ url_quote namespace in
      [\<lparr>q_key = ''server_version'', q_route = ''/version'', q_kind = [], q_version = []\<rparr>,
       \<lparr>q_key = ''node'', q_route = ''/api/v1/nodes/'' @ url_quote node, q_kind = ''Node'', q_version = ''v1''\<rparr>,
       \<lparr>q_key = ''pods'', q_route = ''/api/v1/pods'', q_kind = ''PodList'', q_version = ''v1''\<rparr>,
       \<lparr>q_key = ''quotas'', q_route = prefix @ ''/resourcequotas'', q_kind = ''ResourceQuotaList'', q_version = ''v1''\<rparr>,
       \<lparr>q_key = ''limitranges'', q_route = prefix @ ''/limitranges'', q_kind = ''LimitRangeList'', q_version = ''v1''\<rparr>,
       \<lparr>q_key = ''runtimeclasses'', q_route = ''/apis/node.k8s.io/v1/runtimeclasses'', q_kind = ''RuntimeClassList'',
        q_version = ''node.k8s.io/v1''\<rparr>])"

definition kubectl_argv :: "string \<Rightarrow> string \<Rightarrow> string list" where
  "kubectl_argv context route = [''kubectl'', ''--context'', context, ''--request-timeout=10s'', ''get'', ''--raw'', route]"

fun is_TimeoutExpired :: "exn \<Rightarrow> bool" where
  "is_TimeoutExpired (TimeoutExpired _) = True"
| "is_TimeoutExpired _ = False"

definition capture_one :: "'w cluster_host \<Rightarrow> string \<Rightarrow> int \<Rightarrow> query \<Rightarrow> ('w, json) act" where
  "capture_one host context deadline q =
     act_bind (act_catch (raw_get host (kubectl_argv context (q_route q)) deadline)
         (\<lambda>e. is_OSError e \<or> is_ValueError e \<or> is_TimeoutExpired e) (\<lambda>_. lift (Inl (Unable ''Capture'')))) (\<lambda>data.
     act_then (lift (cap_require (is_dict data) ''Raw API response must be an object''))
     (if q_key q = ''server_version'' then ret data
      else act_then (lift (cap_require (dget (the_dict data) ''kind'' JNull = JStr (q_kind q)
               \<and> dget (the_dict data) ''apiVersion'' JNull = JStr (q_version q)) ''Unexpected raw API response''))
             (lift (project_object data))))"

fun capture_all :: "'w cluster_host \<Rightarrow> string \<Rightarrow> int \<Rightarrow> members \<Rightarrow> query list \<Rightarrow> ('w, members) act" where
  "capture_all host context deadline result [] = ret result"
| "capture_all host context deadline result (q # qs) =
     act_bind (capture_one host context deadline q) (\<lambda>data.
       capture_all host context deadline (dput result (q_key q) data) qs)"

text \<open>The identity checks on the finished snapshot.\<close>

definition check_capture :: "members \<Rightarrow> json \<Rightarrow> json \<Rightarrow> unit res" where
  "check_capture result node namespace =
     bnd (object_meta (dget result ''node'' JNull) ''Node'' None) (\<lambda>meta.
     checks [cap_require (dget meta ''name'' JNull = node) ''Captured node identity mismatch'',
             bnd (get_res (dget result ''server_version'' JNull) ''gitVersion'' JNull)
               (\<lambda>v. cap_require (is_str v) ''Server version missing''),
             ignore (listed result ''pods'' ''Pod'' None),
             ignore (listed result ''quotas'' ''ResourceQuota'' (Some namespace)),
             ignore (listed result ''limitranges'' ''LimitRange'' (Some namespace)),
             ignore (listed result ''runtimeclasses'' ''RuntimeClass'' None)]
       (Inr ()))"

definition capture :: "'w cluster_host \<Rightarrow> json \<Rightarrow> json \<Rightarrow> json \<Rightarrow> ('w, members) act" where
  "capture host context node namespace =
     act_then (lift (cap_require (target_ok context \<and> target_ok node \<and> target_ok namespace) ''Invalid capture target''))
     (act_then (lift (cap_require (length (the_str namespace) \<le> 63 \<and> rx_match label_rx (the_str namespace))
        ''Invalid namespace route component''))
     (act_then (lift (cap_require (length (the_str node) \<le> 253
           \<and> rx_match (Seqs [label_rx, Star (Seqs [Lit ''.'', label_rx])]) (the_str node)) ''Invalid node route component''))
     (act_bind (utc_text host) (\<lambda>started.
      act_bind (clock host) (\<lambda>begin_at.
      (let deadline = begin_at + 30 * second_us in
       act_bind (capture_all host (the_str context) deadline
          [(''schema'', JInt 1), (''coverage'', JStr COVERAGE), (''namespace'', namespace), (''started_at'', JStr started)]
          (queries (the_str node) (the_str namespace))) (\<lambda>result.
       act_bind (utc_text host) (\<lambda>finished.
       (let result = dput result ''finished_at'' (JStr finished) in
        act_bind (clock host) (\<lambda>now.
        act_then (lift (cap_require (now < deadline) ''Capture deadline exceeded''))
        (act_then (lift (check_capture result node namespace)) (ret result))))))))))))"

end
