(* ===== verification/Capacity_Capture_Facts.thy ===== *)
theory Capacity_Capture_Facts
  imports Capacity_Capture
begin

text \<open>
  A captured pod answers the analysis as the original would: the projection keeps every field that
  the resource arithmetic reads.
\<close>

lemma map_of_pick: "map_of (pick names m) k = (if k \<in> set names then map_of m k else None)"
  by (induction names) (auto simp: pick_def has_key_def dget_def)

lemma dget_pick [simp]: "k \<in> set names \<Longrightarrow> dget (pick names m) k d = dget m k d"
  by (simp add: dget_def map_of_pick)

lemma has_key_pick [simp]: "k \<in> set names \<Longrightarrow> has_key (pick names m) k \<longleftrightarrow> has_key m k"
  by (simp add: has_key_def map_of_pick)

lemma has_key_dput [simp]: "has_key (dput m k v) k' \<longleftrightarrow> k' = k \<or> has_key m k'"
  by (simp add: has_key_def map_of_dput)

lemma dget_dput_eq [simp]: "dget (dput m k v) k' d = (if k' = k then v else dget m k' d)"
  by (simp add: dget_def map_of_dput)

definition trim :: "string list \<Rightarrow> json \<Rightarrow> json" where
  "trim names c = JObj (pick names (the_dict c))"

lemma project_group_Inr:
  assumes "project_group names err source g target = Inr t" and "map_of target g = None"
  shows "dget t g d = (if has_key source g then JArr (map (trim names) (the_list (dget source g JNull))) else d)"
    "has_key source g \<Longrightarrow> is_list (dget source g JNull) \<and> list_all is_dict (the_list (dget source g JNull))"
    "k \<noteq> g \<Longrightarrow> dget t k d = dget target k d" "k \<noteq> g \<Longrightarrow> has_key t k \<longleftrightarrow> has_key target k"
    "k \<noteq> g \<Longrightarrow> map_of t k = map_of target k"
proof -
  have absent: "dget target g d = d" using assms(2) by (simp add: dget_def)
  show "dget t g d = (if has_key source g then JArr (map (trim names) (the_list (dget source g JNull))) else d)"
    using assms(1) absent by (auto simp: project_group_def Let_def trim_def split: if_splits)
  show "has_key source g \<Longrightarrow> is_list (dget source g JNull) \<and> list_all is_dict (the_list (dget source g JNull))"
    using assms(1) by (simp add: project_group_def Let_def)
  show "k \<noteq> g \<Longrightarrow> dget t k d = dget target k d" "k \<noteq> g \<Longrightarrow> has_key t k \<longleftrightarrow> has_key target k"
    "k \<noteq> g \<Longrightarrow> map_of t k = map_of target k"
    using assms(1) by (auto simp: project_group_def Let_def map_of_dput split: if_splits)
qed

text \<open>Reading a group of the projected object: absent as before, or the trimmed entries.\<close>

lemma group_default:
  "dget m g d = (if has_key m g then dget m g JNull else d)"
  by (auto simp: has_key_def dget_def split: option.splits)

lemma container_trim: "is_dict c \<Longrightarrow> container_resources (trim container_fields c) = container_resources c"
  by (simp add: container_resources_def trim_def container_fields_def)

lemma names_trim: "list_all is_dict cs \<Longrightarrow> check_names seen (map (trim container_fields) cs) = check_names seen cs"
  by (induction cs arbitrary: seen) (auto simp: trim_def container_fields_def)

lemma foldres_map: "(\<And>s x. x \<in> set xs \<Longrightarrow> f s (g x) = f s x) \<Longrightarrow> foldres f s (map g xs) = foldres f s xs"
proof (induction xs arbitrary: s)
  case (Cons x xs)
  then show ?case by (cases "f s x") simp_all
qed simp

lemma peak_trim:
  assumes "list_all is_dict cs" and "list_all is_dict iss"
  shows "peak_resources (map (trim container_fields) cs) (map (trim container_fields) iss) = peak_resources cs iss"
proof -
  have "add_container s (trim container_fields c) = add_container s c" if "is_dict c" for s c
    using container_trim [OF that] by (simp add: add_container_def trim_def container_fields_def)
  moreover have "add_init s (trim container_fields c) = add_init s c" if "is_dict c" for s c
    using container_trim [OF that] by (simp add: add_init_def trim_def container_fields_def)
  ultimately show ?thesis using assms by (simp add: peak_resources_def foldres_map list_all_iff)
qed

lemma status_trim: "list_all is_dict xs \<Longrightarrow> each check_status (map (trim status_fields) xs) = each check_status xs"
  by (induction xs) (auto simp: check_status_def trim_def status_fields_def get_res_def)

lemma status_lists:
  assumes "a = (if ka then JArr (map (trim status_fields) xs) else JArr [])" and "a' = (if ka then JArr xs else JArr [])"
    and "b = (if kb then JArr (map (trim status_fields) ys) else JArr [])" and "b' = (if kb then JArr ys else JArr [])"
    and "ka \<longrightarrow> list_all is_dict xs" and "kb \<longrightarrow> list_all is_dict ys"
  shows "\<exists>zs. list_all is_dict zs \<and> list_plus a b = Inr (map (trim status_fields) zs) \<and> list_plus a' b' = Inr zs"
  using assms
  by (intro exI [of _ "(if ka then xs else []) @ (if kb then ys else [])"]) (auto simp: list_plus_def)

text \<open>Two specifications that agree on what is read, up to trimmed containers.\<close>

lemma spec_resources_cong:
  assumes same: "\<And>k. k \<in> {''resources'', ''resourceClaims'', ''overhead'', ''runtimeClassName''} \<Longrightarrow>
      (\<forall>d. dget s2 k d = dget spec k d) \<and> (has_key s2 k \<longleftrightarrow> has_key spec k)"
    and resize: "dget t2 ''resize'' JNull = dget status ''resize'' JNull"
    and lists: "\<exists>zs. list_all is_dict zs
      \<and> list_plus (dget t2 ''containerStatuses'' (JArr [])) (dget t2 ''initContainerStatuses'' (JArr [])) = Inr (map (trim status_fields) zs)
      \<and> list_plus (dget status ''containerStatuses'' (JArr [])) (dget status ''initContainerStatuses'' (JArr [])) = Inr zs"
    and cs: "(dget s2 ''containers'' JNull = JNull \<and> dget spec ''containers'' JNull = JNull)
      \<or> (dget s2 ''containers'' JNull = JArr (map (trim container_fields) cs) \<and> dget spec ''containers'' JNull = JArr cs \<and> list_all is_dict cs)"
    and inits: "dget s2 ''initContainers'' (JArr []) = JArr (map (trim container_fields) iss)"
      "dget spec ''initContainers'' (JArr []) = JArr iss" "list_all is_dict iss"
  shows "spec_resources s2 t2 runtimes candidate = spec_resources spec status runtimes candidate"
proof -
  from lists obtain zs where zs: "list_all is_dict zs"
    "list_plus (dget t2 ''containerStatuses'' (JArr [])) (dget t2 ''initContainerStatuses'' (JArr [])) = Inr (map (trim status_fields) zs)"
    "list_plus (dget status ''containerStatuses'' (JArr [])) (dget status ''initContainerStatuses'' (JArr [])) = Inr zs" by blast
  have over: "candidate_overhead s2 runtimes o1 = candidate_overhead spec runtimes o1" for o1
    using same [of "''overhead''"] same [of "''runtimeClassName''"] by (simp add: candidate_overhead_def cong: if_cong)
  show ?thesis
  proof (cases "dget spec ''containers'' JNull = JNull")
    case True
    with cs have "dget s2 ''containers'' JNull = JNull" by auto
    with True show ?thesis
      by (simp add: spec_resources_def same resize zs status_trim [OF zs(1)] checks_Cons cap_require_def ensure_def)
  next
    case False
    with cs have c: "dget s2 ''containers'' JNull = JArr (map (trim container_fields) cs)"
      "dget spec ''containers'' JNull = JArr cs" "list_all is_dict cs" by auto
    have names: "check_names [] (map (trim container_fields) cs @ map (trim container_fields) iss) = check_names [] (cs @ iss)"
      using names_trim [of "cs @ iss" "[]"] c(3) inits(3) by simp
    show ?thesis
      by (simp add: spec_resources_def same resize zs status_trim [OF zs(1)] c(1,2) inits(1,2) names
          peak_trim [OF c(3) inits(3)] over Let_def cong: if_cong)
  qed
qed

text \<open>
  C19: the projection keeps what the analysis reads.  A pod object of the API that \<open>project_object\<close>
  reduces to its accounting fields has the same requests and limits, and raises the same errors, in
  \<open>pod_resources\<close> as before.
\<close>

theorem projection_keeps_resources:
  assumes "project_object pod = Inr p" and "dget (the_dict pod) ''kind'' JNull = JStr ''Pod''"
    and "\<not> has_key (the_dict pod) ''items''"
  shows "pod_resources p runtimes candidate = pod_resources pod runtimes candidate"
proof -
  from assms obtain obj where pod: "pod = JObj obj" and single: "project_single obj = Inr p"
    by (auto simp: project_object.simps [of pod])
  define spec where "spec = the_dict (dget obj ''spec'' (JObj []))"
  define status where "status = the_dict (dget obj ''status'' (JObj []))"
  from single pod assms(2) have fields: "dget obj ''spec'' (JObj []) = JObj spec" "dget obj ''status'' (JObj []) = JObj status"
    by (auto simp: project_single_def Let_def field_dict_def spec_def status_def has_key_def dget_def split: option.splits)
  let ?spec0 = "pick [''nodeName'', ''runtimeClassName'', ''overhead'', ''resources'', ''resourceClaims''] spec"
  let ?status0 = "pick [''phase'', ''resize''] status"
  from single pod assms(2) obtain s1 s2 t1 t2 r where g:
    "project_group container_fields ''Invalid API container array'' spec ''containers'' ?spec0 = Inr s1"
    "project_group container_fields ''Invalid API container array'' spec ''initContainers'' s1 = Inr s2"
    "project_group status_fields ''Invalid API status array'' status ''containerStatuses'' ?status0 = Inr t1"
    "project_group status_fields ''Invalid API status array'' status ''initContainerStatuses'' t1 = Inr t2"
    "p = JObj (dput (dput r ''spec'' (JObj s2)) ''status'' (JObj t2))"
    by (auto simp: project_single_def project_pod_def Let_def spec_def [symmetric] status_def [symmetric])
  have n0: "map_of ?spec0 ''containers'' = None" "map_of ?spec0 ''initContainers'' = None"
    "map_of ?status0 ''containerStatuses'' = None" "map_of ?status0 ''initContainerStatuses'' = None"
    by (simp_all add: map_of_pick)
  note g1 = project_group_Inr [OF g(1) n0(1)]
  have n1: "map_of s1 ''initContainers'' = None" using g1(5) n0(2) by simp
  note g2 = project_group_Inr [OF g(2) n1]
  note g3 = project_group_Inr [OF g(3) n0(3)]
  have n3: "map_of t1 ''initContainerStatuses'' = None" using g3(5) n0(4) by simp
  note g4 = project_group_Inr [OF g(4) n3]
  have "spec_resources s2 t2 runtimes candidate = spec_resources spec status runtimes candidate"
  proof (rule spec_resources_cong)
    show "(\<forall>d. dget s2 k d = dget spec k d) \<and> (has_key s2 k \<longleftrightarrow> has_key spec k)"
      if "k \<in> {''resources'', ''resourceClaims'', ''overhead'', ''runtimeClassName''}" for k
      using that by (elim insertE emptyE) (simp_all add: g1 g2)
    show "dget t2 ''resize'' JNull = dget status ''resize'' JNull" by (simp add: g3 g4)
    show "\<exists>zs. list_all is_dict zs
      \<and> list_plus (dget t2 ''containerStatuses'' (JArr [])) (dget t2 ''initContainerStatuses'' (JArr [])) = Inr (map (trim status_fields) zs)
      \<and> list_plus (dget status ''containerStatuses'' (JArr [])) (dget status ''initContainerStatuses'' (JArr [])) = Inr zs"
    proof (rule status_lists)
      show "dget t2 ''containerStatuses'' (JArr []) = (if has_key status ''containerStatuses''
          then JArr (map (trim status_fields) (the_list (dget status ''containerStatuses'' JNull))) else JArr [])"
        by (simp add: g3 g4)
      show "dget t2 ''initContainerStatuses'' (JArr []) = (if has_key status ''initContainerStatuses''
          then JArr (map (trim status_fields) (the_list (dget status ''initContainerStatuses'' JNull))) else JArr [])"
        by (simp add: g4)
      show "dget status ''containerStatuses'' (JArr []) = (if has_key status ''containerStatuses''
          then JArr (the_list (dget status ''containerStatuses'' JNull)) else JArr [])"
        using g3(2) by (subst group_default) auto
      show "dget status ''initContainerStatuses'' (JArr []) = (if has_key status ''initContainerStatuses''
          then JArr (the_list (dget status ''initContainerStatuses'' JNull)) else JArr [])"
        using g4(2) by (subst group_default) auto
    qed (use g3(2) g4(2) in auto)
    show "(dget s2 ''containers'' JNull = JNull \<and> dget spec ''containers'' JNull = JNull)
      \<or> (dget s2 ''containers'' JNull = JArr (map (trim container_fields) (the_list (dget spec ''containers'' JNull)))
         \<and> dget spec ''containers'' JNull = JArr (the_list (dget spec ''containers'' JNull))
         \<and> list_all is_dict (the_list (dget spec ''containers'' JNull)))"
      using g1(1) [of JNull] g1(2) g2(3) [of "''containers''" JNull] group_default [of spec "''containers''" JNull] by auto
    show "dget s2 ''initContainers'' (JArr []) = JArr (map (trim container_fields) (the_list (dget spec ''initContainers'' (JArr []))))"
      using g2(1) [of "JArr []"] group_default [of spec "''initContainers''" "JArr []"] by auto
    show "dget spec ''initContainers'' (JArr []) = JArr (the_list (dget spec ''initContainers'' (JArr [])))"
      "list_all is_dict (the_list (dget spec ''initContainers'' (JArr [])))"
      using g2(2) group_default [of spec "''initContainers''" "JArr []"] by auto
  qed
  then show ?thesis
    by (simp add: pod_resources_def g(5) pod get_res_def fields checks_Cons cap_require_def ensure_def)
qed

definition sample_pod :: json where
  "sample_pod = JObj [(''kind'', JStr ''Pod''), (''apiVersion'', JStr ''v1''), (''metadata'', JObj [(''name'', JStr ''p1''), (''annotations'', JObj [])]),
     (''spec'', JObj [(''nodeName'', JStr ''n1''), (''hostname'', JStr ''private''),
        (''containers'', JArr [JObj [(''name'', JStr ''run''), (''image'', JStr ''registry/private''), (''env'', JArr [JStr ''SECRET'']),
           (''resources'', JObj [(''requests'', JObj [(''cpu'', JStr ''250m'')])])]])]),
     (''status'', JObj [(''phase'', JStr ''Running'')])]"

theorem projection_keeps_resources_witness:
  "\<exists>p. project_object sample_pod = Inr p \<and> pod_resources p [] False = Inr ([(''cpu'', 250)], [])"
proof -
  have "\<not> isl (project_object sample_pod)" by code_simp
  then obtain p where p: "project_object sample_pod = Inr p" by (cases "project_object sample_pod") auto
  have k: "dget (the_dict sample_pod) ''kind'' JNull = JStr ''Pod''" "\<not> has_key (the_dict sample_pod) ''items''"
    by code_simp+
  have "pod_resources sample_pod [] False = Inr ([(''cpu'', 250)], [])" by code_simp
  with projection_keeps_resources [OF p k] p show ?thesis by metis
qed

end
