(* ===== verification/Ipv4.thy ===== *)
theory Ipv4
  imports Prelude "HOL-Library.Word"
begin

text \<open>
  \<open>ipaddress.IPv4Address\<close>, \<open>IPv4Interface\<close> and \<open>IPv4Network\<close> on texts: an address is a 32-bit word,
  a network an address whose host bits are zero with a prefix length.
\<close>

unbundle bit_operations_syntax

type_synonym ipv4 = "32 word"

section \<open>Addresses\<close>

definition octet :: "string \<Rightarrow> nat option" where
  "octet s =
     (if s \<noteq> [] \<and> list_all (\<lambda>c. c \<in> set digits) s \<and> length s \<le> 3 \<and> (hd s = CHR ''0'' \<longrightarrow> s = ''0'')
         \<and> nat_of_digits s \<le> 255
      then Some (nat_of_digits s) else None)"

definition ipv4_of_octets :: "nat \<Rightarrow> nat \<Rightarrow> nat \<Rightarrow> nat \<Rightarrow> ipv4" where
  "ipv4_of_octets a b c d =
     ((word_of_nat a * 256 + word_of_nat b) * 256 + word_of_nat c) * 256 + word_of_nat d"

definition parse_ipv4 :: "string \<Rightarrow> ipv4 option" where
  "parse_ipv4 s =
     (case map octet (split CHR ''.'' s) of
        [Some a, Some b, Some c, Some d] \<Rightarrow> Some (ipv4_of_octets a b c d) | _ \<Rightarrow> None)"

definition byte_of :: "ipv4 \<Rightarrow> nat \<Rightarrow> nat" where
  "byte_of ip k = nat (uint ip div 256 ^ k mod 256)"

definition show_ipv4 :: "ipv4 \<Rightarrow> string" where
  "show_ipv4 ip = join ''.'' (map (\<lambda>k. str_nat (byte_of ip k)) [3, 2, 1, 0])"

section \<open>Prefixes\<close>

definition netmask :: "nat \<Rightarrow> ipv4" where
  "netmask p = push_bit (32 - p) (- 1)"

definition mask_prefix :: "ipv4 \<Rightarrow> nat option" where
  "mask_prefix m = List.find (\<lambda>p. netmask p = m) [0..<33]"

text \<open>A prefix length, a netmask or a host mask.\<close>

definition parse_prefix :: "string \<Rightarrow> nat option" where
  "parse_prefix s =
     (if s \<noteq> [] \<and> list_all (\<lambda>c. c \<in> set digits) s \<and> nat_of_digits s \<le> 32 then Some (nat_of_digits s)
      else Option.bind (parse_ipv4 s) (\<lambda>m. case mask_prefix m of Some p \<Rightarrow> Some p | None \<Rightarrow> mask_prefix (NOT m)))"

definition parse_interface :: "string \<Rightarrow> (ipv4 \<times> nat) option" where
  "parse_interface s =
     (case split CHR ''/'' s of
        [a] \<Rightarrow> map_option (\<lambda>ip. (ip, 32)) (parse_ipv4 a)
      | [a, p] \<Rightarrow> Option.bind (parse_ipv4 a) (\<lambda>ip. map_option (\<lambda>n. (ip, n)) (parse_prefix p))
      | _ \<Rightarrow> None)"

definition parse_network :: "string \<Rightarrow> (ipv4 \<times> nat) option" where
  "parse_network s =
     Option.bind (parse_interface s) (\<lambda>(ip, p). if ip AND NOT (netmask p) = 0 then Some (ip, p) else None)"

definition show_network :: "ipv4 \<times> nat \<Rightarrow> string" where
  "show_network n = show_ipv4 (fst n) @ ''/'' @ str_nat (snd n)"

text \<open>Whether an address belongs to a network.\<close>

definition in_network :: "ipv4 \<Rightarrow> ipv4 \<times> nat \<Rightarrow> bool" where
  "in_network ip n \<longleftrightarrow> ip AND netmask (snd n) = fst n"

section \<open>Reading what is printed\<close>

lemma octet_show: "n < 256 \<Longrightarrow> octet (str_nat n) = Some n"
proof -
  assume n: "n < 256"
  have d: "list_all (\<lambda>c. c \<in> set digits) (str_nat n)" using str_nat_digits by (auto simp: list_all_iff)
  have zero: "hd (str_nat n) = CHR ''0'' \<longrightarrow> str_nat n = ''0''"
  proof (cases "n = 0")
    case True
    then show ?thesis by (simp add: str_nat_small digit_char_def digits_def)
  next
    case False
    then show ?thesis using str_nat_hd [of n] by simp
  qed
  have "length (str_nat n) \<le> 3"
  proof -
    have "\<not> n < 10 \<Longrightarrow> \<not> n div 10 < 10 \<Longrightarrow> n div 10 div 10 < 10" using n by simp
    then show ?thesis by (cases "n < 10"; cases "n div 10 < 10") (simp_all add: str_nat_small str_nat_step)
  qed
  with d zero n show ?thesis by (simp add: octet_def)
qed

lemma byte_of_unat: "byte_of ip k = unat ip div 256 ^ k mod 256"
proof -
  have "uint ip div 256 ^ k mod 256 = int (unat ip div 256 ^ k mod 256)" by (simp add: zdiv_int zmod_int)
  then show ?thesis by (simp only: byte_of_def nat_int)
qed

lemma octets_nat: "ipv4_of_octets a b c d = word_of_nat (((a * 256 + b) * 256 + c) * 256 + d)"
  by (simp add: ipv4_of_octets_def)

lemma bytes_unat: "unat ip = ((byte_of ip 3 * 256 + byte_of ip 2) * 256 + byte_of ip 1) * 256 + byte_of ip 0"
proof -
  define x where "x = unat ip"
  have "x < 256 ^ 4" unfolding x_def by (rule order.strict_trans2 [OF unsigned_less]) simp
  have d: "x div 256 ^ 2 = x div 256 div 256" "x div 256 ^ 3 = x div 256 div 256 div 256"
    using div_mult2_eq [of x 256 256] div_mult2_eq [of x "256 * 256" 256] by simp_all
  have "x div 256 div 256 div 256 < 256" using \<open>x < 256 ^ 4\<close> d(2) by simp
  then have b: "byte_of ip 3 = x div 256 div 256 div 256" "byte_of ip 2 = x div 256 div 256 mod 256"
    "byte_of ip 1 = x div 256 mod 256" "byte_of ip 0 = x mod 256"
    unfolding byte_of_unat x_def [symmetric] d by simp_all
  show ?thesis unfolding b by (simp add: x_def [symmetric])
qed

lemma no_dot: "CHR ''.'' \<notin> set (str_nat n)" "CHR ''/'' \<notin> set (str_nat n)"
  using str_nat_digits [of n] by (auto simp: digits_def)

lemma parse_show_ipv4: "parse_ipv4 (show_ipv4 ip) = Some ip"
proof -
  have "split CHR ''.'' (show_ipv4 ip) = map (\<lambda>k. str_nat (byte_of ip k)) [3, 2, 1, 0]"
    unfolding show_ipv4_def by (rule split_join) (auto simp: no_dot)
  moreover have "octet (str_nat (byte_of ip k)) = Some (byte_of ip k)" for k
    by (rule octet_show) (simp add: byte_of_unat)
  ultimately show ?thesis
    by (simp only: parse_ipv4_def list.map option.case list.case octets_nat bytes_unat [symmetric]) simp
qed

lemma show_ipv4_chars: "set (show_ipv4 ip) \<subseteq> set (digits @ ''.'')"
  using str_nat_digits by (auto simp: show_ipv4_def)

lemma parse_show_network:
  assumes "ip AND NOT (netmask p) = 0" and "p \<le> 32"
  shows "parse_network (show_network (ip, p)) = Some (ip, p)"
proof -
  have "CHR ''/'' \<notin> set (show_ipv4 ip)" using show_ipv4_chars [of ip] by (auto simp: digits_def)
  then have "split CHR ''/'' (show_network (ip, p)) = [show_ipv4 ip, str_nat p]"
    by (simp add: show_network_def split_append_sep split_id no_dot)
  moreover have "parse_prefix (str_nat p) = Some p"
    using assms(2) str_nat_digits [of p] by (auto simp: parse_prefix_def list_all_iff)
  ultimately show ?thesis using assms(1) by (simp add: parse_network_def parse_interface_def parse_show_ipv4)
qed

end
