(* ===== verification/Node_Guard.thy ===== *)
theory Node_Guard
  imports Complex_Main Json_Text Actions Ipv4
begin

text \<open>
  \<open>deploy/runner-reserve/node_guard.py\<close>: the guard that admits sandbox workers only behind verified
  firewall rules.  The guard object is the record \<open>guard\<close>; its methods are actions on the pair of the
  guard and the world.  Programs, files and the monotonic clock are the parameters of \<open>node_host\<close>;
  clock readings are rational numbers of seconds, so float rounding is left out.
\<close>

section \<open>Constants\<close>

definition TABLE :: string where "TABLE = ''victron_ci_reserve''"
definition LISTENER_TABLE :: string where "LISTENER_TABLE = ''victron_ci_guard_ipv4''"
definition LABEL :: string where "LABEL = ''runner-reserve.github.io/role''"
definition PORT :: string where "PORT = ''19999''"

definition NAMESPACES :: "string list" where
  "NAMESPACES = [''runner-reserve-ci'', ''runner-reserve-automation'', ''runner-reserve-release'',
     ''arc-private-ci'', ''arc-private-automation'', ''arc-private-release'']"

text \<open>\<open>denied_networks\<close> of \<open>network-policy.json\<close>.\<close>

definition DENIED :: "string list" where
  "DENIED = [''0.0.0.0/8'', ''10.0.0.0/8'', ''100.64.0.0/10'', ''127.0.0.0/8'', ''169.254.0.0/16'', ''172.16.0.0/12'',
     ''192.168.0.0/16'', ''198.18.0.0/15'', ''224.0.0.0/4'', ''240.0.0.0/4'']"

text \<open>\<open>SYNC_ERRORS\<close> and the order in which \<open>SYNC_ERROR_CODES\<close> names them.\<close>

definition sync_error :: "exn \<Rightarrow> bool" where
  "sync_error e \<longleftrightarrow> is_OSError e \<or> is_ValueError e \<or> is_KeyError e \<or> is_IndexError e \<or> is_TypeError e
     \<or> is_StopIteration e \<or> is_RuntimeError e \<or> is_TimeoutExpired e"

fun sync_error_code :: "exn \<Rightarrow> string" where
  "sync_error_code (FileNotFoundError _) = ''dependency_missing''"
| "sync_error_code (PermissionError _) = ''permission_denied''"
| "sync_error_code (TimeoutExpired _) = ''command_timeout''"
| "sync_error_code (OSError _) = ''os_error''"
| "sync_error_code (KeyError _) = ''missing_field''"
| "sync_error_code (IndexError _) = ''invalid_index''"
| "sync_error_code (TypeError _) = ''invalid_type''"
| "sync_error_code (StopIteration _) = ''missing_item''"
| "sync_error_code e = (if is_ValueError e then ''invalid_data''
     else if is_RuntimeError e then ''sync_runtime_error'' else ''sync_error'')"

section \<open>The host\<close>

text \<open>
  \<open>run_program\<close> runs a program and returns its exit code and output; \<open>temp_file\<close> writes a text to a
  private file and returns its name.
\<close>

record 'w node_host =
  run_program :: "string list \<Rightarrow> ('w, int \<times> string) act"
  temp_file :: "string \<Rightarrow> ('w, string) act"
  is_symlink :: "string \<Rightarrow> ('w, bool) act"
  read_text :: "string \<Rightarrow> ('w, string) act"
  monotonic :: "('w, rat) act"
  repr_float :: "string \<Rightarrow> string"

definition command :: "'w node_host \<Rightarrow> string list \<Rightarrow> ('w, string) act" where
  "command host args =
     act_bind (run_program host args) (\<lambda>(code, out).
       lift (guard (code = 0) (RuntimeError ''Node guard command failed'') (Inr out)))"

section \<open>Workers\<close>

record worker =
  w_uid :: json
  w_ip :: string
  w_interface :: string
  w_mac :: json
  w_sandbox_id :: string
  w_host_mac :: string
  w_ifindex :: int

text \<open>\<open>ipaddress.IPv4Interface(value).ip\<close> and \<open>IPv4Address(value)\<close> as text.\<close>

definition interface_ip :: "json \<Rightarrow> string res" where
  "interface_ip v =
     (case (if is_str v then parse_interface (the_str v) else None) of
        None \<Rightarrow> Inl (ValueError ''AddressValueError'') | Some (ip, _) \<Rightarrow> Inr (show_ipv4 ip))"

definition address_text :: "json \<Rightarrow> string res" where
  "address_text v =
     (case v of
        JStr s \<Rightarrow> (case parse_ipv4 s of None \<Rightarrow> Inl (ValueError ''AddressValueError'') | Some ip \<Rightarrow> Inr (show_ipv4 ip))
      | JInt i \<Rightarrow> guard (0 \<le> i \<and> i < 2 ^ 32) (ValueError ''AddressValueError'') (Inr (show_ipv4 (word_of_int i)))
      | JBool b \<Rightarrow> Inr (show_ipv4 (if b then 1 else 0))
      | _ \<Rightarrow> Inl (ValueError ''AddressValueError''))"

definition network_text :: "json \<Rightarrow> string res" where
  "network_text v =
     (case v of
        JStr s \<Rightarrow> (case parse_network s of None \<Rightarrow> Inl (ValueError ''AddressValueError'') | Some n \<Rightarrow> Inr (show_network n))
      | JInt i \<Rightarrow> guard (0 \<le> i \<and> i < 2 ^ 32) (ValueError ''AddressValueError'') (Inr (show_network (word_of_int i, 32)))
      | JBool b \<Rightarrow> Inr (show_network (if b then 1 else 0, 32))
      | _ \<Rightarrow> Inl (ValueError ''AddressValueError''))"

definition veth_name :: "json \<Rightarrow> bool res" where
  "veth_name v =
     bnd (item_res v ''name'') (\<lambda>n. guard (is_str n) (AttributeError ''startswith'') (Inr (startswith (the_str n) ''veth'')))"

definition netns_rx :: rx where
  "netns_rx = Seqs [Lit ''/'', Opt (Lit ''var/''), Lit ''run/netns/cni-'', Plus (Cls (alnum @ ''-''))]"

definition match_res :: "rx \<Rightarrow> json \<Rightarrow> bool res" where
  "match_res r v = guard (is_str v) (TypeError ''expected string'') (Inr (rx_match r (the_str v)))"

text \<open>
  The address, interface and identity of a worker from the cache its network plugin wrote; \<open>links\<close>
  maps the interfaces that exist to their MAC addresses.
\<close>

definition worker_from_cache :: "json \<Rightarrow> json \<Rightarrow> (string \<times> string) list \<Rightarrow> (json \<times> string \<times> string \<times> json) res" where
  "worker_from_cache pod cache links =
     bnd (get_res cache ''kind'' JNull) (\<lambda>kind.
     bnd (if kind = JStr ''cniCacheV1'' then item_res pod ''id'' else Inr JNull) (\<lambda>pid.
     checks [ensure (kind = JStr ''cniCacheV1'' \<and> py_eq (dget (the_dict cache) ''containerId'' JNull) pid
                     \<and> dget (the_dict cache) ''ifName'' JNull = JStr ''eth0'') (ValueError ''CNI cache does not match the worker'')]
      (bnd (item_res cache ''result'') (\<lambda>result.
       bnd (item_res result ''ips'') (\<lambda>ips. bnd (iter_res ips) (\<lambda>ips.
       bnd (filter_res (\<lambda>v. bnd (item_res v ''address'') (\<lambda>a. bnd (contains_res a '':'') (\<lambda>b. Inr (\<not> b)))) ips) (\<lambda>addresses.
       checks [ensure (length addresses = 1) (ValueError ''Worker needs one IPv4 address'')]
        (bnd (item_res (hd addresses) ''address'') (\<lambda>a. bnd (interface_ip a) (\<lambda>address.
         bnd (item_res (hd addresses) ''interface'') (\<lambda>index.
         bnd (if is_int index \<and> 0 \<le> the_int index then bnd (item_res result ''interfaces'') len_res else Inr 0) (\<lambda>n.
         checks [ensure (is_int index \<and> 0 \<le> the_int index \<and> the_int index < n) (ValueError ''Invalid CNI interface index'')]
          (bnd (item_res result ''interfaces'') (\<lambda>interfaces. bnd (nth_res interfaces (the_int index)) (\<lambda>nic.
           bnd (item_res nic ''name'') (\<lambda>nic_name.
           bnd (if nic_name = JStr ''eth0'' then bnd (get_res nic ''sandbox'' (JStr [])) (match_res netns_rx) else Inr False) (\<lambda>ok.
           checks [ensure ok (ValueError ''Unexpected worker network namespace'')]
            (bnd (iter_res interfaces) (\<lambda>nics. bnd (filter_res veth_name nics) (\<lambda>peers.
             bnd (if length peers = 1 then
                    bnd (item_res (hd peers) ''name'') (\<lambda>p. bnd (item_res (hd peers) ''mac'') (\<lambda>m.
                      Inr (case map_of links (the_str p) of None \<Rightarrow> m = JNull | Some x \<Rightarrow> m = JStr x)))
                  else Inr False) (\<lambda>same.
             checks [ensure same (ValueError ''Worker veth is absent or has changed'')]
              (bnd (item_res pod ''metadata'') (\<lambda>meta. bnd (item_res meta ''uid'') (\<lambda>uid.
               bnd (item_res nic ''mac'') (\<lambda>mac.
                 Inr (uid, address, the_str (dget (the_dict (hd peers)) ''name'' JNull), mac))))))))))))))))))))))))))"

definition cni_path :: "string \<Rightarrow> string" where
  "cni_path sandbox = ''/var/lib/cni/results/cbr0-'' @ sandbox @ ''-eth0''"

definition device_path :: "string \<Rightarrow> string \<Rightarrow> string" where
  "device_path interface file = ''/sys/class/net/'' @ interface @ ''/'' @ file"

definition veth_rx :: rx where
  "veth_rx = Seqs [Lit ''veth'', Cls alnum, UpTo 10 (Cls alnum)]"

text \<open>The one interface of the cache that can be the worker's, before it is used in a path.\<close>

definition worker_interface :: "json \<Rightarrow> string res" where
  "worker_interface cache =
     bnd (item_res cache ''result'') (\<lambda>result. bnd (item_res result ''interfaces'') (\<lambda>interfaces.
     bnd (iter_res interfaces) (\<lambda>nics. bnd (filter_res veth_name nics) (\<lambda>peers.
     checks [ensure (length peers = 1) (ValueError ''Invalid worker interface'')]
      (bnd (item_res (hd peers) ''name'') (\<lambda>name.
       bnd (match_res veth_rx name) (\<lambda>ok.
       checks [ensure ok (ValueError ''Invalid worker interface'')] (Inr (the_str name)))))))))"

text \<open>\<open>int(text)\<close> around white space.\<close>

definition int_of_line :: "string \<Rightarrow> int res" where
  "int_of_line s = int_of_signed (strip is_space s)"

definition cached_worker :: "'w node_host \<Rightarrow> json \<Rightarrow> ('w, worker) act" where
  "cached_worker host pod =
     act_bind (lift (item_res pod ''id'')) (\<lambda>pid.
     act_bind (lift (match_res (hex_rx 64) pid)) (\<lambda>ok.
     act_then (lift (ensure ok (ValueError ''Invalid sandbox identity'')))
     (act_bind (is_symlink host (cni_path (the_str pid))) (\<lambda>link.
      act_then (lift (ensure (\<not> link) (ValueError ''Refusing a CNI cache symlink'')))
      (act_bind (read_text host (cni_path (the_str pid))) (\<lambda>text.
       act_bind (lift (loads (repr_float host) None text)) (\<lambda>cache.
       act_bind (lift (worker_interface cache)) (\<lambda>interface.
       act_bind (read_text host (device_path interface ''address'')) (\<lambda>line.
       (let mac = strip is_space line in
        act_bind (lift (worker_from_cache pod cache [(interface, mac)])) (\<lambda>(uid, ip, name, nic_mac).
        act_bind (read_text host (device_path interface ''ifindex'')) (\<lambda>index.
        act_bind (lift (int_of_line index)) (\<lambda>n.
          ret \<lparr>w_uid = uid, w_ip = ip, w_interface = name, w_mac = nic_mac, w_sandbox_id = the_str pid,
               w_host_mac = mac, w_ifindex = n\<rparr>)))))))))))))"

definition same_worker :: "worker \<Rightarrow> worker \<Rightarrow> bool" where
  "same_worker a b \<longleftrightarrow> py_eq (w_uid a) (w_uid b) \<and> py_eq (w_mac a) (w_mac b)
     \<and> w_ip a = w_ip b \<and> w_interface a = w_interface b \<and> w_sandbox_id a = w_sandbox_id b
     \<and> w_host_mac a = w_host_mac b \<and> w_ifindex a = w_ifindex b"

definition same_workers :: "worker list \<Rightarrow> worker list \<Rightarrow> bool" where
  "same_workers = list_all2 same_worker"

definition validate_worker :: "'w node_host \<Rightarrow> worker \<Rightarrow> ('w, unit) act" where
  "validate_worker host w =
     (let pod = JObj [(''id'', JStr (w_sandbox_id w)), (''metadata'', JObj [(''uid'', w_uid w)])] in
      act_bind (cached_worker host pod) (\<lambda>w'.
        lift (ensure (same_worker w' w) (ValueError ''Worker network identity has changed''))))"

definition validate_workers :: "'w node_host \<Rightarrow> worker list \<Rightarrow> ('w, unit) act" where
  "validate_workers host workers = act_each (validate_worker host) workers"

text \<open>Whether a pod of the container runtime is a ready worker of one of the namespaces.\<close>

definition wanted_pod :: "json \<Rightarrow> bool res" where
  "wanted_pod pod =
     bnd (item_res pod ''metadata'') (\<lambda>meta. bnd (item_res meta ''namespace'') (\<lambda>ns.
     bnd (hash_in ns NAMESPACES) (\<lambda>known.
     if \<not> known then Inr False
     else bnd (get_res pod ''labels'' (JObj [])) (\<lambda>labels. bnd (get_res labels LABEL JNull) (\<lambda>role.
       Inr (role = JStr ''worker'' \<and> dget (the_dict pod) ''state'' JNull = JStr ''SANDBOX_READY''))))))"

fun collect_workers :: "'w node_host \<Rightarrow> json list \<Rightarrow> ('w, worker list) act" where
  "collect_workers host [] = ret []"
| "collect_workers host (pod # pods) =
     act_bind (lift (wanted_pod pod)) (\<lambda>wanted.
       if wanted then act_bind (cached_worker host pod) (\<lambda>w. act_bind (collect_workers host pods) (\<lambda>rows. ret (w # rows)))
       else collect_workers host pods)"

text \<open>
  \<open>sorted(result, key=lambda row: row["uid"])\<close>.  The runtime's identities are strings; for values that
  Python cannot order with each other the sort raises.
\<close>

definition sort_workers :: "worker list \<Rightarrow> worker list res" where
  "sort_workers rows =
     guard (length rows \<le> 1 \<or> list_all (\<lambda>w. is_str (w_uid w)) rows) (TypeError ''not supported between instances'')
       (Inr (sort_key (\<lambda>w. the_str (w_uid w)) rows))"

definition discover :: "'w node_host \<Rightarrow> ('w, worker list) act" where
  "discover host =
     act_bind (command host [''/opt/victron-ci-reserve/crictl'', ''--runtime-endpoint'',
         ''unix:///run/k3s/containerd/containerd.sock'', ''pods'', ''--label'', LABEL @ ''=worker'', ''-o'', ''json'']) (\<lambda>out.
     act_bind (lift (bnd (loads (repr_float host) None out) (\<lambda>v. bnd (item_res v ''items'') iter_res))) (\<lambda>pods.
     act_bind (collect_workers host pods) (\<lambda>rows. lift (sort_workers rows))))"

section \<open>Rules\<close>

definition mac_rx :: rx where
  "mac_rx = Seqs [Rep 5 (Seqs [hex_rx 2, Lit '':'']), hex_rx 2]"

definition quoted :: "string \<Rightarrow> string" where
  "quoted s = [CHR 0x22] @ s @ [CHR 0x22]"

text \<open>The lines for one worker, in the order in which the firewall tries them.\<close>

definition worker_rules :: "string \<Rightarrow> string \<Rightarrow> string list \<Rightarrow> worker \<Rightarrow> string list res" where
  "worker_rules node_ip dns_ip denied w =
     bnd (address_text (JStr (w_ip w))) (\<lambda>address.
     bnd (match_res veth_rx (JStr (w_interface w))) (\<lambda>iface_ok.
     checks [ensure iface_ok (ValueError ''Invalid worker interface'')]
      (bnd (match_res mac_rx (w_mac w)) (\<lambda>mac_ok.
       checks [ensure mac_ok (ValueError ''Invalid worker MAC'')]
        (let match = ''iifname '' @ quoted (w_interface w); mac = the_str (w_mac w) in
         Inr [match @ '' ether saddr != '' @ mac @ '' counter drop'',
              match @ '' ether type arp arp saddr ip != '' @ address @ '' counter drop'',
              match @ '' ether type arp counter accept'',
              match @ '' ether type != ip counter drop'',
              match @ '' ip saddr != '' @ address @ '' counter drop'',
              match @ '' ip daddr '' @ node_ip @ '' tcp dport '' @ PORT @ '' counter accept'',
              match @ '' ip daddr '' @ dns_ip @ '' udp dport 53 counter accept'',
              match @ '' ip daddr '' @ dns_ip @ '' tcp dport 53 counter accept'',
              match @ '' ip daddr { '' @ join '', '' denied @ '' } counter drop'',
              match @ '' tcp dport { 80, 443 } counter accept'',
              match @ '' counter drop''])))))"

definition newline_char :: string where
  "newline_char = [CHR 0x0A]"

definition rules :: "worker list \<Rightarrow> json \<Rightarrow> json \<Rightarrow> json \<Rightarrow> bool \<Rightarrow> string res" where
  "rules workers node_ip dns_ip extra_denied exists =
     bnd (address_text node_ip) (\<lambda>node.
     bnd (address_text dns_ip) (\<lambda>dns.
     bnd (iter_res extra_denied) (\<lambda>extra.
     bnd (mapres network_text (map JStr DENIED @ extra)) (\<lambda>denied.
     bnd (mapres (worker_rules node dns denied) workers) (\<lambda>blocks.
       Inr (join newline_char
         ((if exists then [''delete table bridge '' @ TABLE] else [])
          @ [''table bridge '' @ TABLE @ '' {'', ''chain ingress {'',
             ''type filter hook prerouting priority -350; policy accept;'']
          @ concat blocks @ [''}'', ''}'', []])))))))"

definition listener_rules :: "json \<Rightarrow> bool \<Rightarrow> string res" where
  "listener_rules node_ip exists =
     bnd (address_text node_ip) (\<lambda>node. Inr (join newline_char
       ((if exists then [''delete table inet '' @ LISTENER_TABLE] else [])
        @ [''table inet '' @ LISTENER_TABLE @ '' {'', ''chain input {'',
           ''type filter hook input priority -310; policy accept;'',
           ''ip protocol tcp ip daddr '' @ node @ '' tcp dport '' @ PORT @ '' ip hdrlength > 5 counter drop'',
           ''}'', ''}'', []])))"

section \<open>Snapshots of the firewall\<close>

text \<open>
  \<open>stable\<close>: the flag says that the value is the dictionary of a \<open>counter\<close>, whose \<open>packets\<close> and
  \<open>bytes\<close> are dropped; handles are dropped everywhere.
\<close>

fun stable :: "bool \<Rightarrow> json \<Rightarrow> json" and stable_members :: "bool \<Rightarrow> members \<Rightarrow> members" where
  "stable c (JArr xs) = JArr (map (stable False) xs)"
| "stable c (JObj m) = JObj (stable_members c m)"
| "stable c v = v"
| "stable_members c [] = []"
| "stable_members c ((k, v) # m) =
     (if k = ''handle'' \<or> (c \<and> k \<in> {''packets'', ''bytes''}) then stable_members c m
      else (k, stable (k = ''counter'') v) # stable_members c m)"

definition canonical_item :: "bool \<Rightarrow> json \<Rightarrow> json list res" where
  "canonical_item echoed item =
     bnd (contains_res item ''metainfo'') (\<lambda>meta.
     if meta then Inr []
     else if \<not> echoed then Inr [stable False item]
     else bnd (contains_res item ''delete'') (\<lambda>del.
       if del then Inr [] else bnd (get_res item ''add'' item) (\<lambda>x. Inr [stable False x])))"

definition canonical_ruleset :: "(string \<Rightarrow> string) \<Rightarrow> string \<Rightarrow> bool \<Rightarrow> json list res" where
  "canonical_ruleset fl payload echoed =
     bnd (loads fl None payload) (\<lambda>v. bnd (item_res v ''nftables'') (\<lambda>t. bnd (iter_res t) (\<lambda>items.
     bnd (mapres (canonical_item echoed) items) (\<lambda>objects.
     checks [ensure (concat objects \<noteq> []) (ValueError ''Empty firewall snapshot'')] (Inr (concat objects))))))"

definition same_rules :: "json list \<Rightarrow> json list \<Rightarrow> bool" where
  "same_rules a b \<longleftrightarrow> py_eq (JArr a) (JArr b)"

definition same_snapshot :: "json list option \<Rightarrow> json list option \<Rightarrow> bool" where
  "same_snapshot a b = (case (a, b) of (None, None) \<Rightarrow> True | (Some x, Some y) \<Rightarrow> same_rules x y | _ \<Rightarrow> False)"

definition table_snapshot :: "'w node_host \<Rightarrow> string \<Rightarrow> string \<Rightarrow> ('w, json list option) act" where
  "table_snapshot host family name =
     act_bind (run_program host [''nft'', ''--json'', ''--stateless'', ''list'', ''table'', family, name]) (\<lambda>(code, out).
       if code = 0 then lift (bnd (canonical_ruleset (repr_float host) out False) (\<lambda>s. Inr (Some s))) else ret None)"

definition firewall_snapshot :: "'w node_host \<Rightarrow> ('w, json list option) act" where
  "firewall_snapshot host = table_snapshot host ''bridge'' TABLE"

definition listener_snapshot :: "'w node_host \<Rightarrow> ('w, json list option) act" where
  "listener_snapshot host = table_snapshot host ''inet'' LISTENER_TABLE"

definition apply_firewall :: "'w node_host \<Rightarrow> string \<Rightarrow> ('w, string) act" where
  "apply_firewall host rendered =
     act_bind (temp_file host rendered) (\<lambda>name.
       command host [''nft'', ''--json'', ''--stateless'', ''--echo'', ''-f'', name])"

section \<open>The guard\<close>

text \<open>A number of the configuration as a rational.\<close>

definition rat_of :: "json \<Rightarrow> rat option" where
  "rat_of v =
     (case number v of None \<Rightarrow> None
      | Some (m, e) \<Rightarrow> Some (if 0 \<le> e then of_int (m * 10 ^ nat e) else of_int m / of_int (10 ^ nat (- e))))"

definition interval :: "members \<Rightarrow> string \<Rightarrow> int \<Rightarrow> rat \<Rightarrow> rat res" where
  "interval config key d maximum =
     (let value = dget config key (JInt d) in
      checks [ensure (\<not> is_bool value \<and> numeric value) (ValueError ''Invalid guard interval'')]
       (case rat_of value of
          None \<Rightarrow> Inl (ValueError ''Invalid guard interval'')
        | Some x \<Rightarrow> checks [ensure (1 \<le> x \<and> x \<le> maximum) (ValueError ''Invalid guard interval'')] (Inr x)))"

record guard =
  config :: members
  poll_interval :: rat
  discovery_interval :: rat
  firewall_interval :: rat
  admitted :: "(string \<times> json) list"
  admitted_until :: rat
  workers :: "worker list option"
  firewall :: "json list option"
  listener_firewall :: "json list option"
  next_discovery :: rat
  next_firewall :: rat

definition init_guard :: "members \<Rightarrow> guard res" where
  "init_guard cfg =
     bnd (interval cfg ''identity_check_interval_seconds'' 2 10) (\<lambda>poll.
     bnd (interval cfg ''discovery_interval_seconds'' 15 300) (\<lambda>disc.
     bnd (interval cfg ''firewall_check_interval_seconds'' 10 60) (\<lambda>fw.
       Inr \<lparr>config = cfg, poll_interval = poll, discovery_interval = disc, firewall_interval = fw, admitted = [],
            admitted_until = 0, workers = None, firewall = None, listener_firewall = None, next_discovery = 0,
            next_firewall = 0\<rparr>)))"

type_synonym ('w, 'a) guard_act = "(guard, 'w, 'a) obj_act"

definition revoke :: "('w, unit) guard_act" where
  "revoke = update (\<lambda>g. g\<lparr>admitted := [], admitted_until := 0\<rparr>)"

text \<open>Run a method and, on one of the synchronisation errors, a cleanup before another exception.\<close>

definition on_sync_error :: "('w, unit) guard_act \<Rightarrow> ('w, unit) guard_act \<Rightarrow> (exn \<Rightarrow> exn) \<Rightarrow> ('w, unit) guard_act" where
  "on_sync_error m cleanup f = act_catch m sync_error (\<lambda>e. act_then cleanup (lift (Inl (f e))))"

definition reconcile_listener :: "'w node_host \<Rightarrow> json list option \<Rightarrow> ('w, unit) guard_act" where
  "reconcile_listener host actual =
     act_then revoke
     (act_bind self (\<lambda>g.
      act_bind (lift (bnd (item_res (JObj (config g)) ''node_ip'') (\<lambda>ip. listener_rules ip (actual \<noteq> None)))) (\<lambda>rendered.
      act_bind (outside (apply_firewall host rendered)) (\<lambda>installed.
      act_bind (lift (canonical_ruleset (repr_float host) installed True)) (\<lambda>expected.
      act_bind (outside (listener_snapshot host)) (\<lambda>now.
      act_then (lift (ensure (same_snapshot now (Some expected))
          (RuntimeError ''Listener firewall changed during reconciliation'')))
        (update (\<lambda>g. g\<lparr>listener_firewall := Some expected\<rparr>))))))))"

definition protect_listener :: "'w node_host \<Rightarrow> ('w, unit) guard_act" where
  "protect_listener host =
     on_sync_error
       (act_bind (outside (listener_snapshot host)) (\<lambda>actual.
        act_bind self (\<lambda>g.
          act_when (listener_firewall g = None \<or> \<not> same_snapshot actual (listener_firewall g))
            (reconcile_listener host actual))))
       revoke (\<lambda>_. ListenerProtectionError ''Host listener protection unavailable'')"

text \<open>The worker table: replaced and read back when it differs from what was last installed.\<close>

definition reconcile_firewall :: "'w node_host \<Rightarrow> worker list \<Rightarrow> json list option \<Rightarrow> ('w, unit) guard_act" where
  "reconcile_firewall host rows actual =
     act_then revoke
     (act_bind self (\<lambda>g.
      act_bind (lift (bnd (item_res (JObj (config g)) ''node_ip'') (\<lambda>node.
          bnd (item_res (JObj (config g)) ''dns_ip'') (\<lambda>dns.
            rules rows node dns (dget (config g) ''extra_denied'' (JArr [])) (actual \<noteq> None))))) (\<lambda>rendered.
      act_bind (outside (apply_firewall host rendered)) (\<lambda>installed.
      act_bind (lift (canonical_ruleset (repr_float host) installed True)) (\<lambda>expected.
      act_bind (outside (firewall_snapshot host)) (\<lambda>now.
      act_then (lift (ensure (same_snapshot now (Some expected))
          (RuntimeError ''Firewall changed during reconciliation'')))
        (update (\<lambda>g. g\<lparr>firewall := Some expected\<rparr>))))))))"

definition same_worker_lists :: "worker list \<Rightarrow> worker list option \<Rightarrow> bool" where
  "same_worker_lists a b = (case b of None \<Rightarrow> False | Some y \<Rightarrow> same_workers a y)"

definition current_workers :: "'w node_host \<Rightarrow> rat \<Rightarrow> ('w, worker list) guard_act" where
  "current_workers host now =
     act_bind self (\<lambda>g.
     (case workers g of
        Some rows \<Rightarrow>
          if now < next_discovery g then
            act_then (act_when (next_firewall g \<le> now) (outside (validate_workers host rows))) (ret rows)
          else act_bind (outside (discover host)) (\<lambda>rows.
            act_bind (outside (monotonic host)) (\<lambda>t.
            act_then (update (\<lambda>g. g\<lparr>next_discovery := t + discovery_interval g\<rparr>)) (ret rows)))
      | None \<Rightarrow> act_bind (outside (discover host)) (\<lambda>rows.
            act_bind (outside (monotonic host)) (\<lambda>t.
            act_then (update (\<lambda>g. g\<lparr>next_discovery := t + discovery_interval g\<rparr>)) (ret rows)))))"

definition check_firewall :: "'w node_host \<Rightarrow> rat \<Rightarrow> worker list \<Rightarrow> ('w, unit) guard_act" where
  "check_firewall host now rows =
     act_bind self (\<lambda>g.
     (let changed = \<not> same_worker_lists rows (workers g) in
      act_when (changed \<or> next_firewall g \<le> now)
       (act_bind (outside (firewall_snapshot host)) (\<lambda>actual.
        act_then (act_when (changed \<or> firewall g = None \<or> \<not> same_snapshot actual (firewall g))
            (reconcile_firewall host rows actual))
        (act_bind (outside (monotonic host)) (\<lambda>t.
           update (\<lambda>g. g\<lparr>next_firewall := t + firewall_interval g\<rparr>)))))))"

text \<open>\<open>{row["ip"]: row["uid"] for row in workers}\<close>, the last entry of an address winning.\<close>

definition admission :: "worker list \<Rightarrow> (string \<times> json) list" where
  "admission rows = foldl (\<lambda>m w. dput m (w_ip w) (w_uid w)) [] rows"

definition sync_body :: "'w node_host \<Rightarrow> ('w, unit) guard_act" where
  "sync_body host =
     act_bind (outside (monotonic host)) (\<lambda>now.
     act_bind self (\<lambda>g.
     act_then (act_when (listener_firewall g = None \<or> next_firewall g \<le> now) (protect_listener host))
     (act_bind (current_workers host now) (\<lambda>rows.
      act_then (check_firewall host now rows)
      (act_then (outside (validate_workers host rows))
      (act_bind (outside (monotonic host)) (\<lambda>t.
         update (\<lambda>g. g\<lparr>workers := Some rows, admitted := admission rows,
                        admitted_until := t + poll_interval g * 2 + 1\<rparr>))))))))"

definition sync :: "'w node_host \<Rightarrow> ('w, unit) guard_act" where
  "sync host =
     on_sync_error (sync_body host)
       (act_then revoke (update (\<lambda>g. g\<lparr>next_discovery := 0, next_firewall := 0\<rparr>))) (\<lambda>e. e)"

text \<open>
  One turn of \<open>loop\<close>: whether it goes on.  The loop stops its listener when the protection of the
  listener is lost, and otherwise only waits for the next turn.
\<close>

fun is_listener_error :: "exn \<Rightarrow> bool" where
  "is_listener_error (ListenerProtectionError _) = True"
| "is_listener_error _ = False"

definition turn :: "'w node_host \<Rightarrow> ('w, bool) guard_act" where
  "turn host =
     act_catch (act_catch (act_then (sync host) (ret True)) is_listener_error (\<lambda>_. ret False))
       (\<lambda>e. sync_error e \<and> \<not> is_listener_error e) (\<lambda>_. ret True)"

text \<open>The answer of the readiness endpoint to a client address and a path.\<close>

definition ready :: "guard \<Rightarrow> rat \<Rightarrow> string \<Rightarrow> string \<Rightarrow> bool" where
  "ready g now client path \<longleftrightarrow>
     startswith path ''/ready/'' \<and> dget (admitted g) client JNull = JStr (drop 7 path) \<and> now < admitted_until g"

end
