(* ===== verification/Node_Guard_Facts.thy ===== *)
theory Node_Guard_Facts
  imports Node_Guard
begin

text \<open>
  The guard as a state machine: what a turn of its loop leaves behind, and what an admission therefore
  means, whatever happens to the host between the turns.
\<close>

section \<open>Revocation\<close>

lemma revoke_apply [simp]: "revoke gw = (Inr (), ((fst gw)\<lparr>admitted := [], admitted_until := 0\<rparr>, snd gw))"
  by (simp add: revoke_def)

section \<open>The invariant\<close>

text \<open>
  What an admission stands for: a worker list whose identities were read back, after which the clock
  showed the time the admission is counted from.
\<close>

definition admission_ok :: "'w node_host \<Rightarrow> guard \<Rightarrow> bool" where
  "admission_ok host g \<longleftrightarrow> admitted g = [] \<or>
     (\<exists>rows w w' t w''. workers g = Some rows \<and> admitted g = admission rows
        \<and> validate_workers host rows w = (Inr (), w') \<and> monotonic host w' = (Inr t, w'')
        \<and> admitted_until g = t + poll_interval g * 2 + 1)"

definition guard_ok :: "'w node_host \<Rightarrow> guard \<Rightarrow> bool" where
  "guard_ok host g \<longleftrightarrow>
     (workers g \<noteq> None \<longrightarrow> firewall g \<noteq> None \<and> listener_firewall g \<noteq> None) \<and> admission_ok host g"

text \<open>The part of it that every intermediate state of a turn keeps.\<close>

definition quiet :: "json list option \<Rightarrow> json list option \<Rightarrow> guard \<Rightarrow> guard \<Rightarrow> bool" where
  "quiet l f g0 g \<longleftrightarrow> workers g = workers g0 \<and> poll_interval g = poll_interval g0 \<and> config g = config g0
     \<and> (l \<noteq> None \<longrightarrow> listener_firewall g \<noteq> None) \<and> (f \<noteq> None \<longrightarrow> firewall g \<noteq> None)
     \<and> (admitted g = [] \<or> admitted g = admitted g0 \<and> admitted_until g = admitted_until g0)"

lemma quiet_refl: "quiet (listener_firewall g) (firewall g) g g"
  by (simp add: quiet_def)

lemma quiet_ok: "guard_ok host g0 \<Longrightarrow> quiet (listener_firewall g0) (firewall g0) g0 g \<Longrightarrow> guard_ok host g"
  by (auto simp: guard_ok_def quiet_def admission_ok_def)

lemma keeps_on_sync_error:
  "keeps P m \<Longrightarrow> keeps P c \<Longrightarrow> keeps P (on_sync_error m c f)"
  unfolding on_sync_error_def by (intro keeps_intros)

lemma keeps_revoke: "(\<And>g w. P (g, w) \<Longrightarrow> P (g\<lparr>admitted := [], admitted_until := 0\<rparr>, w)) \<Longrightarrow> keeps P revoke"
  unfolding revoke_def by (rule keeps_update)

lemma quiet_revoke: "keeps (\<lambda>gw. quiet l f g0 (fst gw)) revoke"
  by (rule keeps_revoke) (simp add: quiet_def)

lemma quiet_protect: "keeps (\<lambda>gw. quiet l f g0 (fst gw)) (protect_listener host)"
  unfolding protect_listener_def reconcile_listener_def
  by (intro keeps_on_sync_error keeps_intros quiet_revoke keeps_update) (simp add: quiet_def)

lemma quiet_workers: "keeps (\<lambda>gw. quiet l f g0 (fst gw)) (current_workers host now)"
  unfolding current_workers_def
  by (rule keeps_bind, rule keeps_self, split option.split)
    (intro conjI allI impI keeps_intros keeps_update; simp add: quiet_def)

lemma quiet_firewall: "keeps (\<lambda>gw. quiet l f g0 (fst gw)) (check_firewall host now rows)"
  unfolding check_firewall_def reconcile_firewall_def Let_def
  by (intro keeps_intros quiet_revoke keeps_update) (simp_all add: quiet_def)

text \<open>Everything of a synchronisation up to the acknowledgement, and the acknowledgement.\<close>

definition prepare :: "'w node_host \<Rightarrow> ('w, worker list \<times> rat) guard_act" where
  "prepare host =
     act_bind (outside (monotonic host)) (\<lambda>now.
     act_bind self (\<lambda>g.
     act_then (act_when (listener_firewall g = None \<or> next_firewall g \<le> now) (protect_listener host))
     (act_bind (current_workers host now) (\<lambda>rows.
      act_then (check_firewall host now rows)
      (act_then (outside (validate_workers host rows))
      (act_bind (outside (monotonic host)) (\<lambda>t. ret (rows, t))))))))"

definition accept :: "worker list \<times> rat \<Rightarrow> ('w, unit) guard_act" where
  "accept a = update (\<lambda>g. g\<lparr>workers := Some (fst a), admitted := admission (fst a),
     admitted_until := snd a + poll_interval g * 2 + 1\<rparr>)"

lemma sync_body_split: "sync_body host = act_bind (prepare host) accept"
  by (simp only: sync_body_def prepare_def accept_def act_then_def act_bind_assoc act_bind_ret fst_conv snd_conv)

lemma quiet_prepare: "keeps (\<lambda>gw. quiet l f g0 (fst gw)) (prepare host)"
  unfolding prepare_def by (intro keeps_intros quiet_protect quiet_workers quiet_firewall)

section \<open>A successful synchronisation\<close>

lemma protect_listener_Inr:
  assumes "protect_listener host gw = (Inr (), gw')" shows "listener_firewall (fst gw') \<noteq> None"
proof -
  from assms obtain actual w where "listener_snapshot host (snd gw) = (Inr actual, w)"
    "act_when (listener_firewall (fst gw) = None \<or> \<not> same_snapshot actual (listener_firewall (fst gw)))
       (reconcile_listener host actual) (fst gw, w) = (Inr (), gw')"
    by (auto simp: protect_listener_def on_sync_error_def act_catch_Inr act_then_Inr act_bind_Inr outside_Inr)
  then show ?thesis
    by (auto simp: act_when_def reconcile_listener_def act_then_Inr act_bind_Inr outside_Inr split: if_splits)
qed

text \<open>
  The rules of \<open>rows\<close> were installed in one transaction, its echo is remembered, and the table read
  back is that echo.
\<close>

definition fenced :: "'w node_host \<Rightarrow> members \<Rightarrow> worker list \<Rightarrow> guard \<Rightarrow> bool" where
  "fenced host cfg rows g \<longleftrightarrow>
     (\<exists>rendered w0 w1 echo expected w2 read exists.
        bnd (item_res (JObj cfg) ''node_ip'') (\<lambda>node. bnd (item_res (JObj cfg) ''dns_ip'') (\<lambda>dns.
          rules rows node dns (dget cfg ''extra_denied'' (JArr [])) exists)) = Inr rendered
        \<and> apply_firewall host rendered w0 = (Inr echo, w1) \<and> canonical_ruleset (repr_float host) echo True = Inr expected
        \<and> firewall_snapshot host w1 = (Inr (Some read), w2) \<and> same_rules read expected \<and> firewall g = Some expected)"

lemma check_firewall_Inr:
  assumes "check_firewall host now rows gw = (Inr (), gw')"
    and "\<not> same_worker_lists rows (workers (fst gw))"
  shows "fenced host (config (fst gw)) rows (fst gw')"
  using assms unfolding fenced_def
  by (auto simp: check_firewall_def reconcile_firewall_def act_when_def act_then_Inr act_bind_Inr outside_Inr
      same_snapshot_def split: if_splits option.splits) blast+

lemma prepare_Inr:
  assumes "prepare host (g, w) = (Inr (rows, t), gw')"
  obtains w1 w2 where "validate_workers host rows w1 = (Inr (), w2)" "monotonic host w2 = (Inr t, snd gw')"
    "workers (fst gw') = workers g" "poll_interval (fst gw') = poll_interval g"
    "firewall g \<noteq> None \<Longrightarrow> firewall (fst gw') \<noteq> None" "listener_firewall (fst gw') \<noteq> None"
    "\<not> same_worker_lists rows (workers g) \<Longrightarrow> fenced host (config g) rows (fst gw')"
proof -
  from assms obtain now w0 gw1 gw2 gw3 w2 w3 where now: "monotonic host w = (Inr now, w0)"
    and protect: "act_when (listener_firewall g = None \<or> next_firewall g \<le> now) (protect_listener host) (g, w0) = (Inr (), gw1)"
    and cur: "current_workers host now gw1 = (Inr rows, gw2)" and fw: "check_firewall host now rows gw2 = (Inr (), gw3)"
    and val: "validate_workers host rows (snd gw3) = (Inr (), w2)" and t: "monotonic host w2 = (Inr t, w3)"
    and fin: "gw' = (fst gw3, w3)"
    by (auto simp: prepare_def act_then_Inr act_bind_Inr outside_Inr)
  let ?q = "\<lambda>l f gw. quiet l f g (fst gw)"
  have keep: "keeps (?q l f) (act_when c (protect_listener host))" for l f c
    by (intro keeps_intros quiet_protect)
  have start: "?q None (firewall g) (g, w0)" "?q (listener_firewall g) None (g, w0)" by (simp_all add: quiet_def)
  have 1: "?q None (firewall g) gw1" "?q (listener_firewall g) None gw1"
    by (rule keepsD [OF keep _ protect]; rule start)+
  have l1: "listener_firewall (fst gw1) \<noteq> None"
    using protect protect_listener_Inr [of host "(g, w0)" gw1] 1(2)
    by (cases "listener_firewall g = None \<or> next_firewall g \<le> now") (auto simp: act_when_def quiet_def)
  have 2: "?q None (firewall g) gw2" "?q (listener_firewall (fst gw1)) None gw2"
    by (rule keepsD [OF quiet_workers _ cur]; use 1 in \<open>simp add: quiet_def\<close>)+
  have 3: "?q None (firewall g) gw3" "?q (listener_firewall (fst gw1)) None gw3"
    by (rule keepsD [OF quiet_firewall _ fw]; rule 2)+
  show ?thesis
  proof (rule that [OF val])
    show "\<not> same_worker_lists rows (workers g) \<Longrightarrow> fenced host (config g) rows (fst gw')"
      using check_firewall_Inr [OF fw] 2(1) fin by (simp add: quiet_def)
  qed (use 3 fin l1 t in \<open>simp_all add: quiet_def\<close>)
qed

lemma sync_Inr:
  assumes "sync host (g, w) = (Inr (), gw')"
  obtains rows t gw1 where "prepare host (g, w) = (Inr (rows, t), gw1)"
    "gw' = ((fst gw1)\<lparr>workers := Some rows, admitted := admission rows,
              admitted_until := t + poll_interval (fst gw1) * 2 + 1\<rparr>, snd gw1)"
proof -
  from assms obtain a gw1 where "prepare host (g, w) = (Inr a, gw1)" "accept a gw1 = (Inr (), gw')"
    by (auto simp: sync_def on_sync_error_def act_catch_Inr act_then_Inr sync_body_split act_bind_Inr)
  then show thesis by (intro that [of "fst a" "snd a" gw1]) (auto simp: accept_def)
qed


section \<open>A failing synchronisation\<close>

lemma sync_body_Inl:
  assumes "sync_body host (g, w) = (Inl e, gw')"
  shows "quiet (listener_firewall g) (firewall g) g (fst gw')"
proof -
  have "snd (prepare host (g, w)) = gw'"
    using assms by (auto simp: sync_body_split act_bind_def accept_def split: prod.splits sum.splits)
  then show ?thesis
    using keepsD [OF quiet_prepare [of "listener_firewall g" "firewall g" g]] quiet_refl by (metis fst_conv prod.collapse)
qed

lemma sync_Inl:
  assumes "sync host (g, w) = (Inl e, gw')"
  shows "quiet (listener_firewall g) (firewall g) g (fst gw')"
    and "sync_error e \<Longrightarrow> admitted (fst gw') = [] \<and> admitted_until (fst gw') = 0
           \<and> next_discovery (fst gw') = 0 \<and> next_firewall (fst gw') = 0"
proof -
  from assms obtain gw1 where body: "sync_body host (g, w) = (Inl e, gw1)"
    and gw': "gw' = (if sync_error e
       then ((fst gw1)\<lparr>admitted := [], admitted_until := 0, next_discovery := 0, next_firewall := 0\<rparr>, snd gw1) else gw1)"
    by (auto simp: sync_def on_sync_error_def act_catch_def act_then_def act_bind_def split: prod.splits sum.splits if_splits)
  from sync_body_Inl [OF body] show "quiet (listener_firewall g) (firewall g) g (fst gw')" by (simp add: gw' quiet_def)
  show "sync_error e \<Longrightarrow> admitted (fst gw') = [] \<and> admitted_until (fst gw') = 0
      \<and> next_discovery (fst gw') = 0 \<and> next_firewall (fst gw') = 0" by (simp add: gw')
qed

text \<open>
  C21: A synchronisation that fails with one of the errors it expects leaves nothing admitted at any
  time, asks for a fresh discovery and a fresh look at the firewall, and does not accept a worker list.
\<close>

theorem failed_sync_revokes:
  assumes "sync host (g, w) = (Inl e, (g', w'))" and "sync_error e"
  shows "admitted g' = [] \<and> admitted_until g' = 0 \<and> next_discovery g' = 0 \<and> next_firewall g' = 0
    \<and> workers g' = workers g \<and> \<not> ready g' now client path"
  using sync_Inl [OF assms(1)] assms(2) by (auto simp: quiet_def ready_def dget_def)

section \<open>Runs\<close>

text \<open>The loop of the guard on a host on which anything may happen between the turns.\<close>

inductive guard_run :: "'w node_host \<Rightarrow> members \<Rightarrow> guard \<Rightarrow> 'w \<Rightarrow> bool" for host cfg where
  start: "init_guard cfg = Inr g \<Longrightarrow> guard_run host cfg g w"
| protect: "guard_run host cfg g w \<Longrightarrow> protect_listener host (g, w) = (r, (g', w')) \<Longrightarrow> guard_run host cfg g' w'"
| turn: "guard_run host cfg g w \<Longrightarrow> turn host (g, w) = (r, (g', w')) \<Longrightarrow> guard_run host cfg g' w'"
| environment: "guard_run host cfg g w \<Longrightarrow> guard_run host cfg g w'"

lemma init_ok: "init_guard cfg = Inr g \<Longrightarrow> guard_ok host g"
  by (auto simp: init_guard_def guard_ok_def admission_ok_def)

lemma sync_guard_ok: "guard_ok host g \<Longrightarrow> sync host (g, w) = (r, (g', w')) \<Longrightarrow> guard_ok host g'"
proof (cases r)
  case (Inl e)
  moreover assume "guard_ok host g" "sync host (g, w) = (r, (g', w'))"
  ultimately show ?thesis using sync_Inl(1) quiet_ok by (metis fst_conv)
next
  case (Inr u)
  assume ok: "guard_ok host g" and "sync host (g, w) = (r, (g', w'))"
  then have "sync host (g, w) = (Inr (), (g', w'))" using Inr by simp
  then obtain rows t gw1 where prep: "prepare host (g, w) = (Inr (rows, t), gw1)"
    and eq: "(g', w') = ((fst gw1)\<lparr>workers := Some rows, admitted := admission rows,
               admitted_until := t + poll_interval (fst gw1) * 2 + 1\<rparr>, snd gw1)"
    by (rule sync_Inr)
  show ?thesis
  proof (rule prepare_Inr [OF prep])
    fix w1 w2
    assume "validate_workers host rows w1 = (Inr (), w2)" "monotonic host w2 = (Inr t, snd gw1)"
      "firewall g \<noteq> None \<Longrightarrow> firewall (fst gw1) \<noteq> None" "listener_firewall (fst gw1) \<noteq> None"
      "\<not> same_worker_lists rows (workers g) \<Longrightarrow> fenced host (config g) rows (fst gw1)"
    moreover have "workers g = None \<Longrightarrow> \<not> same_worker_lists rows (workers g)" by (simp add: same_worker_lists_def)
    ultimately show ?thesis using ok eq by (auto simp: guard_ok_def admission_ok_def fenced_def)
  qed
qed

lemma turn_state: "snd (turn host gw) = snd (sync host gw)"
  by (simp add: turn_def act_catch_def act_then_def act_bind_def split: prod.splits sum.splits)

lemma guard_run_ok: "guard_run host cfg g w \<Longrightarrow> guard_ok host g"
proof (induction rule: guard_run.induct)
  case (protect g w r g' w')
  have "quiet (listener_firewall g) (firewall g) g (fst (g, w))" by (simp add: quiet_refl)
  from keepsD [OF quiet_protect this protect(2)] protect(3) show ?case by (simp add: quiet_ok)
next
  case (turn g w r g' w')
  then obtain r' where "sync host (g, w) = (r', (g', w'))" using turn_state by (metis prod.collapse snd_conv)
  with turn(3) show ?case by (rule sync_guard_ok)
qed (auto intro: init_ok)

text \<open>What the readiness endpoint says yes to.\<close>

lemma foldl_dput: "map_of (foldl (\<lambda>m w. dput m (w_ip w) (w_uid w)) m rows) k =
    (case filter (\<lambda>w. w_ip w = k) (rev rows) of [] \<Rightarrow> map_of m k | w # _ \<Rightarrow> Some (w_uid w))"
  by (induction rows arbitrary: m) (auto simp: map_of_dput filter_append split: list.splits)

lemma admission_lookup:
  assumes "map_of (admission rows) k = Some v" shows "\<exists>w \<in> set rows. w_ip w = k \<and> w_uid w = v"
proof -
  from assms obtain w ws where f: "filter (\<lambda>w. w_ip w = k) (rev rows) = w # ws" and v: "w_uid w = v"
    by (auto simp: admission_def foldl_dput split: list.splits)
  have "w \<in> set (filter (\<lambda>w. w_ip w = k) (rev rows))" unfolding f by simp
  with v show ?thesis by auto
qed

lemma validate_each:
  "validate_workers host rows w = (Inr (), w') \<Longrightarrow> x \<in> set rows \<Longrightarrow> \<exists>w1 w2. validate_worker host x w1 = (Inr (), w2)"
  unfolding validate_workers_def by (induction rows arbitrary: w) (auto simp: act_then_Inr)


end
