(* ===== verification/Node_Guard_Runs.thy ===== *)
theory Node_Guard_Runs
  imports Node_Guard_Facts
begin

text \<open>
  A small node on which the guard runs: two pods, of which the container runtime lists one or the
  other, a firewall that keeps the two tables, and a clock.  It gives the concrete runs of the
  properties of \<open>Node_Guard_Facts\<close>, and one run that shows what a failed acknowledgement leaves behind.
\<close>

section \<open>A node\<close>

text \<open>
  The pod the runtime lists, the rules of the two tables (empty when there is none), and the clock;
  the cache of the second pod is gone as soon as rules for its interface are installed.
\<close>

record node =
  listed_pod :: char
  bridge_rules :: string
  inet_rules :: string
  clock :: rat
  second_cache :: bool

definition pod_id :: "char \<Rightarrow> string" where
  "pod_id c = replicate 64 c"

definition pods_text :: "char \<Rightarrow> string" where
  "pods_text c = dq (''{`items`:[{`id`:`'' @ pod_id c @ ''`,`metadata`:{`namespace`:`arc-private-ci`,`uid`:`u'' @ [c]
     @ ''`},`labels`:{`runner-reserve.github.io/role`:`worker`},`state`:`SANDBOX_READY`}]}'')"

definition cache_text :: "char \<Rightarrow> string" where
  "cache_text c = dq (''{`kind`:`cniCacheV1`,`containerId`:`'' @ pod_id c @ ''`,`ifName`:`eth0`,`result`:{`ips`:[{`address`:`10.42.0.'' @ [c]
     @ ''/24`,`interface`:1}],`interfaces`:[{`name`:`veth'' @ [c] @ ''`,`mac`:`02:00:00:00:00:0'' @ [c]
     @ ''`},{`name`:`eth0`,`sandbox`:`/run/netns/cni-'' @ [c] @ ''`,`mac`:`06:00:00:00:00:0'' @ [c] @ ''`}]}}'')"

text \<open>The firewall prints a table as one object that names the pod it fences.\<close>

fun fenced_pod :: "string \<Rightarrow> string" where
  "fenced_pod [] = ''0''"
| "fenced_pod (c # t) = (if c = CHR 0x22 then take 1 (drop 4 t) else fenced_pod t)"

definition table_text :: "bool \<Rightarrow> string \<Rightarrow> string" where
  "table_text echo t =
     dq (''{`nftables`:['' @ (if echo then ''{`add`:'' else []) @ ''{`pod`:'' @ fenced_pod t @ ''}''
        @ (if echo then ''}'' else []) @ '']}'')"

definition node_program :: "string list \<Rightarrow> (node, int \<times> string) act" where
  "node_program args n =
     (if hd args = ''nft'' then
        (if args ! 3 = ''list'' then
           (let t = (if args ! 5 = ''bridge'' then bridge_rules n else inet_rules n) in
            (Inr (if t = [] then (1, []) else (0, table_text False t)), n))
         else
           (let t = last args in
            (Inr (0, table_text True t),
             if startswith t ''table bridge'' \<or> startswith t ''delete table bridge'' then n\<lparr>bridge_rules := t, second_cache := second_cache n \<and> fenced_pod t \<noteq> ''2''\<rparr> else n\<lparr>inet_rules := t\<rparr>)))
      else (Inr (0, pods_text (listed_pod n)), n))"

definition node_file :: "string \<Rightarrow> (node, string) act" where
  "node_file path n =
     (if path = cni_path (pod_id CHR ''1'') then Inr (cache_text CHR ''1'')
      else if path = device_path ''veth1'' ''address'' then Inr (''02:00:00:00:00:01'' @ newline_char)
      else if path = device_path ''veth1'' ''ifindex'' then Inr (''7'' @ newline_char)
      else if path = cni_path (pod_id CHR ''2'') \<and> second_cache n then Inr (cache_text CHR ''2'')
      else if path = device_path ''veth2'' ''address'' then Inr (''02:00:00:00:00:02'' @ newline_char)
      else if path = device_path ''veth2'' ''ifindex'' then Inr (''8'' @ newline_char)
      else Inl (FileNotFoundError ''No such file''), n)"

definition node_host :: "node node_host" where
  "node_host = \<lparr>run_program = node_program, temp_file = (\<lambda>t n. (Inr t, n)), is_symlink = (\<lambda>_ n. (Inr False, n)),
     read_text = node_file, monotonic = (\<lambda>n. (Inr (clock n), n)), repr_float = id\<rparr>"

section \<open>Three turns\<close>

definition sample_config :: members where
  "sample_config = [(''node_ip'', JStr ''10.0.0.1''), (''dns_ip'', JStr ''10.43.0.10'')]"

definition sample_worker :: "char \<Rightarrow> int \<Rightarrow> worker" where
  "sample_worker c n =
     \<lparr>w_uid = JStr (''u'' @ [c]), w_ip = ''10.42.0.'' @ [c], w_interface = ''veth'' @ [c],
      w_mac = JStr (''06:00:00:00:00:0'' @ [c]), w_sandbox_id = pod_id c, w_host_mac = ''02:00:00:00:00:0'' @ [c], w_ifindex = n\<rparr>"

definition rendered :: "worker \<Rightarrow> bool \<Rightarrow> string" where
  "rendered x exists = (case rules [x] (JStr ''10.0.0.1'') (JStr ''10.43.0.10'') (JArr []) exists of Inl _ \<Rightarrow> [] | Inr t \<Rightarrow> t)"

definition rendered_listener :: string where
  "rendered_listener = (case listener_rules (JStr ''10.0.0.1'') False of Inl _ \<Rightarrow> [] | Inr t \<Rightarrow> t)"

definition pod_rule :: "int \<Rightarrow> json list" where
  "pod_rule n = [JObj [(''pod'', JInt n)]]"

definition guard0 :: guard where
  "guard0 = \<lparr>config = sample_config, poll_interval = 2, discovery_interval = 15, firewall_interval = 10, admitted = [],
     admitted_until = 0, workers = None, firewall = None, listener_firewall = None, next_discovery = 0, next_firewall = 0\<rparr>"

definition guard1 :: guard where
  "guard1 = guard0\<lparr>admitted := [(''10.42.0.1'', JStr ''u1'')], admitted_until := 10, workers := Some [sample_worker CHR ''1'' 7],
     firewall := Some (pod_rule 1),
     listener_firewall := Some (pod_rule 0), next_discovery := 20, next_firewall := 15\<rparr>"

text \<open>The second pod was listed, its rules installed, and then it went away.\<close>

definition guard2 :: guard where
  "guard2 = guard1\<lparr>admitted := [], admitted_until := 0,
     firewall := Some (pod_rule 2), next_discovery := 0, next_firewall := 0\<rparr>"

definition guard3 :: guard where
  "guard3 = guard2\<lparr>admitted := [(''10.42.0.1'', JStr ''u1'')], admitted_until := 35, next_discovery := 45, next_firewall := 40\<rparr>"

definition node_at :: "char \<Rightarrow> string \<Rightarrow> string \<Rightarrow> rat \<Rightarrow> bool \<Rightarrow> node" where
  "node_at c b i t k = \<lparr>listed_pod = c, bridge_rules = b, inet_rules = i, clock = t, second_cache = k\<rparr>"

definition rules1 :: string where "rules1 = rendered (sample_worker CHR ''1'' 7) False"
definition rules2 :: string where "rules2 = rendered (sample_worker CHR ''2'' 8) True"

section \<open>Its parts\<close>

definition pod_value :: "char \<Rightarrow> json" where
  "pod_value c = JObj [(''id'', JStr (pod_id c)),
     (''metadata'', JObj [(''namespace'', JStr ''arc-private-ci''), (''uid'', JStr (''u'' @ [c]))]),
     (''labels'', JObj [(LABEL, JStr ''worker'')]), (''state'', JStr ''SANDBOX_READY'')]"

lemma pods_loads: "c = CHR ''1'' \<or> c = CHR ''2'' \<Longrightarrow> loads id None (pods_text c) = Inr (JObj [(''items'', JArr [pod_value c])])"
  by (elim disjE; hypsubst; code_simp)

lemma pod_wanted: "wanted_pod (pod_value c) = Inr True"
  by (simp add: wanted_pod_def pod_value_def item_res_def get_res_def hash_in_def dget_def NAMESPACES_def)

lemma cached_pod1: "cached_worker node_host (pod_value CHR ''1'') n = (Inr (sample_worker CHR ''1'' 7), n)"
  by code_simp

lemma cached_pod2: "cached_worker node_host (pod_value CHR ''2'') (node_at c b i t True) = (Inr (sample_worker CHR ''2'' 8), node_at c b i t True)"
  by code_simp

lemma cached_pod2_gone: "cached_worker node_host (pod_value CHR ''2'') (node_at c b i t False)
    = (Inl (FileNotFoundError ''No such file''), node_at c b i t False)"
  by code_simp

text \<open>A validation asks for the cache of the same pod; only its identity matters.\<close>

lemma cached_pod_again: "cached_worker host (JObj [(''id'', JStr (pod_id c)), (''metadata'', JObj [(''uid'', JStr (''u'' @ [c]))])])
    = cached_worker host (pod_value c)"
  unfolding cached_worker_def worker_from_cache_def pod_value_def
  by (simp add: item_res_def cong: if_cong)

lemmas worker_fields = sample_worker_def worker.simps

lemma validate_again: "validate_workers node_host [sample_worker c i] n = (Inr (), n)"
  if "cached_worker node_host (pod_value c) n = (Inr (sample_worker c i), n)"
  using that cached_pod_again [of node_host c]
  by (simp add: validate_workers_def validate_worker_def act_then_def act_bind_def worker_fields same_worker_def ensure_def)

lemma validate_gone: "validate_workers node_host [sample_worker c i] n = (Inl e, n)"
  if "cached_worker node_host (pod_value c) n = (Inl e, n)"
  using that cached_pod_again [of node_host c]
  by (simp add: validate_workers_def validate_worker_def act_then_def act_bind_def worker_fields)

lemma discover_pod: "discover node_host n = (Inr [sample_worker c i], n)"
  if "listed_pod n = c" "cached_worker node_host (pod_value c) n = (Inr (sample_worker c i), n)" "c = CHR ''1'' \<or> c = CHR ''2''"
proof -
  have "command node_host (''/opt/victron-ci-reserve/crictl'' # args) n = (Inr (pods_text c), n)" for args
    using that(1) by (simp add: command_def node_host_def node_program_def act_bind_def)
  moreover have "repr_float node_host = id" by (simp add: node_host_def)
  moreover have "bnd (loads id None (pods_text c)) (\<lambda>v. bnd (item_res v ''items'') iter_res) = Inr [pod_value c]"
    using pods_loads [OF that(3)] by (simp add: item_res_def iter_res_def)
  moreover have "collect_workers node_host [pod_value c] n = (Inr [sample_worker c i], n)"
    using that(2) by (simp add: pod_wanted act_bind_def)
  ultimately show ?thesis
    by (simp add: discover_def act_bind_def sort_workers_def pods_loads [OF that(3)] item_res_def iter_res_def del: collect_workers.simps)
qed

lemma listener_missing: "protect_listener node_host (guard0, node_at c b [] t k)
  = (Inr (), (guard0\<lparr>listener_firewall := Some (pod_rule 0)\<rparr>, node_at c b rendered_listener t k))"
  by code_simp

lemma listener_seen: "listener_snapshot node_host (node_at c b rendered_listener t k) = (Inr (Some (pod_rule 0)), node_at c b rendered_listener t k)"
  by code_simp

lemma listener_present: "protect_listener node_host (g, node_at c b rendered_listener t k) = (Inr (), (g, node_at c b rendered_listener t k))"
  if "listener_firewall g = Some (pod_rule 0)"
  using that by (simp add: protect_listener_def on_sync_error_def act_catch_def act_bind_def outside_def listener_seen act_when_def
      same_snapshot_def same_rules_def pod_rule_def num_eq_def same_number_def)

lemma check_first: "check_firewall node_host 5 [sample_worker CHR ''1'' 7]
    (guard0\<lparr>listener_firewall := Some (pod_rule 0), next_discovery := 20\<rparr>, node_at CHR ''1'' [] rendered_listener 5 True)
  = (Inr (), (guard0\<lparr>firewall := Some (pod_rule 1), listener_firewall := Some (pod_rule 0), next_discovery := 20, next_firewall := 15\<rparr>,
      node_at CHR ''1'' rules1 rendered_listener 5 True))"
  by code_simp

lemma check_second: "check_firewall node_host 25 [sample_worker CHR ''2'' 8]
    (guard1\<lparr>next_discovery := 40\<rparr>, node_at CHR ''2'' rules1 rendered_listener 25 True)
  = (Inr (), (guard1\<lparr>admitted := [], admitted_until := 0, firewall := Some (pod_rule 2), next_discovery := 40, next_firewall := 35\<rparr>,
      node_at CHR ''2'' rules2 rendered_listener 25 False))"
  by code_simp

lemma check_third: "check_firewall node_host 30 [sample_worker CHR ''1'' 7]
    (guard2\<lparr>next_discovery := 45\<rparr>, node_at CHR ''1'' rules2 rendered_listener 30 False)
  = (Inr (), (guard2\<lparr>next_discovery := 45, next_firewall := 40\<rparr>, node_at CHR ''1'' rules2 rendered_listener 30 False))"
  by code_simp

section \<open>Three turns\<close>

lemmas sync_steps = sync_def on_sync_error_def act_catch_def sync_body_def current_workers_def act_bind_def act_then_def
  outside_def act_when_def

lemma monotonic_node: "monotonic node_host (node_at c b i t k) = (Inr t, node_at c b i t k)"
  by (simp add: node_host_def node_at_def)

lemma sync1: "sync node_host (guard0, node_at CHR ''1'' [] [] 5 True) = (Inr (), (guard1, node_at CHR ''1'' rules1 rendered_listener 5 True))"
proof -
  let ?n = "node_at CHR ''1''" and ?w = "sample_worker CHR ''1'' 7"
  have "discover node_host (?n b i t k) = (Inr [?w], ?n b i t k)" for b i t k
    by (rule discover_pod) (simp_all add: cached_pod1 node_at_def)
  moreover have "validate_workers node_host [?w] n = (Inr (), n)" for n by (rule validate_again [OF cached_pod1])
  moreover have "guard0\<lparr>listener_firewall := x, next_discovery := 20\<rparr> = guard0\<lparr>listener_firewall := x\<rparr>\<lparr>next_discovery := 20\<rparr>" for x
    by simp
  ultimately show ?thesis
    using check_first listener_missing [of "CHR ''1''" "[]" 5 True]
    by (simp add: sync_steps monotonic_node guard0_def guard1_def admission_def worker_fields)
qed

lemma sync2: "sync node_host (guard1, node_at CHR ''2'' rules1 rendered_listener 25 True)
    = (Inl (FileNotFoundError ''No such file''), (guard2, node_at CHR ''2'' rules2 rendered_listener 25 False))"
proof -
  let ?n = "node_at CHR ''2''" and ?w = "sample_worker CHR ''2'' 8"
  have "discover node_host (?n b i t True) = (Inr [?w], ?n b i t True)" for b i t
    by (rule discover_pod [OF _ cached_pod2]) (simp_all add: node_at_def)
  moreover have "validate_workers node_host [?w] (?n b i t False) = (Inl (FileNotFoundError ''No such file''), ?n b i t False)" for b i t
    by (rule validate_gone [OF cached_pod2_gone])
  moreover have "protect_listener node_host (guard1, ?n b rendered_listener t k) = (Inr (), (guard1, ?n b rendered_listener t k))" for b t k
    by (rule listener_present) (simp add: guard1_def)
  ultimately show ?thesis
    using check_second by (simp add: sync_steps monotonic_node guard0_def guard1_def guard2_def sync_error_def)
qed

lemma sync3: "sync node_host (guard2, node_at CHR ''1'' rules2 rendered_listener 30 False)
    = (Inr (), (guard3, node_at CHR ''1'' rules2 rendered_listener 30 False))"
proof -
  let ?n = "node_at CHR ''1''" and ?w = "sample_worker CHR ''1'' 7"
  have "discover node_host (?n b i t k) = (Inr [?w], ?n b i t k)" for b i t k
    by (rule discover_pod) (simp_all add: cached_pod1 node_at_def)
  moreover have "validate_workers node_host [?w] n = (Inr (), n)" for n by (rule validate_again [OF cached_pod1])
  moreover have "protect_listener node_host (guard2, ?n b rendered_listener t k) = (Inr (), (guard2, ?n b rendered_listener t k))" for b t k
    by (rule listener_present) (simp add: guard2_def guard1_def)
  ultimately show ?thesis
    using check_third by (simp add: sync_steps monotonic_node guard0_def guard1_def guard2_def guard3_def admission_def worker_fields)
qed

lemma turn_sync: "sync host gw = (Inr (), gw') \<Longrightarrow> turn host gw = (Inr True, gw')"
  by (simp add: turn_def act_catch_def act_then_def act_bind_def)

lemma turn_failed: "sync host gw = (Inl e, gw') \<Longrightarrow> sync_error e \<Longrightarrow> \<not> is_listener_error e \<Longrightarrow> turn host gw = (Inr True, gw')"
  by (simp add: turn_def act_catch_def act_then_def act_bind_def)

lemma guard0_start: "init_guard sample_config = Inr guard0"
  by (simp add: init_guard_def interval_def sample_config_def dget_def rat_of_def guard0_def checks_def ensure_def)

lemma run1: "guard_run node_host sample_config guard1 n"
proof -
  have "guard_run node_host sample_config guard0 (node_at CHR ''1'' [] [] 5 True)" by (rule guard_run.start [OF guard0_start])
  from guard_run.turn [OF this turn_sync [OF sync1]] show ?thesis by (rule guard_run.environment)
qed

lemma run2: "guard_run node_host sample_config guard2 n"
  by (rule guard_run.environment, rule guard_run.turn [OF run1 turn_failed [OF sync2]]) (simp_all add: sync_error_def)

lemma run3: "guard_run node_host sample_config guard3 (node_at CHR ''1'' rules2 rendered_listener 30 False)"
  by (rule guard_run.turn [OF run2 turn_sync [OF sync3]])

section \<open>The properties at these turns\<close>


lemma failed_sync_revokes_witness:
  "admitted guard2 = [] \<and> admitted_until guard2 = 0 \<and> next_discovery guard2 = 0 \<and> next_firewall guard2 = 0
    \<and> workers guard2 = workers guard1 \<and> \<not> ready guard2 26 ''10.42.0.1'' ''/ready/u1''"
  by (rule failed_sync_revokes [OF sync2]) (simp add: sync_error_def)



end
