(* ===== verification/Runner_Mode.thy ===== *)
theory Runner_Mode
  imports Regex Json_Text Datetime Actions "HOL-Library.Word"
begin

text \<open>
  \<open>scripts/runner_mode.py\<close>: the switch of a repository between hosted and private runners.  The
  configuration the module keeps in globals is the record \<open>mode_config\<close>; the \<open>gh\<close> program, the
  configuration file and the clock are the parameters of \<open>mode_host\<close>.  Printing is left out.
\<close>

unbundle bit_operations_syntax

definition VARIABLE :: string where "VARIABLE = ''CI_RUNNER_MODE''"
definition SMOKE_PATH :: string where "SMOKE_PATH = ''.github/workflows/runner-smoke.yml''"

section \<open>Names and routes\<close>

definition name_head :: string where "name_head = alnum"
definition name_tail :: string where "name_tail = alnum @ ''_.-''"

definition name_rx :: rx where
  "name_rx = Seq (Cls name_head) (UpTo 99 (Cls name_tail))"

definition valid_name :: "json \<Rightarrow> bool" where
  "valid_name v \<longleftrightarrow> is_str v \<and> rx_match name_rx (the_str v)"

text \<open>\<open>PAGE_QUERY\<close>: nothing, or a page of one hundred records between 1 and 100.\<close>

definition page_rx :: rx where
  "page_rx = Opt (Seqs [Lit ''?per_page=100&page='', Alts [Digit19, Seq Digit19 Digit, Lit ''100'']])"

definition GROUP_FIELDS :: "string list" where
  "GROUP_FIELDS = [''name'', ''visibility'', ''allows_public_repositories'', ''repositories'', ''restricted_to_workflows'']"

section \<open>The configuration\<close>

text \<open>The pools of a consumer give each smoke job its runner label and runner group.\<close>

type_synonym job_pools = "(string \<times> string \<times> string) list"

definition preflight :: "bool \<Rightarrow> string \<Rightarrow> unit res" where
  "preflight c m = ensure c (PreflightError m)"

definition SMOKE_JOBS :: "string list" where
  "SMOKE_JOBS = [''smoke-linux'', ''smoke-kvm'', ''smoke-release'']"

definition configured_pools :: "json \<Rightarrow> job_pools res" where
  "configured_pools jobs =
     checks [preflight (is_dict jobs \<and> the_dict jobs \<noteq> [] \<and> has_key (the_dict jobs) ''smoke-linux'')
               ''Each consumer requires a Linux smoke pool.'']
       (mapres (\<lambda>(job, pair).
          checks [preflight (job \<in> set SMOKE_JOBS \<and> is_list pair \<and> length (the_list pair) = 2 \<and> list_all valid_name (the_list pair))
                    ''Invalid smoke pool or runner-group binding.'']
            (Inr (job, the_str (the_list pair ! 0), the_str (the_list pair ! 1))))
        (the_dict jobs))"

text \<open>The consumers accepted so far: alias, full repository name and pools.\<close>

type_synonym consumers = "(string \<times> string \<times> job_pools) list"

definition full_name_rx :: "string \<Rightarrow> rx" where
  "full_name_rx organization = Seqs [Lit organization, Lit ''/'', name_rx]"

definition configured_consumer :: "string \<Rightarrow> consumers \<Rightarrow> string \<times> json \<Rightarrow> consumers res" where
  "configured_consumer organization acc entry =
     (let alias = fst entry; consumer = snd entry; full_name = dget (the_dict consumer) ''repository'' JNull in
      checks [preflight (valid_name (JStr alias)) ''Invalid consumer alias.'',
              preflight (is_dict consumer \<and> keys_are (the_dict consumer) [''repository'', ''pools'']) ''Invalid consumer configuration.'',
              preflight (is_str full_name \<and> rx_match (full_name_rx organization) (the_str full_name)
                         \<and> lower (the_str full_name) \<notin> set (map (\<lambda>c. lower (fst (snd c))) acc))
                ''Consumer identity is invalid or duplicated.'']
        (bnd (configured_pools (dget (the_dict consumer) ''pools'' JNull)) (\<lambda>pools.
           Inr (acc @ [(alias, the_str full_name, pools)]))))"

definition configured_consumers :: "json \<Rightarrow> string \<Rightarrow> consumers res" where
  "configured_consumers consumers organization =
     checks [preflight (is_dict consumers \<and> the_dict consumers \<noteq> []) ''Configure at least one explicit consumer.'']
       (foldres (configured_consumer organization) [] (the_dict consumers))"

text \<open>The exact references a fenced group may declare.\<close>

definition workflow_refs :: "string list \<Rightarrow> string list" where
  "workflow_refs repos =
     concat (map (\<lambda>repo. map (\<lambda>file. repo @ ''/.github/workflows/'' @ file @ ''@refs/heads/main'') [''release.yml'', ''runner-smoke.yml''])
       repos)"

definition validate_workflow_policy :: "members \<Rightarrow> unit res" where
  "validate_workflow_policy policy =
     (let restricted = dget policy ''restricted_to_workflows'' JNull; workflows = dget policy ''selected_workflows'' (JArr []);
          refs = remdups (workflow_refs (map the_str (the_list (dget policy ''repositories'' JNull)))) in
      checks [preflight (is_bool restricted \<and> is_list workflows) ''Invalid group workflow policy.'']
       (if restricted = JBool True then
          preflight (list_all is_str (the_list workflows) \<and> set (map the_str (the_list workflows)) = set refs
                     \<and> length (the_list workflows) = length refs)
            ''Restricted groups require exact release and smoke workflow references.''
        else preflight (the_list workflows = []) ''Unrestricted groups cannot declare an unenforced workflow fence.''))"

definition valid_selection :: "json \<Rightarrow> string list \<Rightarrow> bool" where
  "valid_selection selected repos \<longleftrightarrow>
     is_list selected \<and> the_list selected \<noteq> [] \<and> list_all (\<lambda>r. is_str r \<and> the_str r \<in> set repos) (the_list selected)
     \<and> distinct (the_list selected)"

type_synonym policies = "(string \<times> members) list"

definition configured_group :: "string list \<Rightarrow> policies \<Rightarrow> json \<Rightarrow> policies res" where
  "configured_group repos acc policy =
     (let m = the_dict policy; name = dget m ''name'' JNull in
      checks [preflight (is_dict policy \<and> (keys_are m GROUP_FIELDS \<or> keys_are m (GROUP_FIELDS @ [''selected_workflows''])))
                ''Invalid runner-group policy fields.'',
              preflight (valid_name name \<and> the_str name \<notin> set (map fst acc)) ''Invalid or duplicate runner group.'',
              preflight (dget m ''visibility'' JNull = JStr ''selected'' \<and> dget m ''allows_public_repositories'' JNull = JBool False)
                ''Configured groups must exclude public repositories.'',
              preflight (valid_selection (dget m ''repositories'' JNull) repos) ''Group selection must contain configured consumers only.'',
              validate_workflow_policy m]
        (Inr (acc @ [(the_str name, m)])))"

definition configured_groups :: "json \<Rightarrow> string list \<Rightarrow> policies res" where
  "configured_groups raw_groups repos =
     checks [preflight (is_list raw_groups \<and> the_list raw_groups \<noteq> []) ''Explicit runner-group policies are required.'']
       (foldres (configured_group repos) [] (the_list raw_groups))"

definition group_repositories :: "members \<Rightarrow> string list" where
  "group_repositories policy = map the_str (the_list (dget policy ''repositories'' JNull))"

definition fenced_group :: "members \<Rightarrow> bool" where
  "fenced_group policy \<longleftrightarrow> truthy (dget policy ''restricted_to_workflows'' JNull)"

definition validate_pool :: "policies \<Rightarrow> string \<Rightarrow> string \<times> string \<times> string \<Rightarrow> unit res" where
  "validate_pool groups repo pool =
     (let job = fst pool; policy = map_of groups (snd (snd pool)) in
      checks [preflight (policy \<noteq> None \<and> repo \<in> set (group_repositories (the policy))) ''Smoke pool uses a group without its consumer.'',
              preflight (\<not> (job = ''smoke-release'' \<and> \<not> fenced_group (the policy))) ''Release pools require an enforced workflow fence.'']
        (Inr ()))"

definition validate_pool_membership :: "consumers \<Rightarrow> policies \<Rightarrow> unit res" where
  "validate_pool_membership consumers groups =
     each (\<lambda>(alias, repo, jobs). each (validate_pool groups repo) jobs) consumers"

record mode_config =
  org :: string
  consumers :: consumers
  group_policies :: policies
  read_paths :: "rx list"
  write_paths :: "(string \<times> rx) list"

definition repos_rx :: "string list \<Rightarrow> rx" where
  "repos_rx repos = Seq (Lit ''repos/'') (Alts (map Lit repos))"

definition configure :: "json \<Rightarrow> mode_config res" where
  "configure manifest =
     (let m = the_dict manifest; organization = dget m ''organization'' JNull in
      checks [preflight (is_dict manifest \<and> keys_are m [''schema'', ''organization'', ''repositories'', ''groups'']
                         \<and> dget m ''schema'' JNull = JInt 1) ''Expected runner configuration schema 1.'',
              preflight (valid_name organization) ''Invalid configured organization.'']
       (bnd (configured_consumers (dget m ''repositories'' JNull) (the_str organization)) (\<lambda>cs.
        bnd (configured_groups (dget m ''groups'' JNull) (map (\<lambda>c. fst (snd c)) cs)) (\<lambda>groups.
        bnd (validate_pool_membership cs groups) (\<lambda>_.
          (let repo_path = repos_rx (map (\<lambda>c. fst (snd c)) cs); org_path = Lit (''orgs/'' @ the_str organization) in
           Inr \<lparr>org = the_str organization, consumers = cs, group_policies = groups,
                read_paths =
                  [repo_path,
                   Seqs [repo_path, Lit ''/branches/main''],
                   Seqs [repo_path, Lit ''/actions/variables'', page_rx],
                   Seqs [repo_path, Lit ''/actions/runs/'', pos_int_rx],
                   Seqs [repo_path, Lit ''/actions/runs/'', pos_int_rx, Lit ''/attempts/'', pos_int_rx, Lit ''/jobs'', page_rx],
                   Seqs [org_path, Lit ''/actions/runner-groups'', page_rx],
                   Seqs [org_path, Lit ''/actions/runner-groups/'', pos_int_rx, Lit ''/repositories'', page_rx]],
                write_paths =
                  [(''POST'', Seqs [repo_path, Lit ''/actions/variables'']),
                   (''PATCH'', Seqs [repo_path, Lit ''/actions/variables/CI_RUNNER_MODE''])]\<rparr>))))))"

section \<open>The host\<close>

text \<open>
  \<open>open_config\<close> opens a file without following a symbolic link and returns its mode, owner and text;
  \<open>run_gh\<close> runs \<open>gh\<close> with an optional input and returns its exit code and output; \<open>utc_now\<close> is the
  current instant in microseconds.
\<close>

record 'w mode_host =
  open_config :: "string \<Rightarrow> ('w, 32 word \<times> int \<times> string) act"
  own_uid :: int
  run_gh :: "string list \<Rightarrow> string option \<Rightarrow> ('w, int \<times> string) act"
  utc_now :: "('w, int) act"
  float_repr :: "string \<Rightarrow> string"

text \<open>A regular file of the operator that nobody else can write.\<close>

definition trusted_file :: "'w mode_host \<Rightarrow> 32 word \<Rightarrow> int \<Rightarrow> bool" where
  "trusted_file host mode uid \<longleftrightarrow> mode AND 0xF000 = 0x8000 \<and> uid = own_uid host \<and> mode AND 18 = 0"

definition load_config :: "'w mode_host \<Rightarrow> string \<Rightarrow> ('w, mode_config) act" where
  "load_config host path =
     act_bind (open_config host path) (\<lambda>(mode, uid, text). lift
       (checks [preflight (trusted_file host mode uid) ''Runner config must be an operator-owned regular file.'']
         (bnd (loads (float_repr host) (Some (PreflightError ''Duplicate key in runner configuration.'')) text) configure)))"

section \<open>The API\<close>

definition validate_api_request :: "mode_config \<Rightarrow> string \<Rightarrow> string \<Rightarrow> json option \<Rightarrow> unit res" where
  "validate_api_request cfg path verb payload =
     (if verb = ''GET'' then
        preflight (payload = None \<and> list_ex (\<lambda>r. rx_match r path) (read_paths cfg)) ''Unsupported GitHub API read.''
      else
        (let m = (case payload of Some (JObj m) \<Rightarrow> m | _ \<Rightarrow> []) in
         checks [preflight (case map_of (write_paths cfg) verb of None \<Rightarrow> False | Some r \<Rightarrow> rx_match r path) ''Unsupported GitHub API write.'',
                 preflight (payload \<noteq> None \<and> is_dict (the payload) \<and> keys_are m [''name'', ''value'']) ''Unexpected runner-mode variable payload.'',
                 preflight (dget m ''name'' JNull = JStr VARIABLE \<and> dget m ''value'' JNull \<in> {JStr ''github'', JStr ''k3s''})
                   ''Unexpected runner-mode variable payload.''] (Inr ())))"

definition gh_argv :: "string \<Rightarrow> string \<Rightarrow> json option \<Rightarrow> string list" where
  "gh_argv path verb payload =
     [''gh'', ''api'', ''--hostname'', ''github.com'', ''--method'', verb]
     @ (if payload = None then [] else [''--input'', ''-'']) @ [''--'', path]"

definition mode_api :: "'w mode_host \<Rightarrow> mode_config \<Rightarrow> string \<Rightarrow> string \<Rightarrow> json option \<Rightarrow> ('w, json) act" where
  "mode_api host cfg path verb payload =
     act_then (lift (validate_api_request cfg path verb payload))
     (act_bind (run_gh host (gh_argv path verb payload) (map_option dumps_spaced payload)) (\<lambda>(code, out). lift
        (checks [preflight (code = 0) ''GitHub API failed; check gh permissions.'']
          (if strip is_space out = [] then Inr JNull else loads (float_repr host) None out))))"

definition mode_read :: "'w mode_host \<Rightarrow> mode_config \<Rightarrow> string \<Rightarrow> ('w, json) act" where
  "mode_read host cfg path = mode_api host cfg path ''GET'' None"

text \<open>The pages from \<open>page\<close> on; \<open>n\<close> of them are left before the limit.\<close>

fun collect_pages :: "'w mode_host \<Rightarrow> mode_config \<Rightarrow> string \<Rightarrow> string \<Rightarrow> json list \<Rightarrow> nat \<Rightarrow> nat \<Rightarrow> ('w, json list) act" where
  "collect_pages host cfg path key acc page 0 = lift (Inl (PreflightError ''Pagination limit reached.''))"
| "collect_pages host cfg path key acc page (Suc n) =
     act_bind (mode_read host cfg (path @ ''per_page=100&page='' @ str_nat page)) (\<lambda>v.
     act_bind (lift (bnd (item_res v key) iter_res)) (\<lambda>data.
       if int (length data) < 100 then ret (acc @ data)
       else collect_pages host cfg path key (acc @ data) (page + 1) n))"

definition collection :: "'w mode_host \<Rightarrow> mode_config \<Rightarrow> string \<Rightarrow> string \<Rightarrow> ('w, json list) act" where
  "collection host cfg path key =
     collect_pages host cfg (path @ (if CHR ''?'' \<in> set path then ''&'' else ''?'')) key [] 1 100"

section \<open>The variable\<close>

text \<open>The repository and its mode variable, \<open>JNull\<close> when it is unset.\<close>

definition repo_state :: "'w mode_host \<Rightarrow> mode_config \<Rightarrow> string \<Rightarrow> ('w, json \<times> json) act" where
  "repo_state host cfg repo =
     act_bind (mode_read host cfg (''repos/'' @ repo)) (\<lambda>metadata.
     act_bind (lift (bnd (get_res metadata ''private'' JNull) (\<lambda>private.
        preflight (private = JBool True \<and> dget (the_dict metadata) ''full_name'' JNull = JStr repo)
          ''Only the selected private repository may be switched.''))) (\<lambda>_.
     act_bind (collection host cfg (''repos/'' @ repo @ ''/actions/variables'') ''variables'') (\<lambda>variables. lift
       (bnd (find_res (\<lambda>v. bnd (item_res v ''name'') (\<lambda>name. Inr (name = JStr VARIABLE))) variables) (\<lambda>variable.
        bnd (case variable of None \<Rightarrow> Inr JNull | Some v \<Rightarrow> item_res v ''value'') (\<lambda>value.
        checks [preflight (value \<in> {JNull, JStr ''github'', JStr ''k3s''}) ''Unexpected value; resolve it explicitly first.'']
          (Inr (metadata, case variable of None \<Rightarrow> JNull | Some v \<Rightarrow> v))))))))"

section \<open>Runner groups\<close>

definition selected_group :: "string \<Rightarrow> json list \<Rightarrow> json res" where
  "selected_group name groups =
     bnd (filter_res (\<lambda>g. bnd (item_res g ''name'') (\<lambda>n. Inr (n = JStr name))) groups) (\<lambda>matches.
     checks [preflight (length matches = 1) ''Runner group is missing or ambiguous.'',
             preflight (dget (the_dict (hd matches)) ''allows_public_repositories'' JNull = JBool False)
               ''Runner group must prohibit public repositories.'',
             preflight (dget (the_dict (hd matches)) ''visibility'' JNull = JStr ''selected'')
               ''Runner group must select repositories explicitly.'']
       (Inr (hd matches)))"

definition group_policy :: "mode_config \<Rightarrow> string \<Rightarrow> members" where
  "group_policy cfg name = (case map_of (group_policies cfg) name of None \<Rightarrow> [] | Some m \<Rightarrow> m)"

definition verify_group_repositories :: "'w mode_host \<Rightarrow> mode_config \<Rightarrow> string \<Rightarrow> string \<Rightarrow> json \<Rightarrow> ('w, unit) act" where
  "verify_group_repositories host cfg repo name group_id =
     act_bind (collection host cfg (''orgs/'' @ org cfg @ ''/actions/runner-groups/'' @ py_str group_id @ ''/repositories'') ''repositories'')
       (\<lambda>allowed. lift
       (bnd (mapres (\<lambda>item. bnd (item_res item ''full_name'') hashable) allowed) (\<lambda>names.
        checks [preflight (JStr repo \<in> set names \<and> set names \<subseteq> set (map JStr (group_repositories (group_policy cfg name))))
                  ''Runner group has unexpected repository access.'',
                preflight (list_all (\<lambda>item. dget (the_dict item) ''private'' JNull = JBool True) allowed)
                  ''Runner group contains a public repository.''] (Inr ()))))"

definition verify_release_workflows :: "mode_config \<Rightarrow> string \<Rightarrow> json \<Rightarrow> unit res" where
  "verify_release_workflows cfg name grp =
     (if dget (the_dict grp) ''restricted_to_workflows'' JNull = JBool True then
        bnd (set_res (dget (the_dict grp) ''selected_workflows'' (JArr []))) (\<lambda>workflows.
          preflight (set workflows = set (the_list (dget (group_policy cfg name) ''selected_workflows'' JNull)))
            ''Release group requires enforced workflow restrictions; labels alone are insufficient.'')
      else Inl (PreflightError ''Release group requires enforced workflow restrictions; labels alone are insufficient.''))"

text \<open>The consumer of a repository, and the groups its pools use in order.\<close>

definition pools_of :: "mode_config \<Rightarrow> string \<Rightarrow> job_pools" where
  "pools_of cfg repo =
     (case List.find (\<lambda>c. fst (snd c) = repo) (consumers cfg) of None \<Rightarrow> [] | Some c \<Rightarrow> snd (snd c))"

definition required_groups :: "mode_config \<Rightarrow> string \<Rightarrow> string list" where
  "required_groups cfg repo = sort (remdups (map (\<lambda>p. snd (snd p)) (pools_of cfg repo)))"

definition verify_group :: "'w mode_host \<Rightarrow> mode_config \<Rightarrow> string \<Rightarrow> json list \<Rightarrow> string \<Rightarrow> ('w, json) act" where
  "verify_group host cfg repo groups name =
     act_bind (lift (selected_group name groups)) (\<lambda>grp.
     act_bind (lift (item_res grp ''id'')) (\<lambda>id.
     act_then (verify_group_repositories host cfg repo name id)
     (act_then (lift (if fenced_group (group_policy cfg name) then verify_release_workflows cfg name grp else Inr ()))
       (ret id))))"

fun verify_each :: "'w mode_host \<Rightarrow> mode_config \<Rightarrow> string \<Rightarrow> json list \<Rightarrow> string list \<Rightarrow> ('w, (string \<times> json) list) act" where
  "verify_each host cfg repo groups [] = ret []"
| "verify_each host cfg repo groups (name # names) =
     act_bind (verify_group host cfg repo groups name) (\<lambda>id.
     act_bind (verify_each host cfg repo groups names) (\<lambda>ids. ret ((name, id) # ids)))"

definition verify_groups :: "'w mode_host \<Rightarrow> mode_config \<Rightarrow> string \<Rightarrow> json list \<Rightarrow> ('w, (string \<times> json) list) act" where
  "verify_groups host cfg repo groups = verify_each host cfg repo groups (required_groups cfg repo)"

section \<open>Evidence\<close>

definition sha_any_case_rx :: rx where
  "sha_any_case_rx = Rep 40 (Cls ''0123456789abcdefABCDEF'')"

definition reviewed_main :: "'w mode_host \<Rightarrow> mode_config \<Rightarrow> string \<Rightarrow> json \<Rightarrow> string option \<Rightarrow> ('w, string) act" where
  "reviewed_main host cfg repo branch expected_sha =
     act_then (lift (checks [preflight (branch = JStr ''main'') ''This rollout is configured for the main branch.'',
          preflight (expected_sha \<noteq> None \<and> rx_match sha_any_case_rx (the expected_sha))
            ''k3s activation requires --expected-sha with the reviewed full 40-character commit SHA.''] (Inr ())))
     (act_bind (mode_read host cfg (''repos/'' @ repo @ ''/branches/main'')) (\<lambda>tip. lift
       (bnd (item_res tip ''commit'') (\<lambda>commit. bnd (item_res commit ''sha'') (\<lambda>sha.
        checks [preflight (sha = JStr (lower (the expected_sha))) ''Current main differs from the operator-reviewed --expected-sha.'']
          (Inr (lower (the expected_sha))))))))"

text \<open>What a smoke run proves: its commit, attempt and time, and the groups with their identities.\<close>

record evidence =
  e_sha :: json
  e_attempt :: json
  e_created :: json
  e_groups :: "(string \<times> json) list"

definition same_evidence :: "evidence option \<Rightarrow> evidence option \<Rightarrow> bool" where
  "same_evidence a b =
     (case (a, b) of
        (None, None) \<Rightarrow> True
      | (Some x, Some y) \<Rightarrow> py_eq (e_sha x) (e_sha y) \<and> py_eq (e_attempt x) (e_attempt y) \<and> py_eq (e_created x) (e_created y)
          \<and> list_all2 (\<lambda>g h. fst g = fst h \<and> py_eq (snd g) (snd h)) (e_groups x) (e_groups y)
      | _ \<Rightarrow> False)"

definition smoke_identity :: "string \<Rightarrow> json \<Rightarrow> string \<Rightarrow> json \<Rightarrow> unit res" where
  "smoke_identity repo branch sha run =
     bnd (get_res run ''event'' JNull) (\<lambda>_.
     (let field = (\<lambda>k. dget (the_dict run) k JNull) in
      checks [preflight (field ''event'' = JStr ''workflow_dispatch'' \<and> field ''path'' = JStr SMOKE_PATH
                \<and> field ''status'' = JStr ''completed'' \<and> field ''conclusion'' = JStr ''success''
                \<and> field ''head_branch'' = branch \<and> field ''head_sha'' = JStr sha)
                ''Smoke must succeed from runner-smoke.yml at current main SHA.'']
       (bnd (get_res (dget (the_dict run) ''head_repository'' (JObj [])) ''full_name'' JNull) (\<lambda>full.
         preflight (full = JStr repo) ''Smoke source repository does not match.''))))"

text \<open>The age of the run: at most a day, and not in the future.\<close>

definition smoke_age :: "json \<Rightarrow> int \<Rightarrow> unit res" where
  "smoke_age run now =
     bnd (item_res run ''created_at'') (\<lambda>created.
     checks [ensure (is_str created) (AttributeError ''replace'')]
      (case from_isoformat (replace_zulu (the_str created)) of
         None \<Rightarrow> Inl (ValueError ''Invalid isoformat string'')
       | Some t \<Rightarrow>
           checks [ensure (utc_offset t \<noteq> None) (TypeError ''offset-naive'')]
            (preflight (0 \<le> now - instant t \<and> now - instant t \<le> day_us)
              ''Smoke must be less than 24 hours old; rerun after pool changes.'')))"

definition smoke_job :: "(string \<times> json) list \<Rightarrow> json list \<Rightarrow> string \<times> string \<times> string \<Rightarrow> unit res" where
  "smoke_job ids jobs pool =
     bnd (filter_res (\<lambda>job. bnd (get_res job ''name'' JNull) (\<lambda>n. Inr (n = JStr (fst pool)))) jobs) (\<lambda>matches.
     (let field = (\<lambda>k. dget (the_dict (hd matches)) k JNull) in
      checks [preflight (length matches = 1) ''Smoke job is missing or ambiguous.'',
              preflight (field ''status'' = JStr ''completed'' \<and> field ''conclusion'' = JStr ''success''
                \<and> field ''labels'' = JArr [JStr (fst (snd pool))]
                \<and> py_eq (field ''runner_group_id'') (dget ids (snd (snd pool)) JNull) \<and> truthy (field ''runner_name''))
                ''Smoke job did not pass on its pool.''] (Inr ())))"

definition verify_smoke :: "'w mode_host \<Rightarrow> mode_config \<Rightarrow> string \<Rightarrow> json \<Rightarrow> int \<Rightarrow> int \<Rightarrow> string option \<Rightarrow> ('w, evidence) act" where
  "verify_smoke host cfg repo metadata run_id now expected_sha =
     act_bind (lift (item_res metadata ''default_branch'')) (\<lambda>branch.
     act_bind (reviewed_main host cfg repo branch expected_sha) (\<lambda>sha.
     act_bind (mode_read host cfg (''repos/'' @ repo @ ''/actions/runs/'' @ str_int run_id)) (\<lambda>run.
     act_then (lift (smoke_identity repo branch sha run))
     (act_then (lift (smoke_age run now))
     (act_bind (collection host cfg (''orgs/'' @ org cfg @ ''/actions/runner-groups'') ''runner_groups'') (\<lambda>all_groups.
      act_bind (verify_groups host cfg repo all_groups) (\<lambda>ids.
      (let attempt = dget (the_dict run) ''run_attempt'' JNull in
       act_then (lift (preflight (int_like attempt \<and> 1 \<le> the_int attempt) ''Smoke run has no valid attempt number.''))
       (act_bind (collection host cfg (''repos/'' @ repo @ ''/actions/runs/'' @ str_int run_id @ ''/attempts/'' @ py_str attempt @ ''/jobs'') ''jobs'') (\<lambda>jobs.
        act_then (lift (each (smoke_job ids jobs) (pools_of cfg repo)))
          (ret \<lparr>e_sha = dget (the_dict run) ''head_sha'' JNull, e_attempt = attempt,
                e_created = dget (the_dict run) ''created_at'' JNull, e_groups = ids\<rparr>)))))))))))"

definition activation_evidence :: "'w mode_host \<Rightarrow> mode_config \<Rightarrow> string \<Rightarrow> json \<Rightarrow> int option \<Rightarrow> string option \<Rightarrow> ('w, evidence) act" where
  "activation_evidence host cfg repo metadata run_id expected_sha =
     act_then (lift (preflight (case run_id of None \<Rightarrow> False | Some n \<Rightarrow> 1 \<le> n) ''Run runner-smoke.yml on main and supply --smoke-run ID.''))
     (act_bind (utc_now host) (\<lambda>now. verify_smoke host cfg repo metadata (the run_id) now expected_sha))"

section \<open>The switch\<close>

record switch_args =
  repo_alias :: string
  config_path :: string
  mode :: "string option"
  smoke_run :: "int option"
  expected_sha :: "string option"
  apply_switch :: bool

definition required_evidence ::
  "'w mode_host \<Rightarrow> mode_config \<Rightarrow> string \<Rightarrow> switch_args \<Rightarrow> json \<Rightarrow> ('w, evidence option) act" where
  "required_evidence host cfg repo args metadata =
     (if mode args = Some ''k3s''
      then act_bind (activation_evidence host cfg repo metadata (smoke_run args) (expected_sha args)) (\<lambda>e. ret (Some e))
      else ret None)"

definition write_mode :: "'w mode_host \<Rightarrow> mode_config \<Rightarrow> string \<Rightarrow> string \<Rightarrow> json \<Rightarrow> ('w, json) act" where
  "write_mode host cfg repo value current =
     (let path = ''repos/'' @ repo @ ''/actions/variables'' in
      mode_api host cfg (if current = JNull then path else path @ ''/'' @ VARIABLE) (if current = JNull then ''POST'' else ''PATCH'')
        (Some (JObj [(''name'', JStr VARIABLE), (''value'', JStr value)])))"

definition apply_mode ::
  "'w mode_host \<Rightarrow> mode_config \<Rightarrow> string \<Rightarrow> switch_args \<Rightarrow> json \<Rightarrow> json \<Rightarrow> evidence option \<Rightarrow> ('w, unit) act" where
  "apply_mode host cfg repo args metadata current evidence =
     act_bind (if mode args = Some ''k3s'' then required_evidence host cfg repo args metadata else ret evidence) (\<lambda>again.
     act_then (lift (preflight (same_evidence again evidence) ''Smoke evidence changed during preflight; inspect and retry.''))
     (act_bind (repo_state host cfg repo) (\<lambda>latest.
      act_then (lift (bnd (if py_eq (snd latest) current
            then bnd (item_res (fst latest) ''default_branch'') (\<lambda>b. bnd (item_res metadata ''default_branch'') (\<lambda>b'. Inr (py_eq b b')))
            else Inr False)
          (\<lambda>same. preflight same ''Mode or default branch changed during preflight; inspect and retry.'')))
      (act_bind (write_mode host cfg repo (the (mode args)) current) (\<lambda>_.
       act_bind (repo_state host cfg repo) (\<lambda>actual. lift
         (preflight (snd actual \<noteq> JNull \<and> dget (the_dict (snd actual)) ''value'' JNull = JStr (the (mode args)))
           ''Write could not be verified; inspect the repository variable.'')))))))"

definition run_switch :: "'w mode_host \<Rightarrow> mode_config \<Rightarrow> string \<Rightarrow> switch_args \<Rightarrow> ('w, int) act" where
  "run_switch host cfg repo args =
     act_bind (repo_state host cfg repo) (\<lambda>state.
     if mode args = None then ret 0
     else act_bind (required_evidence host cfg repo args (fst state)) (\<lambda>evidence.
       if \<not> apply_switch args then ret 0
       else act_then (apply_mode host cfg repo args (fst state) (snd state) evidence) (ret 0)))"

text \<open>\<open>main\<close> after the arguments are parsed; 2 is its exit code for the failures it reports.\<close>

definition switch_main :: "'w mode_host \<Rightarrow> switch_args \<Rightarrow> ('w, int) act" where
  "switch_main host args =
     act_catch
       (act_bind (load_config host (config_path args)) (\<lambda>cfg.
        case map_of (consumers cfg) (repo_alias args) of
          None \<Rightarrow> lift (Inl (PreflightError ''Unknown consumer alias in runner configuration.''))
        | Some c \<Rightarrow> run_switch host cfg (fst c) args))
       (\<lambda>e. is_OSError e \<or> is_TimeoutExpired e \<or> is_ValueError e \<or> is_KeyError e)
       (\<lambda>_. ret 2)"

end
