(* ===== verification/Runner_Mode_Facts.thy ===== *)
theory Runner_Mode_Facts
  imports Runner_Mode
begin

text \<open>
  What the runner switch can do: an accepted configuration fences the pools, the only writes are the
  mode variable of the configured repositories, and a switch that reports success has seen the
  evidence it needs and read its write back.
\<close>

lemma preflight_Inr [simp, res_simps]: "preflight c m = Inr u \<longleftrightarrow> c"
  by (simp add: preflight_def)

section \<open>Configurations\<close>

definition repo_names :: "consumers \<Rightarrow> string list" where
  "repo_names cs = map (\<lambda>c. fst (snd c)) cs"

lemma configured_consumer_Inr:
  assumes "configured_consumer organization t x = Inr t'"
  obtains repo jobs where "t' = t @ [(fst x, repo, jobs)]" "valid_name (JStr (fst x))"
    "rx_match (full_name_rx organization) repo" "lower repo \<notin> set (map (\<lambda>c. lower (fst (snd c))) t)"
    "configured_pools (dget (the_dict (snd x)) ''pools'' JNull) = Inr jobs"
  using assms that by (simp add: configured_consumer_def Let_def) metis

lemma configured_consumers_Inr:
  assumes "configured_consumers v organization = Inr cs"
  shows "cs \<noteq> [] \<and> distinct (map lower (repo_names cs))
    \<and> (\<forall>(alias, repo, jobs) \<in> set cs. valid_name (JStr alias) \<and> repo \<in> lang (full_name_rx organization)
         \<and> (\<forall>(job, label, grp) \<in> set jobs. job \<in> set SMOKE_JOBS \<and> valid_name (JStr label) \<and> valid_name (JStr grp)))"
proof -
  let ?P = "\<lambda>cs. distinct (map lower (repo_names cs))
    \<and> (\<forall>(alias, repo, jobs) \<in> set cs. valid_name (JStr alias) \<and> repo \<in> lang (full_name_rx organization)
         \<and> (\<forall>(job, label, grp) \<in> set jobs. job \<in> set SMOKE_JOBS \<and> valid_name (JStr label) \<and> valid_name (JStr grp)))"
  from assms have ne: "the_dict v \<noteq> []" and run: "foldres (configured_consumer organization) [] (the_dict v) = Inr cs"
    by (auto simp: configured_consumers_def)
  have step: "?P t'" if t: "?P t" and c: "configured_consumer organization t x = Inr t'" for t t' x
  proof -
    from c obtain repo jobs where eq: "t' = t @ [(fst x, repo, jobs)]" and name: "valid_name (JStr (fst x))"
      and repo: "rx_match (full_name_rx organization) repo" "lower repo \<notin> set (map (\<lambda>c. lower (fst (snd c))) t)"
      and jobs: "configured_pools (dget (the_dict (snd x)) ''pools'' JNull) = Inr jobs"
      by (rule configured_consumer_Inr)
    have "job \<in> set SMOKE_JOBS \<and> valid_name (JStr label) \<and> valid_name (JStr grp)" if "(job, label, grp) \<in> set jobs" for job label grp
    proof -
      from jobs that obtain xs where "length xs = 2" "list_all valid_name xs" "label = the_str (xs ! 0)" "grp = the_str (xs ! 1)"
        "job \<in> set SMOKE_JOBS"
        by (auto simp: configured_pools_def dest!: mapres_set)
      then show ?thesis by (auto simp: length_Suc_conv numeral_2_eq_2 valid_name_def)
    qed
    with t name repo show ?thesis by (auto simp: eq repo_names_def rx_match_iff)
  qed
  have "?P cs"
  proof (rule foldres_invariant [OF run])
    show "?P []" by (simp add: repo_names_def)
    show "?P t'" if "?P t" "configured_consumer organization t x = Inr t'" for t t' x using that by (rule step)
  qed
  moreover have "cs \<noteq> []"
  proof -
    obtain x xs where "the_dict v = x # xs" using ne by (cases "the_dict v") auto
    with run obtain t where t: "configured_consumer organization [] x = Inr t" "foldres (configured_consumer organization) t xs = Inr cs" by auto
    from t(1) have "t \<noteq> []" by (rule configured_consumer_Inr) simp
    with t(2) show ?thesis by (rule foldres_invariant) (auto elim: configured_consumer_Inr)
  qed
  ultimately show ?thesis by simp
qed

text \<open>What an accepted policy of a runner group says.\<close>

definition policy_ok :: "string list \<Rightarrow> members \<Rightarrow> bool" where
  "policy_ok repos m \<longleftrightarrow>
     dget m ''visibility'' JNull = JStr ''selected'' \<and> dget m ''allows_public_repositories'' JNull = JBool False
     \<and> group_repositories m \<noteq> [] \<and> set (group_repositories m) \<subseteq> set repos
     \<and> (fenced_group m \<longrightarrow> is_list (dget m ''selected_workflows'' (JArr []))
          \<and> set (the_list (dget m ''selected_workflows'' (JArr []))) = set (map JStr (workflow_refs (group_repositories m))))"

lemma workflow_policy_Inr:
  assumes "validate_workflow_policy m = Inr ()" and "fenced_group m"
  shows "is_list (dget m ''selected_workflows'' (JArr []))
    \<and> set (the_list (dget m ''selected_workflows'' (JArr []))) = set (map JStr (workflow_refs (group_repositories m)))"
proof -
  let ?w = "the_list (dget m ''selected_workflows'' (JArr []))"
  have "dget m ''restricted_to_workflows'' JNull = JBool True"
    using assms by (cases "dget m ''restricted_to_workflows'' JNull") (auto simp: validate_workflow_policy_def fenced_group_def Let_def)
  with assms(1) have w: "is_list (dget m ''selected_workflows'' (JArr []))" "list_all is_str ?w"
    "set (map the_str ?w) = set (workflow_refs (group_repositories m))"
    by (auto simp: validate_workflow_policy_def Let_def group_repositories_def)
  have "map JStr (map the_str xs) = xs" if "list_all is_str xs" for xs
    using that by (induction xs) (auto simp: is_str_iff)
  from this [OF w(2)] have "map JStr (map the_str ?w) = ?w" .
  then have "set ?w = JStr ` set (map the_str ?w)" by (metis list.set_map)
  then show ?thesis using w(1,3) by (simp only: list.set_map)
qed

lemma configured_group_Inr:
  assumes "configured_group repos acc policy = Inr acc'"
  shows "acc' = acc @ [(the_str (dget (the_dict policy) ''name'' JNull), the_dict policy)]"
    and "policy_ok repos (the_dict policy)" and "the_str (dget (the_dict policy) ''name'' JNull) \<notin> set (map fst acc)"
  using assms workflow_policy_Inr [of "the_dict policy"]
  by (auto simp: configured_group_def Let_def policy_ok_def valid_selection_def group_repositories_def list_all_iff)

lemma configured_groups_Inr:
  assumes "configured_groups v repos = Inr groups"
  shows "distinct (map fst groups) \<and> (\<forall>(name, m) \<in> set groups. policy_ok repos m)"
proof -
  have run: "foldres (configured_group repos) [] (the_list v) = Inr groups" using assms by (auto simp: configured_groups_def)
  show ?thesis
  proof (rule foldres_invariant [OF run])
    fix t t' x
    assume "distinct (map fst t) \<and> (\<forall>(name, m) \<in> set t. policy_ok repos m)" and c: "configured_group repos t x = Inr t'"
    then show "distinct (map fst t') \<and> (\<forall>(name, m) \<in> set t'. policy_ok repos m)"
      using configured_group_Inr(2,3) [OF c] by (auto simp: configured_group_Inr(1) [OF c])
  qed simp
qed

definition write_routes :: "string list \<Rightarrow> (string \<times> rx) list" where
  "write_routes repos =
     [(''POST'', Seqs [repos_rx repos, Lit ''/actions/variables'']),
      (''PATCH'', Seqs [repos_rx repos, Lit ''/actions/variables/CI_RUNNER_MODE''])]"

definition config_ok :: "mode_config \<Rightarrow> bool" where
  "config_ok cfg \<longleftrightarrow>
     consumers cfg \<noteq> [] \<and> distinct (map lower (repo_names (consumers cfg)))
     \<and> (\<forall>(alias, repo, jobs) \<in> set (consumers cfg). repo \<in> lang (full_name_rx (org cfg))
          \<and> (\<forall>(job, label, grp) \<in> set jobs. job \<in> set SMOKE_JOBS
               \<and> (\<exists>policy. map_of (group_policies cfg) grp = Some policy \<and> repo \<in> set (group_repositories policy)
                    \<and> (job = ''smoke-release'' \<longrightarrow> fenced_group policy))))
     \<and> (\<forall>(name, m) \<in> set (group_policies cfg). policy_ok (repo_names (consumers cfg)) m)
     \<and> write_paths cfg = write_routes (repo_names (consumers cfg))"

lemma configure_Inr:
  assumes "configure manifest = Inr cfg"
  obtains organization where
    "configured_consumers (dget (the_dict manifest) ''repositories'' JNull) (org cfg) = Inr (consumers cfg)"
    "configured_groups (dget (the_dict manifest) ''groups'' JNull) (repo_names (consumers cfg)) = Inr (group_policies cfg)"
    "validate_pool_membership (consumers cfg) (group_policies cfg) = Inr ()"
    "write_paths cfg = write_routes (repo_names (consumers cfg))"
  using assms that by (auto simp: configure_def Let_def repo_names_def write_routes_def)

lemma configure_ok: "configure manifest = Inr cfg \<Longrightarrow> config_ok cfg"
proof (erule configure_Inr)
  assume c: "configured_consumers (dget (the_dict manifest) ''repositories'' JNull) (org cfg) = Inr (consumers cfg)"
    and g: "configured_groups (dget (the_dict manifest) ''groups'' JNull) (repo_names (consumers cfg)) = Inr (group_policies cfg)"
    and p: "validate_pool_membership (consumers cfg) (group_policies cfg) = Inr ()"
    and w: "write_paths cfg = write_routes (repo_names (consumers cfg))"
  note cs = configured_consumers_Inr [OF c] and gs = configured_groups_Inr [OF g]
  have pool: "\<exists>policy. map_of (group_policies cfg) grp = Some policy \<and> repo \<in> set (group_repositories policy)
      \<and> (job = ''smoke-release'' \<longrightarrow> fenced_group policy)"
    if "(nick, repo, jobs) \<in> set (consumers cfg)" "(job, label, grp) \<in> set jobs" for nick repo jobs job label grp
  proof -
    from p that(1) have "each (validate_pool (group_policies cfg) repo) jobs = Inr ()"
      by (auto simp: validate_pool_membership_def)
    with that(2) have "validate_pool (group_policies cfg) repo (job, label, grp) = Inr ()" by auto
    then show ?thesis by (auto simp: validate_pool_def Let_def)
  qed
  show "config_ok cfg"
    unfolding config_ok_def using cs gs w pool by blast
qed

lemma config_okD:
  assumes "config_ok cfg" and "(who, repo, jobs) \<in> set (consumers cfg)"
  shows "repo \<in> lang (full_name_rx (org cfg))"
    and "(job, label, grp) \<in> set jobs \<Longrightarrow> \<exists>policy. map_of (group_policies cfg) grp = Some policy
           \<and> repo \<in> set (group_repositories policy) \<and> (job = ''smoke-release'' \<longrightarrow> fenced_group policy)"
proof -
  let ?c = "\<lambda>(alias, repo, jobs). repo \<in> lang (full_name_rx (org cfg))
          \<and> (\<forall>(job, label, grp) \<in> set jobs. job \<in> set SMOKE_JOBS
               \<and> (\<exists>policy. map_of (group_policies cfg) grp = Some policy \<and> repo \<in> set (group_repositories policy)
                    \<and> (job = ''smoke-release'' \<longrightarrow> fenced_group policy)))"
  have "\<forall>c \<in> set (consumers cfg). ?c c" using assms(1) unfolding config_ok_def by (elim conjE)
  from bspec [OF this assms(2)] have c: "?c (who, repo, jobs)" .
  then show "repo \<in> lang (full_name_rx (org cfg))" by simp
  from c show "(job, label, grp) \<in> set jobs \<Longrightarrow> \<exists>policy. map_of (group_policies cfg) grp = Some policy
           \<and> repo \<in> set (group_repositories policy) \<and> (job = ''smoke-release'' \<longrightarrow> fenced_group policy)" by fastforce
qed

text \<open>
  C28: An accepted configuration is fenced: consumers are distinct repositories of the organisation,
  every smoke pool belongs to a group that admits its consumer, release pools only to groups whose
  workflows are fixed to the release and smoke workflows of their repositories on main, and no group
  admits a public or an unconfigured repository.
\<close>

theorem accepted_configuration_fenced:
  assumes "configure manifest = Inr cfg" and "(alias, repo, jobs) \<in> set (consumers cfg)" and "(job, label, grp) \<in> set jobs"
  shows "repo \<in> lang (full_name_rx (org cfg)) \<and> distinct (map lower (repo_names (consumers cfg)))
    \<and> (\<exists>policy. map_of (group_policies cfg) grp = Some policy \<and> repo \<in> set (group_repositories policy)
         \<and> set (group_repositories policy) \<subseteq> set (repo_names (consumers cfg))
         \<and> dget policy ''visibility'' JNull = JStr ''selected'' \<and> dget policy ''allows_public_repositories'' JNull = JBool False
         \<and> (job = ''smoke-release'' \<longrightarrow>
              set (the_list (dget policy ''selected_workflows'' (JArr []))) = set (map JStr (workflow_refs (group_repositories policy)))))"
proof -
  have ok: "config_ok cfg" by (rule configure_ok [OF assms(1)])
  note consumer = config_okD [OF ok assms(2)]
  from consumer(2) [OF assms(3)] obtain policy where policy: "map_of (group_policies cfg) grp = Some policy"
    "repo \<in> set (group_repositories policy)" "job = ''smoke-release'' \<longrightarrow> fenced_group policy" by blast
  then have "policy_ok (repo_names (consumers cfg)) policy" using ok by (auto simp: config_ok_def dest: map_of_SomeD)
  with ok policy consumer(1) show ?thesis by (auto simp: config_ok_def policy_ok_def)
qed

section \<open>A configuration\<close>

definition sample_manifest :: json where
  "sample_manifest = JObj
     [(''schema'', JInt 1), (''organization'', JStr ''o''),
      (''repositories'', JObj [(''a'', JObj [(''repository'', JStr ''o/r''), (''pools'', JObj [(''smoke-linux'', JArr [JStr ''l'', JStr ''g''])])])]),
      (''groups'', JArr [JObj [(''name'', JStr ''g''), (''visibility'', JStr ''selected''), (''allows_public_repositories'', JBool False),
         (''repositories'', JArr [JStr ''o/r'']), (''restricted_to_workflows'', JBool False)]])]"

definition sample_mode :: mode_config where
  "sample_mode = (case configure sample_manifest of Inr cfg \<Rightarrow> cfg | Inl _ \<Rightarrow> undefined)"

lemma sample_configured: "configure sample_manifest = Inr sample_mode"
proof -
  have "\<not> isl (configure sample_manifest)" by code_simp
  then show ?thesis by (auto simp: sample_mode_def split: sum.splits)
qed

lemma sample_consumers: "consumers sample_mode = [(''a'', ''o/r'', [(''smoke-linux'', ''l'', ''g'')])]"
  by code_simp

lemma accepted_configuration_fenced_witness:
  "''o/r'' \<in> lang (full_name_rx (org sample_mode)) \<and> distinct (map lower (repo_names (consumers sample_mode)))
    \<and> (\<exists>policy. map_of (group_policies sample_mode) ''g'' = Some policy \<and> ''o/r'' \<in> set (group_repositories policy)
         \<and> set (group_repositories policy) \<subseteq> set (repo_names (consumers sample_mode))
         \<and> dget policy ''visibility'' JNull = JStr ''selected'' \<and> dget policy ''allows_public_repositories'' JNull = JBool False
         \<and> (''smoke-linux'' = ''smoke-release'' \<longrightarrow>
              set (the_list (dget policy ''selected_workflows'' (JArr []))) = set (map JStr (workflow_refs (group_repositories policy)))))"
  by (rule accepted_configuration_fenced [OF sample_configured, of "''a''" _ "[(''smoke-linux'', ''l'', ''g'')]" _ "''l''"])
    (simp_all add: sample_consumers)

section \<open>What the switch writes\<close>

lemma in_routes: "s \<in> lang (Seqs [repos_rx repos, Lit t]) \<longleftrightarrow> (\<exists>repo \<in> set repos. s = ''repos/'' @ repo @ t)"
  by (auto simp: repos_rx_def)

lemma config_writes: "config_ok cfg \<Longrightarrow> write_paths cfg = write_routes (repo_names (consumers cfg))"
  by (simp add: config_ok_def)

text \<open>
  C27: The fence of the API: under an accepted configuration a request other than a read passes exactly
  when it creates or replaces the mode variable of a configured repository, with one of the two modes.
\<close>

theorem write_fence_exact:
  assumes "configure manifest = Inr cfg" and "verb \<noteq> ''GET''"
  shows "validate_api_request cfg path verb payload = Inr () \<longleftrightarrow>
    (\<exists>repo \<in> set (repo_names (consumers cfg)).
       (verb = ''POST'' \<and> path = ''repos/'' @ repo @ ''/actions/variables''
        \<or> verb = ''PATCH'' \<and> path = ''repos/'' @ repo @ ''/actions/variables/CI_RUNNER_MODE''))
    \<and> (\<exists>m. payload = Some (JObj m) \<and> set (map fst m) = {''name'', ''value''}
         \<and> dget m ''name'' JNull = JStr ''CI_RUNNER_MODE'' \<and> dget m ''value'' JNull \<in> {JStr ''github'', JStr ''k3s''})"
proof -
  let ?repos = "repo_names (consumers cfg)"
  have routes: "write_paths cfg = write_routes ?repos" by (rule config_writes [OF configure_ok [OF assms(1)]])
  let ?m = "case payload of Some (JObj m) \<Rightarrow> m | _ \<Rightarrow> []"
  have route: "(case map_of (write_paths cfg) verb of None \<Rightarrow> False | Some r \<Rightarrow> rx_match r path) \<longleftrightarrow>
      (\<exists>repo \<in> set ?repos. (verb = ''POST'' \<and> path = ''repos/'' @ repo @ ''/actions/variables''
        \<or> verb = ''PATCH'' \<and> path = ''repos/'' @ repo @ ''/actions/variables/CI_RUNNER_MODE''))"
    by (cases "verb = ''POST''"; cases "verb = ''PATCH''")
      (simp_all add: routes write_routes_def rx_match_iff in_routes del: lang_Seqs_Cons)
  have valid: "validate_api_request cfg path verb payload = Inr () \<longleftrightarrow>
      (case map_of (write_paths cfg) verb of None \<Rightarrow> False | Some r \<Rightarrow> rx_match r path)
      \<and> (payload \<noteq> None \<and> is_dict (the payload) \<and> keys_are ?m [''name'', ''value''])
      \<and> dget ?m ''name'' JNull = JStr VARIABLE \<and> dget ?m ''value'' JNull \<in> {JStr ''github'', JStr ''k3s''}"
    unfolding validate_api_request_def Let_def using assms(2) by simp
  show ?thesis
  proof (cases "\<exists>m. payload = Some (JObj m)")
    case True
    then obtain m where m: "payload = Some (JObj m)" by blast
    show ?thesis unfolding valid route by (simp add: m keys_are_def VARIABLE_def)
  next
    case False
    then show ?thesis unfolding valid route by (auto simp: is_dict_iff)
  qed
qed

lemma write_fence_exact_witness:
  "validate_api_request sample_mode ''repos/o/r/actions/variables'' ''POST''
      (Some (JObj [(''name'', JStr ''CI_RUNNER_MODE''), (''value'', JStr ''k3s'')])) = Inr ()"
  using write_fence_exact [OF sample_configured, of "''POST''" "''repos/o/r/actions/variables''"
      "Some (JObj [(''name'', JStr ''CI_RUNNER_MODE''), (''value'', JStr ''k3s'')])"]
  by (simp add: sample_consumers repo_names_def dget_def)

text \<open>Reads and writes as actions that keep a predicate of the world.\<close>

definition reads_keep :: "('w \<Rightarrow> bool) \<Rightarrow> 'w mode_host \<Rightarrow> bool" where
  "reads_keep P host \<longleftrightarrow> (\<forall>path. keeps P (run_gh host (gh_argv path ''GET'' None) None)) \<and> keeps P (utc_now host)"

lemma keeps_api:
  "keeps P (run_gh host (gh_argv path verb payload) (map_option dumps_spaced payload)) \<Longrightarrow> keeps P (mode_api host cfg path verb payload)"
  unfolding mode_api_def by (intro keeps_intros) (auto split: prod.splits intro: keeps_intros)

lemma keeps_read: "reads_keep P host \<Longrightarrow> keeps P (mode_read host cfg path)"
  unfolding mode_read_def by (rule keeps_api) (simp add: reads_keep_def)

lemma keeps_now: "reads_keep P host \<Longrightarrow> keeps P (utc_now host)"
  by (simp add: reads_keep_def)

lemma keeps_collect: "reads_keep P host \<Longrightarrow> keeps P (collect_pages host cfg path key acc page n)"
  by (induction n arbitrary: acc page) (auto intro!: keeps_intros keeps_read)

lemma keeps_collection: "reads_keep P host \<Longrightarrow> keeps P (collection host cfg path key)"
  unfolding collection_def by (rule keeps_collect)

lemma keeps_repo_state: "reads_keep P host \<Longrightarrow> keeps P (repo_state host cfg repo)"
  unfolding repo_state_def by (intro keeps_intros keeps_read keeps_collection; assumption)

lemma keeps_verify_groups: assumes "reads_keep P host" shows "keeps P (verify_groups host cfg repo groups)"
proof -
  have "keeps P (verify_each host cfg repo groups names)" for names
    by (induction names) (auto simp: verify_group_def verify_group_repositories_def simp del: ret_apply lift_apply
          intro!: keeps_intros keeps_collection assms)
  then show ?thesis by (simp add: verify_groups_def)
qed

lemma keeps_evidence: "reads_keep P host \<Longrightarrow> keeps P (required_evidence host cfg repo args metadata)"
  unfolding required_evidence_def activation_evidence_def verify_smoke_def reviewed_main_def Let_def
  by (intro keeps_intros keeps_read keeps_collection keeps_verify_groups keeps_now; assumption)

text \<open>
  C26: A run of the switch performs only reads, except that with \<open>--apply\<close> it may send the requested
  mode to the mode variable of the selected repository: whatever those reads and this one write keep of
  the world, the run keeps, whether it succeeds or fails.
\<close>

theorem switch_only_writes_mode:
  assumes "reads_keep P host"
    and "\<And>v verb path. apply_switch args \<Longrightarrow> mode args = Some v
      \<Longrightarrow> (verb, path) \<in> {(''POST'', ''repos/'' @ repo @ ''/actions/variables''),
             (''PATCH'', ''repos/'' @ repo @ ''/actions/variables/'' @ VARIABLE)}
      \<Longrightarrow> keeps P (run_gh host (gh_argv path verb (Some (JObj [(''name'', JStr VARIABLE), (''value'', JStr v)])))
            (Some (dumps_spaced (JObj [(''name'', JStr VARIABLE), (''value'', JStr v)]))))"
  shows "keeps P (run_switch host cfg repo args)"
proof -
  have "keeps P (write_mode host cfg repo v current)" if "apply_switch args" "mode args = Some v" for v current
    unfolding write_mode_def Let_def by (rule keeps_api) (use assms(2) [OF that] in \<open>simp del: dumps_spaced.simps\<close>)
  then have "keeps P (apply_mode host cfg repo args m current e)" if "apply_switch args" "mode args \<noteq> None" for m current e
    unfolding apply_mode_def using that by (intro keeps_intros keeps_repo_state keeps_evidence assms(1)) auto
  then show ?thesis
    unfolding run_switch_def
    by (cases "mode args"; cases "apply_switch args")
      (auto simp del: ret_apply intro!: keeps_intros keeps_repo_state keeps_evidence assms(1))
qed

section \<open>What a successful switch has seen\<close>

text \<open>The pages \<open>ps\<close>, from number \<open>page\<close> on, are what successive reads returned.\<close>

fun pages_answered :: "'w mode_host \<Rightarrow> mode_config \<Rightarrow> string \<Rightarrow> string \<Rightarrow> nat \<Rightarrow> json list list \<Rightarrow> 'w \<Rightarrow> 'w \<Rightarrow> bool" where
  "pages_answered host cfg path key page [] w w' \<longleftrightarrow> w = w'"
| "pages_answered host cfg path key page (p # ps) w w' \<longleftrightarrow>
     (\<exists>v w1. mode_read host cfg (path @ ''per_page=100&page='' @ str_nat page) w = (Inr v, w1)
        \<and> bnd (item_res v key) iter_res = Inr p \<and> pages_answered host cfg path key (page + 1) ps w1 w')"

lemma collect_pages_Inr:
  "collect_pages host cfg path key acc page n w = (Inr rows, w') \<Longrightarrow>
     \<exists>ps last. rows = acc @ concat ps @ last \<and> length ps < n \<and> (\<forall>p \<in> set ps. 100 \<le> length p) \<and> length last < 100
       \<and> pages_answered host cfg path key page (ps @ [last]) w w'"
proof (induction n arbitrary: acc page w)
  case (Suc n)
  from Suc.prems obtain v w1 p where read: "mode_read host cfg (path @ ''per_page=100&page='' @ str_nat page) w = (Inr v, w1)"
    and p: "bnd (item_res v key) iter_res = Inr p"
    and rest: "(if int (length p) < 100 then ret (acc @ p) else collect_pages host cfg path key (acc @ p) (page + 1) n) w1 = (Inr rows, w')"
    by (auto simp: act_bind_Inr simp del: bnd_Inr_iff)
  show ?case
  proof (cases "length p < 100")
    case True
    then show ?thesis using rest read p by (intro exI [of _ "[]"] exI [of _ p]) (simp del: bnd_Inr_iff)
  next
    case False
    with rest have "collect_pages host cfg path key (acc @ p) (page + 1) n w1 = (Inr rows, w')" by simp
    from Suc.IH [OF this] obtain ps l where "rows = (acc @ p) @ concat ps @ l" "length ps < n" "\<forall>p \<in> set ps. 100 \<le> length p"
      "length l < 100" "pages_answered host cfg path key (page + 1) (ps @ [l]) w1 w'" by blast
    then show ?thesis using read p False by (intro exI [of _ "p # ps"] exI [of _ l]) (auto simp del: bnd_Inr_iff)
  qed
qed simp

text \<open>
  A collection that is returned is complete: it is the concatenation of the pages one to at most one
  hundred as they were answered, every page but the last with at least a hundred records and the last
  with fewer.
\<close>

theorem collection_complete:
  assumes "collection host cfg path key w = (Inr rows, w')"
  shows "\<exists>ps last. rows = concat ps @ last \<and> length ps < 100 \<and> (\<forall>p \<in> set ps. 100 \<le> length p) \<and> length last < 100
    \<and> pages_answered host cfg (path @ (if CHR ''?'' \<in> set path then ''&'' else ''?'')) key 1 (ps @ [last]) w w'"
  using collect_pages_Inr [of host cfg _ key "[]" 1 100 w rows w'] assms by (simp add: collection_def)

text \<open>What the evidence of a smoke run establishes about the pools of a repository.\<close>

definition job_proves :: "(string \<times> json) list \<Rightarrow> json list \<Rightarrow> string \<times> string \<times> string \<Rightarrow> bool" where
  "job_proves ids jobs pool \<longleftrightarrow>
     (\<exists>job \<in> set jobs. [job] = filter (\<lambda>j. dget (the_dict j) ''name'' JNull = JStr (fst pool)) jobs
        \<and> dget (the_dict job) ''status'' JNull = JStr ''completed'' \<and> dget (the_dict job) ''conclusion'' JNull = JStr ''success''
        \<and> dget (the_dict job) ''labels'' JNull = JArr [JStr (fst (snd pool))]
        \<and> py_eq (dget (the_dict job) ''runner_group_id'' JNull) (dget ids (snd (snd pool)) JNull))"

definition group_proves :: "mode_config \<Rightarrow> json list \<Rightarrow> string \<times> json \<Rightarrow> bool" where
  "group_proves cfg groups g \<longleftrightarrow>
     (\<exists>grp \<in> set groups. map_of (the_dict grp) ''id'' = Some (snd g) \<and> map_of (the_dict grp) ''name'' = Some (JStr (fst g))
        \<and> dget (the_dict grp) ''allows_public_repositories'' JNull = JBool False \<and> dget (the_dict grp) ''visibility'' JNull = JStr ''selected''
        \<and> (fenced_group (group_policy cfg (fst g)) \<longrightarrow> verify_release_workflows cfg (fst g) grp = Inr ()))"

lemma smoke_job_Inr:
  assumes "smoke_job ids jobs pool = Inr ()" shows "job_proves ids jobs pool"
proof -
  let ?p = "\<lambda>j. bnd (get_res j ''name'' JNull) (\<lambda>n. Inr (n = JStr (fst pool)))"
  from assms obtain ms where ms: "filter_res ?p jobs = Inr ms" and one: "length ms = 1"
    and f: "dget (the_dict (hd ms)) ''status'' JNull = JStr ''completed'' \<and> dget (the_dict (hd ms)) ''conclusion'' JNull = JStr ''success''
        \<and> dget (the_dict (hd ms)) ''labels'' JNull = JArr [JStr (fst (snd pool))]
        \<and> py_eq (dget (the_dict (hd ms)) ''runner_group_id'' JNull) (dget ids (snd (snd pool)) JNull)"
    by (auto simp: smoke_job_def Let_def simp del: get_res_Inr)
  obtain job where job: "ms = [job]" using one by (auto simp: length_Suc_conv)
  have dict: "is_dict j" if "j \<in> set jobs" for j
  proof -
    have "\<not> isl (?p j)" using filter_res_Inr [OF ms] that by blast
    then show ?thesis by (cases j) (simp_all add: get_res_def)
  qed
  then have "filter (\<lambda>j. ?p j = Inr True) jobs = filter (\<lambda>j. dget (the_dict j) ''name'' JNull = JStr (fst pool)) jobs"
    by (intro filter_cong) auto
  with filter_res_Inr [OF ms] job have e: "[job] = filter (\<lambda>j. dget (the_dict j) ''name'' JNull = JStr (fst pool)) jobs" by simp
  then have "job \<in> set jobs" by (metis filter_is_subset list.set_intros(1) subsetD)
  with e f show ?thesis unfolding job_proves_def job list.sel by blast
qed

lemma selected_group_Inr:
  assumes "selected_group name groups = Inr grp"
  shows "grp \<in> set groups" "map_of (the_dict grp) ''name'' = Some (JStr name)"
    "dget (the_dict grp) ''allows_public_repositories'' JNull = JBool False" "dget (the_dict grp) ''visibility'' JNull = JStr ''selected''"
proof -
  let ?p = "\<lambda>g. bnd (item_res g ''name'') (\<lambda>n. Inr (n = JStr name))"
  from assms obtain ms where ms: "filter_res ?p groups = Inr ms" and one: "length ms = 1" and hd: "grp = hd ms"
    and f: "dget (the_dict (hd ms)) ''allows_public_repositories'' JNull = JBool False" "dget (the_dict (hd ms)) ''visibility'' JNull = JStr ''selected''"
    by (auto simp: selected_group_def)
  have "grp \<in> set ms" using one hd by (cases ms) auto
  then have g: "grp \<in> set groups" "?p grp = Inr True" using filter_res_Inr [OF ms] by auto
  from g(1) show "grp \<in> set groups" .
  from g(2) show "map_of (the_dict grp) ''name'' = Some (JStr name)" by auto
  from f hd show "dget (the_dict grp) ''allows_public_repositories'' JNull = JBool False" "dget (the_dict grp) ''visibility'' JNull = JStr ''selected''"
    by auto
qed

lemma verify_group_Inr:
  assumes "verify_group host cfg repo groups name w = (Inr gid, w')" shows "group_proves cfg groups (name, gid)"
proof -
  from assms obtain grp where g: "selected_group name groups = Inr grp" and gid: "item_res grp ''id'' = Inr gid"
    and f: "(if fenced_group (group_policy cfg name) then verify_release_workflows cfg name grp else Inr ()) = Inr ()"
    unfolding verify_group_def act_bind_Inr act_then_Inr lift_apply prod.inject ret_apply by metis
  then show ?thesis using selected_group_Inr [OF g]
    by (auto simp: group_proves_def split: if_splits intro!: bexI [of _ grp])
qed

lemma verify_each_Inr:
  "verify_each host cfg repo groups names w = (Inr ids, w') \<Longrightarrow> map fst ids = names \<and> (\<forall>g \<in> set ids. group_proves cfg groups g)"
proof (induction names arbitrary: w ids)
  case (Cons name names)
  then obtain gid w1 rest where "verify_group host cfg repo groups name w = (Inr gid, w1)"
    "verify_each host cfg repo groups names w1 = (Inr rest, w')" "ids = (name, gid) # rest"
    by (auto simp: act_bind_Inr)
  with Cons.IH verify_group_Inr show ?case by fastforce
qed simp

lemma verify_groups_Inr:
  assumes "verify_groups host cfg repo groups w = (Inr ids, w')"
  shows "map fst ids = required_groups cfg repo \<and> (\<forall>g \<in> set ids. group_proves cfg groups g)"
  using verify_each_Inr assms unfolding verify_groups_def by metis


text \<open>
  C24: A switch with \<open>--apply\<close> that returns sent the requested mode, and the last thing it did was to read the
  variable of the selected private repository back with that value; for the private runners the
  evidence was established twice, with equal outcomes, before the write.
\<close>

theorem switch_verified:
  assumes "run_switch host cfg repo args w = (Inr c, w')" and "apply_switch args" and "mode args = Some v"
  shows "c = 0 \<and> (\<exists>metadata current latest w1 w2 w3 r.
      py_eq (snd latest) current \<and> repo_state host cfg repo w1 = (Inr latest, w2)
      \<and> write_mode host cfg repo v current w2 = (Inr r, w3)
      \<and> (\<exists>m var. repo_state host cfg repo w3 = (Inr (m, JObj var), w') \<and> dget var ''value'' JNull = JStr v)
      \<and> (v = ''k3s'' \<longrightarrow> (\<exists>first again u u'. same_evidence (Some again) (Some first)
           \<and> activation_evidence host cfg repo metadata (smoke_run args) (expected_sha args) u = (Inr first, u')
           \<and> activation_evidence host cfg repo metadata (smoke_run args) (expected_sha args) u' = (Inr again, w1))))"
proof -
  from assms obtain state w0 ev u where st: "repo_state host cfg repo w = (Inr state, w0)"
    and ev: "required_evidence host cfg repo args (fst state) w0 = (Inr ev, u)"
    and ap: "apply_mode host cfg repo args (fst state) (snd state) ev u = (Inr (), w')" and c: "c = 0"
    unfolding run_switch_def by (simp add: act_bind_Inr act_then_Inr) (metis fst_conv snd_conv)
  from ap obtain again w1 latest w2 r w3 actual where
    ag: "(if Some v = Some ''k3s'' then required_evidence host cfg repo args (fst state) else ret ev) u = (Inr again, w1)"
    and same: "same_evidence again ev" and lat: "repo_state host cfg repo w1 = (Inr latest, w2)"
    and chk: "bnd (if py_eq (snd latest) (snd state)
            then bnd (item_res (fst latest) ''default_branch'') (\<lambda>b. bnd (item_res (fst state) ''default_branch'') (\<lambda>b'. Inr (py_eq b b')))
            else Inr False) (\<lambda>same. preflight same ''Mode or default branch changed during preflight; inspect and retry.'') = Inr ()"
    and wr: "write_mode host cfg repo v (snd state) w2 = (Inr r, w3)"
    and act: "repo_state host cfg repo w3 = (Inr actual, w')" "dget (the_dict (snd actual)) ''value'' JNull = JStr v"
    unfolding apply_mode_def assms(3) option.sel act_bind_Inr act_then_Inr lift_apply prod.inject preflight_Inr
    by (elim exE conjE) (rule that; (assumption | simp))
  from chk have eq: "py_eq (snd latest) (snd state)" by (auto split: if_splits)
  have "is_dict (snd actual)" using act(2) by (cases "snd actual") (auto simp: dget_def)
  then have "\<exists>m var. repo_state host cfg repo w3 = (Inr (m, JObj var), w') \<and> dget var ''value'' JNull = JStr v"
    using act by (cases actual) auto
  moreover have "v = ''k3s'' \<longrightarrow> (\<exists>first again u u'. same_evidence (Some again) (Some first)
           \<and> activation_evidence host cfg repo (fst state) (smoke_run args) (expected_sha args) u = (Inr first, u')
           \<and> activation_evidence host cfg repo (fst state) (smoke_run args) (expected_sha args) u' = (Inr again, w1))"
  proof
    assume "v = ''k3s''"
    with assms(3) ev ag same show "\<exists>first again u u'. same_evidence (Some again) (Some first)
           \<and> activation_evidence host cfg repo (fst state) (smoke_run args) (expected_sha args) u = (Inr first, u')
           \<and> activation_evidence host cfg repo (fst state) (smoke_run args) (expected_sha args) u' = (Inr again, w1)"
      by (auto simp: required_evidence_def act_bind_Inr)
  qed
  ultimately show ?thesis using c lat eq wr by blast
qed

end
