(* ===== verification/Runner_Mode_Runs.thy ===== *)
theory Runner_Mode_Runs
  imports Runner_Mode_Facts
begin

text \<open>
  A small GitHub for the runner switch: one private repository with its mode variable, one runner
  group and one smoke run.  It gives the concrete runs of the properties of \<open>Runner_Mode_Facts\<close>.
\<close>

section \<open>The answers\<close>

definition head_sha :: string where
  "head_sha = replicate 40 CHR ''a''"

definition page1 :: string where
  "page1 = ''?per_page=100&page=1''"

definition variables_text :: "string option \<Rightarrow> string" where
  "variables_text v =
     dq (''{`variables`:['' @ (case v of None \<Rightarrow> [] | Some x \<Rightarrow> ''{`name`:`CI_RUNNER_MODE`,`value`:`'' @ x @ ''`}'') @ '']}'')"

definition answers :: "string option \<Rightarrow> (string \<times> string) list" where
  "answers v =
     [(''repos/o/r'', dq ''{`private`:true,`full_name`:`o/r`,`default_branch`:`main`}''),
      (''repos/o/r/branches/main'', dq (''{`commit`:{`sha`:`'' @ head_sha @ ''`}}'')),
      (''repos/o/r/actions/variables'' @ page1, variables_text v),
      (''repos/o/r/actions/runs/5'', dq (''{`event`:`workflow_dispatch`,`path`:`.github/workflows/runner-smoke.yml`,`status`:`completed`,`conclusion`:`success`,`head_branch`:`main`,`head_sha`:`''
          @ head_sha @ ''`,`head_repository`:{`full_name`:`o/r`},`created_at`:`2025-03-01T00:00:00Z`,`run_attempt`:1}'')),
      (''orgs/o/actions/runner-groups'' @ page1, dq ''{`runner_groups`:[{`name`:`g`,`id`:3,`visibility`:`selected`,`allows_public_repositories`:false}]}''),
      (''orgs/o/actions/runner-groups/3/repositories'' @ page1, dq ''{`repositories`:[{`full_name`:`o/r`,`private`:true}]}''),
      (''repos/o/r/actions/runs/5/attempts/1/jobs'' @ page1,
        dq ''{`jobs`:[{`name`:`smoke-linux`,`status`:`completed`,`conclusion`:`success`,`labels`:[`l`],`runner_group_id`:3,`runner_name`:`n`}]}'')]"

text \<open>The world is the value of the variable; a write replaces it.\<close>

definition sample_gh :: "string list \<Rightarrow> string option \<Rightarrow> (string option, int \<times> string) act" where
  "sample_gh args input v =
     (if args ! 5 = ''GET'' then
        (case map_of (answers v) (last args) of None \<Rightarrow> (Inr (1, []), v) | Some t \<Rightarrow> (Inr (0, t), v))
      else (Inr (0, []), Some (if input = Some (dq ''{`name`: `CI_RUNNER_MODE`, `value`: `k3s`}'') then ''k3s'' else ''github'')))"

definition smoke_time :: int where
  "smoke_time = (case from_isoformat ''2025-03-01T05:00:00+00:00'' of Some t \<Rightarrow> instant t | None \<Rightarrow> 0)"

definition sample_host :: "string option mode_host" where
  "sample_host = \<lparr>open_config = (\<lambda>_ v. (Inl (FileNotFoundError ''''), v)), own_uid = 0, run_gh = sample_gh,
     utc_now = (\<lambda>v. (Inr smoke_time, v)), float_repr = id\<rparr>"

definition sample_args :: "string \<Rightarrow> bool \<Rightarrow> switch_args" where
  "sample_args v ap = \<lparr>repo_alias = ''a'', config_path = '''', mode = Some v, smoke_run = Some 5, expected_sha = Some head_sha, apply_switch = ap\<rparr>"

section \<open>Runs\<close>

text \<open>The configuration as a value, so that evaluation does not repeat \<open>configure\<close>.\<close>

lemma sample_mode_value [code]: "sample_mode =
  \<lparr>org = ''o'', consumers = [(''a'', ''o/r'', [(''smoke-linux'', ''l'', ''g'')])],
   group_policies = [(''g'', [(''name'', JStr ''g''), (''visibility'', JStr ''selected''), (''allows_public_repositories'', JBool False),
     (''repositories'', JArr [JStr ''o/r'']), (''restricted_to_workflows'', JBool False)])],
   read_paths = (let repo = repos_rx [''o/r''] in
     [repo, Seqs [repo, Lit ''/branches/main''], Seqs [repo, Lit ''/actions/variables'', page_rx], Seqs [repo, Lit ''/actions/runs/'', pos_int_rx],
      Seqs [repo, Lit ''/actions/runs/'', pos_int_rx, Lit ''/attempts/'', pos_int_rx, Lit ''/jobs'', page_rx],
      Seqs [Lit ''orgs/o'', Lit ''/actions/runner-groups'', page_rx],
      Seqs [Lit ''orgs/o'', Lit ''/actions/runner-groups/'', pos_int_rx, Lit ''/repositories'', page_rx]]),
   write_paths = write_routes [''o/r'']\<rparr>"
  by code_simp

definition sample_evidence :: evidence where
  "sample_evidence = \<lparr>e_sha = JStr head_sha, e_attempt = JInt 1, e_created = JStr ''2025-03-01T00:00:00Z'', e_groups = [(''g'', JInt 3)]\<rparr>"

lemma smoke_run: "verify_smoke sample_host sample_mode ''o/r'' (JObj [(''default_branch'', JStr ''main'')]) 5 smoke_time (Some head_sha) None
    = (Inr sample_evidence, None)"
  by code_simp

lemma switch_run: "run_switch sample_host sample_mode ''o/r'' (sample_args ''github'' True) None = (Inr 0, Some ''github'')"
  by code_simp

lemma sample_reads: "reads_keep (\<lambda>v. v = None) sample_host"
  by (auto simp: reads_keep_def keeps_def sample_host_def sample_gh_def gh_argv_def split: option.splits)

section \<open>The properties at these runs\<close>

lemma switch_only_writes_mode_witness:
  "keeps (\<lambda>v. v = None) (run_switch sample_host sample_mode ''o/r'' (sample_args ''k3s'' False))"
  by (rule switch_only_writes_mode [OF sample_reads]) (simp_all add: sample_args_def)

lemma collection_complete_witness:
  "\<exists>ps last rows. rows = concat ps @ last \<and> rows \<noteq> [] \<and> length ps < 100 \<and> (\<forall>p \<in> set ps. 100 \<le> length p) \<and> length last < 100
    \<and> pages_answered sample_host sample_mode (''repos/o/r/actions/variables'' @ (if CHR ''?'' \<in> set ''repos/o/r/actions/variables'' then ''&'' else ''?''))
        ''variables'' 1 (ps @ [last]) (Some ''k3s'') (Some ''k3s'')"
proof -
  let ?row = "JObj [(''name'', JStr ''CI_RUNNER_MODE''), (''value'', JStr ''k3s'')]"
  have "collection sample_host sample_mode ''repos/o/r/actions/variables'' ''variables'' (Some ''k3s'') = (Inr [?row], Some ''k3s'')"
    by code_simp
  from collection_complete [OF this] show ?thesis by (metis list.distinct(1))
qed


lemma switch_verified_witness:
  "\<exists>current latest w1 w2 w3 r m var. py_eq (snd latest) current
      \<and> repo_state sample_host sample_mode ''o/r'' w1 = (Inr latest, w2)
      \<and> write_mode sample_host sample_mode ''o/r'' ''github'' current w2 = (Inr r, w3)
      \<and> repo_state sample_host sample_mode ''o/r'' w3 = (Inr (m, JObj var), Some ''github'') \<and> dget var ''value'' JNull = JStr ''github''"
  using switch_verified [OF switch_run] by (force simp: sample_args_def)

end
