(* ===== verification/Gh_Transport.thy ===== *)
theory Gh_Transport
  imports Complex_Main Gh_Client
begin

text \<open>
  The transport of \<open>scripts/release_control.py\<close>: which requests the \<open>gh\<close> program is run with
  (\<open>GitHub.request\<close>), how its framed output is read (\<open>github_http_response\<close>), and which failed reads
  are repeated (\<open>_read_get\<close>).  Running a program and waiting are the parameters of \<open>transport\<close>; output
  is a string of bytes, and response bodies are ASCII.
\<close>

section \<open>Routes\<close>

definition TAG_RX :: rx where
  "TAG_RX = Seqs [Lit ''v'', version_rx,
     Opt (Alts [Seqs [Lit ''-'', Alts [Lit ''beta'', Lit ''rc''], Lit ''.'', pos_int_rx],
                Seqs [Lit ''-nightly.'', Rep 14 Digit, Lit ''.'', pos_int_rx, Lit ''.'', pos_int_rx]])]"

definition quoted_rx :: rx where
  "quoted_rx = Plus (Alts [Cls (alnum @ ''_.~-''), Seqs [Lit ''%'', Rep 2 (Cls ''0123456789ABCDEF'')]])"

definition GET_ROUTES :: "rx list" where
  "GET_ROUTES =
     [Alts [Eps, Lit ''tags'', Lit ''releases'', Lit ''environments/release''],
      Seqs [Lit ''releases/'', Alts [Seqs [pos_int_rx, Opt (Lit ''/assets'')], Seqs [Lit ''assets/'', pos_int_rx]]],
      Seqs [Lit ''releases/tags/'', TAG_RX],
      Seqs [Lit ''git/ref/tags/'', TAG_RX],
      Seqs [Lit ''actions/runs/'', pos_int_rx, Opt (Alts [Lit ''/artifacts'', Seqs [Lit ''/attempts/'', pos_int_rx, Lit ''/jobs'']])],
      Seqs [Lit ''actions/runs/'', pos_int_rx, Lit ''/attempts/'', pos_int_rx],
      Seqs [Lit ''actions/artifacts/'', pos_int_rx, Lit ''/zip''],
      Seqs [Lit ''actions/jobs/'', pos_int_rx],
      Seqs [Lit ''contents/.release-policy.json?ref='', hex_rx 40],
      Seqs [Lit ''contents/CHANGELOG.md?ref='', hex_rx 40],
      Seqs [Lit ''contents/.github?ref='', hex_rx 40],
      Lit ''contents/release-version-state.json?ref=release-version-state'',
      Lit ''git/ref/heads/release-version-state'',
      Seqs [Lit ''git/ref/heads/'', quoted_rx],
      Seqs [Lit ''actions/workflows/release-pipeline.yml/runs?branch='', quoted_rx, Lit ''&event=push&head_sha='', hex_rx 40,
            Lit ''&per_page=100''],
      Seqs [Lit ''compare/'', hex_rx 40, Lit ''...'', quoted_rx]]"

definition API_PATHS :: "(string \<times> rx list) list" where
  "API_PATHS =
     [(''GET'', GET_ROUTES),
      (''POST'', [Alts [Lit ''git/refs'', Lit ''releases'']]),
      (''PATCH'', [Seqs [Lit ''releases/'', pos_int_rx]]),
      (''PUT'', [Lit ''contents/release-version-state.json''])]"

text \<open>
  \<open>unquote\<close> on bytes: what is above 127 after it is decoded further by Python, which neither makes nor
  removes the dots and slashes that are looked for.
\<close>

definition hex_any :: "char \<Rightarrow> nat option" where
  "hex_any c =
     (if c \<in> set lower_hex then Some (hex_val c)
      else if c \<in> set ''ABCDEF'' then Some (of_char c - 55) else None)"

fun unquote :: "string \<Rightarrow> string" where
  "unquote [] = []"
| "unquote (c # s) =
     (if c = CHR ''%'' then
        (case s of
           a # b # r \<Rightarrow>
             (case (hex_any a, hex_any b) of
                (Some x, Some y) \<Rightarrow> char_of (16 * x + y) # unquote r
              | _ \<Rightarrow> c # unquote s)
         | _ \<Rightarrow> c # unquote s)
      else c # unquote s)"

definition no_traversal :: "string \<Rightarrow> bool" where
  "no_traversal path \<longleftrightarrow> list_all (\<lambda>p. p \<noteq> ''.'' \<and> p \<noteq> ''..'') (split CHR ''/'' (unquote path))"

section \<open>Requests\<close>

text \<open>What running a program with a time limit gives: its exit code and both outputs, or what it had printed.\<close>

datatype proc =
    Completed int string string
  | Expired string string

record 'w transport =
  repo :: string
  run_proc :: "string list \<Rightarrow> string option \<Rightarrow> rat option \<Rightarrow> ('w, proc) act"
  pause :: "nat \<Rightarrow> ('w, unit) act"
  json_float_text :: "string \<Rightarrow> string"

definition base_path :: "'w transport \<Rightarrow> string" where
  "base_path t = ''repos/'' @ repo t"

definition rc_json_bytes :: "json \<Rightarrow> string" where
  "rc_json_bytes v = dumps_indent 0 v @ newline 0"

text \<open>The checks of \<open>request\<close> in their order.\<close>

definition check_request :: "string \<Rightarrow> string \<Rightarrow> json option \<Rightarrow> string \<Rightarrow> unit res" where
  "check_request path verb body fmt =
     (let fields = (case body of Some (JObj m) \<Rightarrow> m | _ \<Rightarrow> []) in
      checks
        [rc_require (verb \<in> set (map fst API_PATHS)) ''Unsupported API method'',
         rc_require (case map_of API_PATHS verb of None \<Rightarrow> False | Some rs \<Rightarrow> list_ex (\<lambda>r. rx_match r path) rs) ''Unsupported API endpoint'',
         rc_require (no_traversal path) ''API endpoint cannot traverse repository paths'',
         rc_require ((verb = ''GET'' \<and> body = None) \<or> (verb \<in> {''POST'', ''PATCH'', ''PUT''} \<and> body \<noteq> None \<and> is_dict (the body)))
           ''API body does not match its method'',
         rc_require (verb = ''PUT'' \<longrightarrow> dget fields ''branch'' JNull = JStr ''release-version-state''
                       \<and> keys_within fields [''branch'', ''content'', ''message'', ''sha''])
           ''Ledger writes must target the dedicated state branch'',
         rc_require (fmt \<in> {''json'', ''pages'', ''asset''} \<and> (fmt = ''json'' \<or> verb = ''GET'')) ''Invalid API mode'']
        (Inr ()))"

definition endpoint_of :: "'w transport \<Rightarrow> string \<Rightarrow> string \<Rightarrow> string" where
  "endpoint_of t path fmt =
     (let endpoint = rstrip (\<lambda>c. c = CHR ''/'') (base_path t @ ''/'' @ path) in
      if fmt = ''pages''
      then endpoint @ (if CHR ''?'' \<in> set endpoint then ''&'' else ''?'') @ ''per_page='' @ (if endswith path ''/jobs'' then ''20'' else ''100'')
      else endpoint)"

definition mode_flags :: "string \<Rightarrow> string list" where
  "mode_flags fmt =
     (if fmt = ''pages'' then [''--paginate'', ''--jq'', ''tojson'']
      else if fmt = ''asset'' then [''-H'', ''Accept: application/octet-stream''] else [])"

definition request_argv :: "string \<Rightarrow> string \<Rightarrow> json option \<Rightarrow> string \<Rightarrow> string list" where
  "request_argv endpoint verb body fmt =
     [''gh'', ''api'', ''--hostname'', ''github.com'', ''--include'', ''--method'', verb] @ mode_flags fmt
     @ (if body = None then [] else [''--input'', ''-'']) @ [''--'', endpoint]"

section \<open>Framing\<close>

text \<open>The text before and after the first match of \<open>\r?\n\r?\n\<close>.\<close>

definition CR :: char where "CR = CHR 0x0D"
definition LF :: char where "LF = CHR 0x0A"

fun blank_line :: "string \<Rightarrow> string option" where
  "blank_line s =
     (let a = (if startswith s [CR, LF] then Some (drop 2 s) else if startswith s [LF] then Some (drop 1 s) else None) in
      case a of None \<Rightarrow> None
      | Some u \<Rightarrow> if startswith u [CR, LF] then Some (drop 2 u) else if startswith u [LF] then Some (drop 1 u) else None)"

fun split_head :: "string \<Rightarrow> (string \<times> string) option" where
  "split_head [] = None"
| "split_head (c # s) =
     (case blank_line (c # s) of
        Some body \<Rightarrow> Some ([], body)
      | None \<Rightarrow> map_option (\<lambda>(h, b). (c # h, b)) (split_head s))"

text \<open>\<open>bytes.splitlines()\<close>.\<close>

fun byte_lines :: "string \<Rightarrow> string list" where
  "byte_lines [] = []"
| "byte_lines (c # s) =
     (if c = LF \<or> (c = CR \<and> \<not> startswith s [LF]) then [] # byte_lines s
      else if c = CR then [] # byte_lines (tl s)
      else (case byte_lines s of [] \<Rightarrow> [[c]] | l # ls \<Rightarrow> (c # l) # ls))"

definition http_version_rx :: rx where
  "http_version_rx = Seqs [Lit ''HTTP/'', Alts [Lit ''1.0'', Lit ''1.1'', Seqs [Lit ''2'', Opt (Lit ''.0'')]], Lit '' '']"

definition status_rx :: rx where
  "status_rx = Seqs [http_version_rx, Cls ''12345'', Rep 2 Digit, Opt (Seqs [Lit '' '', Star (NotCls [CR, LF])])]"

definition header_rx :: rx where
  "header_rx = Seqs [Plus (Cls (''!#$%&'' @ [CHR 0x27] @ ''*+.^_'' @ [CHR 0x60] @ ''|~-'' @ alnum)), Lit '':'', Star (NotCls [CR, LF])]"

definition status_number :: "string \<Rightarrow> int" where
  "status_number line = int (nat_of_digits (take 3 (drop 1 (dropWhile (\<lambda>c. c \<noteq> CHR '' '') line))))"

definition github_http_head :: "string \<Rightarrow> (int \<times> string) res" where
  "github_http_head data =
     (case split_head data of
        None \<Rightarrow> Inl (GitHubError ''GitHub response headers are missing or truncated'' False)
      | Some (head, body) \<Rightarrow>
          (case byte_lines head of
             [] \<Rightarrow> Inl (GitHubError ''GitHub response headers are invalid'' False)
           | first # lines \<Rightarrow>
               if rx_match status_rx first \<and> list_all (rx_match header_rx) lines then Inr (status_number first, body)
               else Inl (GitHubError ''GitHub response headers are invalid'' False)))"

definition json_space :: "char \<Rightarrow> bool" where
  "json_space c \<longleftrightarrow> c \<in> {CHR '' '', CHR 0x09, CR, LF}"

lemma blank_line_shorter: "blank_line s = Some b \<Longrightarrow> length b < length s"
  by (auto simp: startswith_iff Let_def split: if_splits)

lemma split_head_shorter: "split_head s = Some (h, b) \<Longrightarrow> length b < length s"
  by (induction s arbitrary: h) (auto dest: blank_line_shorter split: option.splits simp del: blank_line.simps)

lemma lstrip_shorter: "length (lstrip p s) \<le> length s"
  by (simp add: lstrip_def length_dropWhile_le)

text \<open>
  The pages of a paginated answer: values until one is followed by nothing, each value but the last
  followed by the head of the next answer.
\<close>

function framed_pages :: "(string \<Rightarrow> string) \<Rightarrow> int \<Rightarrow> string \<Rightarrow> json list \<Rightarrow> (int \<times> string) res" where
  "framed_pages fl status text acc =
     (if \<not> (200 \<le> status \<and> status < 300) then Inr (status, [])
      else
        (let s = lstrip json_space text in
         case raw_value fl None s of
           Inl _ \<Rightarrow> Inl (GitHubError ''GitHub response page is invalid or truncated'' False)
         | Inr (_, r) \<Rightarrow>
             (case parse_json fl (take (length s - length r) s) of
                Inl _ \<Rightarrow> Inl (GitHubError ''GitHub response page is invalid or truncated'' False)
              | Inr page \<Rightarrow>
                  (let u = lstrip json_space r in
                   if u = [] then Inr (status, rc_json_bytes (JArr (acc @ [page])))
                   else
                     (case split_head u of
                        None \<Rightarrow> Inl (GitHubError ''GitHub response headers are missing or truncated'' False)
                      | Some (_, rest) \<Rightarrow>
                          bnd (github_http_head (take (length u - length rest) u)) (\<lambda>(next, _). framed_pages fl next rest (acc @ [page])))))))"
  by pat_completeness auto

termination
proof (relation "measure (\<lambda>(_, _, text, _). length text)", goal_cases)
  case (2 fl status tx acc s sr v r page u sh h rest)
  then show ?case
    using lstrip_shorter [of json_space tx] lstrip_shorter [of json_space r] raw_value_shorter(1) [of fl None s v r] split_head_shorter [of u h rest]
    by simp
qed simp

declare framed_pages.simps [simp del]

definition github_http_response :: "(string \<Rightarrow> string) \<Rightarrow> string \<Rightarrow> bool \<Rightarrow> (int \<times> string) res" where
  "github_http_response fl stdout paginated =
     bnd (github_http_head stdout) (\<lambda>(status, body).
       if \<not> paginated then Inr (status, body) else framed_pages fl status body [])"

section \<open>Diagnostics\<close>

text \<open>Patterns are searched: \<open>found r s\<close> holds when a part of \<open>s\<close> matches \<open>r\<close> with its context.\<close>

definition byte_lower :: "string \<Rightarrow> string" where
  "byte_lower = map (\<lambda>c. if c \<in> set upper_letters then char_of (of_char c + 32 :: nat) else c)"

definition any_rx :: rx where "any_rx = Star AnyChar"
definition word_chars :: string where "word_chars = alnum @ ''_''"
definition space_rx :: rx where "space_rx = Cls [CHR '' '', CHR 0x09, LF, CR, CHR 0x0C, CHR 0x0B]"

definition then_break :: "rx \<Rightarrow> rx \<Rightarrow> rx" where
  "then_break r b = Seq r (Alt Eps (Seq b any_rx))"

definition denied_words :: "string list" where
  "denied_words =
     [''authentication'', ''authenticate'', ''authorization'', ''unauthorized'', ''unauthorised'', ''credentials'', ''forbidden'',
      ''permission denied'', ''access denied'', ''rate limit'', ''not found'', ''x509'', ''certificate'']"

definition denied_status_rx :: rx where
  "denied_status_rx =
     Seqs [any_rx, Lit ''http'', Star (Cls '' /:''), then_break (Alts (map Lit [''401'', ''403'', ''404'', ''429''])) (NotCls digits)]"

definition denied_read_diagnostic :: "string \<Rightarrow> bool \<Rightarrow> bool" where
  "denied_read_diagnostic stderr include_status \<longleftrightarrow>
     list_ex (\<lambda>w. infix_of w (byte_lower stderr)) denied_words
     \<or> (include_status \<and> rx_match denied_status_rx (byte_lower stderr))"

definition transient_words :: "string list" where
  "transient_words =
     [''connection reset by peer'', ''i/o timeout'', ''tls handshake timeout'', ''context deadline exceeded'',
      ''client.timeout exceeded'', ''server closed idle connection'', ''use of closed network connection'']"

definition eof_rx :: rx where
  "eof_rx = Seqs [Alt Eps (Seq any_rx (NotCls word_chars)), Opt (Lit ''unexpected ''), then_break (Lit ''eof'') space_rx]"

definition transient_read_failure :: "int \<Rightarrow> string \<Rightarrow> bool" where
  "transient_read_failure code stderr \<longleftrightarrow>
     code = 1 \<and> \<not> denied_read_diagnostic stderr True
     \<and> (rx_match eof_rx (byte_lower stderr) \<or> list_ex (\<lambda>w. infix_of w (byte_lower stderr)) transient_words)"

definition denied_head_rx :: rx where
  "denied_head_rx =
     Seqs [Alt Eps (Seq any_rx (Cls [LF])), http_version_rx, then_break (Alts (map Lit [''401'', ''403'', ''404'', ''429''])) space_rx]"

text \<open>The part of the output in which a denial counts: the head of an answer that has a valid one.\<close>

definition denial_text :: "string \<Rightarrow> bool \<Rightarrow> string" where
  "denial_text stdout paginated =
     (if paginated then stdout
      else case split_head stdout of
             None \<Rightarrow> stdout
           | Some (_, body) \<Rightarrow>
               (let header = take (length stdout - length body) stdout in
                case github_http_head header of Inr _ \<Rightarrow> header | Inl _ \<Rightarrow> stdout))"

definition denied_partial_read :: "string \<Rightarrow> string \<Rightarrow> bool \<Rightarrow> bool" where
  "denied_partial_read stdout stderr paginated \<longleftrightarrow>
     denied_read_diagnostic stderr True \<or> rx_match denied_head_rx (denial_text stdout paginated)"

section \<open>Answers\<close>

text \<open>\<open>response\<close>: the body of an answer whose status agrees with the exit code, and whether it said that nothing is there.\<close>

definition response :: "int \<Rightarrow> string \<Rightarrow> string \<Rightarrow> (int \<times> string) option \<Rightarrow> string res" where
  "response code stdout stderr http =
     (let body = (case http of None \<Rightarrow> stdout | Some (_, b) \<Rightarrow> b) in
      checks [ensure (case http of None \<Rightarrow> True | Some (status, _) \<Rightarrow> (code = 0) = (200 \<le> status \<and> status < 300))
                (GitHubError ''GitHub HTTP status and CLI result disagree'' False),
              ensure (code = 0) (GitHubError stderr (case http of None \<Rightarrow> False | Some (status, _) \<Rightarrow> status = 404))]
        (Inr body))"

text \<open>The bytes of a completed read, or \<open>None\<close> when another attempt is allowed.\<close>

definition completed_read :: "(string \<Rightarrow> string) \<Rightarrow> int \<Rightarrow> string \<Rightarrow> string \<Rightarrow> bool \<Rightarrow> bool \<Rightarrow> string option res" where
  "completed_read fl code stdout stderr paginated final =
     (let transport = transient_read_failure code stderr in
      case github_http_response fl stdout paginated of
        Inl e \<Rightarrow> if \<not> transport \<or> denied_partial_read stdout stderr paginated \<or> final then Inl e else Inr None
      | Inr http \<Rightarrow>
          (let transient = code = 1
                 \<and> (fst http \<in> {500, 502, 503, 504} \<and> \<not> denied_read_diagnostic stderr False
                    \<or> (200 \<le> fst http \<and> fst http < 300 \<and> transport)) in
           if transient \<and> \<not> final then Inr None else bnd (response code stdout stderr (Some http)) (\<lambda>b. Inr (Some b))))"

definition API_READ_ATTEMPTS :: nat where "API_READ_ATTEMPTS = 3"

text \<open>The attempts of a read; the argument counts those that are left.\<close>

fun read_attempts :: "'w transport \<Rightarrow> string list \<Rightarrow> bool \<Rightarrow> rat \<Rightarrow> nat \<Rightarrow> ('w, string) act" where
  "read_attempts t cmd paginated limit 0 = lift (Inl (AssertionError ''GET retry loop must return or raise''))"
| "read_attempts t cmd paginated limit (Suc n) =
     act_bind (run_proc t cmd None (Some limit)) (\<lambda>p.
     case p of
       Expired stdout stderr \<Rightarrow>
         if denied_partial_read stdout stderr paginated \<or> n = 0
         then lift (Inl (GitHubError ''read timed out'' False))
         else act_then (pause t (API_READ_ATTEMPTS - Suc n)) (read_attempts t cmd paginated limit n)
     | Completed code stdout stderr \<Rightarrow>
         act_bind (lift (completed_read (json_float_text t) code stdout stderr paginated (n = 0))) (\<lambda>content.
         case content of
           Some bytes \<Rightarrow> ret bytes
         | None \<Rightarrow> act_then (pause t (API_READ_ATTEMPTS - Suc n)) (read_attempts t cmd paginated limit n)))"

definition read_get :: "'w transport \<Rightarrow> string list \<Rightarrow> bool \<Rightarrow> rat \<Rightarrow> ('w, string) act" where
  "read_get t cmd paginated limit = read_attempts t cmd paginated limit API_READ_ATTEMPTS"

definition API_READ_TIMEOUT :: rat where "API_READ_TIMEOUT = 30"
definition API_BINARY_READ_TIMEOUT :: rat where "API_BINARY_READ_TIMEOUT = 120"

text \<open>The one run of a program that writes.\<close>

definition run_write :: "'w transport \<Rightarrow> string list \<Rightarrow> json option \<Rightarrow> ('w, string) act" where
  "run_write t cmd body =
     act_bind (run_proc t cmd (map_option rc_json_bytes body) None) (\<lambda>p. lift
       (case p of
          Expired _ _ \<Rightarrow> Inl (TimeoutExpired ''gh'')
        | Completed code stdout stderr \<Rightarrow>
            bnd (github_http_response (json_float_text t) stdout False) (\<lambda>http. response code stdout stderr (Some http))))"

definition request :: "'w transport \<Rightarrow> string \<Rightarrow> string \<Rightarrow> json option \<Rightarrow> string \<Rightarrow> ('w, string) act" where
  "request t path verb body fmt =
     act_then (lift (check_request path verb body fmt))
     (let endpoint = endpoint_of t path fmt; cmd = request_argv endpoint verb body fmt in
      if verb = ''GET''
      then read_get t cmd (fmt = ''pages'') (if fmt = ''asset'' \<or> endswith path ''/zip'' then API_BINARY_READ_TIMEOUT else API_READ_TIMEOUT)
      else run_write t cmd body)"

text \<open>The client of \<open>Gh_Client\<close> on this transport.\<close>

definition gh_client :: "'w transport \<Rightarrow> 'w client" where
  "gh_client t = \<lparr>rq = request t, float_text = json_float_text t\<rparr>"

section \<open>Creating a release once\<close>

definition rejected_head_rx :: rx where
  "rejected_head_rx = Seqs [http_version_rx, Lit ''4'', then_break (Rep 2 Digit) space_rx]"

definition create_denied :: "string \<Rightarrow> string \<Rightarrow> bool" where
  "create_denied stdout stderr \<longleftrightarrow> denied_partial_read stdout stderr False \<or> rx_match rejected_head_rx stdout"

definition decode_failure_rx :: rx where
  "decode_failure_rx =
     Seqs [Alt Eps (Seq any_rx (Seq (Cls '':'') (Star space_rx))), Lit ''unexpected end of JSON input'', Star space_rx]"

text \<open>Whether the JSON of a body was lost rather than wrong: \<open>json.loads\<close> could not read it.\<close>

definition create_body :: "(string \<Rightarrow> string) \<Rightarrow> string \<Rightarrow> json res" where
  "create_body fl raw =
     (case loads fl (Some (ReleaseError ''Duplicate JSON field'')) raw of
        Inl (JSONDecodeError _) \<Rightarrow> Inl (AmbiguousCreate ''Release create response JSON was lost'')
      | Inl e \<Rightarrow> Inl (if is_ValueError e then ReleaseError ''Invalid JSON'' else e)
      | Inr v \<Rightarrow> checks [rc_require (is_dict v) ''Invalid release create response''] (Inr v))"

definition create_outcome :: "(string \<Rightarrow> string) \<Rightarrow> proc \<Rightarrow> json res" where
  "create_outcome fl p =
     (case p of
        Expired stdout stderr \<Rightarrow>
          Inl (if create_denied stdout stderr then GitHubError ''Release create timed out with a denial'' False
               else AmbiguousCreate ''Release create response timed out'')
      | Completed code stdout stderr \<Rightarrow>
          (let denied = create_denied stdout stderr;
               transport = transient_read_failure code stderr \<or> (code = 1 \<and> rx_match decode_failure_rx stderr) in
           case github_http_response fl stdout False of
             Inl e \<Rightarrow>
               Inl (if transport \<and> \<not> denied then AmbiguousCreate ''Release create response framing was lost''
                    else GitHubError ''Release create response framing failed'' False)
           | Inr (status, raw) \<Rightarrow>
               if denied \<or> (400 \<le> status \<and> status < 500) then Inl (GitHubError ''Release create was rejected'' False)
               else if (status \<in> {500, 502, 503, 504} \<and> code \<in> {0, 1}) \<or> (200 \<le> status \<and> status < 300 \<and> transport)
               then Inl (AmbiguousCreate ''Release create outcome is ambiguous'')
               else checks [rc_require (code = 0 \<and> status = 201) ''Unexpected release create outcome''] (create_body fl raw)))"

definition create_release_once :: "'w transport \<Rightarrow> json \<Rightarrow> ('w, json) act" where
  "create_release_once t body =
     act_bind (run_proc t [''gh'', ''api'', ''--hostname'', ''github.com'', ''--include'', ''--method'', ''POST'', ''--input'', ''-'', ''--'',
                           base_path t @ ''/releases''] (Some (rc_json_bytes body)) (Some 120))
       (\<lambda>p. lift (create_outcome (json_float_text t) p))"

section \<open>Uploading\<close>

definition NAME_RX :: rx where
  "NAME_RX = Seq (Cls alnum) (UpTo 199 (Cls (alnum @ ''._+-'')))"

text \<open>
  A staged file: its path and name, whether it is a regular file and no link, whether its resolved parent
  is a private staging directory of the temporary directory, and its size.
\<close>

record staged =
  s_path :: string
  s_name :: string
  s_regular :: bool
  s_private :: bool
  s_bytes :: string

definition upload_argv :: "'w transport \<Rightarrow> staged \<Rightarrow> int \<Rightarrow> string list" where
  "upload_argv t file release_id =
     [''gh'', ''api'', ''--hostname'', ''github.com'', ''--include'', ''--method'', ''POST'', ''-H'', ''Content-Type: application/octet-stream'',
      ''--input'', s_path file, ''--'',
      ''https://uploads.github.com/'' @ base_path t @ ''/releases/'' @ str_int release_id @ ''/assets?name='' @ url_quote (s_name file)]"

definition upload_confirmed :: "(string \<Rightarrow> string) \<Rightarrow> staged \<Rightarrow> proc \<Rightarrow> unit res" where
  "upload_confirmed fl file p =
     (case p of
        Expired _ _ \<Rightarrow> Inl (GitHubError ''asset upload exceeded its time'' False)
      | Completed code stdout stderr \<Rightarrow>
          (case github_http_response fl stdout False of
             Inl e \<Rightarrow> bnd (response code stdout stderr None) (\<lambda>_. Inl (GitHubError ''upload response'' False))
           | Inr http \<Rightarrow>
               bnd (response code stdout stderr (Some http)) (\<lambda>body.
               checks [rc_require (fst http = 201) ''upload was not confirmed as created'']
                (bnd (parse_json fl body) (\<lambda>asset.
                 checks [rc_require (is_dict asset) ''invalid asset response'',
                         ignore (rc_positive (dget (the_dict asset) ''id'' JNull) ''uploaded asset ID''),
                         rc_require (dget (the_dict asset) ''name'' JNull = JStr (s_name file)
                            \<and> dget (the_dict asset) ''state'' JNull = JStr ''uploaded''
                            \<and> dget (the_dict asset) ''size'' JNull = JInt (int (length (s_bytes file))))
                           ''upload response did not confirm the staged asset''] (Inr ()))))))"

definition upload :: "'w transport \<Rightarrow> string \<Rightarrow> staged \<Rightarrow> int \<Rightarrow> ('w, unit) act" where
  "upload t tag file release_id =
     act_then (lift (checks
        [rc_require (rx_match TAG_RX tag) ''Unsupported release upload tag'',
         rc_require (0 < release_id) ''Invalid release ID'',
         rc_require (startswith (s_path file) ''/'' \<and> rx_match NAME_RX (s_name file)) ''Unsafe upload path'',
         rc_require (s_regular file) ''Upload must be a regular file'',
         rc_require (s_private file \<and> CHR ''#'' \<notin> set (s_path file)) ''Upload must come from the private release staging directory'']
        (Inr ())))
     (act_bind (run_proc t (upload_argv t file release_id) None (Some 900)) (\<lambda>p.
       lift (upload_confirmed (json_float_text t) file p)))"

end
