(* ===== verification/Gh_Transport_Facts.thy ===== *)
theory Gh_Transport_Facts
  imports Gh_Transport
begin

text \<open>How often the transport runs a program, and what an ambiguous outcome of a creation excludes.\<close>

lemma read_attempts_runs:
  fixes c :: "'w \<Rightarrow> nat"
  assumes "\<And>cmd input limit w. c (snd (run_proc t cmd input limit w)) = c w + 1" and "\<And>n w. c (snd (pause t n w)) = c w"
  shows "c (snd (read_attempts t cmd paginated limit n w)) \<le> c w + n"
proof (induction n arbitrary: w)
  case (Suc n)
  obtain r w1 where run: "run_proc t cmd None (Some limit) w = (r, w1)" by (cases "run_proc t cmd None (Some limit) w")
  then have c1: "c w1 = c w + 1" using assms(1) by (metis snd_conv)
  have again: "c (snd (act_then (pause t k) (read_attempts t cmd paginated limit n) w1)) \<le> c w + Suc n" for k
  proof -
    obtain q w2 where p: "pause t k w1 = (q, w2)" by (cases "pause t k w1")
    then have "c w2 = c w1" using assms(2) by (metis snd_conv)
    then show ?thesis using Suc.IH [of w2] c1 by (auto simp: act_then_def act_bind_def p split: sum.splits)
  qed
  show ?case
  proof (cases r)
    case (Inl e)
    then show ?thesis using run c1 by (simp add: act_bind_def)
  next
    case (Inr p)
    show ?thesis
    proof (cases p)
      case (Expired stdout stderr)
      then show ?thesis using run c1 Inr again by (simp add: act_bind_def)
    next
      case (Completed code stdout stderr)
      then show ?thesis using run c1 Inr again
        by (auto simp: act_bind_def split: sum.splits option.splits)
    qed
  qed
qed simp

text \<open>
  C29: However the program answers, one request runs it at most three times for a read and at most once for
  a write: a write is never repeated.
\<close>

theorem request_runs_bounded:
  fixes c :: "'w \<Rightarrow> nat"
  assumes "\<And>cmd input limit w. c (snd (run_proc t cmd input limit w)) = c w + 1" and "\<And>n w. c (snd (pause t n w)) = c w"
  shows "c (snd (request t path verb body fmt w)) \<le> c w + (if verb = ''GET'' then 3 else 1)"
proof (cases "check_request path verb body fmt")
  case (Inl e)
  then show ?thesis by (simp add: request_def act_then_def act_bind_def)
next
  case (Inr u)
  have once: "c (snd (run_write t cmd body w)) \<le> c w + 1" for cmd
    using assms(1) [of cmd "map_option rc_json_bytes body" None w]
    by (auto simp: run_write_def act_bind_def split: prod.splits sum.splits)
  have read: "c (snd (read_get t cmd p limit w)) \<le> c w + 3" for cmd p limit
    using read_attempts_runs [OF assms, where n = 3] by (simp add: read_get_def API_READ_ATTEMPTS_def)
  show ?thesis using Inr once read by (simp add: request_def act_then_def act_bind_def Let_def)
qed

lemma request_runs_bounded_witness:
  "snd (request \<lparr>repo = ''o/r'', run_proc = (\<lambda>_ _ _ n. (Inr (Expired [] []), n + 1)), pause = (\<lambda>_ n. (Inr (), n)), json_float_text = id\<rparr>
      ''releases'' ''POST'' (Some (JObj [])) ''json'' (0 :: nat)) \<le> 0 + (if ''POST'' = ''GET'' then 3 else 1)"
  by (rule request_runs_bounded [where c = "\<lambda>n. n"]) simp_all

text \<open>Reading JSON fails with a decoding error, or with the exception of the hook.\<close>

definition json_error :: "exn option \<Rightarrow> exn \<Rightarrow> bool" where
  "json_error hook e \<longleftrightarrow> (\<exists>m. e = JSONDecodeError m) \<or> hook = Some e"

lemma json_error_bad: "bad_json = Inl e \<Longrightarrow> json_error hook e"
  by (auto simp: bad_json_def json_error_def)

lemma json_error_token: "token fl s = Inl e \<Longrightarrow> json_error hook e" "string_token s = Inl e \<Longrightarrow> json_error hook e"
  by (auto simp: token_def string_token_def dest: json_error_bad split: option.splits if_splits)

lemma json_error_finish: "finish_object hook pairs = Inl e \<Longrightarrow> json_error hook e"
  by (auto simp: finish_object_def guard_Inl_iff json_error_def split: option.splits)

lemma raw_value_errors:
  "raw_value fl hook s = Inl e \<Longrightarrow> json_error hook e"
  "raw_members fl hook pairs s = Inl e \<Longrightarrow> json_error hook e"
  "raw_items fl hook items s = Inl e \<Longrightarrow> json_error hook e"
proof (induction fl hook s and fl hook pairs s and fl hook items s arbitrary: e and e and e
    rule: raw_value_raw_members_raw_items.induct)
  case (1 fl hook s)
  show ?case
  proof (cases s)
    case Nil
    then show ?thesis using 1(3) json_error_bad by (simp add: raw_value.simps)
  next
    case (Cons c u)
    have "(if c = CHR ''{'' then
            (if startswith (ws u) ''}''
             then bnd (finish_object hook []) (\<lambda>v. Inr (v, tl (ws u))) else raw_members fl hook [] (ws u))
          else if c = CHR ''['' then
            (if startswith (ws u) '']'' then Inr (JArr [], tl (ws u)) else raw_items fl hook [] (ws u))
          else token fl s) = Inl e"
      using 1(3) unfolding Cons by (subst (asm) raw_value.simps) simp
    then show ?thesis using 1(1) [OF Cons, of e] 1(2) [OF Cons, of e] json_error_finish json_error_token
      by (auto simp: bnd_Inl_iff split: if_splits)
  qed
next
  case (2 fl hook pairs s)
  have e: "bnd (string_token s) (\<lambda>ku.
       if \<not> startswith (ws (snd ku)) '':'' then bad_json
       else bnd (raw_value fl hook (ws (tl (ws (snd ku))))) (\<lambda>vw.
         if \<not> length (snd vw) < length s then bad_json
         else if startswith (ws (snd vw)) ''}''
         then bnd (finish_object hook (pairs @ [(fst ku, fst vw)])) (\<lambda>v. Inr (v, tl (ws (snd vw))))
         else if startswith (ws (snd vw)) '',''
         then raw_members fl hook (pairs @ [(fst ku, fst vw)]) (ws (tl (ws (snd vw))))
         else bad_json)) = Inl e"
    using 2(3) by (subst (asm) raw_members.simps) simp
  show ?case
  proof (cases "string_token s")
    case (Inl x)
    then show ?thesis using e json_error_token(2) by simp
  next
    case (Inr ku)
    show ?thesis
    proof (cases "startswith (ws (snd ku)) '':''")
      case False
      then show ?thesis using e Inr json_error_bad by simp
    next
      case True
      then have co: "\<not> \<not> startswith (ws (snd ku)) '':''" by simp
      show ?thesis
      proof (cases "raw_value fl hook (ws (tl (ws (snd ku))))")
        case (Inl x)
        then show ?thesis using e \<open>string_token s = Inr ku\<close> True 2(1) [OF Inr co, of e] by simp
      next
        case vw: (Inr vw)
        have rest: "(if \<not> length (snd vw) < length s then bad_json
         else if startswith (ws (snd vw)) ''}''
         then bnd (finish_object hook (pairs @ [(fst ku, fst vw)])) (\<lambda>v. Inr (v, tl (ws (snd vw))))
         else if startswith (ws (snd vw)) '',''
         then raw_members fl hook (pairs @ [(fst ku, fst vw)]) (ws (tl (ws (snd vw))))
         else bad_json) = Inl e"
          using e Inr True vw by simp
        note step = 2(2) [OF Inr co vw]
        show ?thesis
        proof (cases "length (snd vw) < length s")
          case False
          then show ?thesis using rest json_error_bad by simp
        next
          case len: True
          then show ?thesis using rest step json_error_bad json_error_finish
            by (cases "startswith (ws (snd vw)) ''}''"; cases "startswith (ws (snd vw)) '',''") (simp_all add: bnd_Inl_iff)
        qed
      qed
    qed
  qed
next
  case (3 fl hook items s)
  have e: "bnd (raw_value fl hook s) (\<lambda>vw.
       if \<not> length (snd vw) < length s then bad_json
       else if startswith (ws (snd vw)) '']'' then Inr (JArr (items @ [fst vw]), tl (ws (snd vw)))
       else if startswith (ws (snd vw)) '',''
       then raw_items fl hook (items @ [fst vw]) (ws (tl (ws (snd vw))))
       else bad_json) = Inl e"
    using 3(3) by (subst (asm) raw_items.simps) simp
  show ?case
  proof (cases "raw_value fl hook s")
    case (Inl x)
    then show ?thesis using e 3(1) by simp
  next
    case (Inr vw)
    note step = 3(2) [OF Inr]
    show ?thesis
    proof (cases "length (snd vw) < length s")
      case False
      then show ?thesis using e Inr json_error_bad by simp
    next
      case True
      then show ?thesis using e Inr step json_error_bad
        by (cases "startswith (ws (snd vw)) '']''"; cases "startswith (ws (snd vw)) '',''") simp_all
    qed
  qed
qed

lemma loads_errors: "loads fl hook s = Inl e \<Longrightarrow> json_error hook e"
  using raw_value_errors(1) by (auto simp: loads_def bnd_Inl_iff json_error_def split: if_splits prod.splits)

text \<open>
  C30: The outcome of a creation is called ambiguous, which is what permits looking for the draft, only
  if nothing in the answer denies the request: no denial in the diagnostics or the head, no status of the
  client errors, and no complete answer with a repeated field.
\<close>

theorem ambiguous_create_not_denied:
  assumes "create_outcome fl p = Inl (AmbiguousCreate m)"
  shows "(\<forall>stdout stderr. p = Expired stdout stderr \<longrightarrow> \<not> create_denied stdout stderr)
    \<and> (\<forall>code stdout stderr. p = Completed code stdout stderr \<longrightarrow> \<not> create_denied stdout stderr
        \<and> (\<forall>status body. github_http_response fl stdout False = Inr (status, body) \<longrightarrow>
             \<not> (400 \<le> status \<and> status < 500)
             \<and> (status = 201 \<and> code = 0 \<and> \<not> transient_read_failure code stderr \<longrightarrow>
                  (\<exists>e. loads fl (Some (ReleaseError ''Duplicate JSON field'')) body = Inl (JSONDecodeError e)))))"
proof (cases p)
  case (Expired stdout stderr)
  then show ?thesis using assms by (auto simp: create_outcome_def split: if_splits)
next
  case (Completed code stdout stderr)
  show ?thesis
  proof (cases "github_http_response fl stdout False")
    case (Inl e)
    then show ?thesis using assms Completed by (auto simp: create_outcome_def Let_def split: if_splits)
  next
    case (Inr http)
    obtain status body where http: "http = (status, body)" by (cases http)
    have ok: "\<not> create_denied stdout stderr \<and> \<not> (400 \<le> status \<and> status < 500)"
      using assms Completed Inr http by (auto simp: create_outcome_def Let_def split: if_splits)
    have "\<exists>e. loads fl (Some (ReleaseError ''Duplicate JSON field'')) body = Inl (JSONDecodeError e)"
      if "status = 201" "code = 0" "\<not> transient_read_failure code stderr"
    proof -
      have "create_body fl body = Inl (AmbiguousCreate m)"
        using assms Completed Inr http that ok
        by (simp add: create_outcome_def Let_def checks_Cons rc_require_def ensure_def)
      then show ?thesis
        by (auto simp: create_body_def checks_Cons rc_require_def ensure_def bnd_Inl_iff dest: loads_errors
            split: sum.splits exn.splits if_splits) (auto dest!: loads_errors simp: json_error_def)
    qed
    with ok show ?thesis using Completed Inr http by auto
  qed
qed

lemma ambiguous_create_not_denied_witness:
  "\<not> create_denied [] []"
proof -
  have "create_outcome id (Expired [] []) = Inl (AmbiguousCreate ''Release create response timed out'')" by code_simp
  from ambiguous_create_not_denied [OF this] show ?thesis by blast
qed

end
