(* ===== verification/Asset_Download.thy ===== *)
theory Asset_Download
  imports Gh_Transport Sha256
begin

text \<open>
  Downloads of release assets in \<open>scripts/release_control.py\<close>: the byte budget of a sequence of
  transfers, the writer that stages one asset, the repeated transfers, and the final identity check.
  The program's output arrives in chunks from the parameter \<open>stream_chunks\<close>; the disk and the clock are
  parameters too.
\<close>

section \<open>Budget\<close>

record budget =
  max_bytes :: int
  reserve_bytes :: int
  written :: int

definition new_budget :: "int \<Rightarrow> int \<Rightarrow> budget res" where
  "new_budget m reserve =
     checks [rc_require (0 \<le> m) ''Invalid download byte budget'', rc_require (0 \<le> reserve) ''Invalid download disk reserve'']
       (Inr \<lparr>max_bytes = m, reserve_bytes = reserve, written = 0\<rparr>)"

record identity =
  i_size :: int
  i_sha256 :: string

definition identity_of :: "string \<Rightarrow> identity" where
  "identity_of data = \<lparr>i_size = int (length data), i_sha256 = digest data\<rparr>"

section \<open>The host\<close>

text \<open>
  What the loop of \<open>_stream_asset\<close> gets from its queue and later from \<open>wait\<close>: a chunk of either pipe,
  nothing within the poll, the end of a pipe, a reader that failed, the exit code.
\<close>

datatype event =
    Out_chunk string
  | Err_chunk string
  | Quiet
  | Pipe_end
  | Broken exn
  | Exited int

text \<open>
  \<open>start_transfer\<close> runs a program and gives what the polls will find, until it stays quiet for ever;
  \<open>reap\<close> kills and awaits it and says whether it is gone; \<open>disk_write\<close> writes a chunk to the staged file
  and gives the bytes it took; \<open>truncate_output\<close> empties that file; \<open>same_file\<close> says whether the
  destination still is the regular file that was opened; \<open>draw_delay n\<close> draws from 1 to \<open>2 ^ n\<close> seconds.
\<close>

record 'w storage = "'w transport" +
  clock :: "('w, rat) act"
  draw_delay :: "nat \<Rightarrow> ('w, rat) act"
  sleep_for :: "rat \<Rightarrow> ('w, unit) act"
  free_bytes :: "('w, int) act"
  open_output :: "('w, unit) act"
  remove_output :: "('w, unit) act"
  disk_write :: "string \<Rightarrow> ('w, int) act"
  truncate_output :: "('w, unit) act"
  same_file :: "('w, bool) act"
  start_transfer :: "string list \<Rightarrow> ('w, event list) act"
  reap :: "('w, bool) act"

definition budget_check :: "'w storage \<Rightarrow> budget \<Rightarrow> int \<Rightarrow> ('w, unit) act" where
  "budget_check h b n =
     act_then (lift (checks [rc_require (0 \<le> n) ''Invalid download write size'',
                             rc_require (n \<le> max_bytes b - written b) ''Release download byte budget exceeded''] (Inr ())))
     (act_bind (free_bytes h) (\<lambda>free. lift (rc_require (reserve_bytes b + n \<le> free) ''Release download disk reserve would be exceeded'')))"

section \<open>The writer\<close>

text \<open>The bytes of the staged file so far, what they have to become, and the shared budget.\<close>

record writer =
  staged_bytes :: string
  expected :: identity
  budget :: budget

type_synonym ('w, 'a) writer_act = "(writer, 'w, 'a) obj_act"

definition writer_check :: "'w storage \<Rightarrow> int \<Rightarrow> ('w, unit) writer_act" where
  "writer_check h n =
     act_bind self (\<lambda>s.
     act_then (lift (rc_require (n \<le> i_size (expected s) - int (length (staged_bytes s))) ''Release asset exceeds expected size''))
       (outside (budget_check h (budget s) n)))"

definition writer_write :: "'w storage \<Rightarrow> string \<Rightarrow> ('w, unit) writer_act" where
  "writer_write h chunk =
     act_then (writer_check h (int (length chunk)))
     (act_bind (outside (disk_write h chunk)) (\<lambda>n.
      act_then (lift (rc_require (0 \<le> n \<and> n \<le> int (length chunk)) ''Invalid asset write result''))
      (act_then (update (\<lambda>s. s\<lparr>staged_bytes := staged_bytes s @ take (nat n) chunk,
                               budget := (budget s)\<lparr>written := written (budget s) + n\<rparr>\<rparr>))
        (lift (rc_require (n = int (length chunk)) ''Incomplete asset write'')))))"

definition writer_identity :: "('w, identity) writer_act" where
  "writer_identity =
     act_bind self (\<lambda>s. lift
       (checks [rc_require (identity_of (staged_bytes s) = expected s) ''Release asset size or checksum mismatch'']
         (Inr (identity_of (staged_bytes s)))))"

definition writer_reset :: "'w storage \<Rightarrow> ('w, unit) writer_act" where
  "writer_reset h =
     act_bind (outside (same_file h)) (\<lambda>same.
     act_then (lift (rc_require same ''Asset destination changed during transfer''))
     (act_bind self (\<lambda>s.
      act_then (outside (budget_check h (budget s) (i_size (expected s))))
      (act_then (outside (truncate_output h))
        (update (\<lambda>s. s\<lparr>staged_bytes := []\<rparr>))))))"

section \<open>Transfers\<close>

definition transient_asset_failure :: "int \<Rightarrow> string \<Rightarrow> bool" where
  "transient_asset_failure code stderr \<longleftrightarrow>
     code = 1 \<and> int (length stderr) < 65536 \<and> \<not> denied_read_diagnostic stderr True
     \<and> \<not> list_ex (\<lambda>w. infix_of w (byte_lower stderr))
           [''i/o timeout'', ''tls handshake timeout'', ''context deadline exceeded'', ''client.timeout exceeded'']
     \<and> \<not> rx_match (Seqs [Alt Eps (Seq any_rx (NotCls word_chars)), Lit ''http'', Opt (Seq (Lit ''/'') (Plus (Cls (digits @ ''.'')))),
                         Plus (Cls '' /:''), Lit ''4'', then_break (Rep 2 Digit) (NotCls digits)]) (byte_lower stderr)
     \<and> (transient_read_failure code stderr
        \<or> rx_match (Seqs [Opt (Lit ''gh: ''), Lit ''unexpected end of JSON input'']) (strip byte_space stderr))"

definition expired :: exn where
  "expired = TimeoutExpired ''gh''"

definition before_deadline :: "'w storage \<Rightarrow> rat \<Rightarrow> ('w, unit) writer_act" where
  "before_deadline h deadline = act_bind (outside (clock h)) (\<lambda>now. lift (ensure (now < deadline) expired))"

text \<open>
  The loop over the pipes, \<open>ended\<close> of them at their end, and then the one over the exit code; \<open>err\<close> is
  what is kept of the diagnostics.  A program that stays quiet is stopped at the deadline.
\<close>

fun await_exit :: "'w storage \<Rightarrow> rat \<Rightarrow> string \<Rightarrow> event list \<Rightarrow> ('w, proc) writer_act" where
  "await_exit h deadline err [] = lift (Inl expired)"
| "await_exit h deadline err (ev # evs) =
     act_then (writer_check h 0)
     (act_then (before_deadline h deadline)
      (case ev of
         Exited code \<Rightarrow>
           act_bind (outside (clock h)) (\<lambda>now.
           act_then (lift (ensure (now \<le> deadline) expired)) (ret (Completed code [] err)))
       | _ \<Rightarrow> await_exit h deadline err evs))"

fun pump :: "'w storage \<Rightarrow> rat \<Rightarrow> nat \<Rightarrow> string \<Rightarrow> event list \<Rightarrow> ('w, proc) writer_act" where
  "pump h deadline ended err [] = lift (Inl expired)"
| "pump h deadline ended err (ev # evs) =
     (if ended = 2 then await_exit h deadline err (ev # evs)
      else
        act_then (writer_check h 0)
        (act_then (before_deadline h deadline)
         (case ev of
            Out_chunk chunk \<Rightarrow> act_then (writer_write h chunk) (pump h deadline ended err evs)
          | Err_chunk chunk \<Rightarrow> pump h deadline ended (err @ take (65536 - length err) chunk) evs
          | Pipe_end \<Rightarrow> pump h deadline (Suc ended) err evs
          | Broken e \<Rightarrow> lift (Inl e)
          | _ \<Rightarrow> pump h deadline ended err evs)))"

text \<open>\<open>try\<close> with \<open>finally\<close>.\<close>

definition act_finally :: "('w, 'a) act \<Rightarrow> ('w, unit) act \<Rightarrow> ('w, 'a) act" where
  "act_finally m f w =
     (case m w of (r, w') \<Rightarrow> (case f w' of (Inl e, w'') \<Rightarrow> (Inl e, w'') | (Inr _, w'') \<Rightarrow> (r, w'')))"

definition stop_transfer :: "'w storage \<Rightarrow> ('w, unit) act" where
  "stop_transfer h =
     act_bind (reap h) (\<lambda>gone. lift (ensure gone (GitHubError ''Asset transfer process could not be reaped within five seconds'' False)))"

definition stream_asset :: "'w storage \<Rightarrow> string list \<Rightarrow> rat \<Rightarrow> ('w, proc) writer_act" where
  "stream_asset h cmd deadline =
     act_then (writer_check h 0)
     (act_then (before_deadline h deadline)
      (act_bind (outside (start_transfer h cmd)) (\<lambda>evs.
        act_finally (pump h deadline 0 [] evs) (outside (stop_transfer h)))))"

section \<open>The download\<close>

text \<open>The attempts, \<open>n\<close> of them left.\<close>

fun transfer_attempts :: "'w storage \<Rightarrow> string list \<Rightarrow> rat \<Rightarrow> nat \<Rightarrow> ('w, unit) writer_act" where
  "transfer_attempts h cmd deadline 0 = lift (Inl (AssertionError ''Asset GET retry loop must return or raise''))"
| "transfer_attempts h cmd deadline (Suc n) =
     act_then (before_deadline h deadline)
     (act_bind (stream_asset h cmd deadline) (\<lambda>p.
      act_then (before_deadline h deadline)
      (case p of
         Expired _ _ \<Rightarrow> lift (Inl expired)
       | Completed code stdout stderr \<Rightarrow>
           if n = 0 \<or> \<not> transient_asset_failure code stderr then lift (ignore (response code stdout stderr None))
           else
             act_bind (outside (draw_delay h (API_READ_ATTEMPTS - n))) (\<lambda>delay.
             act_bind (outside (clock h)) (\<lambda>now.
             act_then (lift (ensure (delay < deadline - now) expired))
             (act_then (outside (sleep_for h delay))
             (act_then (before_deadline h deadline)
             (act_then (writer_reset h) (transfer_attempts h cmd deadline n)))))))))"

definition ASSET_DOWNLOAD_TIMEOUT :: rat where "ASSET_DOWNLOAD_TIMEOUT = 900"

definition asset_argv :: "'w storage \<Rightarrow> int \<Rightarrow> string list" where
  "asset_argv h asset_id =
     [''gh'', ''api'', ''--hostname'', ''github.com'', ''--method'', ''GET'', ''-H'', ''Accept: application/octet-stream'', ''--'',
      base_path (transport.truncate h) @ ''/releases/assets/'' @ str_int asset_id]"

definition gh_download_asset :: "'w storage \<Rightarrow> int \<Rightarrow> ('w, unit) writer_act" where
  "gh_download_asset h asset_id =
     act_bind (outside (clock h)) (\<lambda>now.
       act_catch (transfer_attempts h (asset_argv h asset_id) (now + ASSET_DOWNLOAD_TIMEOUT) API_READ_ATTEMPTS) is_TimeoutExpired
         (\<lambda>_. lift (Inl (GitHubError ''asset download exceeded its time'' False))))"

text \<open>What happens to the opened file, and the whole operation, which leaves the shared budget charged.\<close>

definition fill_output :: "'w storage \<Rightarrow> int \<Rightarrow> ('w, identity) writer_act" where
  "fill_output h asset_id =
     act_then (gh_download_asset h asset_id)
     (act_then (writer_check h 0)
     (act_bind (outside (same_file h)) (\<lambda>same.
     act_then (lift (rc_require same ''Asset destination changed during transfer'')) writer_identity)))"

definition with_writer :: "identity \<Rightarrow> ('w, 'a) writer_act \<Rightarrow> (budget, 'w, 'a) obj_act" where
  "with_writer expect m bw =
     (case m (\<lparr>staged_bytes = [], expected = expect, budget = fst bw\<rparr>, snd bw) of (r, (s, w)) \<Rightarrow> (r, (budget s, w)))"

definition any_exn :: "exn \<Rightarrow> bool" where "any_exn e = True"

definition download_asset :: "'w storage \<Rightarrow> json \<Rightarrow> identity \<Rightarrow> (budget, 'w, identity) obj_act" where
  "download_asset h asset_id expect =
     act_bind (lift (rc_positive asset_id ''asset ID'')) (\<lambda>n.
     act_then (lift (rc_require (0 \<le> i_size expect \<and> rx_match (hex_rx 64) (i_sha256 expect)) ''Invalid expected asset identity''))
     (act_bind self (\<lambda>b.
     act_then (outside (budget_check h b (i_size expect)))
     (act_then (outside (open_output h))
       (act_catch (with_writer expect (fill_output h n)) any_exn
         (\<lambda>e. act_then (outside (remove_output h)) (lift (Inl e))))))))"

end
