(* ===== verification/Create_Readback.thy ===== *)
theory Create_Readback
  imports Asset_Download
begin

text \<open>
  The bounded observation after an ambiguous create call in \<open>scripts/release_control.py\<close>:
  \<open>CreateReadback\<close>, which reads with one deadline, one byte budget and at most a hundred requests, and
  \<open>_reconcile_created_release\<close>, which accepts the draft that the call must have made.
\<close>

section \<open>Reading\<close>

definition REPO_RX :: rx where
  "REPO_RX = Seqs [Cls alnum, Star (Cls (alnum @ ''_.-'')), Lit ''/'', Cls alnum, Star (Cls (alnum @ ''_.-''))]"

record readback =
  rb_deadline :: rat
  rb_remaining :: int
  rb_calls :: int
  repository_id :: "int option"

type_synonym ('w, 'a) rb_act = "(readback, 'w, 'a) obj_act"

definition new_readback :: "'w storage \<Rightarrow> ('w, readback) act" where
  "new_readback h =
     act_then (lift (rc_require (rx_match REPO_RX (repo h)) ''Invalid readback repository''))
     (act_bind (clock h) (\<lambda>now.
       ret \<lparr>rb_deadline = now + 180, rb_remaining = 64 * 1024 * 1024, rb_calls = 0, repository_id = None\<rparr>))"

definition rb_check :: "'w storage \<Rightarrow> ('w, rat) rb_act" where
  "rb_check h =
     act_bind (outside (clock h)) (\<lambda>now.
     act_bind self (\<lambda>s.
     act_then (lift (rc_require (0 < rb_deadline s - now) ''Create readback deadline exceeded'')) (ret (rb_deadline s - now))))"

definition page_path_rx :: rx where
  "page_path_rx = Seqs [Lit ''releases'', Opt (Seqs [Lit ''/'', pos_int_rx, Lit ''/assets'']), Lit ''?per_page=100&page='', pos_int_rx]"

definition rb_argv :: "'w storage \<Rightarrow> string \<Rightarrow> string list" where
  "rb_argv h path =
     [''gh'', ''api'', ''--hostname'', ''github.com'', ''--include'', ''--method'', ''GET'', ''--'',
      ''repos/'' @ repo h @ (if path = [] then [] else ''/'' @ path)]"

text \<open>The values of a read and the head of its answer.\<close>

definition rb_answer :: "'w storage \<Rightarrow> proc \<Rightarrow> ('w, json \<times> string) rb_act" where
  "rb_answer h p =
     (case p of
        Expired _ _ \<Rightarrow> lift (Inl (GitHubError ''Create readback GET timed out'' False))
      | Completed code stdout stderr \<Rightarrow>
          act_bind (rb_check h) (\<lambda>_.
          act_then (update (\<lambda>s. s\<lparr>rb_remaining := rb_remaining s - int (length stdout + length stderr)\<rparr>))
          (act_bind self (\<lambda>s.
           act_then (lift (rc_require (0 \<le> rb_remaining s) ''Create readback response limit exceeded''))
            (lift (bnd (github_http_response (json_float_text h) stdout False) (\<lambda>(status, body).
               checks [rc_require (code = 0 \<and> status = 200) ''Create readback GET failed'']
                (bnd (parse_json (json_float_text h) body) (\<lambda>v. Inr (v, take (length stdout - length body) stdout))))))))))"

definition rb_get :: "'w storage \<Rightarrow> string \<Rightarrow> ('w, json \<times> string) rb_act" where
  "rb_get h path =
     act_then (lift (checks [rc_require (list_ex (\<lambda>r. rx_match r path) GET_ROUTES \<or> rx_match page_path_rx path) ''Invalid create readback path'',
                             rc_require (no_traversal path) ''Invalid create readback path''] (Inr ())))
     (act_then (update (\<lambda>s. s\<lparr>rb_calls := rb_calls s + 1\<rparr>))
     (act_bind self (\<lambda>s.
      act_then (lift (rc_require (rb_calls s \<le> 100) ''Create readback request limit exceeded''))
      (act_bind (rb_check h) (\<lambda>remaining.
       act_bind (outside (run_proc h (rb_argv h path) None (Some (min API_READ_TIMEOUT remaining)))) (rb_answer h))))))"

definition rb_json :: "'w storage \<Rightarrow> string \<Rightarrow> ('w, json) rb_act" where
  "rb_json h path = act_bind (rb_get h path) (\<lambda>a. ret (fst a))"

section \<open>Links\<close>

text \<open>\<open>str.strip\<close> and \<open>\s\<close> on ASCII text.\<close>

definition text_space :: "char \<Rightarrow> bool" where
  "text_space c \<longleftrightarrow> of_char c \<in> {9, 10, 11, 12, 13, 28, 29, 30, 31, 32 :: nat}"

definition text_space_rx :: rx where
  "text_space_rx = Star (Cls (map char_of [9, 10, 11, 12, 13, 28, 29, 30, 31, 32 :: nat]))"

definition quot :: string where "quot = [CHR 0x22]"

definition link_rx :: rx where
  "link_rx = Seqs [text_space_rx, Lit ''<'', Plus (NotCls ''<>''), Lit ''>;'', text_space_rx, Lit (''rel='' @ quot),
     Alts (map Lit [''next'', ''prev'', ''first'', ''last'']), Lit quot, text_space_rx]"

definition link_target :: "string \<Rightarrow> string" where
  "link_target s = takeWhile (\<lambda>c. c \<noteq> CHR ''>'') (drop 1 (dropWhile (\<lambda>c. c \<noteq> CHR ''<'') s))"

definition link_rel :: "string \<Rightarrow> string" where
  "link_rel s =
     takeWhile (\<lambda>c. c \<noteq> CHR 0x22) (drop 1 (dropWhile (\<lambda>c. c \<noteq> CHR 0x22) (dropWhile (\<lambda>c. c \<noteq> CHR ''>'') s)))"

text \<open>The values of the \<open>Link\<close> lines of a head.\<close>

definition link_values :: "string \<Rightarrow> string list" where
  "link_values head =
     map (\<lambda>l. strip byte_space (drop 1 (dropWhile (\<lambda>c. c \<noteq> CHR '':'') l)))
       (filter (\<lambda>l. startswith (byte_lower l) ''link:'') (byte_lines head))"

text \<open>
  \<open>urlsplit\<close> of ASCII text: scheme, authority, path, query and fragment.  Brackets of an authority have to
  be paired; what is between them is not looked at, since every such authority is refused below.
\<close>

record url =
  scheme :: string
  netloc :: string
  upath :: string
  query :: string
  fragment :: string

definition cut :: "char \<Rightarrow> string \<Rightarrow> string \<times> string" where
  "cut c s = (takeWhile (\<lambda>x. x \<noteq> c) s, drop 1 (dropWhile (\<lambda>x. x \<noteq> c) s))"

definition url_scheme :: "string \<Rightarrow> string \<times> string" where
  "url_scheme s =
     (let (a, r) = cut CHR '':'' s in
      if a \<noteq> [] \<and> CHR '':'' \<in> set s \<and> hd a \<in> set letters \<and> set a \<subseteq> set (alnum @ ''+-.'') then (byte_lower a, r) else ([], s))"

definition urlsplit :: "string \<Rightarrow> url res" where
  "urlsplit text =
     (let clean = filter (\<lambda>c. c \<notin> {CHR 0x09, CR, LF}) (dropWhile (\<lambda>c. of_char c \<le> (32::nat)) text);
          (s, r) = url_scheme clean;
          (n, r2) = (if startswith r ''//'' then (takeWhile (\<lambda>c. c \<notin> set ''/?#'') (drop 2 r), dropWhile (\<lambda>c. c \<notin> set ''/?#'') (drop 2 r)) else ([], r));
          (r3, f) = cut CHR ''#'' r2;
          (p, q) = cut CHR ''?'' r3
      in guard ((CHR ''['' \<in> set n) = (CHR '']'' \<in> set n)) (ValueError ''Invalid IPv6 URL'')
           (Inr \<lparr>scheme = s, netloc = n, upath = p, query = q, fragment = f\<rparr>))"

text \<open>\<open>parse_qs(query, strict_parsing=True, keep_blank_values=True)\<close> as the list of its fields.\<close>

definition query_field :: "string \<Rightarrow> (string \<times> string) res" where
  "query_field nv =
     guard (CHR ''='' \<in> set nv) (ValueError ''bad query field'')
       (let plain = (\<lambda>t. unquote (map (\<lambda>c. if c = CHR ''+'' then CHR '' '' else c) t)); (n, v) = cut CHR ''='' nv in Inr (plain n, plain v))"

definition query_fields :: "string \<Rightarrow> (string \<times> string) list res" where
  "query_fields q = (if q = [] then Inr [] else mapres query_field (split CHR ''&'' q))"

definition fields_are :: "(string \<times> string) list \<Rightarrow> (string \<times> string) list \<Rightarrow> bool" where
  "fields_are fs wanted \<longleftrightarrow>
     (\<forall>f \<in> set fs. fst f \<in> set (map fst wanted)) \<and> (\<forall>e \<in> set wanted. map snd (filter (\<lambda>f. fst f = fst e) fs) = [snd e])"

text \<open>What the query of a next link must be, and the repository number of its path.\<close>

definition next_target :: "int \<Rightarrow> url \<Rightarrow> unit res" where
  "next_target page u =
     (if scheme u = ''https'' \<and> netloc u = ''api.github.com'' \<and> fragment u = []
      then bnd (query_fields (query u)) (\<lambda>fs.
        rc_require (fields_are fs [(''per_page'', ''100''), (''page'', str_int (page + 1))]) ''Unexpected create pagination target'')
      else Inl (ReleaseError ''Unexpected create pagination target''))"

definition numeric_path :: "string \<Rightarrow> string \<Rightarrow> int res" where
  "numeric_path path p =
     (let n = takeWhile (\<lambda>c. c \<noteq> CHR ''/'') (drop 14 p) in
      checks [rc_require (startswith p ''/repositories/'' \<and> rx_match pos_int_rx n \<and> drop (14 + length n) p = ''/'' @ path)
                ''Unexpected create pagination path''] (Inr (int (nat_of_digits n))))"

text \<open>The number of the repository, read once.\<close>

definition known_repository :: "'w storage \<Rightarrow> ('w, int) rb_act" where
  "known_repository h =
     act_bind self (\<lambda>s.
     case repository_id s of
       Some n \<Rightarrow> ret n
     | None \<Rightarrow>
         act_bind (rb_json h []) (\<lambda>info.
         let name = dget (the_dict info) ''full_name'' JNull; n = dget (the_dict info) ''id'' JNull in
         act_then (lift (checks [rc_require (is_dict info) ''Invalid readback repository metadata'',
                                 rc_require (is_str name \<and> rx_match REPO_RX (the_str name) \<and> byte_lower (the_str name) = byte_lower (repo h)
                                    \<and> is_int n \<and> 0 < the_int n) ''Create readback repository identity changed''] (Inr ())))
         (act_then (update (\<lambda>s. s\<lparr>repository_id := Some (the_int n)\<rparr>)) (ret (the_int n)))))"

text \<open>One link: whether it points to the next page.\<close>

definition check_link :: "'w storage \<Rightarrow> string \<Rightarrow> int \<Rightarrow> string \<Rightarrow> ('w, bool) rb_act" where
  "check_link h path page link =
     act_then (lift (rc_require (rx_match link_rx link) ''Invalid create pagination link''))
     (if link_rel link \<noteq> ''next'' then ret False
      else
        act_bind (lift (urlsplit (link_target link))) (\<lambda>u.
        act_then (lift (next_target page u))
        (if upath u = ''/repos/'' @ repo h @ ''/'' @ path then ret True
         else
           act_bind (lift (numeric_path path (upath u))) (\<lambda>n.
           act_bind (known_repository h) (\<lambda>known.
           act_then (lift (rc_require (n = known) ''Create pagination repository ID changed'')) (ret True))))))"

fun count_next :: "'w storage \<Rightarrow> string \<Rightarrow> int \<Rightarrow> string list \<Rightarrow> ('w, nat) rb_act" where
  "count_next h path page [] = ret 0"
| "count_next h path page (l # ls) =
     act_bind (check_link h path page l) (\<lambda>b.
     act_bind (count_next h path page ls) (\<lambda>n. ret (if b then Suc n else n)))"

section \<open>Pages\<close>

fun new_records :: "int list \<Rightarrow> json list \<Rightarrow> int list res" where
  "new_records seen [] = Inr seen"
| "new_records seen (v # vs) =
     checks [rc_require (is_dict v) ''Invalid create inventory record'']
      (bnd (rc_positive (dget (the_dict v) ''id'' JNull) ''inventory ID'') (\<lambda>n.
       checks [rc_require (n \<notin> set seen) ''Duplicate create inventory ID''] (new_records (n # seen) vs)))"

text \<open>One page: its records, the numbers seen so far, and whether another page follows.\<close>

definition page_step :: "'w storage \<Rightarrow> string \<Rightarrow> int \<Rightarrow> int list \<Rightarrow> ('w, json list \<times> int list \<times> bool) rb_act" where
  "page_step h path page seen =
     act_bind (rb_get h (path @ ''?per_page=100&page='' @ str_int page)) (\<lambda>(values, head).
     act_then (lift (rc_require (is_list values \<and> length (the_list values) \<le> 100) ''Invalid create inventory page''))
     (act_bind (lift (new_records seen (the_list values))) (\<lambda>seen'.
      act_then (lift (rc_require (length (link_values head) \<le> 1) ''Duplicate pagination header''))
      (act_bind (case link_values head of [] \<Rightarrow> ret 0
                 | l # _ \<Rightarrow> act_then (lift (ensure (\<forall>c \<in> set l. of_char c < (128::nat)) (ValueError ''UnicodeDecodeError'')))
                             (count_next h path page (split CHR '','' l))) (\<lambda>links.
       act_then (lift (rc_require (links \<le> 1) ''Duplicate next-page link''))
       (if links = 0 \<and> length (the_list values) < 100 then ret (the_list values, seen', False)
        else act_then (lift (rc_require (the_list values \<noteq> []) ''Empty create inventory page has a successor''))
               (ret (the_list values, seen', True))))))))"

text \<open>Every page costs a request, and a hundred are allowed.\<close>

definition counts :: "nat \<Rightarrow> ('w, 'a) rb_act \<Rightarrow> bool" where
  "counts k m \<longleftrightarrow> (\<forall>sw x sw'. m sw = (Inr x, sw') \<longrightarrow> rb_calls (fst sw) + int k \<le> rb_calls (fst sw'))"

lemma counts_bind: "counts k m \<Longrightarrow> (\<And>x. counts 0 (f x)) \<Longrightarrow> counts k (act_bind m f)"
  unfolding counts_def by (fastforce simp: act_bind_Inr)

lemma counts_bind2: "counts 0 m \<Longrightarrow> (\<And>x. counts k (f x)) \<Longrightarrow> counts k (act_bind m f)"
  unfolding counts_def by (fastforce simp: act_bind_Inr)

lemma counts_weaken: "counts k m \<Longrightarrow> j \<le> k \<Longrightarrow> counts j m"
  unfolding counts_def by fastforce

lemma counts_zero:
  "counts 0 (ret x)" "counts 0 (Pair r)" "counts 0 (lift r)" "counts 0 (outside a)" "counts 0 self"
  "counts 0 (update (\<lambda>s. s\<lparr>rb_remaining := f s\<rparr>))" "counts 0 (update (\<lambda>s. s\<lparr>repository_id := g s\<rparr>))"
  by (auto simp: counts_def outside_def split: prod.splits)

lemma counts_check: "counts 0 (rb_check h)"
  unfolding rb_check_def act_then_def by (intro counts_bind counts_zero)

lemma counts_answer: "counts 0 (rb_answer h p)"
  unfolding rb_answer_def act_then_def
  by (cases p) (auto intro!: counts_bind counts_zero counts_check)

lemma counts_get: "counts 1 (rb_get h path)"
proof -
  have "counts 1 (update (\<lambda>s. s\<lparr>rb_calls := rb_calls s + 1\<rparr>))" by (simp add: counts_def)
  then show ?thesis
    unfolding rb_get_def act_then_def
    by (intro counts_bind2 [OF counts_zero(3)] counts_bind [where k = 1] counts_bind [where k = 0] counts_zero counts_check counts_answer)
qed

lemma counts_json: "counts 0 (rb_json h path)"
  unfolding rb_json_def
  by (intro counts_bind counts_zero counts_weaken [OF counts_get]) simp

lemma counts_known: "counts 0 (known_repository h)"
  unfolding known_repository_def act_then_def Let_def
  by (intro counts_bind counts_zero) (auto split: option.splits intro!: counts_bind counts_zero counts_json)

lemma counts_link: "counts 0 (check_link h path page link)"
  unfolding check_link_def act_then_def
  by (auto intro!: counts_bind counts_zero counts_known)

lemma counts_next: "counts 0 (count_next h path page links)"
  by (induction links) (auto intro!: counts_bind counts_zero counts_link)

lemma counts_page_step: "counts 1 (page_step h path page seen)"
  unfolding page_step_def act_then_def
  by (intro counts_bind [OF counts_get]) (auto intro!: counts_bind counts_zero counts_next split: list.splits)

lemma page_step_room: "page_step h path page seen sw = (Inr x, sw') \<Longrightarrow> rb_calls (fst sw) < 100"
  unfolding page_step_def rb_get_def
  by (auto simp: act_bind_Inr act_then_Inr)

lemma page_step_calls:
  assumes "page_step h path page seen sw = (Inr x, sw')"
  shows "nat (101 - rb_calls (fst sw')) < nat (101 - rb_calls (fst sw))"
proof -
  have "rb_calls (fst sw) + int 1 \<le> rb_calls (fst sw')"
    using counts_page_step [of h path page seen] assms unfolding counts_def by blast
  then show ?thesis using page_step_room [OF assms] by simp
qed

function rb_pages_from :: "'w storage \<Rightarrow> string \<Rightarrow> int \<Rightarrow> json list \<Rightarrow> int list \<Rightarrow> ('w, json list) rb_act" where
  "rb_pages_from h path page acc seen sw =
     (case page_step h path page seen sw of
        (Inl e, sw') \<Rightarrow> (Inl e, sw')
      | (Inr (values, seen', again), sw') \<Rightarrow>
          if again then rb_pages_from h path (page + 1) (acc @ values) seen' sw' else (Inr (acc @ values), sw'))"
  by pat_completeness auto

termination
proof (relation "measure (\<lambda>(_, _, _, _, _, sw). nat (101 - rb_calls (fst sw)))", goal_cases)
  case (2 h path page acc seen sw r sw' x vs y seen' again)
  then have "page_step h path page seen sw = (Inr (vs, seen', again), sw')" by simp
  from page_step_calls [OF this] show ?case by simp
qed simp

declare rb_pages_from.simps [simp del]

definition rb_pages :: "'w storage \<Rightarrow> string \<Rightarrow> ('w, json list) rb_act" where
  "rb_pages h path = rb_pages_from h path 1 [] []"

section \<open>Reconciliation\<close>

text \<open>\<open>{row["id"]: row.get("tag_name") for row in ...}\<close> of two inventories is equal; the rows are objects.\<close>

definition inventory :: "json list \<Rightarrow> (json \<times> json) list" where
  "inventory rows = map (\<lambda>r. (dget (the_dict r) ''id'' JNull, dget (the_dict r) ''tag_name'' JNull)) rows"

definition same_inventory :: "json list \<Rightarrow> json list \<Rightarrow> bool" where
  "same_inventory a b \<longleftrightarrow>
     length a = length b
     \<and> list_all (\<lambda>(k, v). case map_of (inventory b) k of None \<Rightarrow> False | Some v' \<Rightarrow> py_eq v v') (inventory a)"

definition tagged :: "json \<Rightarrow> json list \<Rightarrow> json list" where
  "tagged tag rows = filter (\<lambda>r. dget (the_dict r) ''tag_name'' JNull = tag) rows"

definition matches_release_api_url :: "json \<Rightarrow> string \<Rightarrow> int \<Rightarrow> bool" where
  "matches_release_api_url v repository release_id \<longleftrightarrow>
     (let prefix = ''https://api.github.com/repos/''; suffix = ''/releases/'' @ str_int release_id; u = the_str v;
          actual = take (length u - length prefix - length suffix) (drop (length prefix) u) in
      is_str v \<and> startswith u prefix \<and> endswith u suffix \<and> rx_match REPO_RX actual \<and> byte_lower actual = byte_lower repository)"

text \<open>A draft that is exactly the requested one and still empty.\<close>

definition checked_release :: "string \<Rightarrow> members \<Rightarrow> int \<Rightarrow> json \<Rightarrow> members res" where
  "checked_release repository payload release_id v =
     (let m = the_dict v in
      checks
       [rc_require (is_dict v) ''Invalid create readback release'',
        rc_require (dget m ''id'' JNull = JInt release_id
           \<and> matches_release_api_url (dget m ''url'' JNull) repository release_id
           \<and> dget m ''published_at'' JNull = JNull \<and> has_key m ''published_at''
           \<and> dget m ''assets'' JNull = JArr []
           \<and> is_dict (dget m ''author'' JNull)
           \<and> list_all (\<lambda>(key, e). key = ''make_latest'' \<or> dget m key JNull = e) payload)
          ''Create readback release differs from the exact request'',
        ignore (rc_positive (dget (the_dict (dget m ''author'' JNull)) ''id'' JNull) ''release author ID'')]
       (Inr m))"

definition author :: "members \<Rightarrow> json" where
  "author m = dget m ''author'' JNull"

definition tag_object_ok :: "json \<Rightarrow> json \<Rightarrow> json \<Rightarrow> bool" where
  "tag_object_ok ref tag sha \<longleftrightarrow>
     (let m = the_dict ref; object = dget m ''object'' JNull in
      is_dict ref \<and> dget m ''ref'' JNull = JStr (''refs/tags/'' @ the_str tag) \<and> is_dict object
      \<and> dget (the_dict object) ''type'' JNull = JStr ''commit'' \<and> dget (the_dict object) ''sha'' JNull = sha)"

definition require_same_author :: "members \<Rightarrow> members \<Rightarrow> string \<Rightarrow> ('w, unit) rb_act" where
  "require_same_author a b message = lift (rc_require (py_eq (author a) (author b)) message)"

definition read_release :: "'w storage \<Rightarrow> members \<Rightarrow> int \<Rightarrow> ('w, members) rb_act" where
  "read_release h payload n =
     act_bind (rb_json h (''releases/'' @ str_int n)) (\<lambda>v. lift (checked_release (repo h) payload n v))"

definition require_no_assets :: "'w storage \<Rightarrow> int \<Rightarrow> string \<Rightarrow> ('w, unit) rb_act" where
  "require_no_assets h n message =
     act_bind (rb_pages h (''releases/'' @ str_int n @ ''/assets'')) (\<lambda>rows. lift (rc_require (rows = []) message))"

text \<open>The two inventories, and the draft that both list, with its number.\<close>

definition listed_draft :: "'w storage \<Rightarrow> members \<Rightarrow> ('w, int \<times> members) rb_act" where
  "listed_draft h payload =
     act_bind (rb_pages h ''releases'') (\<lambda>first.
     act_bind (rb_pages h ''releases'') (\<lambda>second. lift (
       let tag = dget payload ''tag_name'' JNull in
       checks [rc_require (same_inventory first second) ''Release inventory changed during readback'',
               rc_require (length (tagged tag second) = 1) ''Create readback requires one matching release'']
        (bnd (rc_positive (dget (the_dict (hd (tagged tag second))) ''id'' JNull) ''release ID'') (\<lambda>n.
         checks [rc_require (length (tagged tag first) = 1) ''Create readback original inventory is contradictory'']
          (bnd (checked_release (repo h) payload n (hd (tagged tag second))) (\<lambda>listed.
           bnd (checked_release (repo h) payload n (hd (tagged tag first))) (\<lambda>original.
           checks [rc_require (py_eq (author original) (author listed)) ''Create readback listed author changed'']
            (Inr (n, listed))))))))))"

definition reconcile_in :: "'w storage \<Rightarrow> members \<Rightarrow> ('w, unit) rb_act \<Rightarrow> ('w, members) rb_act" where
  "reconcile_in h payload confirm =
     act_then confirm
     (act_bind (listed_draft h payload) (\<lambda>(n, listed).
      act_bind (read_release h payload n) (\<lambda>release.
      act_then (require_same_author release listed ''Create readback author differs from inventory'')
      (act_then (require_no_assets h n ''Create readback draft is not empty'')
      (act_bind (rb_json h (''git/ref/tags/'' @ the_str (dget payload ''tag_name'' JNull))) (\<lambda>ref.
       act_then (lift (rc_require (tag_object_ok ref (dget payload ''tag_name'' JNull) (dget payload ''target_commitish'' JNull))
          ''Create readback tag source changed''))
       (act_then confirm
        (act_bind (read_release h payload n) (\<lambda>final.
         act_then (require_same_author final release ''Create readback author changed'')
         (act_then (require_no_assets h n ''Create readback draft gained assets'')
          (act_bind (rb_check h) (\<lambda>_. ret final))))))))))))"

definition reconcile_created_release :: "'w storage \<Rightarrow> members \<Rightarrow> ('w, unit) rb_act \<Rightarrow> ('w, members) act" where
  "reconcile_created_release h payload confirm =
     act_bind (new_readback h) (\<lambda>s w. case reconcile_in h payload confirm (s, w) of (r, (s', w')) \<Rightarrow> (r, w'))"

end
