(* ===== verification/Create_Readback_Facts.thy ===== *)
theory Create_Readback_Facts
  imports Create_Readback
begin

text \<open>
  Facts of the readback: whatever GitHub answers it ends after at most a hundred requests, and the draft it
  accepts is exactly the requested one.
\<close>

section \<open>Invariants of the readback\<close>

text \<open>
  A predicate of the readback and the world that a single request, the check of the deadline and the note of
  the repository number keep holds throughout a reconciliation, however the pages are linked.
\<close>

locale readback_invariant =
  fixes h :: "'w storage" and P :: "readback \<times> 'w \<Rightarrow> bool"
  assumes check: "keeps P (rb_check h)"
    and get: "keeps P (rb_get h path)"
    and noted: "keeps P (update (\<lambda>s. s\<lparr>repository_id := g s\<rparr>))"
begin

lemma json: "keeps P (rb_json h path)"
  unfolding rb_json_def by (intro keeps_intros get)

lemma known: "keeps P (known_repository h)"
  unfolding known_repository_def Let_def
  by (intro keeps_bind keeps_self) (auto split: option.splits intro!: keeps_intros json noted)

lemma links: "keeps P (count_next h path page ls)"
  by (induction ls) (auto simp: check_link_def intro!: keeps_intros known)

lemma page: "keeps P (page_step h path n seen)"
  unfolding page_step_def
  by (intro keeps_bind get) (auto split: list.splits intro!: keeps_intros links)

lemma pages_from:
  assumes "P sw" shows "P (snd (rb_pages_from h path n acc seen sw))"
proof -
  have "h' = h \<Longrightarrow> P sw \<Longrightarrow> P (snd (rb_pages_from h' path n acc seen sw))" for h'
  proof (induction h' path n acc seen sw rule: rb_pages_from.induct)
    case (1 h' path n acc seen sw)
    obtain r sw' where step: "page_step h path n seen sw = (r, sw')" by (metis prod.exhaust)
    have "P sw'" using keepsD [OF page "1.prems"(2) step] .
    then show ?case
      using "1.IH" "1.prems"(1) step by (simp add: rb_pages_from.simps [of h path n acc seen sw] split: sum.splits)
  qed
  then show ?thesis using assms by blast
qed

lemma pages: "keeps P (rb_pages h path)"
  unfolding rb_pages_def keeps_def using pages_from by blast

lemma reconcile: "keeps P confirm \<Longrightarrow> keeps P (reconcile_in h payload confirm)"
  unfolding reconcile_in_def listed_draft_def read_release_def require_same_author_def require_no_assets_def
  by (auto intro!: keeps_intros pages json check)

end

section \<open>Requests\<close>

text \<open>\<open>c\<close> counts the runs of a program; a run adds one and the clock none.\<close>

definition counter_laws :: "'w storage \<Rightarrow> ('w \<Rightarrow> nat) \<Rightarrow> bool" where
  "counter_laws h c \<longleftrightarrow>
     (\<forall>cmd input limit w. c (snd (run_proc h cmd input limit w)) = c w + 1) \<and> (\<forall>w. c (snd (clock h w)) = c w)"

definition charged :: "('w \<Rightarrow> nat) \<Rightarrow> int \<Rightarrow> readback \<times> 'w \<Rightarrow> bool" where
  "charged c k sw \<longleftrightarrow> 0 \<le> rb_calls (fst sw) \<and> int (c (snd sw)) \<le> k + min 100 (rb_calls (fst sw))"

lemma same_calls_charged:
  assumes "\<And>s w. rb_calls (fst (snd (m (s, w)))) = rb_calls s \<and> c (snd (snd (m (s, w)))) = c w"
  shows "keeps (charged c k) m"
  using assms unfolding keeps_def charged_def by (metis prod.collapse)

lemma clock_charged: "counter_laws h c \<Longrightarrow> keeps (charged c k) (outside (clock h))"
  by (rule same_calls_charged) (auto simp: counter_laws_def outside_def split: prod.split, metis snd_conv)

lemma update_charged:
  "keeps (charged c k) (update (\<lambda>s. s\<lparr>rb_remaining := f s\<rparr>))" "keeps (charged c k) (update (\<lambda>s. s\<lparr>repository_id := g s\<rparr>))"
  by (rule same_calls_charged, simp)+

lemma check_charged: "counter_laws h c \<Longrightarrow> keeps (charged c k) (rb_check h)"
  unfolding rb_check_def by (intro keeps_intros clock_charged)

lemma answer_charged: "counter_laws h c \<Longrightarrow> keeps (charged c k) (rb_answer h p)"
  unfolding rb_answer_def by (cases p) (auto intro!: keeps_intros check_charged update_charged)

text \<open>The check of the deadline runs no program.\<close>

lemma check_same:
  assumes "counter_laws h c" and "rb_check h (s, w) = (r, sw)"
  shows "fst sw = s \<and> c (snd sw) = c w"
proof -
  obtain x w1 where t: "clock h w = (x, w1)" by fastforce
  then have "c w1 = c w" using assms(1) unfolding counter_laws_def by (metis snd_conv)
  then show ?thesis using assms(2) t
    by (cases x) (auto simp: rb_check_def act_bind_def act_then_def outside_def split: sum.splits)
qed

lemma get_charged:
  assumes "counter_laws h c" shows "keeps (charged c k) (rb_get h path)"
  unfolding keeps_def
proof (intro allI impI)
  fix sw :: "readback \<times> 'a" assume ch: "charged c k sw"
  obtain s w where sw: "sw = (s, w)" by fastforce
  define s1 where "s1 = s\<lparr>rb_calls := rb_calls s + 1\<rparr>"
  obtain r s2 w2 where check: "rb_check h (s1, w) = (r, (s2, w2))" by (metis prod.collapse)
  then have same: "s2 = s1" "c w2 = c w" using check_same [OF assms check] by auto
  define p where "p rem = fst (run_proc h (rb_argv h path) None (Some (min API_READ_TIMEOUT rem)) w2)" for rem
  define w3 where "w3 rem = snd (run_proc h (rb_argv h path) None (Some (min API_READ_TIMEOUT rem)) w2)" for rem
  have run: "run_proc h (rb_argv h path) None (Some (min API_READ_TIMEOUT rem)) w2 = (p rem, w3 rem)" for rem
    by (simp add: p_def w3_def)
  then have c3: "c (w3 rem) = c w2 + 1" for rem using assms unfolding counter_laws_def by (metis snd_conv)
  show "charged c k (snd (rb_get h path sw))"
  proof (cases "(list_ex (\<lambda>r. rx_match r path) GET_ROUTES \<or> rx_match page_path_rx path) \<and> no_traversal path \<and> rb_calls s + 1 \<le> 100")
    case False
    then show ?thesis using ch
      by (auto simp: sw rb_get_def act_then_def act_bind_def checks_Cons rc_require_def ensure_def charged_def)
  next
    case True
    then have get: "rb_get h path sw = (case r of Inl e \<Rightarrow> (Inl e, (s2, w2)) | Inr rem \<Rightarrow>
        (case p rem of Inl e \<Rightarrow> (Inl e, (s2, w3 rem)) | Inr q \<Rightarrow> rb_answer h q (s2, w3 rem)))"
      using check run by (simp add: sw rb_get_def act_then_def act_bind_def checks_Cons rc_require_def ensure_def s1_def outside_def
        split: sum.splits)
    have "charged c k (s2, w2)" "charged c k (s2, w3 rem)" for rem
      using ch True same c3 [of rem] by (auto simp: sw charged_def s1_def)
    then show ?thesis
      using get keepsD [OF answer_charged [OF assms]] by (auto split: sum.splits) (metis prod.collapse)
  qed
qed

interpretation charging: readback_invariant h "\<lambda>sw. counter_laws h c \<longrightarrow> charged c k sw" for h c k
  by unfold_locales (simp_all add: keeps_given_iff check_charged get_charged update_charged)

text \<open>
  C33: The reconciliation of an ambiguous create call ends, whatever GitHub answers: pagination follows at
  most as many pages as there are requests left, and all reads together, those of the caller's confirmations
  through the same readback included, run the program at most a hundred times.
\<close>

theorem reconcile_requests_bounded:
  assumes "counter_laws h c" and "\<And>k. keeps (charged c k) confirm"
  shows "c (snd (reconcile_created_release h payload confirm w)) \<le> c w + 100"
proof -
  obtain r w1 where new: "new_readback h w = (r, w1)" by fastforce
  have cl: "c (snd (clock h w)) = c w" using assms(1) by (simp add: counter_laws_def)
  have "c w1 = c w \<and> (\<forall>s. r = Inr s \<longrightarrow> rb_calls s = 0)"
    using new cl by (auto simp: new_readback_def act_then_def act_bind_def rc_require_def ensure_def split: if_splits prod.splits sum.splits)
  moreover have "c (snd (snd (reconcile_in h payload confirm (s, w1)))) \<le> c w1 + 100" if "rb_calls s = 0" for s
  proof -
    have "charged c (int (c w1)) (s, w1)" using that by (simp add: charged_def)
    then have "charged c (int (c w1)) (snd (reconcile_in h payload confirm (s, w1)))"
      using charging.reconcile [of h c "int (c w1)" confirm payload] assms by (simp add: keeps_given_iff) (simp add: keeps_def)
    then show ?thesis by (auto simp: charged_def)
  qed
  ultimately show ?thesis
    using new by (auto simp: reconcile_created_release_def act_bind_def split: sum.splits prod.splits) (metis snd_conv)
qed

section \<open>The accepted draft\<close>

lemma checked_release_Inr:
  assumes "checked_release repository payload n v = Inr m"
  shows "v = JObj m \<and> dget m ''id'' JNull = JInt n \<and> matches_release_api_url (dget m ''url'' JNull) repository n
    \<and> dget m ''published_at'' JNull = JNull \<and> dget m ''assets'' JNull = JArr []
    \<and> (\<forall>(key, e) \<in> set payload. key \<noteq> ''make_latest'' \<longrightarrow> dget m key JNull = e)"
  using assms unfolding checked_release_def Let_def
  by (cases v) (auto simp: checks_Cons rc_require_def ensure_def list_all_iff split: if_splits)

text \<open>
  C34: A draft that reconciliation accepts is exactly the requested one.  Two equal inventories list its tag
  once; the release that was read last has the number listed there, is unpublished, has no assets and agrees
  with the request in every field but \<open>make_latest\<close>; the tag still pointed to the requested commit, and the
  caller confirmed its state before the inventories and again after the tag was read.
\<close>

theorem reconciled_draft_exact:
  assumes "reconcile_created_release h payload confirm w = (Inr m, w')"
  shows "\<exists>n first second. same_inventory first second
    \<and> (\<exists>row. tagged (dget payload ''tag_name'' JNull) second = [row] \<and> rc_positive (dget (the_dict row) ''id'' JNull) ''release ID'' = Inr n)
    \<and> dget m ''id'' JNull = JInt n \<and> matches_release_api_url (dget m ''url'' JNull) (repo h) n
    \<and> dget m ''published_at'' JNull = JNull \<and> dget m ''assets'' JNull = JArr []
    \<and> (\<forall>(key, e) \<in> set payload. key \<noteq> ''make_latest'' \<longrightarrow> dget m key JNull = e)
    \<and> (\<exists>sw0 sw1 sw2 sw3 ref. confirm sw0 = (Inr (), sw1) \<and> rb_pages h ''releases'' sw1 = (Inr first, sw2)
        \<and> rb_pages h ''releases'' sw2 = (Inr second, sw3)
        \<and> (\<exists>sw4 sw5 sw6. rb_json h (''git/ref/tags/'' @ the_str (dget payload ''tag_name'' JNull)) sw4 = (Inr ref, sw5)
             \<and> tag_object_ok ref (dget payload ''tag_name'' JNull) (dget payload ''target_commitish'' JNull)
             \<and> confirm sw5 = (Inr (), sw6)))"
proof -
  obtain s w1 s' where run: "reconcile_in h payload confirm (s, w1) = (Inr m, (s', w'))"
    using assms unfolding reconcile_created_release_def act_bind_Inr by (force split: prod.splits)
  then obtain sw1 sw3 n listed sw4 sw5 ref sw6 sw7 v sw8 where
      c1: "confirm (s, w1) = (Inr (), sw1)" and listed: "listed_draft h payload sw1 = (Inr (n, listed), sw3)"
      and tag: "rb_json h (''git/ref/tags/'' @ the_str (dget payload ''tag_name'' JNull)) sw4 = (Inr ref, sw5)"
      and ok: "tag_object_ok ref (dget payload ''tag_name'' JNull) (dget payload ''target_commitish'' JNull)"
      and c2: "confirm sw5 = (Inr (), sw6)" and final: "checked_release (repo h) payload n v = Inr m"
    unfolding reconcile_in_def read_release_def act_then_Inr act_bind_Inr
    by (elim exE conjE) (auto simp: act_then_Inr act_bind_Inr)
  from listed obtain first sw2 second where
      first: "rb_pages h ''releases'' sw1 = (Inr first, sw2)" and second: "rb_pages h ''releases'' sw2 = (Inr second, sw3)"
      and same: "same_inventory first second" and one: "length (tagged (dget payload ''tag_name'' JNull) second) = 1"
      and n: "rc_positive (dget (the_dict (hd (tagged (dget payload ''tag_name'' JNull) second))) ''id'' JNull) ''release ID'' = Inr n"
    unfolding listed_draft_def act_bind_Inr Let_def
    by (elim exE conjE) (auto simp: checks_Cons)
  have trace: "\<exists>sw0 sw1 sw2 sw3 ref. confirm sw0 = (Inr (), sw1) \<and> rb_pages h ''releases'' sw1 = (Inr first, sw2)
        \<and> rb_pages h ''releases'' sw2 = (Inr second, sw3)
        \<and> (\<exists>sw4 sw5 sw6. rb_json h (''git/ref/tags/'' @ the_str (dget payload ''tag_name'' JNull)) sw4 = (Inr ref, sw5)
             \<and> tag_object_ok ref (dget payload ''tag_name'' JNull) (dget payload ''target_commitish'' JNull)
             \<and> confirm sw5 = (Inr (), sw6))"
    using c1 first second tag ok c2 by blast
  obtain row where row: "tagged (dget payload ''tag_name'' JNull) second = [row]"
    using one by (auto simp: length_Suc_conv)
  then have n: "rc_positive (dget (the_dict row) ''id'' JNull) ''release ID'' = Inr n" using n by simp
  note same_draft = checked_release_Inr [OF final]
  show ?thesis
    by (rule exI [of _ n], rule exI [of _ first], rule exI [of _ second], intro conjI same exI [of _ row] row n trace)
      (use same_draft in simp_all)
qed

end
