(* ===== verification/Create_Readback_Runs.thy ===== *)
theory Create_Readback_Runs
  imports Create_Readback_Facts
begin

text \<open>A concrete reconciliation of an ambiguous create call, for the properties of \<open>Create_Readback_Facts\<close>.\<close>

section \<open>A concrete reconciliation\<close>

text \<open>A GitHub that gives fixed answers; the world counts the runs.\<close>

definition crlf :: string where "crlf = [CR, LF]"

definition answer_text :: "string \<Rightarrow> string \<Rightarrow> string" where
  "answer_text headers body = ''HTTP/2.0 200 OK'' @ crlf @ headers @ crlf @ dq body"

definition first_link :: string where
  "first_link = dq ''Link: <https://api.github.com/x>; rel=`first`'' @ crlf"

definition draft_text :: string where
  "draft_text = ''{`id`:5,`tag_name`:`v1.2.3`,`target_commitish`:`c`,`draft`:true,`published_at`:null,`assets`:[],`author`:{`id`:1},`url`:`https://api.github.com/repos/O/r/releases/5`}''"

definition readback_answers :: "(string \<times> string) list" where
  "readback_answers =
     [(''repos/o/r/releases?per_page=100&page=1'', answer_text first_link (''['' @ draft_text @ '']'')),
      (''repos/o/r/releases/5'', answer_text [] draft_text),
      (''repos/o/r/releases/5/assets?per_page=100&page=1'', answer_text [] ''[]''),
      (''repos/o/r/git/ref/tags/v1.2.3'', answer_text [] ''{`ref`:`refs/tags/v1.2.3`,`object`:{`type`:`commit`,`sha`:`c`}}'')]"

definition readback_host :: "nat storage" where
  "readback_host =
     \<lparr>repo = ''o/r'', run_proc = (\<lambda>cmd _ _ n. (Inr (case map_of readback_answers (last cmd) of None \<Rightarrow> Completed 1 [] [] | Some t \<Rightarrow> Completed 0 t []), n + 1)),
      pause = (\<lambda>_. ret ()), json_float_text = (\<lambda>s. s),
      clock = ret 0, draw_delay = (\<lambda>_. ret 1), sleep_for = (\<lambda>_. ret ()), free_bytes = ret 100, open_output = ret (),
      remove_output = ret (), disk_write = (\<lambda>c. ret (int (length c))), truncate_output = ret (),
      same_file = ret True, start_transfer = (\<lambda>_. ret []), reap = ret True\<rparr>"

definition readback_payload :: members where
  "readback_payload = [(''tag_name'', JStr ''v1.2.3''), (''target_commitish'', JStr ''c''), (''draft'', JBool True), (''make_latest'', JStr ''false'')]"

lemma readback_run:
  "reconcile_created_release readback_host readback_payload (ret ()) 0
     = (Inr [(''id'', JInt 5), (''tag_name'', JStr ''v1.2.3''), (''target_commitish'', JStr ''c''), (''draft'', JBool True), (''published_at'', JNull),
             (''assets'', JArr []), (''author'', JObj [(''id'', JInt 1)]), (''url'', JStr ''https://api.github.com/repos/O/r/releases/5'')], 7)"
  by code_simp

lemma readback_counter: "counter_laws readback_host (\<lambda>n. n)"
  by (simp add: counter_laws_def readback_host_def)

theorem reconcile_requests_bounded_witness:
  "snd (reconcile_created_release readback_host readback_payload (ret ()) 0) = 7 \<and> (7 :: nat) \<le> 0 + 100"
  using reconcile_requests_bounded [OF readback_counter keeps_ret, of readback_payload "()" 0] readback_run by simp

theorem reconciled_draft_exact_witness:
  "\<exists>m n. reconcile_created_release readback_host readback_payload (ret ()) 0 = (Inr m, 7) \<and> dget m ''id'' JNull = JInt n
     \<and> dget m ''tag_name'' JNull = JStr ''v1.2.3''"
  using reconciled_draft_exact [OF readback_run] readback_run by (auto simp: readback_payload_def dget_def)

end
