(* ===== verification/Publication.thy ===== *)
theory Publication
  imports Create_Readback
begin

text \<open>
  The publication transaction of \<open>scripts/release_control.py\<close>: the checks of token, repository and
  workflows, the staging of assets, and \<open>_publish_prepared\<close>, which creates a tag and a draft, uploads and
  reads back every byte and only then makes the release public.  The files of the private staging directory
  are a list in directory order; printing is left out.
\<close>

definition rest :: "'w storage \<Rightarrow> 'w client" where
  "rest h = gh_client (transport.truncate h)"

section \<open>Token and repository\<close>

text \<open>\<open>str.splitlines\<close> and the scopes that the header lines of the answer grant.\<close>

definition line_end :: "char \<Rightarrow> bool" where
  "line_end c \<longleftrightarrow> of_char c \<in> {10, 11, 12, 13, 28, 29, 30, 133 :: nat}"

fun text_lines :: "string \<Rightarrow> string list" where
  "text_lines [] = []"
| "text_lines (c # s) =
     (if c = CR \<and> startswith s [LF] then [] # text_lines (tl s)
      else if line_end c then [] # text_lines s
      else (case text_lines s of [] \<Rightarrow> [[c]] | l # ls \<Rightarrow> (c # l) # ls))"

fun unix_ends :: "string \<Rightarrow> string" where
  "unix_ends [] = []"
| "unix_ends (c # s) = (if c = CR \<and> startswith s [LF] then unix_ends s else c # unix_ends s)"

text \<open>\<open>partition(b"\n\n")\<close>: the head and what follows, when there is a blank line.\<close>

fun blank_partition :: "string \<Rightarrow> (string \<times> string) option" where
  "blank_partition [] = None"
| "blank_partition (c # s) =
     (if startswith (c # s) [LF, LF] then Some ([], drop 1 s) else map_option (\<lambda>(a, b). (c # a, b)) (blank_partition s))"

definition line_scopes :: "string \<Rightarrow> string list" where
  "line_scopes line =
     (let (key, v) = cut CHR '':'' line in
      if CHR '':'' \<in> set line \<and> lower key = ''x-oauth-scopes'' then map (strip text_space) (split CHR '','' v) else [])"

definition scope_checks :: "string \<Rightarrow> string \<Rightarrow> json \<Rightarrow> unit res" where
  "scope_checks repository headers v =
     (let m = the_dict v; scopes = concat (map line_scopes (text_lines headers)) in
      checks
       [rc_require (is_dict v \<and> is_str (dget m ''full_name'' JNull)
           \<and> lower (the_str (dget m ''full_name'' JNull)) = lower repository
           \<and> is_bool (dget m ''private'' JNull)
           \<and> is_dict (dget m ''permissions'' JNull)
           \<and> dget (the_dict (dget m ''permissions'' JNull)) ''push'' JNull = JBool True)
          ''Publication token cannot write the expected repository'',
        rc_require (''workflow'' \<in> set scopes
           \<and> (''repo'' \<in> set scopes \<or> (dget m ''private'' JNull = JBool False \<and> ''public_repo'' \<in> set scopes)))
          ''Publication token requires verified workflow and repo/public_repo OAuth scopes'']
       (Inr ()))"

text \<open>\<open>probe\<close> and \<open>token\<close> are the environment variables \<open>RELEASE_REQUIRE_WORKFLOW_SCOPE\<close> and \<open>GH_TOKEN\<close>, empty when unset.\<close>

definition verify_publication_permissions :: "'w storage \<Rightarrow> string \<Rightarrow> string \<Rightarrow> ('w, unit) act" where
  "verify_publication_permissions h probe credential =
     act_then (lift (rc_require (probe = ''true'' \<and> credential \<noteq> []) ''Publication token is missing or its permission probe is not enabled''))
     (act_bind (run_proc h [''gh'', ''api'', ''--hostname'', ''github.com'', ''--method'', ''GET'', ''--include'', ''--'', ''repos/'' @ repo h] None None)
       (\<lambda>p. lift (case p of
          Expired _ _ \<Rightarrow> Inl expired
        | Completed code stdout stderr \<Rightarrow>
            checks [rc_require (code = 0) ''Publication token permission probe failed'']
             (case blank_partition (unix_ends stdout) of
                None \<Rightarrow> Inl (ReleaseError ''Publication token permission headers are missing'')
              | Some (headers, body) \<Rightarrow> bnd (parse_json (json_float_text h) body) (scope_checks (repo h) headers)))))"

text \<open>\<open>GitHub(repository)\<close>: whether the workflow scope is verified.\<close>

definition init_github :: "'w storage \<Rightarrow> string \<Rightarrow> string \<Rightarrow> ('w, bool) act" where
  "init_github h probe credential =
     act_then (lift (rc_require (rx_match REPO_RX (repo h)) ''Repository must be OWNER/REPO''))
     (if probe = [] then ret False else act_then (verify_publication_permissions h probe credential) (ret True))"

definition repository_info :: "'w storage \<Rightarrow> ('w, members) act" where
  "repository_info h =
     act_bind (api (rest h) [] ''GET'' None) (\<lambda>info. lift (
       let m = the_dict info; name = dget m ''full_name'' (JStr []) in
       checks [rc_require (is_dict info) ''Invalid repository response'',
               ensure (is_str name) (AttributeError ''lower''),
               rc_require (lower (the_str name) = lower (repo h)) ''Repository identity mismatch'',
               rc_require (truthy (dget m ''default_branch'' JNull)) ''Repository has no default branch''] (Inr m)))"

section \<open>Workflows\<close>

definition is_sha :: "json \<Rightarrow> bool" where
  "is_sha v \<longleftrightarrow> is_str v \<and> rx_match (hex_rx 40) (the_str v)"

definition workflows_entry :: "json \<Rightarrow> bool" where
  "workflows_entry e \<longleftrightarrow>
     dget (the_dict e) ''name'' JNull = JStr ''workflows'' \<or> dget (the_dict e) ''path'' JNull = JStr ''.github/workflows''"

definition workflow_tree :: "'w storage \<Rightarrow> string \<Rightarrow> ('w, string) act" where
  "workflow_tree h sha =
     act_bind (api (rest h) (''contents/.github?ref='' @ sha) ''GET'' None) (\<lambda>entries. lift (
       let matches = filter workflows_entry (the_list entries); m = the_dict (hd matches) in
       checks
        [rc_require (is_list entries \<and> length (the_list entries) < 1000 \<and> list_all is_dict (the_list entries))
           ''Cannot verify the complete source .github directory'',
         rc_require (length matches = 1 \<and> dget m ''name'' JNull = JStr ''workflows'' \<and> dget m ''path'' JNull = JStr ''.github/workflows''
             \<and> dget m ''type'' JNull = JStr ''dir'' \<and> is_sha (dget m ''sha'' JNull))
           ''Cannot verify a regular source .github/workflows directory'']
        (Inr (the_str (dget m ''sha'' JNull)))))"

text \<open>A branch or tag reference that names a commit.\<close>

definition ref_commit :: "json \<Rightarrow> json" where
  "ref_commit ref = dget (the_dict (dget (the_dict ref) ''object'' JNull)) ''sha'' JNull"

definition branch_ref_ok :: "json \<Rightarrow> string \<Rightarrow> bool" where
  "branch_ref_ok ref branch \<longleftrightarrow>
     (let m = the_dict ref; object = dget m ''object'' JNull in
      is_dict ref \<and> dget m ''ref'' JNull = JStr (''refs/heads/'' @ branch) \<and> is_dict object
      \<and> dget (the_dict object) ''type'' JNull = JStr ''commit'' \<and> is_sha (ref_commit ref))"

definition check_workflow_publication :: "'w storage \<Rightarrow> bool \<Rightarrow> string \<Rightarrow> ('w, unit) act" where
  "check_workflow_publication h scope_verified sha =
     act_then (lift (rc_require (rx_match (hex_rx 40) sha) ''Invalid release source SHA''))
     (if scope_verified then ret ()
      else
        act_bind (repository_info h) (\<lambda>info.
        let default = dget info ''default_branch'' JNull; branch = the_str default; path = ''git/ref/heads/'' @ url_quote branch in
        act_then (lift (ensure (is_str default) (TypeError ''quote_from_bytes'')))
        (act_bind (api (rest h) path ''GET'' None) (\<lambda>ref.
         act_then (lift (rc_require (branch_ref_ok ref branch) ''Cannot verify default HEAD before release publication''))
         (let head = the_str (ref_commit ref) in
          if sha = head then ret ()
          else
            act_bind (workflow_tree h sha) (\<lambda>ours.
            act_bind (workflow_tree h head) (\<lambda>theirs.
            act_then (lift (rc_require (ours = theirs) ''Release source workflows differ from current default HEAD''))
            (act_bind (repository_info h) (\<lambda>again.
             act_bind (if py_eq (dget again ''default_branch'' JNull) default
                       then act_bind (api (rest h) path ''GET'' None) (\<lambda>ref'. ret (py_eq ref' ref)) else ret False) (\<lambda>same.
             lift (rc_require same ''Default branch changed during publication preflight; retry at current HEAD'')))))))))))"

section \<open>Assets\<close>

text \<open>\<open>ASSET_RESTRICTIONS\<close> (suffixes and reason) and the signing switch, as this repository sets them.\<close>

definition ASSET_RESTRICTIONS :: "(string list \<times> string) list" where
  "ASSET_RESTRICTIONS = []"

definition RELEASE_SIGNATURES_REQUIRED :: bool where
  "RELEASE_SIGNATURES_REQUIRED = False"

definition restricted :: "string \<Rightarrow> bool" where
  "restricted name \<longleftrightarrow> list_ex (\<lambda>(suffixes, _). list_ex (endswith (lower name)) suffixes) ASSET_RESTRICTIONS"

definition reject_restricted_assets :: "string list \<Rightarrow> unit res" where
  "reject_restricted_assets names = each (\<lambda>name. ensure (\<not> restricted name) (ReleaseError ''restricted asset'')) names"

text \<open>
  One entry of the assets directory: its name, whether it is a link, whether it names a regular file, also
  once it is opened, and its bytes.
\<close>

record entry =
  e_name :: string
  e_link :: bool
  e_file :: bool
  e_opens_regular :: bool
  e_bytes :: string

definition stage_entry :: "(json list \<times> string list) \<Rightarrow> entry \<Rightarrow> (json list \<times> string list) res" where
  "stage_entry st e =
     checks
      [rc_require (\<not> e_link e \<and> e_file e) ''Assets must be flat regular files'',
       rc_require (rx_match NAME_RX (e_name e) \<and> byte_lower (e_name e) \<noteq> ''release-manifest.json'') ''Unsafe or reserved asset name'',
       rc_require (byte_lower (e_name e) \<notin> set (snd st)) ''Asset name collision'',
       rc_require (e_opens_regular e) ''Asset is not a regular file'']
      (Inr (fst st @ [JObj [(''name'', JStr (e_name e)), (''size'', JInt (i_size (identity_of (e_bytes e)))),
                            (''sha256'', JStr (i_sha256 (identity_of (e_bytes e))))]],
            byte_lower (e_name e) # snd st))"

definition stage_assets :: "bool \<Rightarrow> entry list \<Rightarrow> json list res" where
  "stage_assets regular_directory entries =
     (let sorted = sort_key e_name entries in
      checks [rc_require regular_directory ''Assets must be a regular directory'',
              reject_restricted_assets (map e_name sorted)]
       (bnd (foldres stage_entry ([], []) sorted) (\<lambda>(assets, _).
         checks [rc_require (assets \<noteq> []) ''Cannot publish an empty assets directory''] (Inr assets))))"

section \<open>The transaction\<close>

definition verify_uploaded_asset :: "'w storage \<Rightarrow> json \<Rightarrow> staged \<Rightarrow> (budget, 'w, unit) obj_act" where
  "verify_uploaded_asset h item file =
     act_then (lift (bnd (get_res item ''state'' JNull) (\<lambda>state. bnd (get_res item ''size'' JNull) (\<lambda>n.
         rc_require (state = JStr ''uploaded'' \<and> py_eq n (JInt (i_size (identity_of (s_bytes file)))))
           ''Incomplete asset upload; draft left unpublished''))))
     (act_bind (download_asset h (dget (the_dict item) ''id'' JNull) (identity_of (s_bytes file))) (\<lambda>remote.
       lift (rc_require (remote = identity_of (s_bytes file)) ''Uploaded bytes differ; draft left unpublished'')))"

definition file_named :: "staged list \<Rightarrow> json \<Rightarrow> staged res" where
  "file_named files name =
     (case find (\<lambda>f. JStr (s_name f) = name) files of None \<Rightarrow> Inl (KeyError ''name'') | Some f \<Rightarrow> Inr f)"

definition check_inventory :: "staged list \<Rightarrow> json list \<Rightarrow> unit res" where
  "check_inventory files uploaded =
     (if length uploaded = length files
      then bnd (mapres (\<lambda>item. bnd (get_res item ''name'' JNull) hashable) uploaded) (\<lambda>names.
        rc_require (set names = set (map (\<lambda>f. JStr (s_name f)) files)) ''Uploaded asset inventory mismatch; draft left unpublished'')
      else Inl (ReleaseError ''Uploaded asset inventory mismatch; draft left unpublished''))"

definition read_back :: "'w storage \<Rightarrow> staged list \<Rightarrow> json list \<Rightarrow> ('w, unit) act" where
  "read_back h files uploaded =
     act_bind (lift (new_budget (sum_list (map (\<lambda>f. int (length (s_bytes f))) files) * int API_READ_ATTEMPTS) 0)) (\<lambda>b w.
       case act_each (\<lambda>item. act_bind (lift (file_named files (dget (the_dict item) ''name'' JNull))) (verify_uploaded_asset h item))
              uploaded (b, w) of (r, (_, w')) \<Rightarrow> (r, w'))"

definition release_payload :: "string \<Rightarrow> string \<Rightarrow> bool \<Rightarrow> string \<Rightarrow> members" where
  "release_payload tag sha prerelease body =
     [(''tag_name'', JStr tag), (''target_commitish'', JStr sha), (''name'', JStr tag), (''body'', JStr body),
      (''draft'', JBool True), (''prerelease'', JBool prerelease), (''make_latest'', JStr ''false'')]"

fun is_AmbiguousCreate :: "exn \<Rightarrow> bool" where
  "is_AmbiguousCreate (AmbiguousCreate _) = True"
| "is_AmbiguousCreate _ = False"

text \<open>The draft: created plainly, or once with reconciliation when the caller can confirm its state.\<close>

definition create_draft :: "'w storage \<Rightarrow> members \<Rightarrow> ('w, unit) rb_act option \<Rightarrow> ('w, json) act" where
  "create_draft h payload confirm =
     (case confirm of
        None \<Rightarrow> api (rest h) ''releases'' ''POST'' (Some (JObj payload))
      | Some c \<Rightarrow>
          act_catch (create_release_once (transport.truncate h) (JObj payload)) is_AmbiguousCreate
            (\<lambda>_. act_bind (reconcile_created_release h payload c) (\<lambda>m. ret (JObj m))))"

definition draft_id :: "string \<Rightarrow> json \<Rightarrow> int res" where
  "draft_id tag release =
     bnd (get_res release ''draft'' JNull) (\<lambda>d.
     checks [rc_require (d = JBool True \<and> dget (the_dict release) ''tag_name'' JNull = JStr tag) ''Unexpected draft release response'']
      (rc_positive (dget (the_dict release) ''id'' JNull) ''release ID''))"

text \<open>Everything before the release is made public; the number of the verified draft.\<close>

definition verified_draft ::
  "'w storage \<Rightarrow> bool \<Rightarrow> ('w, unit) act \<Rightarrow> string \<Rightarrow> string \<Rightarrow> staged list \<Rightarrow> bool \<Rightarrow> string
   \<Rightarrow> ('w, unit) rb_act option \<Rightarrow> ('w, unit) act \<Rightarrow> ('w, int) act" where
  "verified_draft h scope_verified signatures tag sha files prerelease body confirm_create confirm_publish =
     act_then (act_when RELEASE_SIGNATURES_REQUIRED signatures)
     (act_then (lift (reject_restricted_assets (map s_name files)))
     (act_then (ensure_absent (rest h) tag)
     (act_then (check_workflow_publication h scope_verified sha)
     (act_bind (api (rest h) ''git/refs'' ''POST'' (Some (JObj [(''ref'', JStr (''refs/tags/'' @ tag)), (''sha'', JStr sha)]))) (\<lambda>_.
     act_bind (create_draft h (release_payload tag sha prerelease body) confirm_create) (\<lambda>release.
     act_bind (lift (draft_id tag release)) (\<lambda>n.
     act_then (act_each (\<lambda>f. upload (transport.truncate h) tag f n) (sort_key s_name files))
     (act_bind (pages (rest h) (''releases/'' @ str_int n @ ''/assets'') None) (\<lambda>uploaded.
     act_then (lift (check_inventory files uploaded))
     (act_then (read_back h files uploaded)
     (act_then confirm_publish
     (act_bind (api (rest h) (''git/ref/tags/'' @ url_quote tag) ''GET'' None) (\<lambda>ref.
     act_then (lift (rc_require (tag_object_ok ref (JStr tag) (JStr sha)) ''Tag moved before publication; draft left unpublished''))
      (ret n))))))))))))))"

definition make_public :: "'w storage \<Rightarrow> string \<Rightarrow> bool \<Rightarrow> int \<Rightarrow> ('w, json) act" where
  "make_public h tag prerelease n =
     act_bind (api (rest h) (''releases/'' @ str_int n) ''PATCH''
         (Some (JObj [(''draft'', JBool False), (''prerelease'', JBool prerelease),
                      (''make_latest'', JStr (if prerelease then ''false'' else ''true''))]))) (\<lambda>result. lift (
       bnd (get_res result ''draft'' JNull) (\<lambda>d.
       checks [rc_require (d = JBool False \<and> dget (the_dict result) ''tag_name'' JNull = JStr tag
                  \<and> dget (the_dict result) ''prerelease'' JNull = JBool prerelease)
                 ''Publication response did not confirm the requested state''] (Inr result))))"

definition publish_prepared ::
  "'w storage \<Rightarrow> bool \<Rightarrow> ('w, unit) act \<Rightarrow> string \<Rightarrow> string \<Rightarrow> staged list \<Rightarrow> bool \<Rightarrow> string
   \<Rightarrow> ('w, unit) rb_act option \<Rightarrow> ('w, unit) act \<Rightarrow> ('w, json) act" where
  "publish_prepared h scope_verified signatures tag sha files prerelease body confirm_create confirm_publish =
     act_bind (verified_draft h scope_verified signatures tag sha files prerelease body confirm_create confirm_publish)
       (make_public h tag prerelease)"

end
