(* ===== verification/Request_Invariant.thy ===== *)
theory Request_Invariant
  imports Publication
begin

text \<open>
  Invariants of the world that the requests of the GitHub client keep: what every single run of the program
  with a method other than \<open>PATCH\<close> and every pause keep, all reads and the other writes keep, however often
  they are repeated.
\<close>

definition method_of :: "string list \<Rightarrow> string" where
  "method_of cmd = (case dropWhile (\<lambda>a. a \<noteq> ''--method'') cmd of _ # m # _ \<Rightarrow> m | _ \<Rightarrow> [])"

lemma method_of_request: "method_of (request_argv endpoint verb body fmt) = verb"
  by (simp add: request_argv_def method_of_def)

lemma optional_world: "snd (optional gh path w) = snd (api gh path ''GET'' None w)"
proof -
  obtain r w' where run: "api gh path ''GET'' None w = (r, w')" by fastforce
  show ?thesis
  proof (cases r)
    case (Inl e)
    then show ?thesis using run by (cases e) (simp_all add: optional_def)
  qed (simp add: optional_def run)
qed

locale request_invariant =
  fixes h :: "'w storage" and P :: "'w \<Rightarrow> bool"
  assumes run: "method_of cmd \<noteq> ''PATCH'' \<Longrightarrow> keeps P (run_proc h cmd input limit)"
    and pause: "keeps P (pause h n)"
begin

lemma attempts:
  assumes "verb \<noteq> ''PATCH''"
  shows "keeps P (read_attempts (transport.truncate h) (request_argv endpoint verb body fmt) paged limit n)"
  by (induction n)
    (auto simp: transport.defs method_of_request assms intro!: keeps_intros run pause split: proc.splits option.splits)

lemma request:
  assumes "verb \<noteq> ''PATCH''" shows "keeps P (request (transport.truncate h) path verb body fmt)"
proof -
  have "keeps P (run_write (transport.truncate h) (request_argv endpoint verb body fmt) body)" for endpoint
    unfolding run_write_def
    by (auto simp: transport.defs method_of_request assms intro!: keeps_intros run split: proc.splits)
  then show ?thesis
    unfolding request_def read_get_def Let_def using attempts [OF assms] by (auto intro!: keeps_intros)
qed

lemma api: "verb \<noteq> ''PATCH'' \<Longrightarrow> keeps P (api (rest h) path verb body)"
  unfolding api_def rest_def gh_client_def by (auto intro!: keeps_intros request)

lemma optional: "keeps P (optional (rest h) path)"
  using api [of "''GET''" path None] by (simp add: keeps_def optional_world)

lemma pages: "keeps P (pages (rest h) path field)"
  unfolding pages_def rest_def gh_client_def by (auto intro!: keeps_intros request)

lemma absent: "keeps P (ensure_absent (rest h) tag)"
  unfolding ensure_absent_def by (intro keeps_intros optional pages)

lemma repository: "keeps P (repository_info h)"
  unfolding repository_info_def by (auto intro!: keeps_intros api)

lemma workflows: "keeps P (check_workflow_publication h verified sha)"
proof -
  have "keeps P (workflow_tree h s)" for s
    unfolding workflow_tree_def by (auto intro!: keeps_intros api)
  then show ?thesis
    unfolding check_workflow_publication_def Let_def by (auto intro!: keeps_intros api repository)
qed

end

end
