(* ===== verification/Asset_Download_Facts.thy ===== *)
theory Asset_Download_Facts
  imports Asset_Download
begin

text \<open>
  Facts of asset downloads: however the transfers go the shared budget is never exceeded and only rises,
  and a download that returns leaves a file with the expected size and digest.
\<close>

section \<open>Invariants of a transfer\<close>

lemma keeps_finally [keeps_intros]: "keeps P m \<Longrightarrow> keeps P f \<Longrightarrow> keeps P (act_finally m f)"
  by (auto simp: keeps_def act_finally_def split: prod.splits sum.splits)

text \<open>
  A predicate of the writer and the world that every single operation of the writer and of the host keeps.
  It holds throughout a download, however many chunks and attempts that takes.
\<close>

locale transfer_invariant =
  fixes h :: "'w storage" and P :: "writer \<times> 'w \<Rightarrow> bool"
  assumes check: "keeps P (writer_check h n)"
    and deadline: "keeps P (before_deadline h d)"
    and writes: "keeps P (writer_write h chunk)"
    and reset: "keeps P (writer_reset h)"
    and clock: "keeps P (outside (clock h))"
    and draw: "keeps P (outside (draw_delay h k))"
    and sleep: "keeps P (outside (sleep_for h d))"
    and same: "keeps P (outside (same_file h))"
    and start: "keeps P (outside (start_transfer h (asset_argv h asset_id)))"
    and stop: "keeps P (outside (stop_transfer h))"
begin

lemma await: "keeps P (await_exit h d err evs)"
  by (induction evs) (auto intro!: keeps_intros check deadline clock split: event.splits)

lemma pump: "keeps P (pump h d ended err evs)"
  by (induction evs arbitrary: ended err) (auto intro!: keeps_intros check deadline writes await clock split: event.splits)

lemma stream: "keeps P (stream_asset h (asset_argv h asset_id) d)"
  unfolding stream_asset_def by (intro keeps_intros check deadline start pump stop)

lemma attempts: "keeps P (transfer_attempts h (asset_argv h asset_id) d n)"
  by (induction n) (auto intro!: keeps_intros deadline stream draw clock sleep reset split: proc.splits)

lemma fill: "keeps P (fill_output h asset_id)"
  unfolding fill_output_def gh_download_asset_def writer_identity_def by (intro keeps_intros clock attempts check same)

end

section \<open>The budget\<close>

text \<open>The state of a writer during a download that began with the budget \<open>b\<close>.\<close>

definition in_budget :: "budget \<Rightarrow> identity \<Rightarrow> writer \<Rightarrow> bool" where
  "in_budget b e s \<longleftrightarrow>
     expected s = e \<and> max_bytes (budget s) = max_bytes b \<and> reserve_bytes (budget s) = reserve_bytes b
     \<and> written b + int (length (staged_bytes s)) \<le> written (budget s) \<and> written (budget s) \<le> max_bytes b"

lemma budget_check_Inr:
  "budget_check h b n w = (Inr (), w') \<Longrightarrow> 0 \<le> n \<and> n \<le> max_bytes b - written b"
  unfolding budget_check_def by (simp add: act_then_Inr checks_Cons rc_require_def ensure_def split: if_splits)

lemma writer_check_Inr:
  assumes "writer_check h n sw = (Inr (), sw')"
  shows "fst sw' = fst sw \<and> 0 \<le> n \<and> n \<le> max_bytes (budget (fst sw)) - written (budget (fst sw))"
  using assms unfolding writer_check_def
  by (auto simp: act_then_Inr act_bind_Inr outside_Inr dest: budget_check_Inr)

lemma writer_check_keeps [keeps_intros]: "keeps (\<lambda>sw. P (fst sw)) (writer_check h n)"
  unfolding writer_check_def by (intro keeps_intros)

lemma act_then_cases:
  "snd (act_then m k w) = (case m w of (Inl e, w') \<Rightarrow> w' | (Inr u, w') \<Rightarrow> snd (k w'))"
  by (simp add: act_then_def act_bind_def split: prod.splits sum.splits)

lemma keeps_after:
  assumes "keeps P m" and "\<And>w w'. m w = (Inr (), w') \<Longrightarrow> P w \<Longrightarrow> P (snd (k w'))"
  shows "keeps P (act_then m k)"
  using assms by (force simp: keeps_def act_then_cases split: prod.splits sum.splits)

lemma writer_write_keeps [keeps_intros]: "keeps (\<lambda>sw. in_budget b e (fst sw)) (writer_write h chunk)"
  unfolding writer_write_def
proof (rule keeps_after [OF writer_check_keeps])
  fix sw sw' assume c: "writer_check h (int (length chunk)) sw = (Inr (), sw')" and "in_budget b e (fst sw)"
  then have w: "in_budget b e (fst sw')"
    and room: "int (length chunk) \<le> max_bytes (budget (fst sw')) - written (budget (fst sw'))"
    using writer_check_Inr [OF c] by auto
  show "in_budget b e (fst (snd (act_bind (outside (disk_write h chunk)) (\<lambda>n.
      act_then (lift (rc_require (0 \<le> n \<and> n \<le> int (length chunk)) ''Invalid asset write result''))
      (act_then (update (\<lambda>s. s\<lparr>staged_bytes := staged_bytes s @ take (nat n) chunk,
                               budget := (budget s)\<lparr>written := written (budget s) + n\<rparr>\<rparr>))
        (lift (rc_require (n = int (length chunk)) ''Incomplete asset write'')))) sw')))"
    using w room
    by (auto simp: act_bind_def act_then_def outside_def in_budget_def rc_require_def ensure_def split: prod.splits sum.splits)
qed

lemma writer_reset_keeps [keeps_intros]: "keeps (\<lambda>sw. in_budget b e (fst sw)) (writer_reset h)"
  unfolding writer_reset_def
  by (intro keeps_intros keeps_update) (auto simp: in_budget_def)

lemma before_deadline_keeps [keeps_intros]: "keeps (\<lambda>sw. P (fst sw)) (before_deadline h deadline)"
  unfolding before_deadline_def by (intro keeps_intros)

interpretation budgeted: transfer_invariant h "\<lambda>sw. in_budget b e (fst sw)" for h b e
  by unfold_locales (intro keeps_intros)+

lemma with_writer_result:
  "with_writer e m (b, w) = (r, (b', w')) \<longleftrightarrow>
     (\<exists>s. m (\<lparr>staged_bytes = [], expected = e, budget = b\<rparr>, w) = (r, (s, w')) \<and> b' = budget s)"
  by (auto simp: with_writer_def split: prod.splits)

lemma outside_fst: "fst (snd (outside m bw)) = fst bw"
  by (simp add: outside_keeps)

lemma fill_output_in_budget:
  assumes "fill_output h n (\<lparr>staged_bytes = [], expected = e, budget = b\<rparr>, w) = (r, (s, w'))" and "written b \<le> max_bytes b"
  shows "in_budget b e s"
  using keepsD [OF budgeted.fill _ assms(1), of b e] assms(2) by (simp add: in_budget_def)

lemma fill_output_identity:
  assumes "fill_output h n sw = (Inr i, (s, w'))"
  shows "i = identity_of (staged_bytes s) \<and> i = expected s"
  using assms unfolding fill_output_def writer_identity_def
  by (auto simp: act_then_Inr act_bind_Inr checks_Cons rc_require_def ensure_def split: if_splits)

text \<open>What \<open>download_asset\<close> did: it raised before it opened a file, or filled one.\<close>

lemma download_asset_cases:
  assumes "download_asset h asset_id e (b, w) = (r, (b', w'))"
  obtains (early) x where "r = Inl x" "b' = b"
    | (failed) n w0 x s w1 where "fill_output h n (\<lparr>staged_bytes = [], expected = e, budget = b\<rparr>, w0) = (Inl x, (s, w1))"
        "b' = budget s" "\<exists>x. r = Inl x"
    | (filled) n w0 w1 s where "rc_positive asset_id ''asset ID'' = Inr n" "0 \<le> i_size e" "rx_match (hex_rx 64) (i_sha256 e)"
        "budget_check h b (i_size e) w = (Inr (), w0)" "open_output h w0 = (Inr (), w1)"
        "fill_output h n (\<lparr>staged_bytes = [], expected = e, budget = b\<rparr>, w1) = (r, (s, w'))" "b' = budget s" "\<exists>i. r = Inr i"
proof (cases "rc_positive asset_id ''asset ID''")
  case (Inl x)
  then show ?thesis using assms early by (auto simp: download_asset_def act_bind_def)
next
  case (Inr n)
  show ?thesis
  proof (cases "0 \<le> i_size e \<and> rx_match (hex_rx 64) (i_sha256 e)")
    case False
    then show ?thesis
      using assms Inr early by (auto simp: download_asset_def act_bind_def act_then_def rc_require_def ensure_def)
  next
    case valid: True
    obtain c w0 where c: "budget_check h b (i_size e) w = (c, w0)" by fastforce
    obtain u w1 where u: "open_output h w0 = (u, w1)" by fastforce
    obtain f s w2 where f: "fill_output h n (\<lparr>staged_bytes = [], expected = e, budget = b\<rparr>, w1) = (f, (s, w2))"
      by (metis prod.collapse)
    have steps: "download_asset h asset_id e (b, w) =
        (case c of Inl x \<Rightarrow> (Inl x, (b, w0)) | Inr _ \<Rightarrow> (case u of Inl x \<Rightarrow> (Inl x, (b, w1)) | Inr _ \<Rightarrow>
          (case f of Inr i \<Rightarrow> (Inr i, (budget s, w2))
           | Inl x \<Rightarrow> (case remove_output h w2 of (Inl y, w3) \<Rightarrow> (Inl y, (budget s, w3)) | (Inr _, w3) \<Rightarrow> (Inl x, (budget s, w3))))))"
      using Inr valid c u f
      by (simp add: download_asset_def act_bind_def act_then_def act_catch_def rc_require_def ensure_def outside_def any_exn_def
        with_writer_def split: sum.splits prod.splits)
    show ?thesis
    proof (cases c)
      case (Inl x)
      then show ?thesis using assms steps early by auto
    next
      case ok: (Inr z)
      show ?thesis
      proof (cases u)
        case (Inl x)
        then show ?thesis using assms steps ok early by auto
      next
        case opened: (Inr y)
        show ?thesis
        proof (cases f)
          case (Inl x)
          then show ?thesis using assms steps ok opened f failed [of n w1 x s w2]
            by (auto split: prod.splits sum.splits)
        next
          case (Inr i)
          then have "r = Inr i" "b' = budget s" "w' = w2" using assms steps ok opened by auto
          then show ?thesis using \<open>rc_positive asset_id _ = Inr n\<close> valid c u f ok opened Inr filled [of n w0 w1 s] by auto
        qed
      qed
    qed
  qed
qed

text \<open>
  C31: Downloads share one byte budget.  Whatever the answers, the disk and the clock do, and whether a
  download returns or raises, the budget keeps its bounds, what is charged to it never shrinks and never
  exceeds the maximum, and a download that returns has charged at least the size of the asset, whose
  identity is the expected one.
\<close>

theorem download_within_budget:
  assumes "written b \<le> max_bytes b" and "download_asset h asset_id e (b, w) = (r, (b', w'))"
  shows "max_bytes b' = max_bytes b \<and> reserve_bytes b' = reserve_bytes b \<and> written b \<le> written b' \<and> written b' \<le> max_bytes b
    \<and> (\<forall>i. r = Inr i \<longrightarrow> i = e \<and> written b + i_size e \<le> written b')"
  using assms(2)
proof (cases rule: download_asset_cases)
  case early
  then show ?thesis using assms(1) by simp
next
  case (failed n w0 x s w1)
  then show ?thesis using fill_output_in_budget [OF failed(1) assms(1)] by (auto simp: in_budget_def)
next
  case (filled n w0 w1 s)
  obtain i where i: "r = Inr i" using filled by auto
  have "i = identity_of (staged_bytes s) \<and> i = expected s"
    using fill_output_identity filled(6) i by metis
  then show ?thesis
    using fill_output_in_budget [OF filled(6) assms(1)] filled(7) i by (auto simp: in_budget_def identity_of_def)
qed

section \<open>The file\<close>

text \<open>
  What the code relies on from the disk: a write adds the bytes it reports, or none when it fails,
  emptying and opening a file leave it empty, and nothing else changes it.
\<close>

definition quiet :: "('w \<Rightarrow> string) \<Rightarrow> ('w, 'a) act \<Rightarrow> bool" where
  "quiet file m \<longleftrightarrow> (\<forall>w. file (snd (m w)) = file w)"

definition disk_laws :: "'w storage \<Rightarrow> ('w \<Rightarrow> string) \<Rightarrow> bool" where
  "disk_laws h file \<longleftrightarrow>
     quiet file (clock h) \<and> (\<forall>n. quiet file (draw_delay h n)) \<and> (\<forall>d. quiet file (sleep_for h d)) \<and> quiet file (free_bytes h)
     \<and> quiet file (same_file h) \<and> (\<forall>cmd. quiet file (start_transfer h cmd)) \<and> quiet file (reap h)
     \<and> (\<forall>w w'. open_output h w = (Inr (), w') \<longrightarrow> file w' = [])
     \<and> (\<forall>w w'. truncate_output h w = (Inr (), w') \<longrightarrow> file w' = [])
     \<and> (\<forall>w w' x. truncate_output h w = (Inl x, w') \<longrightarrow> file w' = file w)
     \<and> (\<forall>c w w' x. disk_write h c w = (Inl x, w') \<longrightarrow> file w' = file w)
     \<and> (\<forall>c w w' n. disk_write h c w = (Inr n, w') \<longrightarrow> 0 \<le> n \<and> n \<le> int (length c) \<and> file w' = file w @ take (nat n) c)"

text \<open>The staged bytes of the writer are those of the file.\<close>

abbreviation mirrored :: "('w \<Rightarrow> string) \<Rightarrow> writer \<times> 'w \<Rightarrow> bool" where
  "mirrored file sw \<equiv> staged_bytes (fst sw) = file (snd sw)"

lemma quiet_mirrored: "quiet file m \<Longrightarrow> keeps (mirrored file) (outside m)"
  by (auto simp: quiet_def keeps_def outside_def split: prod.splits)
    (metis snd_conv)

lemma quiet_bind: "quiet file m \<Longrightarrow> (\<And>x. quiet file (f x)) \<Longrightarrow> quiet file (act_bind m f)"
  by (auto simp: quiet_def act_bind_def split: prod.splits sum.splits) (metis snd_conv)+

lemma quiet_lift: "quiet file (lift r)"
  by (simp add: quiet_def)

lemma quiet_laws:
  assumes "disk_laws h file"
  shows "quiet file (clock h)" "quiet file (draw_delay h n)" "quiet file (sleep_for h d)" "quiet file (budget_check h b k)"
    "quiet file (same_file h)" "quiet file (start_transfer h cmd)" "quiet file (stop_transfer h)"
  using assms unfolding disk_laws_def budget_check_def stop_transfer_def act_then_def
  by (auto intro!: quiet_bind quiet_lift)

lemma writer_check_mirrored:
  assumes "disk_laws h file" shows "keeps (mirrored file) (writer_check h n)"
  unfolding writer_check_def by (intro keeps_intros quiet_mirrored quiet_laws [OF assms])

lemma before_deadline_mirrored:
  assumes "disk_laws h file" shows "keeps (mirrored file) (before_deadline h deadline)"
  unfolding before_deadline_def by (intro keeps_intros quiet_mirrored quiet_laws [OF assms])

lemma writer_write_mirrored:
  assumes "disk_laws h file" shows "keeps (mirrored file) (writer_write h chunk)"
proof -
  have w: "file w' = file w" if "disk_write h chunk w = (Inl x, w')" for w w' x
    using assms that unfolding disk_laws_def by blast
  have ok: "0 \<le> n \<and> n \<le> int (length chunk) \<and> file w' = file w @ take (nat n) chunk" if "disk_write h chunk w = (Inr n, w')" for w w' n
    using assms that unfolding disk_laws_def by blast
  show ?thesis
    unfolding writer_write_def
  proof (rule keeps_then [OF writer_check_mirrored [OF assms]], unfold keeps_def, intro allI impI)
    fix sw :: "writer \<times> 'a" assume m: "mirrored file sw"
    obtain r w where r: "disk_write h chunk (snd sw) = (r, w)" by fastforce
    show "mirrored file (snd (act_bind (outside (disk_write h chunk)) (\<lambda>n.
        act_then (lift (rc_require (0 \<le> n \<and> n \<le> int (length chunk)) ''Invalid asset write result''))
        (act_then (update (\<lambda>s. s\<lparr>staged_bytes := staged_bytes s @ take (nat n) chunk,
                                 budget := (budget s)\<lparr>written := written (budget s) + n\<rparr>\<rparr>))
          (lift (rc_require (n = int (length chunk)) ''Incomplete asset write'')))) sw))"
    proof (cases r)
      case (Inl x)
      then show ?thesis using m r w by (simp add: act_bind_def outside_def)
    next
      case (Inr n)
      then show ?thesis using m r ok [of "snd sw" n w]
        by (simp add: act_bind_def act_then_def outside_def rc_require_def ensure_def)
    qed
  qed
qed

lemma truncate_mirrored:
  assumes "disk_laws h file"
  shows "keeps (mirrored file) (act_then (outside (truncate_output h)) (update (\<lambda>s. s\<lparr>staged_bytes := []\<rparr>)))"
  unfolding keeps_def
proof (intro allI impI)
  fix sw :: "writer \<times> 'a" assume m: "mirrored file sw"
  obtain r w where r: "truncate_output h (snd sw) = (r, w)" by fastforce
  have "case r of Inl _ \<Rightarrow> file w = file (snd sw) | Inr _ \<Rightarrow> file w = []"
    using r assms unfolding disk_laws_def by (cases r) auto
  then show "mirrored file (snd (act_then (outside (truncate_output h)) (update (\<lambda>s. s\<lparr>staged_bytes := []\<rparr>)) sw))"
    using m r by (cases r) (simp_all add: act_then_def act_bind_def outside_def)
qed

lemma writer_reset_mirrored:
  assumes "disk_laws h file" shows "keeps (mirrored file) (writer_reset h)"
  unfolding writer_reset_def
  by (rule keeps_bind, intro quiet_mirrored quiet_laws [OF assms], rule keeps_then [OF keeps_lift], rule keeps_bind [OF keeps_self],
      rule keeps_then, intro quiet_mirrored quiet_laws [OF assms], rule truncate_mirrored [OF assms])

lemmas mirrored_parts = writer_check_mirrored before_deadline_mirrored writer_write_mirrored writer_reset_mirrored

interpretation mirroring: transfer_invariant h "\<lambda>sw. disk_laws h bytes \<longrightarrow> mirrored bytes sw" for h bytes
  by unfold_locales (auto simp: keeps_given_iff intro!: mirrored_parts quiet_mirrored quiet_laws)

lemma download_leaves_identity:
  assumes "disk_laws h file" and "download_asset h asset_id e (b, w) = (Inr i, (b', w'))"
  shows "i = e \<and> int (length (file w')) = i_size e \<and> digest (file w') = i_sha256 e \<and> rx_match (hex_rx 64) (i_sha256 e)
    \<and> (\<exists>n. rc_positive asset_id ''asset ID'' = Inr n)"
  using assms(2)
proof (cases rule: download_asset_cases)
  case (filled n w0 w1 s)
  have "file w1 = []"
    using assms(1) filled(5) by (simp add: disk_laws_def)
  then have "mirrored file (s, w')"
    using keepsD [OF mirroring.fill _ filled(6), of "file"] assms(1) by simp
  moreover have "expected s = e"
    using fill_output_in_budget [OF filled(6)] budget_check_Inr [OF filled(4)] filled(2) by (simp add: in_budget_def)
  ultimately show ?thesis
    using fill_output_identity [OF filled(6)] filled(1,3) by (cases e) (auto simp: identity_of_def)
qed auto

text \<open>
  C32: On a disk that keeps its documented laws, a download that returns leaves a file whose length and
  SHA-256 digest are exactly the expected ones, however often the transfer was repeated and in whatever
  chunks it came; the expected identity was well formed and the asset number positive.
\<close>

theorem downloaded_file_verified:
  assumes "disk_laws h file" and "download_asset h asset_id e (b, w) = (Inr i, (b', w'))"
  shows "i = e \<and> int (length (file w')) = i_size e \<and> digest (file w') = i_sha256 e \<and> rx_match (hex_rx 64) (i_sha256 e)
    \<and> (\<exists>n. rc_positive asset_id ''asset ID'' = Inr n)"
  by (rule download_leaves_identity [OF assms])

section \<open>A concrete download\<close>

text \<open>A world that is the bytes of the file, and an asset of two bytes that comes in two chunks.\<close>

definition sample_events :: "event list" where
  "sample_events = [Out_chunk ''a'', Quiet, Err_chunk ''x'', Out_chunk ''b'', Pipe_end, Pipe_end, Quiet, Exited 0]"

definition sample_storage :: "string storage" where
  "sample_storage =
     \<lparr>repo = ''o/r'', run_proc = (\<lambda>_ _ _. ret (Completed 0 [] [])), pause = (\<lambda>_. ret ()), json_float_text = (\<lambda>s. s),
      clock = ret 0, draw_delay = (\<lambda>_. ret 1), sleep_for = (\<lambda>_. ret ()), free_bytes = ret 100, open_output = (\<lambda>w. (Inr (), [])),
      remove_output = (\<lambda>w. (Inr (), [])), disk_write = (\<lambda>c w. (Inr (int (length c)), w @ c)), truncate_output = (\<lambda>w. (Inr (), [])),
      same_file = ret True, start_transfer = (\<lambda>_. ret sample_events), reap = ret True\<rparr>"

definition sample_budget :: budget where
  "sample_budget = \<lparr>max_bytes = 10, reserve_bytes = 5, written = 3\<rparr>"

lemma sample_laws: "disk_laws sample_storage (\<lambda>w. w)"
  by (auto simp: disk_laws_def sample_storage_def quiet_def)

lemma sample_check:
  "0 \<le> n \<Longrightarrow> n \<le> i_size (expected s) - int (length (staged_bytes s)) \<Longrightarrow> n \<le> max_bytes (budget s) - written (budget s)
   \<Longrightarrow> reserve_bytes (budget s) + n \<le> 100 \<Longrightarrow> writer_check sample_storage n (s, w) = (Inr (), (s, w))"
  by (simp add: writer_check_def budget_check_def checks_Cons rc_require_def ensure_def act_bind_def act_then_def outside_def
    sample_storage_def)

lemma sample_deadline: "0 < d \<Longrightarrow> before_deadline sample_storage d (s, w) = (Inr (), (s, w))"
  by (simp add: before_deadline_def sample_storage_def outside_def act_bind_def ensure_def)

lemma sample_clock: "clock sample_storage w = (Inr 0, w)"
  by (simp add: sample_storage_def)

lemma sample_write:
  "int (length c) \<le> i_size (expected s) - int (length (staged_bytes s)) \<Longrightarrow> int (length c) \<le> max_bytes (budget s) - written (budget s)
   \<Longrightarrow> reserve_bytes (budget s) + int (length c) \<le> 100
   \<Longrightarrow> writer_write sample_storage c (s, w) =
     (Inr (), (s\<lparr>staged_bytes := staged_bytes s @ c, budget := (budget s)\<lparr>written := written (budget s) + int (length c)\<rparr>\<rparr>, w @ c))"
  by (simp add: writer_write_def act_then_def act_bind_def sample_check)
    (simp add: outside_def sample_storage_def rc_require_def ensure_def act_bind_def)

lemmas sample_steps = sample_check sample_deadline sample_clock sample_write

lemma sample_stream:
  "stream_asset sample_storage cmd 900 (\<lparr>staged_bytes = [], expected = identity_of ''ab'', budget = sample_budget\<rparr>, [])
     = (Inr (Completed 0 [] ''x''), (\<lparr>staged_bytes = ''ab'', expected = identity_of ''ab'', budget = sample_budget\<lparr>written := 5\<rparr>\<rparr>, ''ab''))"
  (is "_ = ?end")
proof -
  have "start_transfer sample_storage cmd w = (Inr sample_events, w)" "stop_transfer sample_storage w = (Inr (), w)" for w
    by (simp_all add: sample_storage_def stop_transfer_def act_bind_def ensure_def)
  moreover have "pump sample_storage 900 0 [] sample_events (\<lparr>staged_bytes = [], expected = identity_of ''ab'', budget = sample_budget\<rparr>, []) = ?end"
    unfolding sample_events_def
    by (simp add: act_then_def act_bind_def sample_steps identity_of_def sample_budget_def outside_def ensure_def)
  ultimately show ?thesis
    by (simp add: stream_asset_def act_then_def act_bind_def act_finally_def outside_def sample_steps identity_of_def sample_budget_def)
qed

lemma sample_fill:
  "fill_output sample_storage 7 (\<lparr>staged_bytes = [], expected = identity_of ''ab'', budget = sample_budget\<rparr>, [])
     = (Inr (identity_of ''ab''), (\<lparr>staged_bytes = ''ab'', expected = identity_of ''ab'', budget = sample_budget\<lparr>written := 5\<rparr>\<rparr>, ''ab''))"
proof -
  have "gh_download_asset sample_storage 7 (\<lparr>staged_bytes = [], expected = identity_of ''ab'', budget = sample_budget\<rparr>, [])
      = (Inr (), (\<lparr>staged_bytes = ''ab'', expected = identity_of ''ab'', budget = sample_budget\<lparr>written := 5\<rparr>\<rparr>, ''ab''))"
    by (simp add: gh_download_asset_def act_bind_def act_then_def act_catch_def outside_def sample_steps API_READ_ATTEMPTS_def
      ASSET_DOWNLOAD_TIMEOUT_def numeral_3_eq_3 sample_stream transient_asset_failure_def response_def checks_Cons ensure_def ignore_def)
  moreover have "same_file sample_storage w = (Inr True, w)" for w by (simp add: sample_storage_def)
  ultimately show ?thesis
    by (simp add: fill_output_def act_then_def act_bind_def outside_def rc_require_def ensure_def writer_identity_def checks_Cons)
      (simp add: sample_check identity_of_def sample_budget_def act_bind_def outside_def)
qed

lemma sample_download:
  "download_asset sample_storage (JInt 7) (identity_of ''ab'') (sample_budget, ''old'')
     = (Inr (identity_of ''ab''), (sample_budget\<lparr>written := 5\<rparr>, ''ab''))"
proof -
  have "rx_match (hex_rx 64) (i_sha256 (identity_of ''ab''))"
    unfolding rx_match_iff identity_of_def by (simp add: digest_in_hex_rx del: lang_hex_rx)
  moreover have "rc_positive (JInt 7) ''asset ID'' = Inr 7" by code_simp
  moreover have "budget_check sample_storage sample_budget (i_size (identity_of ''ab'')) ''old'' = (Inr (), ''old'')"
    by (simp add: budget_check_def sample_budget_def identity_of_def sample_storage_def act_then_def act_bind_def checks_Cons
      rc_require_def ensure_def)
  moreover have "open_output sample_storage ''old'' = (Inr (), [])" by (simp add: sample_storage_def)
  moreover have "0 \<le> i_size (identity_of ''ab'')" by (simp add: identity_of_def)
  ultimately show ?thesis
    by (simp add: download_asset_def act_bind_def act_then_def outside_def rc_require_def ensure_def with_writer_def act_catch_def sample_fill)
qed

theorem download_within_budget_witness:
  "\<exists>b' w'. download_asset sample_storage (JInt 7) (identity_of ''ab'') (sample_budget, ''old'') = (Inr (identity_of ''ab''), (b', w'))
     \<and> written b' \<le> 10"
  using download_within_budget [OF _ sample_download] sample_download by (simp add: sample_budget_def)

theorem downloaded_file_verified_witness:
  "\<exists>b' w'. download_asset sample_storage (JInt 7) (identity_of ''ab'') (sample_budget, ''old'') = (Inr (identity_of ''ab''), (b', w'))
     \<and> int (length w') = 2"
  using downloaded_file_verified [OF sample_laws sample_download] sample_download by (simp add: identity_of_def)

end
