(* ===== verification/Publication_Facts.thy ===== *)
theory Publication_Facts
  imports Request_Invariant Asset_Download_Facts Create_Readback_Facts
begin

text \<open>
  Facts of the publication transaction: a release can become public only after its draft was verified
  byte by byte.
\<close>

section \<open>What keeps a release hidden\<close>

text \<open>
  \<open>hidden\<close> says that the release is not public.  The code relies on GitHub not to publish a draft by itself:
  only a run of \<open>gh\<close> with the method \<open>PATCH\<close> may change it, and neither the clock nor the disk does.
\<close>

definition hidden_laws :: "'w storage \<Rightarrow> ('w \<Rightarrow> bool) \<Rightarrow> bool" where
  "hidden_laws h hidden \<longleftrightarrow>
     (\<forall>cmd input limit. method_of cmd \<noteq> ''PATCH'' \<longrightarrow> keeps hidden (run_proc h cmd input limit))
     \<and> (\<forall>cmd. method_of cmd \<noteq> ''PATCH'' \<longrightarrow> keeps hidden (start_transfer h cmd))
     \<and> (\<forall>n. keeps hidden (pause h n)) \<and> keeps hidden (clock h) \<and> (\<forall>n. keeps hidden (draw_delay h n))
     \<and> (\<forall>d. keeps hidden (sleep_for h d)) \<and> keeps hidden (free_bytes h) \<and> keeps hidden (open_output h)
     \<and> keeps hidden (remove_output h) \<and> (\<forall>c. keeps hidden (disk_write h c)) \<and> keeps hidden (truncate_output h)
     \<and> keeps hidden (same_file h) \<and> keeps hidden (reap h)"

lemma hidden_parts:
  assumes "hidden_laws h hidden"
  shows "method_of cmd \<noteq> ''PATCH'' \<Longrightarrow> keeps hidden (run_proc h cmd input limit)"
    and "method_of cmd \<noteq> ''PATCH'' \<Longrightarrow> keeps hidden (start_transfer h cmd)"
    and "keeps hidden (pause h n)" "keeps hidden (clock h)" "keeps hidden (draw_delay h n)" "keeps hidden (sleep_for h d)"
    "keeps hidden (free_bytes h)" "keeps hidden (open_output h)" "keeps hidden (remove_output h)" "keeps hidden (disk_write h s)"
    "keeps hidden (truncate_output h)" "keeps hidden (same_file h)" "keeps hidden (reap h)"
  using assms by (auto simp: hidden_laws_def)

text \<open>The same for methods of objects, whose own state does not matter here.\<close>

abbreviation stays_hidden :: "('w \<Rightarrow> bool) \<Rightarrow> ('s \<times> 'w, 'a) act \<Rightarrow> bool" where
  "stays_hidden hidden m \<equiv> keeps (\<lambda>sw. hidden (snd sw)) m"

lemma outside_hidden: "keeps hidden m \<Longrightarrow> stays_hidden hidden (outside m)"
  by (auto simp: keeps_def outside_def split: prod.splits)

lemma update_hidden: "stays_hidden hidden (update f)"
  by (simp add: keeps_def)

interpretation hidden_requests: request_invariant h "\<lambda>w. hidden_laws h hidden \<longrightarrow> hidden w" for h hidden
  by unfold_locales (auto simp: keeps_given_iff intro: hidden_parts)

lemmas requests_hidden =
  hidden_requests.api [of _ _ hidden, unfolded keeps_given_iff, rule_format]
  hidden_requests.pages [of _ hidden, unfolded keeps_given_iff, rule_format]
  hidden_requests.absent [of _ hidden, unfolded keeps_given_iff, rule_format]
  hidden_requests.workflows [of _ hidden, unfolded keeps_given_iff, rule_format] for hidden

section \<open>Creation and upload\<close>

lemma readback_hidden:
  assumes "hidden_laws h hidden"
  shows "stays_hidden hidden (rb_check h)" "stays_hidden hidden (rb_get h path)"
proof -
  show c: "stays_hidden hidden (rb_check h)"
    unfolding rb_check_def by (intro keeps_intros outside_hidden hidden_parts [OF assms])
  have "stays_hidden hidden (rb_answer h p)" for p
    unfolding rb_answer_def by (auto intro!: keeps_intros update_hidden c split: proc.splits)
  moreover have "method_of (rb_argv h path) \<noteq> ''PATCH''"
    by (simp add: rb_argv_def method_of_def)
  ultimately show "stays_hidden hidden (rb_get h path)"
    unfolding rb_get_def by (auto intro!: keeps_intros update_hidden c outside_hidden hidden_parts [OF assms])
qed

interpretation hiding: readback_invariant h "\<lambda>sw. hidden_laws h hidden \<longrightarrow> hidden (snd sw)" for h hidden
  by unfold_locales (simp_all add: keeps_given_iff readback_hidden update_hidden)

lemma reconcile_hidden:
  assumes "hidden_laws h hidden" and "stays_hidden hidden confirm"
  shows "keeps hidden (reconcile_created_release h payload confirm)"
proof -
  have "stays_hidden hidden (reconcile_in h payload confirm)"
    using hiding.reconcile [of h hidden confirm payload] assms by (simp add: keeps_given_iff)
  then have "keeps hidden (\<lambda>w. case reconcile_in h payload confirm (s, w) of (r, (s', w')) \<Rightarrow> (r, w'))" for s
    by (auto simp: keeps_def split: prod.splits) (metis snd_conv)
  then show ?thesis
    unfolding reconcile_created_release_def new_readback_def
    by (intro keeps_intros hidden_parts [OF assms(1)])
qed

lemma create_draft_hidden:
  assumes "hidden_laws h hidden" and "\<And>c. confirm = Some c \<Longrightarrow> stays_hidden hidden c"
  shows "keeps hidden (create_draft h payload confirm)"
proof (cases confirm)
  case None
  then show ?thesis unfolding create_draft_def by (simp add: requests_hidden assms(1))
next
  case (Some c)
  have "keeps hidden (create_release_once (transport.truncate h) (JObj payload))"
    unfolding create_release_once_def
    by (auto simp: transport.defs method_of_def intro!: keeps_intros hidden_parts [OF assms(1)])
  then show ?thesis
    using Some assms(2) unfolding create_draft_def by (auto intro!: keeps_intros reconcile_hidden [OF assms(1)])
qed

lemma upload_hidden:
  assumes "hidden_laws h hidden" shows "keeps hidden (upload (transport.truncate h) tag f n)"
  unfolding upload_def
  by (auto simp: transport.defs upload_argv_def method_of_def intro!: keeps_intros hidden_parts [OF assms])

section \<open>Reading back\<close>

lemma writer_hidden:
  assumes "hidden_laws h hidden"
  shows "stays_hidden hidden (writer_check h n)" "stays_hidden hidden (writer_write h chunk)" "stays_hidden hidden (writer_reset h)"
    "stays_hidden hidden (before_deadline h deadline)" "keeps hidden (budget_check h b k)"
proof -
  show b: "keeps hidden (budget_check h b k)" for b k
    unfolding budget_check_def by (intro keeps_intros hidden_parts [OF assms])
  show c: "stays_hidden hidden (writer_check h n)" for n
    unfolding writer_check_def by (intro keeps_intros outside_hidden b)
  show "stays_hidden hidden (writer_write h chunk)"
    unfolding writer_write_def by (intro keeps_intros update_hidden outside_hidden c hidden_parts [OF assms])
  show "stays_hidden hidden (writer_reset h)"
    unfolding writer_reset_def by (intro keeps_intros update_hidden outside_hidden b hidden_parts [OF assms])
  show "stays_hidden hidden (before_deadline h deadline)"
    unfolding before_deadline_def by (intro keeps_intros outside_hidden hidden_parts [OF assms])
qed

interpretation hidden_transfer: transfer_invariant h "\<lambda>sw. hidden_laws h hidden \<longrightarrow> hidden (snd sw)" for h hidden
  by unfold_locales
    (auto simp: keeps_given_iff asset_argv_def method_of_def stop_transfer_def intro!: keeps_intros writer_hidden outside_hidden hidden_parts)

lemma fill_hidden: "hidden_laws h hidden \<Longrightarrow> stays_hidden hidden (fill_output h n)"
  using hidden_transfer.fill [of h hidden n] by (simp add: keeps_given_iff)

lemma with_writer_world:
  "snd (snd (with_writer e m bw)) = snd (snd (m (\<lparr>staged_bytes = [], expected = e, budget = fst bw\<rparr>, snd bw)))"
  by (simp add: with_writer_def split: prod.splits)

lemma download_hidden:
  assumes "hidden_laws h hidden" shows "stays_hidden hidden (download_asset h v e)"
proof -
  have "stays_hidden hidden (with_writer e (fill_output h n))" for n
    using fill_hidden [OF assms, of n] by (simp add: keeps_def with_writer_world)
  then show ?thesis
    unfolding download_asset_def
    by (intro keeps_intros writer_hidden [OF assms] outside_hidden hidden_parts [OF assms])
qed

lemma keeps_drop: "stays_hidden hidden m \<Longrightarrow> keeps hidden (\<lambda>w. case m (b, w) of (r, (b', w')) \<Rightarrow> (r, w'))"
  unfolding keeps_def by (simp add: case_prod_beta)

lemma read_back_hidden:
  assumes "hidden_laws h hidden" shows "keeps hidden (read_back h files uploaded)"
proof -
  have "stays_hidden hidden (act_each (\<lambda>item. act_bind (lift (file_named files (dget (the_dict item) ''name'' JNull)))
      (verify_uploaded_asset h item)) uploaded)"
    unfolding verify_uploaded_asset_def by (intro keeps_intros download_hidden [OF assms])
  then show ?thesis
    unfolding read_back_def by (intro keeps_bind keeps_lift keeps_drop)
qed

lemma act_each_done:
  "act_each f xs w = (Inr (), w') \<Longrightarrow> x \<in> set xs \<Longrightarrow> \<exists>w1 w2. f x w1 = (Inr (), w2)"
  by (induction xs arbitrary: w) (auto simp: act_then_Inr)

text \<open>What a completed read-back of the uploaded assets established of each file.\<close>

definition confirmed :: "'w storage \<Rightarrow> staged \<Rightarrow> bool" where
  "confirmed h f \<longleftrightarrow>
     (\<exists>item b w b' w'. dget (the_dict item) ''name'' JNull = JStr (s_name f) \<and> dget (the_dict item) ''state'' JNull = JStr ''uploaded''
        \<and> download_asset h (dget (the_dict item) ''id'' JNull) (identity_of (s_bytes f)) (b, w) = (Inr (identity_of (s_bytes f)), (b', w')))"

lemma file_named_Inr:
  "file_named files name = Inr f \<Longrightarrow> f \<in> set files \<and> JStr (s_name f) = name"
  by (auto simp: file_named_def find_Some_iff split: option.splits)

lemma drop_state_Inr:
  "(case m bw of (r, (_, w')) \<Rightarrow> (r, w')) = (Inr x, w'') \<longleftrightarrow> (\<exists>b'. m bw = (Inr x, (b', w'')))"
  by (auto split: prod.splits)

lemma verify_uploaded_Inr:
  assumes "verify_uploaded_asset h item f bw = (Inr (), bw')"
  shows "dget (the_dict item) ''state'' JNull = JStr ''uploaded''
    \<and> download_asset h (dget (the_dict item) ''id'' JNull) (identity_of (s_bytes f)) bw = (Inr (identity_of (s_bytes f)), bw')"
proof -
  obtain state where "get_res item ''state'' JNull = Inr state" "state = JStr ''uploaded''"
    and d: "download_asset h (dget (the_dict item) ''id'' JNull) (identity_of (s_bytes f)) bw = (Inr (identity_of (s_bytes f)), bw')"
    using assms unfolding verify_uploaded_asset_def act_then_Inr act_bind_Inr lift_apply by auto
  moreover from this have "dget (the_dict item) ''state'' JNull = JStr ''uploaded''"
    by (cases item) (simp_all add: get_res_def)
  ultimately show ?thesis by blast
qed

lemma hashed_field: "bnd (get_res v k JNull) hashable = Inr x \<Longrightarrow> dget (the_dict v) k JNull = x"
  by (cases v) (simp_all add: get_res_def hashable_def guard_def split: if_splits)

lemma inventory_item:
  assumes "check_inventory files uploaded = Inr ()" and "f \<in> set files"
  shows "\<exists>item \<in> set uploaded. dget (the_dict item) ''name'' JNull = JStr (s_name f)"
proof -
  obtain names where names: "mapres (\<lambda>item. bnd (get_res item ''name'' JNull) hashable) uploaded = Inr names"
    and sets: "set names = set (map (\<lambda>f. JStr (s_name f)) files)"
    using assms(1) by (auto simp: check_inventory_def split: if_splits)
  have "JStr (s_name f) \<in> set names" using sets assms(2) by auto
  then obtain item where "item \<in> set uploaded" "bnd (get_res item ''name'' JNull) hashable = Inr (JStr (s_name f))"
    using mapres_set [OF names] by blast
  then show ?thesis using hashed_field by blast
qed

lemma read_back_confirms:
  assumes "check_inventory files uploaded = Inr ()" and "read_back h files uploaded w = (Inr (), w')"
    and "distinct (map s_name files)" and "f \<in> set files"
  shows "confirmed h f"
proof -
  obtain item where item: "item \<in> set uploaded" and name: "dget (the_dict item) ''name'' JNull = JStr (s_name f)"
    using inventory_item [OF assms(1,4)] by blast
  obtain b w0 b' where "lift (new_budget ((\<Sum>f\<leftarrow>files. int (length (s_bytes f))) * int API_READ_ATTEMPTS) 0) w = (Inr b, w0)"
    and all: "act_each (\<lambda>item. act_bind (lift (file_named files (dget (the_dict item) ''name'' JNull)))
      (verify_uploaded_asset h item)) uploaded (b, w0) = (Inr (), (b', w'))"
    using assms(2) unfolding read_back_def act_bind_Inr drop_state_Inr by blast
  from act_each_done [OF all item] obtain w1 w2 where
    "act_bind (lift (file_named files (dget (the_dict item) ''name'' JNull))) (verify_uploaded_asset h item) w1 = (Inr (), w2)" by blast
  then obtain g where g: "file_named files (JStr (s_name f)) = Inr g" and v: "verify_uploaded_asset h item g w1 = (Inr (), w2)"
    unfolding act_bind_Inr lift_apply name by blast
  have "g = f" using file_named_Inr [OF g] assms(3,4) by (auto simp: distinct_map inj_on_def)
  then show ?thesis
    unfolding confirmed_def using name verify_uploaded_Inr [OF v] by (metis prod.collapse)
qed

section \<open>Only verified drafts become public\<close>

lemma verified_draft_hidden:
  assumes "hidden_laws h hidden" and "keeps hidden signatures" and "keeps hidden confirm_publish"
    and "\<And>c. confirm_create = Some c \<Longrightarrow> stays_hidden hidden c"
  shows "keeps hidden (verified_draft h scope_verified signatures tag sha files prerelease body confirm_create confirm_publish)"
  unfolding verified_draft_def
  by (intro keeps_intros requests_hidden create_draft_hidden upload_hidden read_back_hidden
      assms | simp)+

lemma verified_draft_Inr:
  assumes "verified_draft h scope_verified signatures tag sha files prerelease body confirm_create confirm_publish w = (Inr n, w1)"
    and "distinct (map s_name files)"
  shows "(\<forall>f \<in> set files. confirmed h f)
    \<and> (\<exists>ref w0. api (rest h) (''git/ref/tags/'' @ url_quote tag) ''GET'' None w0 = (Inr ref, w1) \<and> tag_object_ok ref (JStr tag) (JStr sha))
    \<and> (\<exists>release w2 w3. create_draft h (release_payload tag sha prerelease body) confirm_create w2 = (Inr release, w3) \<and> draft_id tag release = Inr n)"
proof -
  obtain w2 w3 release w4 w5 uploaded w6 w7 w8 w9 ref where
    create: "create_draft h (release_payload tag sha prerelease body) confirm_create w2 = (Inr release, w3)" "draft_id tag release = Inr n"
    and inv: "check_inventory files uploaded = Inr ()" and rb: "read_back h files uploaded w6 = (Inr (), w7)"
    and ref: "api (rest h) (''git/ref/tags/'' @ url_quote tag) ''GET'' None w8 = (Inr ref, w1)" "tag_object_ok ref (JStr tag) (JStr sha)"
    using assms(1) unfolding verified_draft_def act_then_Inr act_bind_Inr lift_apply prod.inject rc_require_Inr ret_apply
    by clarify (rule that; (assumption | simp))
  show ?thesis
    using read_back_confirms [OF inv rb assms(2)] create ref by blast
qed


end
