(* ===== verification/Publication_Runs.thy ===== *)
theory Publication_Runs
  imports Publication_Facts
begin

text \<open>
  A complete publication on a small GitHub that accepts everything: one staged file, one tag.  The world says
  whether the tag exists and whether the release is public.
\<close>

section \<open>The answers\<close>

definition pub_sha :: string where "pub_sha = replicate 40 CHR ''a''"

definition answer :: "string \<Rightarrow> string \<Rightarrow> string" where
  "answer status body = ''HTTP/2.0 '' @ status @ [CR, LF, CR, LF] @ dq body"

definition tag_text :: string where
  "tag_text = ''{`ref`:`refs/tags/v1.2.3`,`object`:{`type`:`commit`,`sha`:`'' @ pub_sha @ ''`}}''"

definition asset_text :: string where
  "asset_text = ''{`id`:7,`name`:`a`,`state`:`uploaded`,`size`:2}''"

fun pub_answer :: "string \<Rightarrow> string \<Rightarrow> bool \<Rightarrow> proc" where
  "pub_answer verb path created =
     (if verb = ''PATCH'' then Completed 0 (answer ''200 OK'' ''{`draft`:false,`tag_name`:`v1.2.3`,`prerelease`:false}'') []
      else if verb = ''POST'' then
        Completed 0 (answer ''201 Created''
          (if path = ''repos/o/r/git/refs'' then ''{}''
           else if path = ''repos/o/r/releases'' then ''{`draft`:true,`tag_name`:`v1.2.3`,`id`:5}'' else asset_text)) []
      else if path = ''repos/o/r/releases?per_page=100'' then Completed 0 (answer ''200 OK'' ''[]'') []
      else if path = ''repos/o/r/releases/5/assets?per_page=100'' then Completed 0 (answer ''200 OK'' (''['' @ asset_text @ '']'')) []
      else if path = ''repos/o/r/git/ref/tags/v1.2.3'' \<and> created then Completed 0 (answer ''200 OK'' tag_text) []
      else Completed 1 (answer ''404 Not Found'' ''{}'') ''x'')"

definition pub_run :: "string list \<Rightarrow> string option \<Rightarrow> rat option \<Rightarrow> (bool \<times> bool, proc) act" where
  "pub_run cmd input limit w =
     (let verb = method_of cmd in
      (Inr (pub_answer verb (last cmd) (fst w)), (fst w \<or> verb = ''POST'', snd w \<or> verb = ''PATCH'')))"

definition pub_host :: "(bool \<times> bool) storage" where
  "pub_host =
     \<lparr>repo = ''o/r'', run_proc = pub_run, pause = (\<lambda>_. ret ()), json_float_text = (\<lambda>s. s),
      clock = ret 0, draw_delay = (\<lambda>_. ret 1), sleep_for = (\<lambda>_. ret ()), free_bytes = ret 100, open_output = ret (),
      remove_output = ret (), disk_write = (\<lambda>c. ret (int (length c))), truncate_output = ret (),
      same_file = ret True, start_transfer = (\<lambda>_. ret [Out_chunk ''ab'', Pipe_end, Pipe_end, Exited 0]), reap = ret True\<rparr>"

definition pub_file :: staged where
  "pub_file = \<lparr>s_path = ''/t/a'', s_name = ''a'', s_regular = True, s_private = True, s_bytes = ''ab''\<rparr>"

lemma pub_laws: "hidden_laws pub_host (\<lambda>w. \<not> snd w)"
  by (auto simp: hidden_laws_def pub_host_def keeps_def pub_run_def Let_def)

section \<open>The requests\<close>

lemma pub_absent: "ensure_absent (rest pub_host) ''v1.2.3'' (False, False) = (Inr (), (False, False))"
  by code_simp

lemma pub_tag:
  "api (rest pub_host) ''git/refs'' ''POST'' (Some (JObj [(''ref'', JStr ''refs/tags/v1.2.3''), (''sha'', JStr pub_sha)])) (False, False)
     = (Inr (JObj []), (True, False))"
  by code_simp

lemma pub_draft:
  "create_draft pub_host (release_payload ''v1.2.3'' pub_sha False ''notes'') None (True, False)
     = (Inr (JObj [(''draft'', JBool True), (''tag_name'', JStr ''v1.2.3''), (''id'', JInt 5)]), (True, False))"
  by code_simp

lemma pub_upload: "upload (transport.truncate pub_host) ''v1.2.3'' pub_file 5 (True, False) = (Inr (), (True, False))"
  by code_simp

definition pub_asset :: json where
  "pub_asset = JObj [(''id'', JInt 7), (''name'', JStr ''a''), (''size'', JInt 2), (''state'', JStr ''uploaded'')]"

lemma pub_listed: "pages (rest pub_host) ''releases/5/assets'' None (True, False) = (Inr [pub_asset], (True, False))"
  by code_simp

lemma pub_ref:
  "api (rest pub_host) ''git/ref/tags/v1.2.3'' ''GET'' None (True, False)
     = (Inr (JObj [(''ref'', JStr ''refs/tags/v1.2.3''), (''object'', JObj [(''type'', JStr ''commit''), (''sha'', JStr pub_sha)])]), (True, False))"
  by code_simp

lemma pub_public: "make_public pub_host ''v1.2.3'' False 5 (True, False)
     = (Inr (JObj [(''draft'', JBool False), (''tag_name'', JStr ''v1.2.3''), (''prerelease'', JBool False)]), (True, True))"
  by code_simp

section \<open>The read-back\<close>

lemma pub_check:
  "0 \<le> n \<Longrightarrow> n \<le> i_size (expected s) - int (length (staged_bytes s)) \<Longrightarrow> n \<le> max_bytes (budget s) - written (budget s)
   \<Longrightarrow> reserve_bytes (budget s) + n \<le> 100 \<Longrightarrow> writer_check pub_host n (s, w) = (Inr (), (s, w))"
  by (simp add: writer_check_def budget_check_def checks_Cons rc_require_def ensure_def act_bind_def act_then_def outside_def pub_host_def)

lemma pub_deadline: "0 < d \<Longrightarrow> before_deadline pub_host d (s, w) = (Inr (), (s, w))"
  by (simp add: before_deadline_def pub_host_def outside_def act_bind_def ensure_def)

lemma pub_clock: "clock pub_host w = (Inr 0, w)"
  by (simp add: pub_host_def)

definition pub_budget :: budget where "pub_budget = \<lparr>max_bytes = 6, reserve_bytes = 0, written = 0\<rparr>"

definition pub_writer :: writer where
  "pub_writer = \<lparr>staged_bytes = [], expected = identity_of ''ab'', budget = pub_budget\<rparr>"

definition pub_filled :: writer where
  "pub_filled = \<lparr>staged_bytes = ''ab'', expected = identity_of ''ab'', budget = pub_budget\<lparr>written := 2\<rparr>\<rparr>"

lemmas pub_writers = pub_writer_def pub_filled_def pub_budget_def identity_of_def

lemma pub_write: "writer_write pub_host ''ab'' (pub_writer, w) = (Inr (), (pub_filled, w))"
  by (simp add: writer_write_def act_then_def act_bind_def pub_check pub_writers)
    (simp add: outside_def pub_host_def rc_require_def ensure_def act_bind_def)

lemma pub_stream: "stream_asset pub_host cmd 900 (pub_writer, w) = (Inr (Completed 0 [] []), (pub_filled, w))"
proof -
  have "start_transfer pub_host cmd w = (Inr [Out_chunk ''ab'', Pipe_end, Pipe_end, Exited 0], w)" "stop_transfer pub_host w = (Inr (), w)"
    by (simp_all add: pub_host_def stop_transfer_def act_bind_def ensure_def)
  moreover have check: "writer_check pub_host 0 (s, w) = (Inr (), (s, w))" if "s = pub_writer \<or> s = pub_filled" for s
    using that by (auto simp: pub_check pub_writers)
  moreover have "pump pub_host 900 0 [] [Out_chunk ''ab'', Pipe_end, Pipe_end, Exited 0] (pub_writer, w) = (Inr (Completed 0 [] []), (pub_filled, w))"
    by (simp add: act_then_def act_bind_def pub_deadline pub_clock pub_write check outside_def ensure_def)
  ultimately show ?thesis
    by (simp add: stream_asset_def act_then_def act_bind_def act_finally_def outside_def pub_deadline)
qed

lemma pub_download:
  "download_asset pub_host (JInt 7) (identity_of ''ab'') (pub_budget, w) = (Inr (identity_of ''ab''), (pub_budget\<lparr>written := 2\<rparr>, w))"
proof -
  have "gh_download_asset pub_host 7 (pub_writer, w) = (Inr (), (pub_filled, w))"
    by (simp add: gh_download_asset_def act_bind_def act_then_def act_catch_def outside_def pub_deadline pub_clock API_READ_ATTEMPTS_def
      ASSET_DOWNLOAD_TIMEOUT_def numeral_3_eq_3 pub_stream transient_asset_failure_def response_def checks_Cons ensure_def ignore_def)
  moreover have "same_file pub_host w = (Inr True, w)" "open_output pub_host w = (Inr (), w)" by (simp_all add: pub_host_def)
  moreover have "writer_check pub_host 0 (pub_filled, w) = (Inr (), (pub_filled, w))" by (simp add: pub_check pub_writers)
  ultimately have fill: "fill_output pub_host 7 (pub_writer, w) = (Inr (identity_of ''ab''), (pub_filled, w))"
    by (simp add: fill_output_def act_then_def act_bind_def outside_def rc_require_def ensure_def writer_identity_def checks_Cons)
      (simp add: pub_filled_def)
  have "rx_match (hex_rx 64) (i_sha256 (identity_of ''ab''))"
    unfolding rx_match_iff identity_of_def by (simp add: digest_in_hex_rx del: lang_hex_rx)
  moreover have "rc_positive (JInt 7) ''asset ID'' = Inr 7" by code_simp
  moreover have "budget_check pub_host pub_budget (i_size (identity_of ''ab'')) w = (Inr (), w)"
    by (simp add: budget_check_def pub_budget_def identity_of_def pub_host_def act_then_def act_bind_def checks_Cons rc_require_def ensure_def)
  moreover have "0 \<le> i_size (identity_of ''ab'')" by (simp add: identity_of_def)
  ultimately show ?thesis
    using fill [unfolded pub_writer_def] \<open>open_output pub_host w = _\<close>
    by (simp add: download_asset_def act_bind_def act_then_def outside_def rc_require_def ensure_def with_writer_def act_catch_def)
      (simp add: pub_filled_def)
qed

lemma pub_read_back: "read_back pub_host [pub_file] [pub_asset] w = (Inr (), w)"
proof -
  have pub_size: "i_size (identity_of ''ab'') = 2" by (simp add: identity_of_def)
  have "new_budget 6 0 = Inr pub_budget" by (simp add: new_budget_def pub_budget_def checks_Cons rc_require_def ensure_def)
  then show ?thesis
    by (simp add: read_back_def act_bind_def act_then_def pub_file_def API_READ_ATTEMPTS_def file_named_def pub_asset_def dget_def
      verify_uploaded_asset_def get_res_def rc_require_def ensure_def pub_download pub_size num_eq_def same_number_def)
qed

section \<open>The publication\<close>

lemma pub_draft_phase:
  "verified_draft pub_host True (ret ()) ''v1.2.3'' pub_sha [pub_file] False ''notes'' None (ret ()) (False, False) = (Inr 5, (True, False))"
proof -
  have "check_workflow_publication pub_host True pub_sha w = (Inr (), w)" for w by code_simp
  moreover have "reject_restricted_assets [''a''] = Inr ()" by code_simp
  moreover have "check_inventory [pub_file] [pub_asset] = Inr ()" by code_simp
  moreover have "draft_id ''v1.2.3'' (JObj [(''draft'', JBool True), (''tag_name'', JStr ''v1.2.3''), (''id'', JInt 5)]) = Inr 5" by code_simp
  moreover have "tag_object_ok (JObj [(''ref'', JStr ''refs/tags/v1.2.3''), (''object'', JObj [(''type'', JStr ''commit''), (''sha'', JStr pub_sha)])])
      (JStr ''v1.2.3'') (JStr pub_sha)" by code_simp
  moreover have "s_name pub_file = ''a''" "url_quote ''v1.2.3'' = ''v1.2.3''" "str_int 5 = ''5''" by code_simp+
  ultimately show ?thesis
    using pub_absent pub_tag pub_draft pub_upload pub_listed pub_ref
    by (simp add: verified_draft_def act_then_def act_bind_def act_when_def RELEASE_SIGNATURES_REQUIRED_def pub_read_back rc_require_def ensure_def)
qed


end
