(* ===== verification/Execution_Wait.thy ===== *)
theory Execution_Wait
  imports Publication Datetime
begin

text \<open>
  The proof that the publishing process runs inside the expected Actions run, in
  \<open>scripts/release_control.py\<close>: the identity of the run, its jobs and steps with their times, the release
  gate, and the bounded wait for GitHub's metadata.  Runs, jobs and steps are the raw JSON of the answers.
\<close>

section \<open>The host\<close>

text \<open>The environment variables, the UTC clock in microseconds, \<open>git rev-parse HEAD\<close>, and reading the event file.\<close>

record 'w runner_host = "'w storage" +
  env :: "string \<Rightarrow> string option"
  utc_clock :: "('w, int) act"
  rev_parse :: "('w, int \<times> string) act"
  read_event :: "string \<Rightarrow> ('w, string) act"

definition net :: "'w runner_host \<Rightarrow> 'w storage" where
  "net h = storage.truncate h"

definition env_value :: "'w runner_host \<Rightarrow> string \<Rightarrow> json" where
  "env_value h name = (case env h name of None \<Rightarrow> JNull | Some s \<Rightarrow> JStr s)"

definition env_text :: "'w runner_host \<Rightarrow> string \<Rightarrow> string" where
  "env_text h name = (case env h name of None \<Rightarrow> [] | Some s \<Rightarrow> s)"

definition WORKFLOW :: string where
  "WORKFLOW = ''.github/workflows/release-pipeline.yml''"

definition checked_out_sha :: "'w runner_host \<Rightarrow> ('w, string) act" where
  "checked_out_sha h =
     act_bind (rev_parse h) (\<lambda>(code, stdout). lift
       (checks [rc_require (code = 0) ''Must run from the checked-out release repository''] (Inr (strip is_space stdout))))"

section \<open>Identity of the run\<close>

text \<open>\<open>type(a) is type(b)\<close>.\<close>

fun same_type :: "json \<Rightarrow> json \<Rightarrow> bool" where
  "same_type JNull JNull = True"
| "same_type (JBool _) (JBool _) = True"
| "same_type (JInt _) (JInt _) = True"
| "same_type (JFloat _) (JFloat _) = True"
| "same_type (JStr _) (JStr _) = True"
| "same_type (JArr _) (JArr _) = True"
| "same_type (JObj _) (JObj _) = True"
| "same_type _ _ = False"

definition allowed_events :: "(string \<times> string list) list" where
  "allowed_events =
     [(''nightly'', [''schedule'', ''workflow_dispatch'']), (''beta'', [''push'', ''workflow_dispatch'']),
      (''rc'', [''workflow_dispatch'']), (''stable'', [''workflow_dispatch''])]"

text \<open>The channel that a dispatched workflow was asked for.\<close>

definition check_dispatch :: "'w runner_host \<Rightarrow> string \<Rightarrow> ('w, unit) act" where
  "check_dispatch h channel =
     (let event_file = env_text h ''GITHUB_EVENT_PATH'' in
      act_then (lift (rc_require (event_file \<noteq> []) ''Missing workflow dispatch event''))
      (act_bind (read_event h event_file) (\<lambda>raw. lift
        (bnd (parse_json (json_float_text h) raw) (\<lambda>payload.
         if is_dict payload
         then bnd (get_res (dget (the_dict payload) ''inputs'' (JObj [])) ''channel'' JNull) (\<lambda>c.
                rc_require (c = JStr channel) ''Workflow dispatch input channel differs'')
         else Inl (ReleaseError ''Workflow dispatch input channel differs''))))))"

definition check_execution :: "'w runner_host \<Rightarrow> int \<Rightarrow> string \<Rightarrow> members \<Rightarrow> json \<Rightarrow> ('w, unit) act" where
  "check_execution h run_id channel info run =
     act_then (lift (checks
       [rc_require (env h ''GITHUB_ACTIONS'' = Some ''true'') ''Publication must run inside GitHub Actions'',
        rc_require (lower (env_text h ''GITHUB_REPOSITORY'') = lower (repo h)) ''Execution repository mismatch'',
        rc_require (env h ''GITHUB_RUN_ID'' = Some (str_int run_id)) ''Execution run ID mismatch'',
        bnd (get_res run ''run_attempt'' JNull) (\<lambda>a. rc_require (env h ''GITHUB_RUN_ATTEMPT'' = Some (py_str a)) ''Execution run attempt mismatch''),
        bnd (item_res (JObj info) ''default_branch'') (\<lambda>b.
          rc_require (env h ''GITHUB_REF'' = Some (''refs/heads/'' @ py_str b)) ''Dispatch must target the default branch''),
        bnd (item_res (JObj info) ''full_name'') (\<lambda>n. bnd (item_res (JObj info) ''default_branch'') (\<lambda>b.
          rc_require (env h ''GITHUB_WORKFLOW_REF'' = Some (py_str n @ ''/'' @ WORKFLOW @ ''@refs/heads/'' @ py_str b)) ''Execution workflow mismatch''))]
       (Inr ())))
     (act_bind (checked_out_sha h) (\<lambda>sha.
      let event = env_value h ''GITHUB_EVENT_NAME'' in
      act_then (lift (checks
        [bnd (get_res run ''head_sha'' JNull) (\<lambda>s. rc_require (s = JStr sha) ''Checkout does not match the source run SHA''),
         bnd (get_res run ''event'' JNull) (\<lambda>e. rc_require (py_eq event e) ''Execution event mismatch''),
         (case map_of allowed_events channel of
            None \<Rightarrow> Inl (KeyError ''channel'')
          | Some es \<Rightarrow> rc_require (event \<in> set (map JStr es)) ''Event cannot publish channel'')] (Inr ())))
      (act_when (event = JStr ''workflow_dispatch'') (check_dispatch h channel))))"

text \<open>\<open>run.get(key, {}).get("full_name", "").lower()\<close>.\<close>

definition owner_name :: "json \<Rightarrow> string \<Rightarrow> string res" where
  "owner_name run key =
     bnd (get_res run key (JObj [])) (\<lambda>r. bnd (get_res r ''full_name'' (JStr [])) (\<lambda>n.
       guard (is_str n) (AttributeError ''lower'') (Inr (lower (the_str n)))))"

definition field_is :: "json \<Rightarrow> string \<Rightarrow> (json \<Rightarrow> bool) \<Rightarrow> string \<Rightarrow> unit res" where
  "field_is run key p message = bnd (get_res run key JNull) (\<lambda>v. rc_require (p v) message)"

definition validate_run_provenance :: "string \<Rightarrow> json \<Rightarrow> members \<Rightarrow> string \<Rightarrow> json \<Rightarrow> unit res" where
  "validate_run_provenance repository run info sha attempt =
     checks
      [bnd (owner_name run ''repository'') (\<lambda>n. rc_require (n = lower repository) ''Source run belongs to another repository''),
       bnd (owner_name run ''head_repository'') (\<lambda>n. rc_require (n = lower repository) ''Source run comes from another repository''),
       field_is run ''head_sha'' (\<lambda>v. v = JStr sha \<and> rx_match (hex_rx 40) sha) ''Source run SHA mismatch'',
       field_is run ''path'' (\<lambda>v. v = JStr WORKFLOW) ''Source run uses an unexpected workflow path'',
       bnd (get_res run ''head_branch'' JNull) (\<lambda>v. bnd (item_res (JObj info) ''default_branch'') (\<lambda>b.
         rc_require (py_eq v b) ''Source run does not target the default branch'')),
       field_is run ''event'' (\<lambda>v. v \<in> set (map JStr [''push'', ''schedule'', ''workflow_dispatch''])) ''Untrusted source run event'',
       field_is run ''run_attempt'' (\<lambda>v. py_eq v attempt) ''Source run was rerun; evidence is not from its latest attempt'']
      (Inr ())"

section \<open>Times\<close>

definition offset_rx :: rx where
  "offset_rx = Seqs [Cls ''+-'', Alts [Seqs [Cls ''01'', Digit], Seqs [Lit ''2'', Cls ''0123'']], Lit '':'', Cls ''012345'', Digit]"

definition local_time_rx :: rx where
  "local_time_rx = Seqs [Rep 4 Digit, Lit ''-'', Rep 2 Digit, Lit ''-'', Rep 2 Digit, Lit ''T'', Rep 2 Digit, Lit '':'', Rep 2 Digit, Lit '':'',
     Rep 2 Digit, Opt (Seqs [Lit ''.'', Digit, UpTo 5 Digit])]"

definition first_instant :: int where "first_instant = day_number 1 1 1 * day_us"
definition last_instant :: int where "last_instant = (day_number 9999 12 31 + 1) * day_us - 1"

text \<open>The instant of a timestamp; \<open>astimezone\<close> overflows at the ends of the calendar, which is no \<open>ValueError\<close>.\<close>

definition execution_timestamp :: "json \<Rightarrow> int res" where
  "execution_timestamp v =
     (let s = the_str v; zulu = endswith s ''Z'';
          local_time = (if zulu then take (length s - 1) s else take (length s - 6) s); offset = drop (length s - 6) s in
      checks
       [rc_require (is_str v) ''Missing or malformed timestamp'',
        rc_require (zulu \<or> rx_match offset_rx offset) ''Missing or malformed timestamp'',
        rc_require (rx_match local_time_rx local_time) ''Missing or malformed timestamp'']
       (case from_isoformat (replace_zulu s) of
          None \<Rightarrow> Inl (ReleaseError ''Missing or malformed timestamp'')
        | Some t \<Rightarrow> guard (first_instant \<le> instant t \<and> instant t \<le> last_instant) (OverflowError ''date value out of range'') (Inr (instant t))))"

definition time_field :: "json \<Rightarrow> string \<Rightarrow> int res" where
  "time_field v key = bnd (get_res v key JNull) execution_timestamp"

text \<open>A step that succeeded, within the interval of its job.\<close>

definition fresh_step :: "int \<Rightarrow> int \<Rightarrow> json \<Rightarrow> unit res" where
  "fresh_step start finish step =
     checks [field_is step ''status'' (\<lambda>v. v = JStr ''completed'') ''Successful job has incomplete execution steps'']
      (bnd (time_field step ''started_at'') (\<lambda>a. bnd (time_field step ''completed_at'') (\<lambda>b.
        rc_require (start \<le> a \<and> a \<le> b \<and> b \<le> finish) ''Executed step lies outside the current job interval'')))"

definition require_fresh_job_timing :: "json \<Rightarrow> int \<Rightarrow> unit res" where
  "require_fresh_job_timing job boundary =
     bnd (time_field job ''started_at'') (\<lambda>start. bnd (time_field job ''completed_at'') (\<lambda>finish.
     checks [rc_require (boundary \<le> start \<and> start \<le> finish) ''Successful job predates the current release attempt'']
      (bnd (get_res job ''steps'' JNull) (\<lambda>steps.
       let passed = filter (\<lambda>s. dget (the_dict s) ''conclusion'' JNull = JStr ''success'') (the_list steps) in
       checks [rc_require (is_list steps \<and> the_list steps \<noteq> []) ''Successful job lacks execution steps'',
               rc_require (list_all is_dict (the_list steps)) ''Malformed job execution step'',
               rc_require (passed \<noteq> []) ''Successful job lacks successful execution steps'',
               each (fresh_step start finish) passed] (Inr ())))))"

section \<open>The release gate\<close>

definition active_states :: "string list" where
  "active_states = [''queued'', ''requested'', ''pending'', ''waiting'', ''in_progress'']"

definition check_current_job :: "string \<Rightarrow> int \<Rightarrow> int \<Rightarrow> json \<Rightarrow> unit res" where
  "check_current_job sha attempt boundary job =
     bnd (get_res job ''status'' JNull) (\<lambda>status.
     if status \<noteq> JStr ''completed'' \<or> dget (the_dict job) ''conclusion'' JNull \<noteq> JStr ''success'' then Inr ()
     else checks [rc_require (dget (the_dict job) ''head_sha'' JNull = JStr sha \<and> py_eq (dget (the_dict job) ''run_attempt'' JNull) (JInt attempt))
                    ''Successful job differs from the current release attempt'']
           (require_fresh_job_timing job boundary))"

definition require_current_attempt_jobs :: "'w runner_host \<Rightarrow> int \<Rightarrow> string \<Rightarrow> int \<Rightarrow> json list \<Rightarrow> ('w, unit) act" where
  "require_current_attempt_jobs h run_id sha attempt jobs =
     (if attempt = 1 then ret ()
      else
        act_bind (api (rest (net h)) (''actions/runs/'' @ str_int run_id @ ''/attempts/'' @ str_int attempt) ''GET'' None) (\<lambda>detail. lift
          (checks
            [rc_require (is_dict detail) ''Malformed release attempt metadata'',
             rc_require (py_eq (dget (the_dict detail) ''id'' JNull) (JInt run_id) \<and> py_eq (dget (the_dict detail) ''run_attempt'' JNull) (JInt attempt)
                \<and> dget (the_dict detail) ''head_sha'' JNull = JStr sha \<and> dget (the_dict detail) ''path'' JNull = JStr WORKFLOW)
               ''Release attempt metadata identity mismatch'']
            (bnd (time_field detail ''run_started_at'') (\<lambda>boundary. each (check_current_job sha attempt boundary) jobs)))))"

definition gate_failure :: string where
  "gate_failure = ''Exactly one successful, completed Release gate is required; skipped is not a pass''"

text \<open>Whether the one gate has passed; it has not yet when pending is allowed and it is still active.\<close>

definition gate_passed :: "string \<Rightarrow> bool \<Rightarrow> json list \<Rightarrow> bool res" where
  "gate_passed sha allow_pending jobs =
     bnd (filter_res (\<lambda>job. bnd (get_res job ''name'' JNull) (\<lambda>n. Inr (n = JStr ''Release gate''))) jobs) (\<lambda>gates.
     if gates = [] \<and> allow_pending then Inr False
     else
       checks [rc_require (length gates = 1) gate_failure,
               field_is (hd gates) ''head_sha'' (\<lambda>v. v = JStr sha) ''Release gate SHA mismatch'']
        (bnd (get_res (hd gates) ''status'' JNull) (\<lambda>status.
         bnd (if allow_pending then hash_in status active_states else Inr False) (\<lambda>active.
         if active then checks [field_is (hd gates) ''conclusion'' is_null gate_failure] (Inr False)
         else checks [rc_require (status = JStr ''completed'' \<and> dget (the_dict (hd gates)) ''conclusion'' JNull = JStr ''success'') gate_failure]
               (Inr True)))))"

definition release_gate_ready :: "'w runner_host \<Rightarrow> int \<Rightarrow> string \<Rightarrow> int \<Rightarrow> bool \<Rightarrow> ('w, bool) act" where
  "release_gate_ready h run_id sha attempt allow_pending =
     act_bind (pages (rest (net h)) (''actions/runs/'' @ str_int run_id @ ''/attempts/'' @ str_int attempt @ ''/jobs'') (Some ''jobs'')) (\<lambda>jobs.
     act_bind (lift (gate_passed sha allow_pending jobs)) (\<lambda>passed.
     if \<not> passed then ret False
     else act_then (require_current_attempt_jobs h run_id sha attempt jobs) (ret True)))"

definition validate_run :: "'w runner_host \<Rightarrow> json \<Rightarrow> members \<Rightarrow> string \<Rightarrow> int \<Rightarrow> bool \<Rightarrow> bool \<Rightarrow> ('w, unit) act" where
  "validate_run h run info sha attempt completed gate =
     act_then (lift (checks
       [validate_run_provenance (repo h) run info sha (JInt attempt),
        (if completed
         then bnd (get_res run ''status'' JNull) (\<lambda>s. rc_require (s = JStr ''completed'' \<and> dget (the_dict run) ''conclusion'' JNull = JStr ''success'')
                ''Source run has not completed successfully'')
         else field_is run ''status'' (\<lambda>s. s = JStr ''in_progress'') ''Publication run is not in progress'')] (Inr ())))
     (act_when gate
       (act_bind (lift (bnd (get_res run ''id'' JNull) (\<lambda>v. rc_positive v ''run ID''))) (\<lambda>n.
         act_bind (release_gate_ready h n sha attempt False) (\<lambda>_. ret ()))))"

section \<open>Superseded candidates\<close>

definition automatic :: "json \<Rightarrow> string \<Rightarrow> bool res" where
  "automatic event channel =
     bnd (hashable event) (\<lambda>e. Inr ((e, channel) \<in> {(JStr ''push'', ''beta''), (JStr ''schedule'', ''nightly'')}))"

text \<open>The one run that replaces an older automatic one.\<close>

definition replacement_run :: "json \<Rightarrow> json res" where
  "replacement_run v =
     (let m = the_dict v; runs = dget m ''workflow_runs'' JNull in
      checks
       [rc_require (is_dict v \<and> dget m ''total_count'' JNull = JInt 1 \<and> is_list runs \<and> length (the_list runs) = 1)
          ''Default branch advanced without one proven replacement release run'',
        rc_require (is_dict (hd (the_list runs))) ''Invalid replacement release run'']
       (Inr (hd (the_list runs))))"

definition newer_run :: "json \<Rightarrow> json \<Rightarrow> unit res" where
  "newer_run successor run =
     (let s = the_dict successor; message = ''Replacement must be a newer automatic run of the default-branch release workflow'' in
      if dget s ''event'' JNull \<noteq> JStr ''push'' then Inl (ReleaseError message)
      else
        bnd (rc_positive (dget s ''id'' JNull) ''successor run ID'') (\<lambda>a.
        bnd (bnd (get_res run ''id'' JNull) (\<lambda>v. rc_positive v ''source run ID'')) (\<lambda>b.
        if a \<le> b then Inl (ReleaseError message)
        else
          bnd (rc_positive (dget s ''run_number'' JNull) ''successor run number'') (\<lambda>a.
          bnd (bnd (get_res run ''run_number'' JNull) (\<lambda>v. rc_positive v ''source run number'')) (\<lambda>b.
          if a \<le> b then Inl (ReleaseError message)
          else bnd (hash_in (dget s ''status'' JNull) (active_states @ [''completed''])) (\<lambda>ok. rc_require ok message))))))"

definition superseded_result :: "string \<Rightarrow> string \<Rightarrow> json \<Rightarrow> json \<Rightarrow> members" where
  "superseded_result repository head sha successor_id =
     [(''status'', JStr ''superseded''), (''source_sha'', sha), (''superseded_by'', JStr head), (''successor_run_id'', JStr (py_str successor_id)),
      (''successor_run_url'', JStr (''https://github.com/'' @ repository @ ''/actions/runs/'' @ py_str successor_id))]"

definition check_comparison :: "json \<Rightarrow> json \<Rightarrow> unit res" where
  "check_comparison comparison sha =
     (let message = ''Automatic release source is not a verified ancestor of current default HEAD'' in
      if is_dict comparison \<and> dget (the_dict comparison) ''status'' JNull = JStr ''ahead''
      then bnd (get_res (dget (the_dict comparison) ''merge_base_commit'' (JObj [])) ''sha'' JNull) (\<lambda>b. rc_require (py_eq b sha) message)
      else Inl (ReleaseError message))"

definition superseded_candidate :: "'w runner_host \<Rightarrow> members \<Rightarrow> json \<Rightarrow> string \<Rightarrow> ('w, members option) act" where
  "superseded_candidate h info run channel =
     act_bind (lift (bnd (item_res run ''event'') (\<lambda>e. automatic e channel))) (\<lambda>auto.
     if \<not> auto then ret None
     else
       act_bind (lift (item_res (JObj info) ''default_branch'')) (\<lambda>default.
       act_bind (repository_info (net h)) (\<lambda>again.
       act_then (lift (rc_require (py_eq (dget again ''default_branch'' JNull) default) ''Default branch changed during this run''))
       (act_then (lift (ensure (is_str default) (TypeError ''quote_from_bytes'')))
       (let branch = the_str default; path = ''git/ref/heads/'' @ url_quote branch in
        act_bind (api (rest (net h)) path ''GET'' None) (\<lambda>ref.
        act_then (lift (rc_require (branch_ref_ok ref branch) ''Cannot verify current default branch for automatic publication''))
        (let head = the_str (ref_commit ref) in
         act_bind (lift (item_res run ''head_sha'')) (\<lambda>sha.
         if sha = JStr head then ret None
         else
           act_bind (api (rest (net h)) (''compare/'' @ py_str sha @ ''...'' @ head) ''GET'' None) (\<lambda>comparison.
           act_then (lift (check_comparison comparison sha))
           (act_bind (api (rest (net h)) (''actions/workflows/release-pipeline.yml/runs?branch='' @ url_quote branch
               @ ''&event=push&head_sha='' @ head @ ''&per_page=100'') ''GET'' None) (\<lambda>replacement.
            act_bind (lift (replacement_run replacement)) (\<lambda>successor.
            act_bind (lift (rc_positive (dget (the_dict successor) ''run_attempt'' JNull) ''run attempt'')) (\<lambda>attempt.
            act_then (lift (validate_run_provenance (repo h) successor info head (JInt attempt)))
            (act_then (lift (newer_run successor run))
            (act_bind (api (rest (net h)) path ''GET'' None) (\<lambda>ref'.
             act_then (lift (rc_require (py_eq ref' ref) ''Default branch changed while verifying replacement; retry at current HEAD''))
             (act_bind (lift (item_res successor ''id'')) (\<lambda>n.
               ret (Some (superseded_result (repo h) head sha n))))))))))))))))))))"

section \<open>The executing job\<close>

record job_proof =
  p_job :: int
  p_check_run :: int
  p_runner :: int
  p_runner_name :: string

definition execution_check_run_id :: "'w runner_host \<Rightarrow> int option res" where
  "execution_check_run_id h =
     (let v = env_text h ''RELEASE_EXECUTION_CHECK_RUN_ID'' in
      if v = [] then Inr None
      else checks [rc_require (rx_match pos_int_rx v) ''Invalid execution check-run ID''] (Inr (Some (int (nat_of_digits v)))))"

text \<open>\<open>type(v.get(key)) is type(e) and v[key] == e\<close>.\<close>

definition same_field :: "json \<Rightarrow> string \<Rightarrow> json \<Rightarrow> string \<Rightarrow> unit res" where
  "same_field v key e message =
     (if same_type (dget (the_dict v) key JNull) e then bnd (item_res v key) (\<lambda>x. rc_require (py_eq x e) message)
      else Inl (ReleaseError message))"

definition attempt_keys :: "string list" where
  "attempt_keys = [''id'', ''run_attempt'', ''head_sha'', ''path'', ''event'']"

text \<open>The fields of a job that name its run, whose values are taken before any is compared.\<close>

definition same_run :: "json \<Rightarrow> json \<Rightarrow> unit res" where
  "same_run job run =
     bnd (mapres (item_res run) [''id'', ''run_attempt'', ''head_sha'']) (\<lambda>es.
       each (\<lambda>(key, e). same_field job key e ''Executing job identity changed'') (zip [''run_id'', ''run_attempt'', ''head_sha''] es))"

definition require_active_attempt :: "json \<Rightarrow> json \<Rightarrow> unit res" where
  "require_active_attempt current run =
     checks [rc_require (is_dict current) ''Malformed execution attempt'',
             each (\<lambda>key. bnd (item_res run key) (\<lambda>e. same_field current key e ''Execution attempt identity changed'')) attempt_keys]
      (if dget (the_dict current) ''conclusion'' JNull = JNull
       then bnd (hash_in (dget (the_dict current) ''status'' JNull) active_states) (\<lambda>b. rc_require b ''Execution attempt is not active'')
       else Inl (ReleaseError ''Execution attempt is not active''))"

definition no_times :: "json \<Rightarrow> bool" where
  "no_times step \<longleftrightarrow> dget (the_dict step) ''started_at'' JNull = JNull \<and> dget (the_dict step) ''completed_at'' JNull = JNull"

text \<open>A step of a job none of whose steps is executing: whether it is queued.\<close>

definition pending_step :: "int \<Rightarrow> int \<Rightarrow> json \<Rightarrow> bool res" where
  "pending_step start now step =
     (let conclusion = dget (the_dict step) ''conclusion'' JNull in
      if dget (the_dict step) ''status'' JNull = JStr ''queued''
      then checks [rc_require (conclusion = JNull \<and> no_times step) ''Queued execution step already started or concluded''] (Inr True)
      else
        checks [(if dget (the_dict step) ''status'' JNull = JStr ''completed''
                 then bnd (hash_in conclusion [''success'', ''skipped'']) (\<lambda>b. rc_require b ''Invalid pending execution step state'')
                 else Inl (ReleaseError ''Invalid pending execution step state''))]
         (if conclusion = JStr ''skipped'' \<and> no_times step then Inr False
          else bnd (time_field step ''started_at'') (\<lambda>a. bnd (time_field step ''completed_at'') (\<lambda>b.
            checks [rc_require (start \<le> a \<and> a \<le> b \<and> b \<le> now) ''Completed step lies outside its current job''] (Inr False)))))"

definition require_pending_execution_steps :: "json list \<Rightarrow> int \<Rightarrow> int \<Rightarrow> unit res" where
  "require_pending_execution_steps steps start now =
     bnd (mapres (pending_step start now) steps) (\<lambda>pending.
       rc_require (True \<in> set pending) ''Executing job has only terminal steps'')"

fun number_steps :: "int list \<Rightarrow> json list \<Rightarrow> unit res" where
  "number_steps seen [] = Inr ()"
| "number_steps seen (s # ss) =
     (let n = dget (the_dict s) ''number'' JNull in
      checks [rc_require (is_dict s) ''Malformed executing job step'',
              rc_require (is_int n \<and> 0 < the_int n \<and> the_int n \<notin> set seen) ''Invalid or duplicate executing step number'']
        (number_steps (the_int n # seen) ss))"

definition require_executing_job_timing :: "'w runner_host \<Rightarrow> json \<Rightarrow> json \<Rightarrow> bool \<Rightarrow> ('w, bool) act" where
  "require_executing_job_timing h job run allow_pending =
     act_bind (lift (time_field run ''run_started_at'')) (\<lambda>boundary.
     act_bind (lift (time_field job ''started_at'')) (\<lambda>start.
     act_bind (utc_clock h) (\<lambda>now. lift (
       let steps = dget (the_dict job) ''steps'' JNull;
           active = filter (\<lambda>s. dget (the_dict s) ''status'' JNull = JStr ''in_progress'') (the_list steps) in
       checks
        [rc_require (boundary \<le> start \<and> start \<le> now) ''Executing job predates its attempt or is future-dated'',
         rc_require (is_list steps \<and> the_list steps \<noteq> []) ''Executing job lacks steps'',
         number_steps [] (the_list steps)]
        (if active = [] \<and> allow_pending
         then bnd (require_pending_execution_steps (the_list steps) start now) (\<lambda>_. Inr False)
         else
           checks [rc_require (length active = 1) ''Exactly one executing step is required'',
                   rc_require (dget (the_dict (hd active)) ''conclusion'' JNull = JNull \<and> dget (the_dict (hd active)) ''completed_at'' JNull = JNull)
                     ''Executing step already completed'']
            (bnd (time_field (hd active) ''started_at'') (\<lambda>a.
             checks [rc_require (start \<le> a \<and> a \<le> now) ''Executing step lies outside its current job''] (Inr True))))))))"

text \<open>\<open>execution_check_url_id\<close>: the repository and the number in the route of a check run.\<close>

definition check_url_rx :: rx where
  "check_url_rx = Seqs [Lit ''https://api.github.com/repos/'', Plus (NotCls ''/''), Lit ''/'', Plus (NotCls ''/''), Lit ''/check-runs/'', pos_int_rx]"

definition execution_check_url_id :: "json \<Rightarrow> string \<Rightarrow> int res" where
  "execution_check_url_id v repository =
     checks [rc_require (is_str v) ''Invalid execution check-run URL'',
             rc_require (rx_match check_url_rx (the_str v)) ''Invalid execution check-run URL'']
      (case drop 4 (split CHR ''/'' (the_str v)) of
         [owner, name, _, n] \<Rightarrow>
           checks [rc_require (rx_match REPO_RX (owner @ ''/'' @ name) \<and> byte_lower (owner @ ''/'' @ name) = byte_lower repository)
                     ''Execution check-run repository mismatch''] (Inr (int (nat_of_digits n)))
       | _ \<Rightarrow> Inl (ReleaseError ''Invalid execution check-run URL''))"

definition require_executing_job :: "'w runner_host \<Rightarrow> json \<Rightarrow> json \<Rightarrow> int \<Rightarrow> bool \<Rightarrow> ('w, job_proof option) act" where
  "require_executing_job h job run check_run_id allow_pending =
     (let m = the_dict job; n = dget m ''id'' JNull; runner = dget m ''runner_id'' JNull; runner_name = env_text h ''RUNNER_NAME'' in
      act_then (lift (checks
        [rc_require (0 < check_run_id) ''Invalid execution check-run ID'',
         rc_require (is_dict job) ''Malformed executing job'',
         same_run job run,
         bnd (execution_check_url_id (dget m ''check_run_url'' JNull) (repo h)) (\<lambda>k. rc_require (k = check_run_id) ''Executing check-run URL changed''),
         rc_require (dget m ''status'' JNull = JStr ''in_progress'' \<and> dget m ''conclusion'' JNull = JNull \<and> dget m ''completed_at'' JNull = JNull)
           ''Current job is not executing'',
         rc_require (is_int n \<and> 0 < the_int n \<and> is_int runner \<and> 0 < the_int runner) ''Executing job lacks positive job/runner IDs'',
         rc_require (runner_name \<noteq> [] \<and> dget m ''runner_name'' JNull = JStr runner_name) ''Executing job runner mismatch''] (Inr ())))
      (act_bind (require_executing_job_timing h job run allow_pending) (\<lambda>executing.
        ret (if executing then Some \<lparr>p_job = the_int n, p_check_run = check_run_id, p_runner = the_int runner, p_runner_name = runner_name\<rparr>
             else None))))"

text \<open>The jobs of the check run, whose numbers have to be distinct.\<close>

fun jobs_of_check :: "string \<Rightarrow> int \<Rightarrow> int list \<Rightarrow> json list \<Rightarrow> json list res" where
  "jobs_of_check repository check_run_id seen [] = Inr []"
| "jobs_of_check repository check_run_id seen (job # jobs) =
     (let n = dget (the_dict job) ''id'' JNull in
      checks [rc_require (is_dict job) ''Malformed execution job inventory'',
              rc_require (is_int n \<and> 0 < the_int n \<and> the_int n \<notin> set seen) ''Invalid or duplicate execution job ID'']
       (bnd (execution_check_url_id (dget (the_dict job) ''check_run_url'' JNull) repository) (\<lambda>k.
        bnd (jobs_of_check repository check_run_id (the_int n # seen) jobs) (\<lambda>matches.
        Inr (if k = check_run_id then job # matches else matches)))))"

definition current_execution_job :: "'w runner_host \<Rightarrow> json \<Rightarrow> int \<Rightarrow> ('w, job_proof option) act" where
  "current_execution_job h run check_run_id =
     act_bind (lift (bnd (item_res run ''id'') (\<lambda>n. bnd (item_res run ''run_attempt'') (\<lambda>a.
         Inr (''actions/runs/'' @ py_str n @ ''/attempts/'' @ py_str a @ ''/jobs''))))) (\<lambda>path.
     act_bind (pages (rest (net h)) path (Some ''jobs'')) (\<lambda>jobs.
     act_bind (lift (jobs_of_check (repo h) check_run_id [] jobs)) (\<lambda>matches.
     act_then (lift (rc_require (length matches \<le> 1) ''Duplicate current check-run jobs''))
     (case matches of
        [] \<Rightarrow> ret None
      | job # _ \<Rightarrow>
          act_then (lift (same_run job run))
          (act_bind (lift (hash_in (dget (the_dict job) ''status'' JNull) [''queued'', ''requested'', ''pending'', ''waiting''])) (\<lambda>pending.
           if pending
           then act_then (lift (rc_require (dget (the_dict job) ''conclusion'' JNull = JNull \<and> dget (the_dict job) ''completed_at'' JNull = JNull)
                  ''Pending execution job has a conclusion'')) (ret None)
           else require_executing_job h job run check_run_id True))))))"

section \<open>Waiting\<close>

definition execution_deadline :: "'w runner_host \<Rightarrow> rat \<Rightarrow> ('w, unit) act" where
  "execution_deadline h deadline =
     act_bind (clock h) (\<lambda>now. lift (rc_require (now < deadline) ''Publication metadata was not ready in time''))"

text \<open>\<open>sha\<close> and \<open>attempt\<close> of the second provenance check are those of the aggregate run, which passed the first.\<close>

definition resolve_execution_run ::
  "'w runner_host \<Rightarrow> json \<Rightarrow> int option \<Rightarrow> rat \<Rightarrow> bool \<Rightarrow> string \<Rightarrow> members \<Rightarrow> ('w, json \<times> job_proof option \<times> bool) act" where
  "resolve_execution_run h run check_run_id deadline need_proof channel info =
     (let running = (\<lambda>r. dget (the_dict r) ''status'' JNull = JStr ''in_progress'') in
      case check_run_id of
        None \<Rightarrow> ret (run, None, running run)
      | Some k \<Rightarrow>
          if running run \<and> \<not> need_proof then ret (run, None, True)
          else
            act_then (execution_deadline h deadline)
            (act_bind (lift (bnd (item_res run ''id'') (\<lambda>n. bnd (item_res run ''run_attempt'') (\<lambda>a.
               Inr (''actions/runs/'' @ py_str n @ ''/attempts/'' @ py_str a))))) (\<lambda>path.
             act_bind (api (rest (net h)) path ''GET'' None) (\<lambda>current.
             act_then (lift (require_active_attempt current run))
             (act_then (check_execution h (the_int (dget (the_dict run) ''id'' JNull)) channel info current)
             (act_then (lift (validate_run_provenance (repo h) current info (the_str (dget (the_dict run) ''head_sha'' JNull))
                  (dget (the_dict run) ''run_attempt'' JNull)))
             (act_then (execution_deadline h deadline)
             (if running current \<and> \<not> need_proof then ret (current, None, True)
              else
                act_bind (current_execution_job h current k) (\<lambda>proof.
                act_then (execution_deadline h deadline) (ret (current, proof, proof \<noteq> None)))))))))))"

text \<open>One look at the run: its latest answer, the proof of its job, and whether it may publish.\<close>

definition observe_run ::
  "'w runner_host \<Rightarrow> int \<Rightarrow> string \<Rightarrow> members \<Rightarrow> string \<Rightarrow> int \<Rightarrow> bool \<Rightarrow> bool \<Rightarrow> int option \<Rightarrow> rat
   \<Rightarrow> ('w, json \<times> job_proof option \<times> bool) act" where
  "observe_run h run_id channel info sha attempt gate need_proof check_run_id deadline =
     act_bind (api (rest (net h)) (''actions/runs/'' @ str_int run_id) ''GET'' None) (\<lambda>run.
     act_then (lift (field_is run ''id'' (\<lambda>v. py_eq v (JInt run_id)) ''Execution run identity mismatch''))
     (act_then (check_execution h run_id channel info run)
     (act_then (lift (checks
        [validate_run_provenance (repo h) run info sha (JInt attempt),
         field_is run ''conclusion'' is_null ''Publication run already has a conclusion'',
         bnd (bnd (get_res run ''status'' JNull) (\<lambda>s. hash_in s active_states)) (\<lambda>b. rc_require b ''Publication run is not active'')] (Inr ())))
     (act_bind (resolve_execution_run h run check_run_id deadline need_proof channel info) (\<lambda>(current, proof, executing).
      act_bind (if \<not> executing then ret False else if \<not> gate then ret True else release_gate_ready h run_id sha attempt True) (\<lambda>ready.
      ret (current, proof, ready)))))))"

text \<open>One round: the accepted run, or \<open>None\<close> to look again.\<close>

definition wait_round ::
  "'w runner_host \<Rightarrow> int \<Rightarrow> string \<Rightarrow> members \<Rightarrow> string \<Rightarrow> int \<Rightarrow> bool \<Rightarrow> bool \<Rightarrow> int option \<Rightarrow> rat
   \<Rightarrow> ('w, (json \<times> job_proof option) option) act" where
  "wait_round h run_id channel info sha attempt gate need_proof check_run_id deadline =
     act_bind (observe_run h run_id channel info sha attempt gate need_proof check_run_id deadline) (\<lambda>(current, proof, ready).
     if ready then act_then (execution_deadline h deadline) (ret (Some (current, if need_proof then proof else None)))
     else
       act_bind (clock h) (\<lambda>now.
       act_then (lift (rc_require (0 < deadline - now) ''Publication metadata was not ready in time''))
       (act_then (sleep_for h (min 2 (deadline - now))) (ret None))))"

text \<open>The loop, which may have \<open>n\<close> rounds; \<open>None\<close> when they are used up.\<close>

fun wait_rounds :: "('w, 'a option) act \<Rightarrow> nat \<Rightarrow> ('w, 'a option) act" where
  "wait_rounds body 0 = ret None"
| "wait_rounds body (Suc n) = act_bind body (\<lambda>r. case r of Some x \<Rightarrow> ret (Some x) | None \<Rightarrow> wait_rounds body n)"

definition EXECUTING_RUN_WAIT_SECONDS :: rat where
  "EXECUTING_RUN_WAIT_SECONDS = 300"

definition wait_for_executing_run ::
  "nat \<Rightarrow> 'w runner_host \<Rightarrow> int \<Rightarrow> string \<Rightarrow> members \<Rightarrow> string \<Rightarrow> int \<Rightarrow> bool \<Rightarrow> bool \<Rightarrow> ('w, (json \<times> job_proof option) option) act" where
  "wait_for_executing_run rounds h run_id channel info sha attempt gate need_proof =
     act_bind (clock h) (\<lambda>now.
     act_bind (lift (execution_check_run_id h)) (\<lambda>check_run_id.
       wait_rounds (wait_round h run_id channel info sha attempt gate need_proof check_run_id (now + EXECUTING_RUN_WAIT_SECONDS)) rounds))"

end
