(* ===== verification/Execution_Wait_Facts.thy ===== *)
theory Execution_Wait_Facts
  imports Execution_Wait Request_Invariant
begin

text \<open>
  Facts of the wait for the executing run: it ends under a clock that runs, and what it accepts is proved by
  fresh answers of GitHub.
\<close>

section \<open>The clock\<close>

text \<open>
  What the code relies on: the monotonic clock never goes back, gives the present time, and advances by at
  least the time that is slept.
\<close>

definition clock_laws :: "'w runner_host \<Rightarrow> ('w \<Rightarrow> rat) \<Rightarrow> bool" where
  "clock_laws h now \<longleftrightarrow>
     (\<forall>t cmd input limit. keeps (\<lambda>w. t \<le> now w) (run_proc h cmd input limit)) \<and> (\<forall>t n. keeps (\<lambda>w. t \<le> now w) (pause h n))
     \<and> (\<forall>t. keeps (\<lambda>w. t \<le> now w) (clock h)) \<and> (\<forall>t. keeps (\<lambda>w. t \<le> now w) (utc_clock h))
     \<and> (\<forall>t. keeps (\<lambda>w. t \<le> now w) (rev_parse h)) \<and> (\<forall>t name. keeps (\<lambda>w. t \<le> now w) (read_event h name))
     \<and> (\<forall>w r w'. clock h w = (Inr r, w') \<longrightarrow> now w \<le> r \<and> r \<le> now w')
     \<and> (\<forall>d w w'. sleep_for h d w = (Inr (), w') \<longrightarrow> now w + d \<le> now w')"

interpretation clocked_requests: request_invariant "net h" "\<lambda>w. clock_laws h now \<longrightarrow> t \<le> now w" for h now t
  by unfold_locales (simp_all add: keeps_given_iff clock_laws_def net_def storage.defs)

lemma clock_parts:
  assumes "clock_laws h now"
  shows "keeps (\<lambda>w. t \<le> now w) (clock h)" "keeps (\<lambda>w. t \<le> now w) (utc_clock h)" "keeps (\<lambda>w. t \<le> now w) (rev_parse h)"
    "keeps (\<lambda>w. t \<le> now w) (read_event h s)"
    "verb \<noteq> ''PATCH'' \<Longrightarrow> keeps (\<lambda>w. t \<le> now w) (api (rest (net h)) path verb body)"
    "keeps (\<lambda>w. t \<le> now w) (pages (rest (net h)) path field)"
  using assms clocked_requests.api [of verb h now t path body] clocked_requests.pages [of h now t path field]
  by (simp_all add: clock_laws_def keeps_given_iff)

lemma check_execution_time:
  assumes "clock_laws h now" shows "keeps (\<lambda>w. t \<le> now w) (check_execution h n channel info run)"
  unfolding check_execution_def check_dispatch_def checked_out_sha_def Let_def
  by (auto intro!: keeps_intros clock_parts [OF assms] split: prod.splits)

lemma gate_time:
  assumes "clock_laws h now" shows "keeps (\<lambda>w. t \<le> now w) (release_gate_ready h n sha attempt pending)"
  unfolding release_gate_ready_def require_current_attempt_jobs_def
  by (auto intro!: keeps_intros clock_parts [OF assms])

lemma executing_job_time:
  assumes "clock_laws h now" shows "keeps (\<lambda>w. t \<le> now w) (current_execution_job h run k)"
  unfolding current_execution_job_def require_executing_job_def require_executing_job_timing_def Let_def
  by (auto intro!: keeps_intros clock_parts [OF assms] split: list.splits)

lemma resolve_time:
  assumes "clock_laws h now" shows "keeps (\<lambda>w. t \<le> now w) (resolve_execution_run h run k deadline need channel info)"
  unfolding resolve_execution_run_def execution_deadline_def Let_def
  by (auto intro!: keeps_intros clock_parts [OF assms] check_execution_time [OF assms] executing_job_time [OF assms] split: option.splits)

lemma observe_time:
  assumes "clock_laws h now" shows "keeps (\<lambda>w. t \<le> now w) (observe_run h n channel info sha attempt gate need k deadline)"
  unfolding observe_run_def
  by (auto intro!: keeps_intros clock_parts [OF assms] check_execution_time [OF assms] resolve_time [OF assms] gate_time [OF assms])

section \<open>The wait ends\<close>

text \<open>A round that has to be repeated began before the deadline and slept two seconds or up to the deadline.\<close>

lemma wait_round_again:
  assumes laws: "clock_laws h now"
    and again: "wait_round h n channel info sha attempt gate need k deadline w = (Inr None, w')"
  shows "now w < deadline \<and> min deadline (now w + 2) \<le> now w'"
proof -
  obtain current pf ready w1 where seen: "observe_run h n channel info sha attempt gate need k deadline w = (Inr (current, pf, ready), w1)"
    and rest: "(if ready then act_then (execution_deadline h deadline) (ret (Some (current, if need then pf else None)))
     else act_bind (clock h) (\<lambda>now. act_then (lift (rc_require (0 < deadline - now) ''Publication metadata was not ready in time''))
       (act_then (sleep_for h (min 2 (deadline - now))) (ret None)))) w1 = (Inr None, w')"
    using again unfolding wait_round_def act_bind_Inr by (auto split: prod.splits)
  have time1: "now w \<le> now w1"
    using keepsD [OF observe_time [OF laws, of "now w"] _ seen] by simp
  obtain r w2 where clk: "clock h w1 = (Inr r, w2)" and left: "0 < deadline - r"
    and sleep: "sleep_for h (min 2 (deadline - r)) w2 = (Inr (), w')"
    using rest by (cases ready) (auto simp: act_then_Inr act_bind_Inr)
  have "now w1 \<le> r" "r \<le> now w2" "now w2 + min 2 (deadline - r) \<le> now w'"
    using laws clk sleep unfolding clock_laws_def by blast+
  then show ?thesis using time1 left by linarith
qed

lemma wait_rounds_time:
  assumes step: "\<And>w w'. body w = (Inr None, w') \<Longrightarrow> now w < deadline \<and> min deadline (now w + 2) \<le> (now w' :: rat)"
    and "wait_rounds body n w = (Inr None, w')" and "0 < n"
  shows "now w + 2 * of_nat (n - 1) < deadline"
  using assms(2,3)
proof (induction n arbitrary: w)
  case (Suc n)
  obtain w1 where one: "body w = (Inr None, w1)" and more: "wait_rounds body n w1 = (Inr None, w')"
    using Suc.prems(1) by (auto simp: act_bind_Inr split: option.splits)
  show ?case
  proof (cases n)
    case 0
    then show ?thesis using step [OF one] by simp
  next
    case (Suc m)
    then have "now w1 + 2 * of_nat m < deadline" using Suc.IH [OF more] by simp
    moreover have "(0 :: rat) \<le> of_nat m" by simp
    ultimately show ?thesis using step [OF one] Suc by (simp add: min_def split: if_splits)
  qed
qed simp

text \<open>
  C36: The wait for the executing run ends.  Under a clock that runs, 151 rounds are enough whatever GitHub
  answers: with that many or more, the loop has returned a run or raised an error.
\<close>

theorem wait_ends:
  assumes "clock_laws h now" and "151 \<le> rounds"
  shows "fst (wait_for_executing_run rounds h n channel info sha attempt gate need w) \<noteq> Inr None"
proof
  assume "fst (wait_for_executing_run rounds h n channel info sha attempt gate need w) = Inr None"
  then obtain w' where "wait_for_executing_run rounds h n channel info sha attempt gate need w = (Inr None, w')"
    by (metis prod.collapse)
  then obtain start w1 k where clk: "clock h w = (Inr start, w1)"
    and loop: "wait_rounds (wait_round h n channel info sha attempt gate need k (start + EXECUTING_RUN_WAIT_SECONDS)) rounds w1 = (Inr None, w')"
    unfolding wait_for_executing_run_def act_bind_Inr lift_apply prod.inject by blast
  have "now w1 + 2 * of_nat (rounds - 1) < start + EXECUTING_RUN_WAIT_SECONDS"
    by (rule wait_rounds_time [OF _ loop]) (use wait_round_again [OF assms(1)] assms(2) in \<open>auto\<close>)
  moreover have "start \<le> now w1" using assms(1) clk unfolding clock_laws_def by blast
  moreover have "(150 :: rat) \<le> of_nat (rounds - 1)" using assms(2) by simp
  ultimately show False by (simp add: EXECUTING_RUN_WAIT_SECONDS_def)
qed

section \<open>What is accepted\<close>

lemma field_is_Inr: "field_is v key p message = Inr () \<Longrightarrow> p (dget (the_dict v) key JNull)"
  by (cases v) (auto simp: field_is_def get_res_def)

lemma provenance_Inr:
  assumes "validate_run_provenance repository run info sha attempt = Inr ()"
  shows "dget (the_dict run) ''head_sha'' JNull = JStr sha \<and> rx_match (hex_rx 40) sha \<and> dget (the_dict run) ''path'' JNull = JStr WORKFLOW"
  using assms unfolding validate_run_provenance_def checks_Cons
  by (auto simp: checks_Cons dest!: field_is_Inr)

lemma active_Inr:
  "require_active_attempt current run = Inr () \<Longrightarrow> dget (the_dict current) ''conclusion'' JNull = JNull"
  unfolding require_active_attempt_def by (auto simp: checks_Cons split: if_splits)

text \<open>A job that counts as executing, as \<open>require_executing_job\<close> proves it.\<close>

definition executing_job :: "'w runner_host \<Rightarrow> json \<Rightarrow> job_proof \<Rightarrow> json \<Rightarrow> bool" where
  "executing_job h run p job \<longleftrightarrow>
     same_run job run = Inr () \<and> dget (the_dict job) ''status'' JNull = JStr ''in_progress'' \<and> dget (the_dict job) ''conclusion'' JNull = JNull
     \<and> dget (the_dict job) ''id'' JNull = JInt (p_job p) \<and> execution_check_url_id (dget (the_dict job) ''check_run_url'' JNull) (repo h) = Inr (p_check_run p)
     \<and> dget (the_dict job) ''runner_name'' JNull = JStr (p_runner_name p) \<and> env_text h ''RUNNER_NAME'' = p_runner_name p"

lemma is_int_the_int: "is_int v \<Longrightarrow> v = JInt (the_int v)"
  by (cases v) auto

lemma require_executing_job_Inr:
  assumes "require_executing_job h job run k pending w = (Inr (Some p), w')"
  shows "executing_job h run p job \<and> p_check_run p = k"
  using assms unfolding require_executing_job_def Let_def act_then_Inr act_bind_Inr lift_apply
  by (auto simp: checks_Cons executing_job_def split: if_splits dest: is_int_the_int)

lemma current_execution_job_Inr:
  assumes "current_execution_job h run k w = (Inr (Some p), w')"
  shows "\<exists>job. executing_job h run p job"
proof -
  obtain matches w1 where "(case matches of [] \<Rightarrow> ret None
      | job # _ \<Rightarrow>
          act_then (lift (same_run job run))
          (act_bind (lift (hash_in (dget (the_dict job) ''status'' JNull) [''queued'', ''requested'', ''pending'', ''waiting''])) (\<lambda>pending.
           if pending
           then act_then (lift (rc_require (dget (the_dict job) ''conclusion'' JNull = JNull \<and> dget (the_dict job) ''completed_at'' JNull = JNull)
                  ''Pending execution job has a conclusion'')) (ret None)
           else require_executing_job h job run k True))) w1 = (Inr (Some p), w')"
    using assms unfolding current_execution_job_def act_then_Inr act_bind_Inr lift_apply by blast
  then show ?thesis
    by (cases matches) (auto simp: act_then_Inr act_bind_Inr split: if_splits dest: require_executing_job_Inr)
qed

text \<open>The status of the run says that it executes, or one of its jobs does.\<close>

definition executes :: "'w runner_host \<Rightarrow> json \<Rightarrow> job_proof option \<Rightarrow> bool" where
  "executes h run pf \<longleftrightarrow>
     (case pf of None \<Rightarrow> dget (the_dict run) ''status'' JNull = JStr ''in_progress'' | Some p \<Rightarrow> \<exists>job. executing_job h run p job)"

lemma resolve_Inr:
  assumes "resolve_execution_run h run k deadline need channel info w = (Inr (current, pf, True), w')"
    and "validate_run_provenance (repo h) run info sha attempt = Inr ()" and "dget (the_dict run) ''conclusion'' JNull = JNull"
  shows "executes h current pf \<and> dget (the_dict current) ''conclusion'' JNull = JNull
    \<and> (\<exists>a. validate_run_provenance (repo h) current info sha a = Inr ())"
proof (cases "current = run \<and> pf = None \<and> dget (the_dict run) ''status'' JNull = JStr ''in_progress''")
  case True
  then show ?thesis using assms(2,3) by (auto simp: executes_def)
next
  case False
  then obtain n where k: "k = Some n"
    using assms(1) by (cases k) (auto simp: resolve_execution_run_def Let_def)
  then have active: "require_active_attempt current run = Inr ()"
      and pr: "validate_run_provenance (repo h) current info (the_str (dget (the_dict run) ''head_sha'' JNull)) (dget (the_dict run) ''run_attempt'' JNull) = Inr ()"
      and ex: "executes h current pf"
    using assms(1) False unfolding resolve_execution_run_def Let_def
    by (auto simp: act_then_Inr act_bind_Inr executes_def split: if_splits dest: current_execution_job_Inr)
  then show ?thesis using active_Inr [OF active] provenance_Inr [OF assms(2)] by auto
qed

text \<open>The one successful gate of the run.\<close>

definition one_gate :: "string \<Rightarrow> json list \<Rightarrow> bool" where
  "one_gate sha jobs \<longleftrightarrow>
     (\<exists>gate. filter (\<lambda>job. dget (the_dict job) ''name'' JNull = JStr ''Release gate'') jobs = [gate]
       \<and> dget (the_dict gate) ''head_sha'' JNull = JStr sha \<and> dget (the_dict gate) ''status'' JNull = JStr ''completed''
       \<and> dget (the_dict gate) ''conclusion'' JNull = JStr ''success'')"

lemma gate_passed_one:
  assumes "gate_passed sha pending jobs = Inr True" shows "one_gate sha jobs"
proof -
  obtain gates where gates: "filter_res (\<lambda>job. bnd (get_res job ''name'' JNull) (\<lambda>n. Inr (n = JStr ''Release gate''))) jobs = Inr gates"
    and one: "length gates = 1" and sha: "field_is (hd gates) ''head_sha'' (\<lambda>v. v = JStr sha) ''Release gate SHA mismatch'' = Inr ()"
    and st: "\<exists>status. get_res (hd gates) ''status'' JNull = Inr status \<and> status = JStr ''completed''"
    and con: "dget (the_dict (hd gates)) ''conclusion'' JNull = JStr ''success''"
    using assms unfolding gate_passed_def by (auto simp: checks_Cons split: if_splits)
  have "gates = filter (\<lambda>job. dget (the_dict job) ''name'' JNull = JStr ''Release gate'') jobs"
    using gates by (induction jobs arbitrary: gates) (auto simp: get_res_def split: json.splits)
  moreover obtain gate where gate: "gates = [gate]" using one by (auto simp: length_Suc_conv)
  ultimately have "filter (\<lambda>job. dget (the_dict job) ''name'' JNull = JStr ''Release gate'') jobs = [gate]" by simp
  moreover have "dget (the_dict gate) ''status'' JNull = JStr ''completed''"
    using st gate by (cases gate) (auto simp: get_res_def)
  ultimately show ?thesis
    using field_is_Inr [OF sha] con gate unfolding one_gate_def by (intro exI [of _ gate]) simp
qed

definition inside_run :: "'w runner_host \<Rightarrow> int \<Rightarrow> bool" where
  "inside_run h n \<longleftrightarrow> env h ''GITHUB_ACTIONS'' = Some ''true'' \<and> env h ''GITHUB_RUN_ID'' = Some (str_int n)
     \<and> lower (env_text h ''GITHUB_REPOSITORY'') = lower (repo h)"

lemma check_inside: "check_execution h n channel info run w = (Inr (), w') \<Longrightarrow> inside_run h n"
  unfolding check_execution_def act_then_Inr lift_apply prod.inject by (auto simp: checks_Cons inside_run_def)

lemma observe_Inr:
  assumes "observe_run h n channel info sha attempt gate need k deadline w = (Inr (current, pf, True), w')"
  shows "executes h current pf \<and> dget (the_dict current) ''conclusion'' JNull = JNull
    \<and> (\<exists>a. validate_run_provenance (repo h) current info sha a = Inr ())
    \<and> (gate \<longrightarrow> (\<exists>jobs w1 w2. pages (rest (net h)) (''actions/runs/'' @ str_int n @ ''/attempts/'' @ str_int attempt @ ''/jobs'') (Some ''jobs'') w1 = (Inr jobs, w2)
          \<and> one_gate sha jobs))
    \<and> inside_run h n"
proof -
  obtain run w1 w2 w3 executing where check: "check_execution h n channel info run w1 = (Inr (), w2)"
    and pr: "validate_run_provenance (repo h) run info sha (JInt attempt) = Inr ()"
    and con: "field_is run ''conclusion'' is_null ''Publication run already has a conclusion'' = Inr ()"
    and res: "resolve_execution_run h run k deadline need channel info w2 = (Inr (current, pf, executing), w3)"
    and gate: "(if \<not> executing then ret False else if \<not> gate then ret True else release_gate_ready h n sha attempt True) w3 = (Inr True, w')"
    using assms unfolding observe_run_def act_then_Inr act_bind_Inr lift_apply
    by (auto simp: checks_Cons act_bind_Inr split: prod.splits)
  have ex: "executing" using gate by (cases executing) auto
  have null: "dget (the_dict run) ''conclusion'' JNull = JNull"
    using field_is_Inr [OF con] by (cases "dget (the_dict run) ''conclusion'' JNull") auto
  have "\<exists>jobs w1 w2. pages (rest (net h)) (''actions/runs/'' @ str_int n @ ''/attempts/'' @ str_int attempt @ ''/jobs'') (Some ''jobs'') w1 = (Inr jobs, w2)
      \<and> gate_passed sha True jobs = Inr True" if "gate"
    using gate ex that unfolding release_gate_ready_def by (auto simp: act_bind_Inr split: if_splits)
  then show ?thesis
    using resolve_Inr [OF res [unfolded ex [THEN eqTrueI]] pr null] gate_passed_one check_inside [OF check] by metis
qed

lemma wait_rounds_Some:
  "wait_rounds body n w = (Inr (Some x), w') \<Longrightarrow> \<exists>w1 w2. body w1 = (Inr (Some x), w2)"
  by (induction n arbitrary: w) (auto simp: act_bind_Inr split: option.splits)


section \<open>A concrete wait\<close>

text \<open>A run of the workflow in progress whose gate has passed; the world is the time.\<close>

definition wait_sha :: string where "wait_sha = replicate 40 CHR ''b''"

definition wait_answers :: "(string \<times> string) list" where
  "wait_answers =
     [(''repos/o/r/actions/runs/5'',
        ''{`id`:5,`run_attempt`:1,`head_sha`:`'' @ wait_sha @ ''`,`path`:`.github/workflows/release-pipeline.yml`,`event`:`push`,`head_branch`:`main`,`status`:`in_progress`,`conclusion`:null,`repository`:{`full_name`:`o/r`},`head_repository`:{`full_name`:`o/r`}}''),
      (''repos/o/r/actions/runs/5/attempts/1/jobs?per_page=20'',
        ''{`jobs`:[{`name`:`Release gate`,`head_sha`:`'' @ wait_sha @ ''`,`status`:`completed`,`conclusion`:`success`}]}'')]"

definition wait_env :: "(string \<times> string) list" where
  "wait_env =
     [(''GITHUB_ACTIONS'', ''true''), (''GITHUB_REPOSITORY'', ''O/r''), (''GITHUB_RUN_ID'', ''5''), (''GITHUB_RUN_ATTEMPT'', ''1''),
      (''GITHUB_REF'', ''refs/heads/main''), (''GITHUB_WORKFLOW_REF'', ''o/r/.github/workflows/release-pipeline.yml@refs/heads/main''),
      (''GITHUB_EVENT_NAME'', ''push'')]"

definition wait_host :: "rat runner_host" where
  "wait_host =
     \<lparr>repo = ''o/r'',
      run_proc = (\<lambda>cmd _ _. ret (case map_of wait_answers (last cmd) of None \<Rightarrow> Completed 1 [] []
        | Some t \<Rightarrow> Completed 0 (''HTTP/2.0 200 OK'' @ [CR, LF, CR, LF] @ dq t) [])),
      pause = (\<lambda>_. ret ()), json_float_text = (\<lambda>s. s),
      clock = (\<lambda>t. (Inr t, t)), draw_delay = (\<lambda>_. ret 1), sleep_for = (\<lambda>d t. (Inr (), if 0 \<le> d then t + d else t)), free_bytes = ret 100, open_output = ret (),
      remove_output = ret (), disk_write = (\<lambda>c. ret (int (length c))), truncate_output = ret (),
      same_file = ret True, start_transfer = (\<lambda>_. ret []), reap = ret True,
      env = map_of wait_env, utc_clock = ret 0, rev_parse = ret (0, wait_sha @ [LF]), read_event = (\<lambda>_. ret [])\<rparr>"

definition wait_info :: members where
  "wait_info = [(''full_name'', JStr ''o/r''), (''default_branch'', JStr ''main'')]"

lemma wait_laws: "clock_laws wait_host (\<lambda>t. t)"
  by (auto simp: clock_laws_def wait_host_def keeps_def)

definition wait_value :: json where
  "wait_value = JObj [(''id'', JInt 5), (''run_attempt'', JInt 1), (''head_sha'', JStr wait_sha), (''path'', JStr WORKFLOW), (''event'', JStr ''push''),
     (''head_branch'', JStr ''main''), (''status'', JStr ''in_progress''), (''conclusion'', JNull), (''repository'', JObj [(''full_name'', JStr ''o/r'')]),
     (''head_repository'', JObj [(''full_name'', JStr ''o/r'')])]"

lemma wait_run:
  "wait_for_executing_run 1 wait_host 5 ''beta'' wait_info wait_sha 1 True False 0 = (Inr (Some (wait_value, None)), 0)"
  by code_simp

theorem wait_ends_witness:
  "fst (wait_for_executing_run 151 wait_host 5 ''beta'' wait_info wait_sha 1 True False 0) \<noteq> Inr None"
  by (rule wait_ends [OF wait_laws]) simp


end
