(* ===== verification/Release_Validation.thy ===== *)
theory Release_Validation
  imports Json_Text
begin

text \<open>
  \<open>scripts/release_validation.py\<close>, which decides what checks a channel has to pass and whether they did,
  and the parts of \<open>scripts/release_fuzz.py\<close> that say when a candidate needs a fuzzing campaign and whether
  a run had it.  A policy is the dictionary read from \<open>.release-policy.json\<close>.
\<close>

section \<open>Profiles\<close>

definition GATE_WORKFLOW :: string where "GATE_WORKFLOW = ''release-quality-gate.yml''"

definition CHANNELS :: "string list" where "CHANNELS = [''nightly'', ''beta'', ''rc'', ''stable'']"

definition validator_rx :: rx where
  "validator_rx = Seqs [Plus (Cls (alnum @ ''_-'')), Lit ''.y'', Opt (Lit ''a''), Lit ''ml'']"

definition validator_name :: "json \<Rightarrow> bool" where
  "validator_name v \<longleftrightarrow>
     is_str v \<and> rx_match validator_rx (the_str v)
     \<and> the_str v \<notin> {GATE_WORKFLOW, ''quality-gate.yml'', ''release-pipeline.yml'', ''release-build.yml''}"

text \<open>The validators of beta, or nothing for a policy without the section.\<close>

definition channel_workflows :: "members \<Rightarrow> json list option res" where
  "channel_workflows policy =
     (if \<not> has_key policy ''channel_validation_workflows'' then Inr None
      else
        let config = dget policy ''channel_validation_workflows'' JNull; names = dget (the_dict config) ''beta'' JNull in
        checks
          [ensure (is_dict config \<and> keys_are (the_dict config) [''beta'']
              \<and> dget policy ''mode'' (JStr ''release'') = JStr ''release''
              \<and> dget policy ''ci_execution'' (JStr ''github'') = JStr ''github''
              \<and> dget policy ''single_entry_ci'' JNull = JBool True
              \<and> is_dict (dget policy ''versioning'' JNull))
             (ValueError ''channel_validation_workflows requires versioned single-entry releases and only beta''),
           ensure (is_list names \<and> the_list names \<noteq> [] \<and> list_all validator_name (the_list names) \<and> distinct (the_list names))
             (ValueError ''Beta validation requires unique, nonempty local validator filenames'')]
          (Inr (Some (the_list names))))"

definition profile :: "members \<Rightarrow> string \<Rightarrow> json res" where
  "profile policy channel =
     bnd (channel_workflows policy) (\<lambda>beta.
     case beta of
       None \<Rightarrow> Inr JNull
     | Some names \<Rightarrow>
         checks [ensure (channel \<in> set CHANNELS) (ValueError ''Unknown release validation channel'')]
           (bnd (if channel = ''beta'' then Inr (JArr names) else item_res (JObj policy) ''validation_workflows'') (\<lambda>ws.
             Inr (JObj [(''schema'', JInt 1), (''channel'', JStr channel), (''workflows'', ws)]))))"

section \<open>Results of the jobs\<close>

text \<open>The entries that a loop over declared checks or reports adds to the expected results.\<close>

definition numbered :: "string \<Rightarrow> string \<Rightarrow> json list \<Rightarrow> members" where
  "numbered prefix outcome names = map (\<lambda>i. (prefix @ str_nat i, JStr outcome)) [0..<length names]"

definition report_entry :: "string \<Rightarrow> json \<Rightarrow> (string \<times> json) res" where
  "report_entry outcome report =
     bnd (item_res report ''name'') (\<lambda>name.
     guard (is_str name) (TypeError ''can only concatenate str'') (Inr (''coverage-'' @ the_str name, JStr outcome)))"

definition add_entries :: "members \<Rightarrow> members \<Rightarrow> members" where
  "add_entries m kvs = foldl (\<lambda>m kv. dput m (fst kv) (snd kv)) m kvs"

definition expected_results :: "members \<Rightarrow> string \<Rightarrow> members res" where
  "expected_results policy channel =
     bnd (channel_workflows policy) (\<lambda>beta.
     checks [ensure (beta \<noteq> None \<and> channel \<in> set CHANNELS) (ValueError ''Release validation needs an explicit policy and known channel'')]
       (let full = (if channel = ''beta'' then ''skipped'' else ''success''); light = (if channel = ''beta'' then ''success'' else ''skipped'') in
        bnd (bnd (item_res (JObj policy) ''validation_workflows'') iter_res) (\<lambda>ws.
        bnd (bnd (get_res (dget policy ''coverage'' (JObj [])) ''reports'' (JArr [])) iter_res) (\<lambda>reports.
        bnd (mapres (report_entry full) reports) (\<lambda>covered.
          Inr (add_entries [(''scope'', JStr ''success''), (''workflow-contracts'', JStr ''success''), (''release-contracts'', JStr ''success'')]
                (numbered ''check-'' full ws @ numbered ''beta-check-'' light (the beta) @ covered)))))))"

text \<open>\<open>result.get("result") != expected[name]\<close>.\<close>

definition failed_result :: "members \<Rightarrow> string \<times> json \<Rightarrow> bool res" where
  "failed_result wanted entry =
     bnd (get_res (snd entry) ''result'' JNull) (\<lambda>r. Inr (\<not> py_eq r (dget wanted (fst entry) JNull)))"

definition check_results :: "members \<Rightarrow> string \<Rightarrow> json \<Rightarrow> unit res" where
  "check_results policy channel results =
     bnd (expected_results policy channel) (\<lambda>wanted.
     bnd (set_res results) (\<lambda>names.
     checks [ensure (set names = set (map (\<lambda>kv. JStr (fst kv)) wanted)) (ValueError ''Release validation job inventory differs'')]
       (bnd (item_res results ''scope'') (\<lambda>scope.
        bnd (get_res scope ''outputs'' (JObj [])) (\<lambda>outputs.
        bnd (get_res outputs ''run'' JNull) (\<lambda>run.
        checks [ensure (run = JStr ''true'') (ValueError ''Release validation scope must run real checks'')]
          (bnd (filter_res (failed_result wanted) (the_dict results)) (\<lambda>failed.
             ensure (failed = []) (ValueError ''Release validation did not pass'')))))))))"

section \<open>Events and jobs\<close>

text \<open>
  \<open>check_event\<close>; \<open>event\<close> is the environment variable \<open>GITHUB_EVENT_NAME\<close> and \<open>payload\<close> what reading the
  event file gives, which happens for a dispatched workflow only.
\<close>

definition check_event :: "(string \<Rightarrow> string) \<Rightarrow> string option \<Rightarrow> string res \<Rightarrow> string \<Rightarrow> unit res" where
  "check_event fl event payload channel =
     bnd (if event = Some ''workflow_dispatch''
          then bnd payload (\<lambda>raw. bnd (loads fl None raw) (\<lambda>v. bnd (get_res v ''inputs'' (JObj [])) (\<lambda>i. get_res i ''channel'' JNull)))
          else Inr (if event = Some ''push'' then JStr ''beta'' else if event = Some ''schedule'' then JStr ''nightly'' else JNull)) (\<lambda>wanted.
     ensure (channel \<in> set CHANNELS \<and> wanted = JStr channel) (ValueError ''Validation channel differs from the release event''))"

text \<open>The jobs with a given name; the test asks every record for its name.\<close>

definition jobs_named :: "(json \<Rightarrow> bool) \<Rightarrow> json list \<Rightarrow> json list res" where
  "jobs_named p = filter_res (\<lambda>job. bnd (get_res job ''name'' JNull) (\<lambda>n. Inr (p n)))"

definition succeeded_at :: "json \<Rightarrow> json \<Rightarrow> bool" where
  "succeeded_at sha job \<longleftrightarrow>
     py_eq (dget (the_dict job) ''head_sha'' JNull) sha \<and> dget (the_dict job) ''status'' JNull = JStr ''completed''
     \<and> dget (the_dict job) ''conclusion'' JNull = JStr ''success''"

definition profile_marker :: "json \<Rightarrow> bool res" where
  "profile_marker job = bnd (get_res job ''name'' (JStr [])) (\<lambda>n. Inr (startswith (py_str n) ''checks / Validation profile (''))"

definition check_run_jobs :: "json list \<Rightarrow> string \<Rightarrow> json \<Rightarrow> unit res" where
  "check_run_jobs jobs channel sha =
     bnd (filter_res profile_marker jobs) (\<lambda>markers.
     checks [ensure (length markers = 1) (ValueError ''Release validation must have exactly one channel profile'')]
       (each (\<lambda>name. bnd (jobs_named (\<lambda>n. n = JStr name) jobs) (\<lambda>matches.
            ensure (length matches = 1 \<and> succeeded_at sha (hd matches))
              (ValueError ''Release validation profile and CI gate must succeed at the source SHA'')))
          [''checks / CI gate'', ''checks / Validation profile ('' @ channel @ '')'']))"

section \<open>Fuzzing\<close>

definition FUZZ_JOB :: string where "FUZZ_JOB = ''fuzz / RC fuzzing''"
definition FUZZ_MANIFEST :: string where "FUZZ_MANIFEST = ''.github/fuzz.json''"

definition fuzz_configuration :: "members \<Rightarrow> members option res" where
  "fuzz_configuration policy =
     (let v = dget policy ''fuzzing'' JNull; toolkit = dget (the_dict v) ''toolkit_ref'' JNull in
      if v = JNull then Inr None
      else checks
        [ensure (is_dict v \<and> keys_are (the_dict v) [''toolkit_ref''] \<and> is_str toolkit \<and> rx_match (hex_rx 40) (the_str toolkit)
            \<and> dget policy ''visibility'' (JStr ''public'') = JStr ''public'' \<and> dget policy ''mode'' JNull = JStr ''release''
            \<and> dget policy ''ci_execution'' (JStr ''github'') = JStr ''github'' \<and> is_dict (dget policy ''versioning'' JNull))
           (ValueError ''Fuzzing requires public versioned hosted releases and a pinned toolkit_ref'')]
        (Inr (Some (the_dict v))))"

definition fuzz_profile :: "members \<Rightarrow> string \<Rightarrow> json res" where
  "fuzz_profile policy channel =
     bnd (fuzz_configuration policy) (\<lambda>config. Inr (
       case config of
         None \<Rightarrow> JNull
       | Some c \<Rightarrow>
           if channel \<noteq> ''rc'' then JNull
           else JObj (add_entries [(''schema'', JInt 1), (''channel'', JStr ''rc''), (''manifest'', JStr FUZZ_MANIFEST)] c)))"

definition check_fuzz_jobs :: "json list \<Rightarrow> string \<Rightarrow> json \<Rightarrow> unit res" where
  "check_fuzz_jobs jobs channel sha =
     bnd (jobs_named (\<lambda>n. n = JStr FUZZ_JOB) jobs) (\<lambda>matches.
     if channel = ''rc''
     then ensure (length matches = 1 \<and> succeeded_at sha (hd matches)) (ValueError ''RC requires one successful fuzz job at the exact source SHA'')
     else ensure (list_all (\<lambda>j. dget (the_dict j) ''conclusion'' JNull = JStr ''skipped'') matches) (ValueError ''Fuzzing must not run outside RC''))"

text \<open>Only a dispatched release candidate of a public default branch may start a campaign.\<close>

definition event_contract :: "json \<Rightarrow> string \<Rightarrow> string \<Rightarrow> string \<Rightarrow> string \<Rightarrow> unit res" where
  "event_contract event event_name ref repository sha =
     (let message = ValueError ''Fuzz campaigns require a public default-branch RC dispatch'' in
      bnd (get_res event ''repository'' (JObj [])) (\<lambda>repo.
      if event_name \<noteq> ''workflow_dispatch'' then Inl message
      else
        bnd (get_res (dget (the_dict event) ''inputs'' (JObj [])) ''channel'' JNull) (\<lambda>channel.
        if channel \<noteq> JStr ''rc'' then Inl message
        else
          bnd (get_res repo ''private'' JNull) (\<lambda>private.
          ensure (private = JBool False \<and> dget (the_dict repo) ''full_name'' JNull = JStr repository
             \<and> ref = ''refs/heads/'' @ py_str (dget (the_dict repo) ''default_branch'' JNull) \<and> rx_match (hex_rx 40) sha) message))))"

definition evidence_contract :: "string \<Rightarrow> string \<Rightarrow> unit res" where
  "evidence_contract mode plan_artifact =
     checks
       [ensure (mode \<in> {''release'', ''candidate''}) (ValueError ''Unknown fuzz evidence mode''),
        ensure (\<not> (mode = ''release'' \<and> plan_artifact = [])) (ValueError ''Release fuzzing requires its frozen plan artifact''),
        ensure (\<not> (mode = ''candidate'' \<and> plan_artifact \<noteq> [])) (ValueError ''Standalone candidate fuzzing must not supply a release plan'')]
       (Inr ())"

end
