(* ===== verification/Release_Validation_Facts.thy ===== *)
theory Release_Validation_Facts
  imports Release_Validation
begin

text \<open>
  The release gate of \<open>scripts/release_validation.py\<close> fails closed: a gate that passes saw exactly the declared
  jobs, and each with the result its channel demands.
\<close>

section \<open>The expected results\<close>

lemma add_entries_snoc: "add_entries m (kvs @ [kv]) = dput (add_entries m kvs) (fst kv) (snd kv)"
  by (simp add: add_entries_def)

lemma map_of_add_entries:
  "(k, v) \<in> set kvs \<Longrightarrow> \<forall>kv \<in> set kvs. fst kv = k \<longrightarrow> snd kv = v \<Longrightarrow> map_of (add_entries m kvs) k = Some v"
proof (induction kvs rule: rev_induct)
  case (snoc kv kvs)
  show ?case
  proof (cases "fst kv = k")
    case True
    then have "snd kv = v" using snoc.prems(2) by simp
    then show ?thesis using True by (simp add: add_entries_snoc map_of_dput)
  next
    case False
    then have "(k, v) \<in> set kvs" using snoc.prems(1) by auto
    then have "map_of (add_entries m kvs) k = Some v" using snoc.prems(2) by (intro snoc.IH) simp_all
    then show ?thesis using False by (simp add: add_entries_snoc map_of_dput)
  qed
qed simp

lemma keys_add_entries: "fst ` set (add_entries m kvs) = fst ` set m \<union> fst ` set kvs"
proof (induction kvs rule: rev_induct)
  case Nil
  show ?case by (simp add: add_entries_def)
next
  case (snoc kv kvs)
  have "set (map fst (dput m' k v)) = insert k (set (map fst m'))" for m' k v
    unfolding dput_keys by auto
  with snoc show ?case by (simp add: add_entries_snoc)
qed

lemma mapres_hashable_keys: "mapres hashable (map (\<lambda>kv. JStr (fst kv)) m) = Inr (map (\<lambda>kv. JStr (fst kv)) m)"
  by (induction m) (simp_all add: hashable_def guard_def)

text \<open>The result that a job of the gate has to report, spelled out by kinds of jobs.\<close>

definition gate_jobs :: "string \<Rightarrow> json list \<Rightarrow> json list \<Rightarrow> string list \<Rightarrow> members" where
  "gate_jobs channel full light reports =
     (let wide = JStr (if channel = ''beta'' then ''skipped'' else ''success'');
          narrow = JStr (if channel = ''beta'' then ''success'' else ''skipped'') in
      [(''scope'', JStr ''success''), (''workflow-contracts'', JStr ''success''), (''release-contracts'', JStr ''success'')]
      @ map (\<lambda>i. (''check-'' @ str_nat i, wide)) [0..<length full]
      @ map (\<lambda>i. (''beta-check-'' @ str_nat i, narrow)) [0..<length light]
      @ map (\<lambda>n. (''coverage-'' @ n, wide)) reports)"

lemma gate_jobs_functional:
  assumes "(k, v) \<in> set (gate_jobs channel full light reports)" "(k, v') \<in> set (gate_jobs channel full light reports)"
  shows "v' = v"
  using assms by (auto simp: gate_jobs_def Let_def)

lemma mapres_report_entry:
  "mapres (report_entry outcome) reports = Inr covered \<Longrightarrow>
     covered = map (\<lambda>n. (''coverage-'' @ n, JStr outcome)) (map (\<lambda>r. the_str (dget (the_dict r) ''name'' JNull)) reports)"
proof (induction reports arbitrary: covered)
  case (Cons r reports)
  then show ?case
    by (auto simp: report_entry_def dget_def is_str_iff)
qed simp

lemma expected_results_jobs:
  assumes "expected_results policy channel = Inr wanted"
  obtains beta full reports where "channel_workflows policy = Inr (Some beta)" "channel \<in> set CHANNELS"
    "iter_res (dget policy ''validation_workflows'' JNull) = Inr full"
    "iter_res (dget (the_dict (dget policy ''coverage'' (JObj []))) ''reports'' (JArr [])) = Inr reports"
    "set (map fst wanted) = set (map fst (gate_jobs channel full beta (map (\<lambda>r. the_str (dget (the_dict r) ''name'' JNull)) reports)))"
    "\<forall>(k, v) \<in> set (gate_jobs channel full beta (map (\<lambda>r. the_str (dget (the_dict r) ''name'' JNull)) reports)). map_of wanted k = Some v"
proof -
  define wide where "wide = (if channel = ''beta'' then ''skipped'' else ''success'')"
  define narrow where "narrow = (if channel = ''beta'' then ''success'' else ''skipped'')"
  obtain beta full reports covered where beta: "channel_workflows policy = Inr (Some beta)" and known: "channel \<in> set CHANNELS"
    and full: "iter_res (dget policy ''validation_workflows'' JNull) = Inr full"
    and reports: "iter_res (dget (the_dict (dget policy ''coverage'' (JObj []))) ''reports'' (JArr [])) = Inr reports"
    and covered: "mapres (report_entry wide) reports = Inr covered"
    and wanted: "wanted = add_entries [(''scope'', JStr ''success''), (''workflow-contracts'', JStr ''success''), (''release-contracts'', JStr ''success'')]
        (numbered ''check-'' wide full @ numbered ''beta-check-'' narrow beta @ covered)"
    using assms unfolding expected_results_def wide_def narrow_def Let_def by (auto simp: dget_def)
  let ?names = "map (\<lambda>r. the_str (dget (the_dict r) ''name'' JNull)) reports"
  define first where "first = [(''scope'', JStr ''success''), (''workflow-contracts'', JStr ''success''), (''release-contracts'', JStr ''success'')]"
  define kvs where "kvs = numbered ''check-'' wide full @ numbered ''beta-check-'' narrow beta @ covered"
  have jobs: "gate_jobs channel full beta ?names = first @ kvs"
    using mapres_report_entry [OF covered] by (simp add: gate_jobs_def first_def kvs_def numbered_def wide_def narrow_def Let_def)
  have wanted': "wanted = add_entries first kvs" using wanted by (simp add: first_def kvs_def)
  have new: "map_of wanted k = Some v" if "(k, v) \<in> set kvs" for k v
    unfolding wanted' using that jobs gate_jobs_functional [of k v channel full beta ?names]
    by (intro map_of_add_entries) auto
  have other: "k \<notin> fst ` set kvs" if "k \<in> fst ` set first" for k
    using that mapres_report_entry [OF covered] by (auto simp: first_def kvs_def numbered_def)
  have old: "map_of (add_entries first xs) k = map_of first k" if "k \<notin> fst ` set xs" for xs k
    using that by (induction xs rule: rev_induct) (auto simp: add_entries_snoc map_of_dput add_entries_def)
  show thesis
  proof (rule that [OF beta known full reports])
    show "set (map fst wanted) = set (map fst (gate_jobs channel full beta ?names))"
      unfolding jobs wanted' by (simp add: keys_add_entries)
    have "map_of wanted k = Some v" if "(k, v) \<in> set first" for k v
    proof -
      have "map_of first k = Some v" using that by (auto simp: first_def)
      moreover have "k \<notin> fst ` set kvs" using other [of k] that by force
      ultimately show ?thesis unfolding wanted' by (simp add: old)
    qed
    with new show "\<forall>(k, v) \<in> set (gate_jobs channel full beta ?names). map_of wanted k = Some v"
      unfolding jobs by auto
  qed
qed

section \<open>The gate\<close>

text \<open>
  C38: The release gate accepts exactly the declared jobs.  If \<open>check_results\<close> accepts, the channel is known, the
  reported jobs are precisely the three fixed ones, one per validator of the policy, one per beta validator and one
  per coverage report, and every one has the result of its channel: for beta the full validators and the coverage
  reports were skipped and the beta validators succeeded, otherwise the other way round; the fixed jobs always
  succeeded and the scope job really ran checks.
\<close>

theorem gate_accepts_declared_jobs:
  assumes "check_results policy channel results = Inr ()"
  shows "\<exists>beta full reports.
     channel_workflows policy = Inr (Some beta) \<and> channel \<in> set CHANNELS
     \<and> iter_res (dget policy ''validation_workflows'' JNull) = Inr full
     \<and> iter_res (dget (the_dict (dget policy ''coverage'' (JObj []))) ''reports'' (JArr [])) = Inr reports
     \<and> (let jobs = gate_jobs channel full beta (map (\<lambda>r. the_str (dget (the_dict r) ''name'' JNull)) reports) in
        set (map fst (the_dict results)) = set (map fst jobs)
        \<and> (\<forall>(name, result) \<in> set (the_dict results). map_of jobs name = Some (dget (the_dict result) ''result'' JNull)))
     \<and> dget (the_dict (dget (the_dict (dget (the_dict results) ''scope'' JNull)) ''outputs'' JNull)) ''run'' JNull = JStr ''true''"
proof -
  obtain wanted names scope outputs failed where wanted: "expected_results policy channel = Inr wanted" and names: "set_res results = Inr names"
    and same: "set names = set (map (\<lambda>kv. JStr (fst kv)) wanted)"
    and scope: "item_res results ''scope'' = Inr scope" and outputs: "get_res scope ''outputs'' (JObj []) = Inr outputs"
    and run: "get_res outputs ''run'' JNull = Inr (JStr ''true'')"
    and failed: "filter_res (failed_result wanted) (the_dict results) = Inr failed" "failed = []"
    using assms unfolding check_results_def by auto
  obtain beta full reports where e: "channel_workflows policy = Inr (Some beta)" "channel \<in> set CHANNELS"
    "iter_res (dget policy ''validation_workflows'' JNull) = Inr full"
    "iter_res (dget (the_dict (dget policy ''coverage'' (JObj []))) ''reports'' (JArr [])) = Inr reports"
    "set (map fst wanted) = set (map fst (gate_jobs channel full beta (map (\<lambda>r. the_str (dget (the_dict r) ''name'' JNull)) reports)))"
    "\<forall>(k, v) \<in> set (gate_jobs channel full beta (map (\<lambda>r. the_str (dget (the_dict r) ''name'' JNull)) reports)). map_of wanted k = Some v"
    using expected_results_jobs [OF wanted] by blast
  define jobs where "jobs = gate_jobs channel full beta (map (\<lambda>r. the_str (dget (the_dict r) ''name'' JNull)) reports)"
  obtain m where m: "results = JObj m" using scope by (cases results) (auto simp: item_res_def)
  have keys: "set (map fst m) = set (map fst jobs)"
  proof -
    have "names = map (\<lambda>kv. JStr (fst kv)) m"
      using names unfolding m set_res_def by (auto simp: iter_res_def mapres_hashable_keys)
    then have "JStr ` set (map fst m) = JStr ` set (map fst wanted)" using same by (simp add: image_image)
    then show ?thesis using e(5) inj_image_eq_iff [of JStr] by (simp add: jobs_def inj_def)
  qed
  have "map_of jobs name = Some (dget (the_dict result) ''result'' JNull)" if entry: "(name, result) \<in> set m" for name result
  proof -
    have "name \<in> fst ` set jobs" using keys entry by force
    then obtain v where v: "(name, v) \<in> set jobs" by force
    then have "map_of wanted name = Some v" using e(6) by (auto simp: jobs_def)
    then have wants: "dget wanted name JNull = v" by (simp add: dget_def)
    have tried: "\<forall>x \<in> set m. \<not> isl (failed_result wanted x)" and none: "filter (\<lambda>x. failed_result wanted x = Inr True) m = []"
      using filter_res_Inr [OF failed(1)] failed(2) unfolding m the_dict.simps by simp_all
    have "\<not> isl (failed_result wanted (name, result))" "failed_result wanted (name, result) \<noteq> Inr True"
      using bspec [OF tried entry] none entry unfolding filter_empty_conv by blast+
    then have "py_eq (dget (the_dict result) ''result'' JNull) v"
      using wants by (cases result) (auto simp: failed_result_def get_res_def dget_def)
    moreover obtain s where s: "v = JStr s" using v by (auto simp: jobs_def gate_jobs_def Let_def)
    ultimately have "dget (the_dict result) ''result'' JNull = v" by simp
    moreover have "map_of jobs name = Some v"
    proof -
      obtain v' where "map_of jobs name = Some v'" using v by (cases "map_of jobs name") (auto simp: map_of_eq_None_iff image_iff)
      then have "v' = v" using v gate_jobs_functional map_of_SomeD unfolding jobs_def by metis
      with \<open>map_of jobs name = Some v'\<close> show ?thesis by simp
    qed
    ultimately show ?thesis by simp
  qed
  moreover have "dget (the_dict (dget (the_dict (dget m ''scope'' JNull)) ''outputs'' JNull)) ''run'' JNull = JStr ''true''"
    using scope outputs run unfolding m by (auto simp: dget_def get_res_def split: option.splits json.splits)
  ultimately show ?thesis
    using e(1-4) keys unfolding m Let_def jobs_def the_dict.simps by blast
qed

definition sample_policy :: members where
  "sample_policy =
     [(''validation_workflows'', JArr [JStr ''ci.yml'']), (''single_entry_ci'', JBool True), (''versioning'', JObj []),
      (''channel_validation_workflows'', JObj [(''beta'', JArr [JStr ''fast.yml''])]),
      (''coverage'', JObj [(''reports'', JArr [JObj [(''name'', JStr ''py'')]])])]"

definition sample_job :: "string \<Rightarrow> json" where
  "sample_job r = JObj [(''result'', JStr r)]"

definition sample_results :: json where
  "sample_results = JObj
     [(''scope'', JObj [(''result'', JStr ''success''), (''outputs'', JObj [(''run'', JStr ''true'')])]),
      (''workflow-contracts'', sample_job ''success''), (''release-contracts'', sample_job ''success''), (''check-0'', sample_job ''success''),
      (''beta-check-0'', sample_job ''skipped''), (''coverage-py'', sample_job ''success'')]"

lemma sample_gate: "check_results sample_policy ''rc'' sample_results = Inr ()"
  by code_simp

theorem gate_accepts_declared_jobs_witness:
  "check_results sample_policy ''rc'' sample_results = Inr ()
   \<and> (\<exists>beta full. channel_workflows sample_policy = Inr (Some beta) \<and> iter_res (dget sample_policy ''validation_workflows'' JNull) = Inr full)"
  using gate_accepts_declared_jobs [OF sample_gate] sample_gate by blast

end
