(* ===== verification/Sha1.thy ===== *)
theory Sha1
  imports Sha256
begin

text \<open>
  \<open>hashlib.sha1(data).hexdigest()\<close>, which \<open>scripts/release_control.py\<close> uses for the object names of Git
  only: the FIPS 180-4 function, with the padding and the word order of \<open>Sha256\<close>.
\<close>

unbundle bit_operations_syntax

record sha1_state =
  sa :: w32
  sb :: w32
  sc :: w32
  sd :: w32
  se :: w32

definition sha1_initial :: sha1_state where
  "sha1_initial = \<lparr>sa = 0x67452301, sb = 0xEFCDAB89, sc = 0x98BADCFE, sd = 0x10325476, se = 0xC3D2E1F0\<rparr>"

definition rotl :: "nat \<Rightarrow> w32 \<Rightarrow> w32" where
  "rotl n w = push_bit n w OR drop_bit (32 - n) w"

text \<open>The function and the constant of round \<open>t\<close>.\<close>

definition sha1_mix :: "nat \<Rightarrow> sha1_state \<Rightarrow> w32" where
  "sha1_mix t s =
     (if t < 20 then ((sb s AND sc s) OR (NOT (sb s) AND sd s)) + 0x5A827999
      else if t < 40 then (sb s XOR sc s XOR sd s) + 0x6ED9EBA1
      else if t < 60 then ((sb s AND sc s) OR (sb s AND sd s) OR (sc s AND sd s)) + 0x8F1BBCDC
      else (sb s XOR sc s XOR sd s) + 0xCA62C1D6)"

definition sha1_round :: "sha1_state \<Rightarrow> nat \<times> w32 \<Rightarrow> sha1_state" where
  "sha1_round s tw =
     \<lparr>sa = rotl 5 (sa s) + sha1_mix (fst tw) s + se s + snd tw, sb = sa s, sc = rotl 30 (sb s), sd = sc s, se = sd s\<rparr>"

text \<open>The message schedule, most recent word first.\<close>

fun sha1_schedule :: "nat \<Rightarrow> w32 list \<Rightarrow> w32 list" where
  "sha1_schedule 0 ws = ws"
| "sha1_schedule (Suc n) ws = sha1_schedule n (rotl 1 (ws ! 2 XOR ws ! 7 XOR ws ! 13 XOR ws ! 15) # ws)"

definition sha1_block :: "sha1_state \<Rightarrow> w32 list \<Rightarrow> sha1_state" where
  "sha1_block s block =
     (let t = foldl sha1_round s (zip [0..<80] (rev (sha1_schedule 64 (rev block))))
      in \<lparr>sa = sa s + sa t, sb = sb s + sb t, sc = sc s + sc t, sd = sd s + sd t, se = se s + se t\<rparr>)"

definition sha1 :: "string \<Rightarrow> string" where
  "sha1 data =
     (let ws = be_words (pad (map of_char data)); s = foldl sha1_block sha1_initial (blocks (length ws) ws)
      in concat (map hex_word [sa s, sb s, sc s, sd s, se s]))"

text \<open>Every result is 40 lowercase hexadecimal digits, the form of the names of Git's objects.\<close>

lemma sha1_in_hex_rx: "sha1 s \<in> lang (hex_rx 40)"
proof -
  have "set (sha1 s) \<subseteq> set lower_hex"
    by (auto simp: sha1_def Let_def dest: set_hex_word [THEN subsetD])
  moreover have "length (sha1 s) = 40"
    by (simp add: sha1_def Let_def)
  ultimately show ?thesis
    by (simp only: lang_hex_rx) simp
qed

end
