(* ===== verification/Release_Policy.thy ===== *)
theory Release_Policy
  imports Release_Validation Execution_Wait Release_Ledger Sha1
begin

text \<open>
  The policy of a source commit in \<open>scripts/release_control.py\<close>: when a policy makes a commit eligible,
  how it is read from GitHub and bound to its Git blob, and what a candidate's run has to have passed.
\<close>

section \<open>Eligibility\<close>

text \<open>\<open>except ValueError as error: raise ReleaseError(str(error)) from error\<close>.\<close>

fun exn_text :: "exn \<Rightarrow> string" where
  "exn_text (VersionError m) = m"
| "exn_text (PreflightError m) = m"
| "exn_text (ValueError m) = m"
| "exn_text (JSONDecodeError m) = m"
| "exn_text (Unable m) = m"
| "exn_text _ = []"

definition as_release_error :: "'a res \<Rightarrow> 'a res" where
  "as_release_error r = res_catch r is_ValueError (\<lambda>e. Inl (ReleaseError (exn_text e)))"

definition require_fuzzing_policy :: "members \<Rightarrow> unit res" where
  "require_fuzzing_policy policy =
     only_if (has_key policy ''fuzzing'') (as_release_error (ignore (fuzz_configuration policy)))"

definition blockers_ok :: "members \<Rightarrow> bool \<Rightarrow> string \<Rightarrow> unit res" where
  "blockers_ok policy qualified field =
     (let blockers = dget policy field (JArr []) in
      checks
        [rc_require (is_list blockers \<and> list_all (\<lambda>b. is_str b \<and> strip is_space (the_str b) \<noteq> []) (the_list blockers))
           ''Source policy blockers must be a list of nonempty strings'',
         only_if qualified (rc_require (the_list blockers = []) ''Source policy has unresolved blockers'')]
        (Inr ()))"

definition require_release_policy :: "json \<Rightarrow> string \<Rightarrow> bool \<Rightarrow> unit res" where
  "require_release_policy v repository qualified =
     (let policy = the_dict v; name = dget policy ''repository'' JNull in
      checks
        [rc_require (is_dict v) ''Source release policy must be an object'',
         rc_require (is_str name \<and> lower (the_str name) = lower repository) ''Source policy repository mismatch'',
         rc_require (dget policy ''mode'' JNull = JStr ''release'') ''Source policy mode must be release'',
         require_fuzzing_policy policy,
         only_if (has_key policy ''channel_validation_workflows'') (as_release_error (ignore (channel_workflows policy))),
         blockers_ok policy qualified ''release_blockers'',
         blockers_ok policy qualified ''stable_blockers'']
        (Inr ()))"

definition validation_profile :: "members \<Rightarrow> string \<Rightarrow> json res" where
  "validation_profile policy channel =
     (if has_key policy ''channel_validation_workflows'' then as_release_error (profile policy channel) else Inr JNull)"

section \<open>Manifests and their policy\<close>

text \<open>\<open>{item["name"]: item for item in ...}\<close>, of which the last item of a name stays.\<close>

definition by_name :: "json \<Rightarrow> (json \<times> json) list res" where
  "by_name items =
     bnd (iter_res items) (mapres (\<lambda>item. bnd (bnd (item_res item ''name'') hashable) (\<lambda>n. Inr (n, item))))"

definition named_item :: "(json \<times> json) list \<Rightarrow> string \<Rightarrow> json" where
  "named_item items name = (case map_of (rev items) (JStr name) of None \<Rightarrow> JObj [] | Some v \<Rightarrow> v)"

definition validate_fuzz_manifest :: "members \<Rightarrow> members \<Rightarrow> unit res" where
  "validate_fuzz_manifest manifest policy =
     (if \<not> has_key policy ''fuzzing'' then Inr ()
      else
        bnd (bnd (item_res (JObj manifest) ''channel'') (\<lambda>c. fuzz_profile policy (the_str c))) (\<lambda>p.
        checks [rc_require (rc_json_bytes (dget manifest ''fuzzing_profile'' JNull) = rc_json_bytes p)
                  ''Manifest fuzzing profile differs from its source policy/channel'']
          (if dget manifest ''channel'' JNull \<noteq> JStr ''rc'' then Inr ()
           else
             bnd (bnd (item_res (JObj manifest) ''assets'') by_name) (\<lambda>assets.
             let receipt = named_item assets ''release-inputs-fuzz.json'' in
             rc_require (JStr ''fuzz-report.json'' \<in> set (map fst assets) \<and> receipt \<noteq> JObj []
                \<and> py_eq (dget manifest ''validation_receipts'' JNull)
                    (JArr [JObj [(''name'', JStr ''release-inputs-fuzz.json''), (''sha256'', dget (the_dict receipt) ''sha256'' JNull)]]))
               ''RC fuzz validation evidence is absent from the immutable asset inventory''))))"

definition policy_data :: "members \<Rightarrow> members" where
  "policy_data manifest = the_dict (dget (the_dict (dget manifest ''source_policy'' JNull)) ''data'' JNull)"

text \<open>For a manifest whose channel and source policy were checked before.\<close>

definition validate_validation_manifest :: "members \<Rightarrow> unit res" where
  "validate_validation_manifest manifest =
     bnd (validation_profile (policy_data manifest) (the_str (dget manifest ''channel'' JNull))) (\<lambda>p.
     checks [rc_require (rc_json_bytes (dget manifest ''validation_profile'' JNull) = rc_json_bytes p)
               ''Manifest validation profile differs from its source policy/channel'']
       (validate_fuzz_manifest manifest (policy_data manifest)))"

section \<open>The policy of a commit\<close>

definition POLICY :: string where "POLICY = ''.release-policy.json''"

definition git_blob_sha :: "string \<Rightarrow> string" where
  "git_blob_sha raw = sha1 (''blob '' @ str_nat (length raw) @ [CHR 0x00] @ raw)"

text \<open>
  The bytes of a regular file in an answer of the contents interface, whose size and Git name must agree;
  both the policy and the changelog are read like this, with the messages in front.
\<close>

definition contents_file :: "string \<Rightarrow> string \<Rightarrow> string \<Rightarrow> json \<Rightarrow> string \<Rightarrow> string res" where
  "contents_file irregular oversized undecodable answer path =
     (let m = the_dict answer; content = dget m ''content'' JNull in
      checks
        [rc_require (is_dict answer \<and> dget m ''type'' JNull = JStr ''file'' \<and> dget m ''path'' JNull = JStr path
             \<and> dget m ''encoding'' JNull = JStr ''base64'') irregular,
         rc_require (is_str content \<and> length (the_str content) \<le> 400000) oversized]
        (case b64_decode (filter (\<lambda>c. \<not> is_space c) (the_str content)) of
           None \<Rightarrow> Inl (ReleaseError undecodable)
         | Some raw \<Rightarrow> Inr raw))"

definition blob_checks :: "string \<Rightarrow> string \<Rightarrow> json \<Rightarrow> string \<Rightarrow> unit res" where
  "blob_checks sizes names answer raw =
     checks
       [rc_require (length raw \<le> 250000 \<and> py_eq (dget (the_dict answer) ''size'' JNull) (JInt (int (length raw)))) sizes,
        rc_require (dget (the_dict answer) ''sha'' JNull = JStr (git_blob_sha raw)) names]
       (Inr ())"

definition policy_snapshot :: "string \<Rightarrow> json \<Rightarrow> members" where
  "policy_snapshot raw data =
     [(''schema'', JInt 1), (''path'', JStr POLICY), (''git_blob_sha'', JStr (git_blob_sha raw)), (''sha256'', JStr (digest raw)),
      (''data'', data)]"

definition source_policy_snapshot :: "'w storage \<Rightarrow> string \<Rightarrow> ('w, members) act" where
  "source_policy_snapshot h sha =
     act_then (lift (rc_require (rx_match (hex_rx 40) sha) ''Invalid source policy commit SHA''))
     (act_bind (api (rest h) (''contents/'' @ POLICY @ ''?ref='' @ sha) ''GET'' None) (\<lambda>answer. lift
       (bnd (contents_file ''Source commit must contain a regular release policy file'' ''Invalid or oversized source policy content''
              ''Invalid source policy base64 content'' answer POLICY) (\<lambda>raw.
        checks [blob_checks ''Source policy size mismatch'' ''Source policy Git blob identity mismatch'' answer raw]
         (bnd (parse_json (json_float_text h) raw) (\<lambda>data.
          checks [require_release_policy data (repo h) False] (Inr (policy_snapshot raw data))))))))"

definition validate_policy_snapshot :: "json \<Rightarrow> string \<Rightarrow> unit res" where
  "validate_policy_snapshot v repository =
     (let m = the_dict v in
      checks
        [rc_require (is_dict v \<and> dget m ''schema'' JNull = JInt 1 \<and> dget m ''path'' JNull = JStr POLICY)
           ''Manifest requires a versioned source policy snapshot'',
         rc_require (is_sha (dget m ''git_blob_sha'' JNull) \<and> is_str (dget m ''sha256'' JNull)
             \<and> rx_match (hex_rx 64) (the_str (dget m ''sha256'' JNull))) ''Invalid source policy snapshot hashes'',
         require_release_policy (dget m ''data'' JNull) repository True]
        (Inr ()))"

definition check_ancestry :: "'w storage \<Rightarrow> string \<Rightarrow> string \<Rightarrow> ('w, unit) act" where
  "check_ancestry h sha default_branch =
     act_bind (api (rest h) (''compare/'' @ sha @ ''...'' @ url_quote default_branch) ''GET'' None) (\<lambda>comparison. lift
       (checks
         [field_is comparison ''status'' (\<lambda>s. s \<in> {JStr ''ahead'', JStr ''identical''})
            ''Source commit is not an ancestor of the current default branch'',
          bnd (get_res comparison ''merge_base_commit'' (JObj [])) (\<lambda>base.
            field_is base ''sha'' (\<lambda>s. s = JStr sha) ''Source/default branch ancestry could not be verified'')]
         (Inr ())))"

section \<open>Checks of the candidate's run\<close>

definition require_current_fuzzing :: "'w storage \<Rightarrow> members \<Rightarrow> string \<Rightarrow> ('w, unit) act" where
  "require_current_fuzzing h candidate_policy current_sha =
     act_bind (source_policy_snapshot h current_sha) (\<lambda>snapshot. lift
       (only_if (has_key (the_dict (dget snapshot ''data'' JNull)) ''fuzzing'')
         (bnd (fuzz_configuration candidate_policy) (\<lambda>c.
            rc_require (c \<noteq> None) ''Current release policy requires fuzzing; create a new RC after adoption''))))"

definition validate_validation_run :: "'w storage \<Rightarrow> json \<Rightarrow> members \<Rightarrow> string \<Rightarrow> ('w, unit) act" where
  "validate_validation_run h run policy channel =
     act_bind (lift (validation_profile policy channel)) (\<lambda>p.
     let fuzzing = has_key policy ''fuzzing'' in
     if p = JNull \<and> \<not> fuzzing then ret ()
     else
       act_bind (lift (bnd (bnd (get_res run ''id'' JNull) (\<lambda>v. rc_positive v ''run ID'')) (\<lambda>n.
                       bnd (bnd (get_res run ''run_attempt'' JNull) (\<lambda>v. rc_positive v ''run attempt'')) (\<lambda>a.
                       Inr (''actions/runs/'' @ str_int n @ ''/attempts/'' @ str_int a @ ''/jobs''))))) (\<lambda>path.
       act_bind (pages (rest h) path (Some ''jobs'')) (\<lambda>jobs. lift (as_release_error
         (bnd (if p \<noteq> JNull then bnd (item_res run ''head_sha'') (\<lambda>s. check_run_jobs jobs channel s) else Inr ()) (\<lambda>_.
          if fuzzing then bnd (item_res run ''head_sha'') (\<lambda>s. check_fuzz_jobs jobs channel s) else Inr ()))))))"

text \<open>The end of automatic betas for a version that is already stable.\<close>

fun is_not_found :: "exn \<Rightarrow> bool" where
  "is_not_found (GitHubError _ not_found) = not_found"
| "is_not_found _ = False"

definition occupied_tag :: "json \<Rightarrow> string \<Rightarrow> unit res" where
  "occupied_tag ref tag =
     (let object = dget (the_dict ref) ''object'' JNull; kind = dget (the_dict object) ''type'' JNull; message = ''Invalid stable tag response'' in
      if is_dict ref \<and> dget (the_dict ref) ''ref'' JNull = JStr (''refs/tags/'' @ tag) \<and> is_dict object
      then bnd (hash_in kind [''commit'', ''tag'']) (\<lambda>b. rc_require (b \<and> is_sha (dget (the_dict object) ''sha'' JNull)) message)
      else Inl (ReleaseError message))"

definition version_required :: "string \<Rightarrow> members" where
  "version_required base =
     [(''status'', JStr ''version-required''), (''channel'', JStr ''beta''), (''version'', JStr base), (''build'', JStr ''false''),
      (''plan_artifact'', JStr []), (''reason'', JStr (''Stable tag v'' @ base @ '' already exists; prepare and merge the next ''
        @ ''committed base version before creating another beta.''))]"

definition closed_push_cycle :: "'w storage \<Rightarrow> string \<Rightarrow> string \<Rightarrow> ('w, members option) act" where
  "closed_push_cycle h base kind =
     (if kind \<noteq> ''push'' then ret None
      else
        act_bind (lift (rc_version base)) (\<lambda>v.
        let tag = ''v'' @ v in
        act_bind (act_catch (act_bind (api (rest h) (''git/ref/tags/'' @ url_quote tag) ''GET'' None) (\<lambda>ref. ret (Some ref)))
                    is_not_found (\<lambda>_. ret None)) (\<lambda>found.
        case found of
          None \<Rightarrow> ret None
        | Some ref \<Rightarrow> act_then (lift (occupied_tag ref tag)) (ret (Some (version_required base))))))"

end
