(* ===== verification/Release_Notes.thy ===== *)
theory Release_Notes
  imports Release_Policy Posix_Path
begin

text \<open>
  Release notes in \<open>scripts/release_control.py\<close>: the line-oriented reading of \<open>CHANGELOG.md\<close>, which masks
  comments, skips code blocks and finds the section of a version, and the notes built from it.
\<close>

section \<open>Lines\<close>

definition blank_or_tab :: string where "blank_or_tab = '' '' @ [CHR 0x09]"

text \<open>Iterating over \<open>io.StringIO(text)\<close>: lines with their line feed.\<close>

fun io_lines :: "string \<Rightarrow> string list" where
  "io_lines [] = []"
| "io_lines (c # s) =
     (if c = CHR 0x0A then [c] # io_lines s
      else (case io_lines s of [] \<Rightarrow> [[c]] | l # ls \<Rightarrow> (c # l) # ls))"

text \<open>A fence: its character, its length and what follows it.\<close>

type_synonym fence = "char \<times> nat \<times> string"

definition release_fence :: "string \<Rightarrow> fence option" where
  "release_fence line =
     (let content = lstrip (\<lambda>c. c = CHR '' '') line in
      if 3 < length line - length content \<or> content = [] \<or> hd content \<notin> set ''`~'' then None
      else
        let n = length (takeWhile (\<lambda>c. c = hd content) content) in
        if n < 3 then None else Some (hd content, n, drop n content))"

text \<open>Runs of back quotes with their start and end, and the end of the span that starts at a run.\<close>

fun tick_runs :: "nat \<Rightarrow> nat option \<Rightarrow> string \<Rightarrow> (nat \<times> nat) list" where
  "tick_runs i open_at [] = (case open_at of None \<Rightarrow> [] | Some a \<Rightarrow> [(a, i)])"
| "tick_runs i open_at (c # s) =
     (if c = CHR ''`'' then tick_runs (Suc i) (Some (case open_at of None \<Rightarrow> i | Some a \<Rightarrow> a)) s
      else (case open_at of None \<Rightarrow> [] | Some a \<Rightarrow> [(a, i)]) @ tick_runs (Suc i) None s)"

definition note_run :: "nat \<times> nat \<Rightarrow> (nat \<rightharpoonup> nat) \<times> (nat \<rightharpoonup> nat) \<Rightarrow> (nat \<rightharpoonup> nat) \<times> (nat \<rightharpoonup> nat)" where
  "note_run run maps =
     (let n = snd run - fst run; following = fst maps; ends = snd maps in
      (following(n \<mapsto> snd run), case following n of None \<Rightarrow> ends | Some e \<Rightarrow> ends(fst run \<mapsto> e)))"

definition code_span_ends :: "string \<Rightarrow> nat \<Rightarrow> nat option" where
  "code_span_ends line = snd (foldr note_run (tick_runs 0 None line) (Map.empty, Map.empty))"

definition mask_char :: "char \<Rightarrow> char" where
  "mask_char c = (if c \<in> {CHR 0x0D, CHR 0x0A} then c else CHR '' '')"

text \<open>The first place of \<open>--> \<close> in the rest of a line.\<close>

fun comment_end :: "string \<Rightarrow> nat option" where
  "comment_end [] = None"
| "comment_end (c # s) = (if startswith (c # s) ''-->'' then Some 0 else map_option Suc (comment_end s))"

text \<open>
  The masked rest of a line from position \<open>i\<close> on, and whether a comment is open at its end.  A code span
  ends behind its start (\<open>span_ends_behind\<close>), so that every step but the opening of a comment advances.
\<close>

function mask_comments :: "(nat \<Rightarrow> nat option) \<Rightarrow> string \<Rightarrow> nat \<Rightarrow> bool \<Rightarrow> string \<times> bool" where
  "mask_comments ends [] i comment = ([], comment)"
| "mask_comments ends (c # s) i True =
     (case comment_end (c # s) of
        None \<Rightarrow> (map mask_char (c # s), True)
      | Some k \<Rightarrow> apfst ((@) (map mask_char (take (k + 3) (c # s)))) (mask_comments ends (drop (k + 3) (c # s)) (i + k + 3) False))"
| "mask_comments ends (c # s) i False =
     (if c = CHR 0x5C then apfst ((@) (take 2 (c # s))) (mask_comments ends (drop 2 (c # s)) (i + 2) False)
      else (case ends i of
        Some e \<Rightarrow> apfst ((@) (take (max 1 (e - i)) (c # s))) (mask_comments ends (drop (max 1 (e - i)) (c # s)) e False)
      | None \<Rightarrow>
          if startswith (c # s) ''<!--'' then mask_comments ends (c # s) i True
          else apfst ((#) c) (mask_comments ends s (Suc i) False)))"
  by pat_completeness auto
termination
  by (relation "measures [\<lambda>(ends, s, i, comment). length s, \<lambda>(ends, s, i, comment). if comment then 0 else 1]") auto

definition release_comment_line :: "string \<Rightarrow> bool \<Rightarrow> string \<times> bool" where
  "release_comment_line line comment = mask_comments (code_span_ends line) line 0 comment"

definition release_fence_closes :: "fence option \<Rightarrow> char \<times> nat \<Rightarrow> bool" where
  "release_fence_closes candidate fence =
     (case candidate of
        None \<Rightarrow> False
      | Some (marker, n, info) \<Rightarrow>
          marker = fst fence \<and> snd fence \<le> n \<and> strip (\<lambda>c. c \<in> set (blank_or_tab @ [CHR 0x0D, CHR 0x0A])) info = [])"

text \<open>The lines with their masked text, whether a heading may stand there, and whether they are visible.\<close>

type_synonym marked_line = "string \<times> bool \<times> bool"

definition opens_fence :: "bool \<Rightarrow> fence option \<Rightarrow> bool" where
  "opens_fence comment candidate \<longleftrightarrow>
     \<not> comment \<and> (case candidate of None \<Rightarrow> False | Some (marker, n, info) \<Rightarrow> marker = CHR ''~'' \<or> CHR ''`'' \<notin> set info)"

definition mark_line :: "(char \<times> nat) option \<times> bool \<Rightarrow> string \<Rightarrow> marked_line \<times> (char \<times> nat) option \<times> bool" where
  "mark_line state line =
     (let candidate = release_fence line; comment = snd state in
      case fst state of
        Some fence \<Rightarrow>
          let closes = release_fence_closes candidate fence in
          ((line, False, \<not> closes), if closes then None else Some fence, comment)
      | None \<Rightarrow>
          if opens_fence comment candidate
          then ((line, False, False), map_option (\<lambda>f. (fst f, fst (snd f))) candidate, comment)
          else if \<not> comment \<and> (startswith line ''    '' \<or> startswith line [CHR 0x09])
          then ((line, False, True), None, comment)
          else let (visible, comment') = release_comment_line line comment in ((visible, True, True), None, comment'))"

fun mark_lines :: "(char \<times> nat) option \<times> bool \<Rightarrow> string list \<Rightarrow> marked_line list" where
  "mark_lines state [] = []"
| "mark_lines state (line # lines) = fst (mark_line state line) # mark_lines (snd (mark_line state line)) lines"

definition release_lines :: "string \<Rightarrow> marked_line list" where
  "release_lines t = mark_lines (None, False) (io_lines t)"

section \<open>Headings and sections\<close>

definition md_space :: string where
  "md_space = [CHR '' '', CHR 0x09, CHR 0x0D, CHR 0x0A]"

definition release_heading_title :: "string \<Rightarrow> string" where
  "release_heading_title content =
     (let title = strip (\<lambda>c. c \<in> set md_space) content; before_hashes = rstrip (\<lambda>c. c = CHR ''#'') title in
      if before_hashes = [] \<or> endswith before_hashes '' '' \<or> endswith before_hashes [CHR 0x09]
      then rstrip (\<lambda>c. c \<in> set blank_or_tab) before_hashes
      else title)"

text \<open>A heading: its level, its title, where its line starts and ends.\<close>

type_synonym heading = "nat \<times> string \<times> nat \<times> nat"

definition line_heading :: "nat \<Rightarrow> marked_line \<Rightarrow> heading list" where
  "line_heading offset marked =
     (let line = fst marked; indentation = length (takeWhile (\<lambda>c. c = CHR '' '') line);
          heading = (if indentation \<le> 3 then drop indentation line else line);
          level = length (takeWhile (\<lambda>c. c = CHR ''#'') heading) in
      if fst (snd marked) \<and> 1 \<le> level \<and> level \<le> 6 \<and> (drop level heading = [] \<or> hd (drop level heading) \<in> set md_space)
      then [(level, release_heading_title (drop level heading), offset, offset + length line)] else [])"

fun headings_from :: "nat \<Rightarrow> marked_line list \<Rightarrow> heading list" where
  "headings_from offset [] = []"
| "headings_from offset (m # ms) = line_heading offset m @ headings_from (offset + length (fst m)) ms"

definition release_headings :: "string \<Rightarrow> heading list" where
  "release_headings t = headings_from 0 (release_lines t)"

text \<open>\<open>text[start:end]\<close> for positions within the text.\<close>

definition slice :: "nat \<Rightarrow> nat \<Rightarrow> string \<Rightarrow> string" where
  "slice a b s = drop a (take b s)"

text \<open>Each section of the level with its title, its original body and its masked body.\<close>

fun sections_of :: "nat \<Rightarrow> string \<Rightarrow> string \<Rightarrow> heading list \<Rightarrow> (string \<times> string \<times> string) list" where
  "sections_of level t visible [] = []"
| "sections_of level t visible ((n, title, first, start) # hs) =
     (let stop = (case hs of [] \<Rightarrow> length t | (_, _, next_first, _) # _ \<Rightarrow> next_first) in
      (if n = level then [(title, strip is_space (slice start stop t), slice start stop visible)] else [])
      @ sections_of level t visible hs)"

definition release_sections :: "string \<Rightarrow> nat \<Rightarrow> (string \<times> string \<times> string) list" where
  "release_sections t level =
     sections_of level t (concat (map fst (release_lines t))) (filter (\<lambda>h. fst h \<le> level) (release_headings t))"

section \<open>Visible guidance\<close>

fun expand_tabs :: "nat \<Rightarrow> string \<Rightarrow> string" where
  "expand_tabs column [] = []"
| "expand_tabs column (c # s) =
     (if c = CHR 0x09 then replicate (4 - column mod 4) CHR '' '' @ expand_tabs (column + (4 - column mod 4)) s
      else if c = CHR 0x0A \<or> c = CHR 0x0D then c # expand_tabs 0 s
      else c # expand_tabs (Suc column) s)"

text \<open>
  The length of a container marker at the start: a quote sign, or a bullet or a number of at most nine
  digits that blank space or the end follows.  The line is stripped, so that its end is the end of the text.
\<close>

definition marker_length :: "string \<Rightarrow> nat option" where
  "marker_length s =
     (let n = length (takeWhile (\<lambda>c. c \<in> set digits) s);
          bounded = (\<lambda>k. drop k s = [] \<or> hd (drop k s) \<in> set blank_or_tab) in
      case s of
        [] \<Rightarrow> None
      | c # r \<Rightarrow>
          if c = CHR ''>'' then Some 1
          else if c \<in> set ''-+*'' then (if bounded 1 then Some 1 else None)
          else if 1 \<le> n \<and> n \<le> 9 \<and> drop n s \<noteq> [] \<and> hd (drop n s) \<in> set ''.)'' \<and> bounded (Suc n) then Some (Suc n)
          else None)"

lemma marker_length_pos: "marker_length s = Some n \<Longrightarrow> 0 < n \<and> s \<noteq> []"
  by (auto simp: marker_length_def Let_def split: list.splits if_splits)

text \<open>The rest of a line after its markers; \<open>item\<close> says that the last one was that of a list item.\<close>

lemma after_marker_shorter:
  assumes "marker_length s = Some n" shows "length (dropWhile P (drop n s)) < length s"
proof -
  have "length (drop n s) < length s" using marker_length_pos [OF assms] by simp
  then show ?thesis using length_dropWhile_le [of P "drop n s"] by (rule order.strict_trans1 [rotated])
qed

function container_rest :: "bool \<Rightarrow> string \<Rightarrow> string" where
  "container_rest item s =
     (case marker_length s of
        None \<Rightarrow> (if item \<and> s \<in> {''[ ]'', ''[x]'', ''[X]''} then [] else s)
      | Some n \<Rightarrow>
          let r = drop n s; content = dropWhile (\<lambda>c. c \<in> set blank_or_tab) r in
          if 5 \<le> length r - length content then r else container_rest (hd s \<noteq> CHR ''>'') content)"
  by pat_completeness auto
termination
  by (relation "measure (\<lambda>(item, s). length s)") (auto simp: after_marker_shorter)

definition release_container_content :: "string \<Rightarrow> string" where
  "release_container_content line = container_rest False (strip is_space (expand_tabs 0 line))"

text \<open>\<open>re.match(r" {0,3}#{1,6}(?:[ \t\r\n]|$)", line)\<close>.\<close>

definition atx_line :: "string \<Rightarrow> bool" where
  "atx_line line \<longleftrightarrow>
     (let s = dropWhile (\<lambda>c. c = CHR '' '') line; n = length (takeWhile (\<lambda>c. c = CHR ''#'') s); r = drop n s in
      length line - length s \<le> 3 \<and> 1 \<le> n \<and> n \<le> 6 \<and> (r = [] \<or> hd r \<in> set md_space))"

definition separator_line :: "string \<Rightarrow> bool" where
  "separator_line line \<longleftrightarrow>
     (let markers = filter (\<lambda>c. c \<notin> set blank_or_tab) (strip is_space line) in
      3 \<le> length markers \<and> hd markers \<in> set ''-*_'' \<and> strip (\<lambda>c. c = hd markers) markers = [])"

definition guiding_line :: "marked_line \<Rightarrow> bool" where
  "guiding_line marked \<longleftrightarrow>
     (let line = fst marked; content = release_container_content line in
      snd (snd marked) \<and> strip is_space line \<noteq> []
      \<and> (\<not> fst (snd marked) \<or> startswith content ''    '' \<or> startswith content [CHR 0x09]
         \<or> (content \<noteq> [] \<and> \<not> atx_line content \<and> \<not> separator_line content)))"

definition release_has_guidance :: "string \<Rightarrow> bool" where
  "release_has_guidance t \<longleftrightarrow> list_ex guiding_line (release_lines t)"

definition underline_rx :: rx where
  "underline_rx = Seqs [UpTo 3 (Cls '' ''), Alts [Plus (Cls ''=''), Plus (Cls ''-'')], Star (Cls blank_or_tab),
     Opt (Seqs [Opt (Cls [CHR 0x0D]), Cls [CHR 0x0A]])]"

text \<open>Whether an underline follows a paragraph; the pairs are the original and the marked lines.\<close>

fun underlined :: "bool \<Rightarrow> (string \<times> marked_line) list \<Rightarrow> bool" where
  "underlined paragraph [] = False"
| "underlined paragraph ((raw, line, heading_allowed, _) # ls) =
     (if \<not> heading_allowed then underlined False ls
      else if strip is_space line = [] \<and> strip is_space raw \<noteq> [] then underlined paragraph ls
      else if rx_match underline_rx line then paragraph \<or> underlined False ls
      else underlined (strip is_space line \<noteq> [] \<and> \<not> atx_line line) ls)"

definition release_has_setext_heading :: "string \<Rightarrow> bool" where
  "release_has_setext_heading t \<longleftrightarrow> underlined False (zip (io_lines t) (release_lines t))"

section \<open>The notes\<close>

definition title_rx :: "string \<Rightarrow> rx" where
  "title_rx base =
     Seqs [Lit (''['' @ base @ '']''), Opt (Seqs [Plus (Cls blank_or_tab), Lit ''-'', Plus (Cls blank_or_tab), Plus (NotCls [CHR 0x0A])]),
           Star (Cls blank_or_tab)]"

definition version_sections :: "string \<Rightarrow> string \<Rightarrow> (string \<times> string) list" where
  "version_sections base changelog =
     map snd (filter (\<lambda>(title, _). rx_match (title_rx base) title) (release_sections changelog 2))"

definition utf8_length :: "string \<Rightarrow> nat" where
  "utf8_length s = sum_list (map (\<lambda>c. if (127 :: nat) < of_char c then 2 else 1) s)"

definition guidance_ok :: "(string \<times> string \<times> string) list \<Rightarrow> string \<Rightarrow> unit res" where
  "guidance_ok sections heading =
     rc_require (case find (\<lambda>s. fst s = heading) sections of
                   None \<Rightarrow> False | Some (_, body, _) \<Rightarrow> body \<noteq> [] \<and> release_has_guidance body)
       ''Release notes need guidance''"

text \<open>The checks of a decoded changelog and the notes it gives.\<close>

definition notes_from :: "string \<Rightarrow> string \<Rightarrow> string \<Rightarrow> string res" where
  "notes_from base changelog provenance =
     (let matches = version_sections base changelog; notes = fst (hd matches); visible = snd (hd matches);
          body = ''## Changes in '' @ base @ [LF, LF] @ notes @ [LF, LF] @ ''## Build provenance'' @ [LF, LF] @ provenance in
      checks
        [rc_require (length matches = 1 \<and> notes \<noteq> []) ''Release needs one nonempty changelog section'',
         rc_require (\<not> release_has_setext_heading notes) ''Release note sections must use ATX headings, not Setext underlines'',
         each (guidance_ok (release_sections visible 3)) [''Upgrade'', ''Security''],
         rc_require (utf8_length body \<le> 125000) ''Release notes are too large'']
        (Inr body))"

definition release_notes :: "'w storage \<Rightarrow> string \<Rightarrow> string \<Rightarrow> string \<Rightarrow> ('w, string) act" where
  "release_notes h tag sha provenance =
     act_bind (source_policy_snapshot h sha) (\<lambda>snapshot.
     let source = dget (the_dict (dget snapshot ''data'' JNull)) ''release_notes'' JNull in
     if source = JNull then ret provenance
     else
       act_then (lift (checks [rc_require (source = JStr ''CHANGELOG.md'') ''Unsupported release notes source'',
                               rc_require (rx_match TAG_RX tag) ''Invalid release notes tag''] (Inr ())))
       (act_bind (api (rest h) (''contents/CHANGELOG.md?ref='' @ sha) ''GET'' None) (\<lambda>answer. lift
         (bnd (contents_file ''Release notes must be a regular CHANGELOG.md at the source commit'' ''Invalid or oversized release notes content''
                ''Invalid release notes encoding'' answer ''CHANGELOG.md'') (\<lambda>raw.
          case utf8_decode raw of
            None \<Rightarrow> Inl (ReleaseError ''Invalid release notes encoding'')
          | Some decoded \<Rightarrow>
              checks [blob_checks ''Release notes size mismatch'' ''Release notes Git blob identity mismatch'' answer raw]
                (notes_from (takeWhile (\<lambda>c. c \<noteq> CHR ''-'') (tl tag)) (unix_ends decoded) provenance))))))"

end
