(* ===== verification/Release_Notes_Facts.thy ===== *)
theory Release_Notes_Facts
  imports Release_Notes
begin

text \<open>
  Properties of release notes: masking comments keeps every position and line end, a section is a piece of the
  changelog, and the notes contain the section of their version verbatim, with the guidance it must give.
\<close>

section \<open>Code spans\<close>

lemma tick_runs_bounds:
  "(a, b) \<in> set (tick_runs i open_at s) \<Longrightarrow> (\<And>x. open_at = Some x \<Longrightarrow> x < i) \<Longrightarrow> a < b \<and> b \<le> i + length s"
proof (induction i open_at s rule: tick_runs.induct)
  case (2 i open_at c s)
  show ?case
  proof (cases "c = CHR ''`''")
    case True
    have "a < b \<and> b \<le> Suc i + length s"
      using 2(3) True by (intro 2(1)) (auto split: option.splits dest: 2(4))
    then show ?thesis by simp
  next
    case False
    then show ?thesis using 2(3) 2(2) 2(4) by (fastforce split: option.splits)
  qed
qed (auto split: option.splits)

text \<open>Runs are in order, so that the end noted of a longer suffix of runs lies behind every earlier start.\<close>

lemma tick_runs_order:
  "(\<And>x. open_at = Some x \<Longrightarrow> x < i) \<Longrightarrow>
   sorted_wrt (\<lambda>p q. snd p < fst q) (tick_runs i open_at s) \<and> (\<forall>p \<in> set (tick_runs i open_at s). case open_at of None \<Rightarrow> i \<le> fst p | Some a \<Rightarrow> a \<le> fst p)"
proof (induction i open_at s rule: tick_runs.induct)
  case (2 i open_at c s)
  show ?case
  proof (cases "c = CHR ''`''")
    case True
    then show ?thesis using 2(1) [OF True] 2(3) by (fastforce split: option.splits)
  next
    case False
    then show ?thesis using 2(2) [OF False] 2(3) by (fastforce split: option.splits)
  qed
qed (auto split: option.splits)

definition noted :: "(nat \<times> nat) list \<Rightarrow> (nat \<rightharpoonup> nat) \<times> (nat \<rightharpoonup> nat) \<Rightarrow> bool" where
  "noted ticks maps \<longleftrightarrow>
     (\<forall>n e. fst maps n = Some e \<longrightarrow> (\<exists>r \<in> set ticks. e = snd r \<and> n = snd r - fst r))
     \<and> (\<forall>i e. snd maps i = Some e \<longrightarrow> (\<exists>r \<in> set ticks. \<exists>q \<in> set ticks. i = fst r \<and> e = snd q \<and> snd r < fst q \<and> snd q - fst q = snd r - fst r))"

lemma noted_step:
  assumes old: "noted ticks (f, e)" and order: "\<forall>q \<in> set ticks. snd run < fst q"
  shows "noted (run # ticks) (note_run run (f, e))"
proof -
  let ?n = "snd run - fst run"
  have ends: "\<exists>q \<in> set ticks. y = snd q \<and> ?n = snd q - fst q" if "f ?n = Some y" for y
    using old that unfolding noted_def by auto
  have "\<exists>r \<in> set (run # ticks). y = snd r \<and> n = snd r - fst r" if "(f(?n \<mapsto> snd run)) n = Some y" for n y
    using old that unfolding noted_def by (cases "n = ?n") auto
  moreover have "\<exists>r \<in> set (run # ticks). \<exists>q \<in> set (run # ticks). i = fst r \<and> y = snd q \<and> snd r < fst q \<and> snd q - fst q = snd r - fst r"
    if found: "(case f ?n of None \<Rightarrow> e | Some z \<Rightarrow> e(fst run \<mapsto> z)) i = Some y" for i y
  proof (cases "f ?n \<noteq> None \<and> i = fst run")
    case True
    then have "f ?n = Some y" using found by auto
    then show ?thesis using ends [of y] order True by force
  next
    case False
    then have "e i = Some y" using found by (auto split: option.splits if_splits)
    then obtain r q where "r \<in> set ticks" "q \<in> set ticks" "i = fst r" "y = snd q" "snd r < fst q" "snd q - fst q = snd r - fst r"
      using old unfolding noted_def by fastforce
    then show ?thesis by (metis list.set_intros(2))
  qed
  ultimately show ?thesis
    unfolding noted_def note_run_def Let_def fst_conv snd_conv by blast
qed

lemma noted_runs:
  "sorted_wrt (\<lambda>p q. snd p < fst q) ticks \<Longrightarrow> noted ticks (foldr note_run ticks (Map.empty, Map.empty))"
proof (induction ticks)
  case (Cons run ticks)
  obtain f e where maps: "foldr note_run ticks (Map.empty, Map.empty) = (f, e)" by fastforce
  then show ?case
    using Cons noted_step [of ticks f e run] by (simp del: fun_upd_apply)
qed (simp add: noted_def)

lemma span_ends_behind:
  assumes "code_span_ends line i = Some e" shows "i < e \<and> e \<le> length line"
proof -
  have order: "sorted_wrt (\<lambda>p q. snd p < fst q) (tick_runs 0 None line)" using tick_runs_order [of None 0 line] by simp
  obtain r q where r: "r \<in> set (tick_runs 0 None line)" "i = fst r" and q: "q \<in> set (tick_runs 0 None line)" "e = snd q" and "snd r < fst q"
    using noted_runs [OF order] assms unfolding noted_def code_span_ends_def by blast
  have "fst r < snd r" using tick_runs_bounds [of "fst r" "snd r" 0 None line] r(1) by simp
  moreover have "fst q < snd q \<and> snd q \<le> length line" using tick_runs_bounds [of "fst q" "snd q" 0 None line] q(1) by simp
  ultimately show ?thesis using r(2) q(2) \<open>snd r < fst q\<close> by simp
qed

section \<open>Masking\<close>

text \<open>A text with some characters blanked, but no line end.\<close>

definition masks :: "string \<Rightarrow> string \<Rightarrow> bool" where
  "masks = list_all2 (\<lambda>c v. v = c \<or> v = CHR '' '' \<and> c \<notin> {CR, LF})"

lemma masks_refl [simp]: "masks s s"
  by (simp add: masks_def list_all2_same)

lemma masks_append: "masks a v \<Longrightarrow> masks b w \<Longrightarrow> masks (a @ b) (v @ w)"
  by (simp add: masks_def list_all2_appendI)

lemma masks_length: "masks a v \<Longrightarrow> length v = length a"
  by (simp add: masks_def list_all2_lengthD)

lemma masks_Cons: "masks s v \<Longrightarrow> masks (c # s) (c # v)"
  by (simp add: masks_def)

lemma masks_blank: "masks s (map mask_char s)"
  by (induction s) (simp_all add: masks_def mask_char_def CR_def LF_def)

lemma masks_split: "masks (take k s) v \<Longrightarrow> masks (drop k s) w \<Longrightarrow> masks s (v @ w)"
  using masks_append [of "take k s" v "drop k s" w] by simp

lemma mask_comments_masks: "masks s (fst (mask_comments ends s i comment))"
proof (induction ends s i comment rule: mask_comments.induct)
  case (2 ends c s i)
  show ?case
  proof (cases "comment_end (c # s)")
    case None
    then show ?thesis using masks_blank [of "c # s"] by simp
  next
    case (Some k)
    then show ?thesis using masks_split [OF masks_blank 2 [OF Some]] by simp
  qed
next
  case (3 ends c s i)
  show ?case
    using 3 masks_split [OF masks_refl] by (auto split: option.splits intro: masks_Cons)
qed simp

lemma mark_line_masks: "masks line (fst (fst (mark_line state line)))"
  using mask_comments_masks [of line "code_span_ends line" 0 "snd state"]
  by (auto simp: mark_line_def Let_def release_comment_line_def split: option.splits prod.splits)

lemma mark_lines_masks: "list_all2 masks ls (map fst (mark_lines state ls))"
  by (induction state ls rule: mark_lines.induct) (simp_all add: mark_line_masks)

lemma concat_io_lines: "concat (io_lines t) = t"
  by (induction t) (auto split: list.splits)

lemma masks_concat: "list_all2 masks ls vs \<Longrightarrow> masks (concat ls) (concat vs)"
  by (induction rule: list_all2_induct) (simp_all add: masks_append)

text \<open>
  C39: Masking never moves anything.  The marked lines are the lines of the text, one by one, and differ from them
  only in blanks that replace characters other than line ends; so a position in the masked text is the same
  position in the text.
\<close>

theorem release_lines_aligned:
  "concat (io_lines t) = t \<and> list_all2 masks (io_lines t) (map fst (release_lines t))
   \<and> masks t (concat (map fst (release_lines t)))"
proof -
  have "list_all2 masks (io_lines t) (map fst (release_lines t))"
    unfolding release_lines_def by (rule mark_lines_masks)
  then show ?thesis using masks_concat [of "io_lines t"] by (simp add: concat_io_lines)
qed

section \<open>Sections\<close>

text \<open>A piece of a text.\<close>

definition piece_of :: "string \<Rightarrow> string \<Rightarrow> bool" where
  "piece_of s t \<longleftrightarrow> (\<exists>before after. t = before @ s @ after)"

lemma piece_of_trans: "piece_of a b \<Longrightarrow> piece_of b c \<Longrightarrow> piece_of a c"
  unfolding piece_of_def by (metis append.assoc)

lemma piece_of_drop: "piece_of (drop n s) s" and piece_of_take: "piece_of (take n s) s"
  unfolding piece_of_def by (metis append_Nil2 append_take_drop_id append.assoc, metis append_Nil append_take_drop_id)

lemma piece_of_slice: "piece_of (slice a b s) s"
  unfolding slice_def by (rule piece_of_trans [OF piece_of_drop piece_of_take])

lemma piece_of_strip: "piece_of (strip p s) s"
proof -
  have "piece_of (rstrip p s) s" for s
    unfolding rstrip_def piece_of_def by (metis append_Nil rev_append rev_rev_ident takeWhile_dropWhile_id)
  moreover have "piece_of (lstrip p s) s"
    unfolding lstrip_def piece_of_def by (metis append_Nil2 append.assoc takeWhile_dropWhile_id)
  ultimately show ?thesis unfolding strip_def by (rule piece_of_trans)
qed

lemma sections_are_pieces:
  "(title, body, seen) \<in> set (sections_of level t visible hs) \<Longrightarrow> piece_of body t \<and> piece_of seen visible"
  by (induction level t visible hs rule: sections_of.induct)
    (auto simp: Let_def piece_of_slice intro: piece_of_trans [OF piece_of_strip piece_of_slice] split: if_splits)

section \<open>The notes\<close>

lemma found_in: "find P xs = Some x \<Longrightarrow> x \<in> set xs \<and> P x"
  by (induction xs) (auto split: if_splits)

text \<open>
  C40: Notes quote the reviewed changelog.  Notes that are built contain, between the heading with the version and
  the provenance, the single nonempty section of that version, which is a piece of the changelog without any change;
  its title is the version in brackets, each of Upgrade and Security is a subsection of the masked section with
  visible guidance, and the whole fits the limit of GitHub.
\<close>

theorem notes_quote_changelog:
  assumes "notes_from base changelog provenance = Inr body"
  shows "\<exists>chosen seen title.
     version_sections base changelog = [(chosen, seen)] \<and> chosen \<noteq> [] \<and> piece_of chosen changelog
     \<and> (title, chosen, seen) \<in> set (release_sections changelog 2) \<and> rx_match (title_rx base) title
     \<and> body = ''## Changes in '' @ base @ [LF, LF] @ chosen @ [LF, LF] @ ''## Build provenance'' @ [LF, LF] @ provenance
     \<and> (\<forall>heading \<in> {''Upgrade'', ''Security''}. \<exists>guide rest_seen. (heading, guide, rest_seen) \<in> set (release_sections seen 3)
          \<and> piece_of guide seen \<and> release_has_guidance guide)
     \<and> utf8_length body \<le> 125000"
proof -
  let ?matches = "version_sections base changelog"
  define text' where "text' = ''## Changes in '' @ base @ [LF, LF] @ fst (hd ?matches) @ [LF, LF] @ ''## Build provenance'' @ [LF, LF] @ provenance"
  note checked = assms [unfolded notes_from_def Let_def, folded text'_def, unfolded checks_Inr list.set]
  have all: "rc_require (length ?matches = 1 \<and> fst (hd ?matches) \<noteq> []) ''Release needs one nonempty changelog section'' = Inr ()"
    "each (guidance_ok (release_sections (snd (hd ?matches)) 3)) [''Upgrade'', ''Security''] = Inr ()"
    "rc_require (utf8_length text' \<le> 125000) ''Release notes are too large'' = Inr ()"
    by (rule bspec [OF conjunct1 [OF checked]]; simp)+
  have same: "body = text'"
    using conjunct2 [OF checked] by simp
  have one: "length ?matches = 1" and some: "fst (hd ?matches) \<noteq> []" and small: "utf8_length body \<le> 125000"
    using all(1,3) unfolding same by simp_all
  have guides: "guidance_ok (release_sections (snd (hd ?matches)) 3) heading = Inr ()" if "heading \<in> {''Upgrade'', ''Security''}" for heading
    using all(2) that by auto
  have body: "body = ''## Changes in '' @ base @ [LF, LF] @ fst (hd ?matches) @ [LF, LF] @ ''## Build provenance'' @ [LF, LF] @ provenance"
    using same unfolding text'_def .
  obtain chosen seen where matches: "?matches = [(chosen, seen)]"
    using one by (cases ?matches) auto
  then have "(chosen, seen) \<in> set ?matches" by simp
  then obtain title where title: "(title, chosen, seen) \<in> set (release_sections changelog 2)" "rx_match (title_rx base) title"
    unfolding version_sections_def by auto
  have piece: "piece_of chosen changelog"
    using sections_are_pieces title(1) unfolding release_sections_def by blast
  have "\<exists>guide rest_seen. (heading, guide, rest_seen) \<in> set (release_sections seen 3) \<and> piece_of guide seen \<and> release_has_guidance guide"
    if heading: "heading \<in> {''Upgrade'', ''Security''}" for heading
  proof -
    obtain h guide rest_seen where found: "find (\<lambda>s. fst s = heading) (release_sections seen 3) = Some (h, guide, rest_seen)" "release_has_guidance guide"
      using guides [OF heading] unfolding matches guidance_ok_def by (auto split: option.splits)
    then have "(heading, guide, rest_seen) \<in> set (release_sections seen 3)"
      using found_in [OF found(1)] by auto
    then show ?thesis using found(2) sections_are_pieces unfolding release_sections_def by blast
  qed
  then have guided: "\<forall>heading \<in> {''Upgrade'', ''Security''}. \<exists>guide rest_seen. (heading, guide, rest_seen) \<in> set (release_sections seen 3)
      \<and> piece_of guide seen \<and> release_has_guidance guide"
    by blast
  have some': "chosen \<noteq> []" using some matches by simp
  have body': "body = ''## Changes in '' @ base @ [LF, LF] @ chosen @ [LF, LF] @ ''## Build provenance'' @ [LF, LF] @ provenance"
    using body unfolding matches by (simp only: list.sel(1) fst_conv)
  show ?thesis
    by (rule exI [of _ chosen], rule exI [of _ seen], rule exI [of _ title])
      (intro conjI matches some' piece title body' guided small)
qed

lemma utf8_length_bound: "utf8_length s \<le> 2 * length s"
  by (induction s) (simp_all add: utf8_length_def)

definition sample_changelog :: string where
  "sample_changelog =
     ''## [0.0.0]'' @ [CHR 0x0A] @ ''<!-- ## -->'' @ [CHR 0x0A] @ ''### Upgrade'' @ [CHR 0x0A] @ ''A'' @ [CHR 0x0A]
     @ ''### Security'' @ [CHR 0x0A] @ ''A'' @ [CHR 0x0A] @ ''## [0.0.1]'' @ [CHR 0x0A] @ ''B'' @ [CHR 0x0A]"

definition sample_section :: "string \<times> string" where
  "sample_section = hd (version_sections ''0.0.0'' sample_changelog)"

lemma sample_sections: "version_sections ''0.0.0'' sample_changelog = [sample_section]" "fst sample_section \<noteq> []" "length (fst sample_section) < 100"
  by code_simp+

lemma sample_headings: "\<not> release_has_setext_heading (fst sample_section)"
  by code_simp

lemma sample_guidance: "each (guidance_ok (release_sections (snd sample_section) 3)) [''Upgrade'', ''Security''] = Inr ()"
  by code_simp

lemma sample_notes: "notes_from ''0.0.0'' sample_changelog [] = Inr (''## Changes in 0.0.0'' @ [LF, LF] @ fst sample_section @ [LF, LF] @ ''## Build provenance'' @ [LF, LF])"
proof -
  have "utf8_length (''## Changes in 0.0.0'' @ [LF, LF] @ fst sample_section @ [LF, LF] @ ''## Build provenance'' @ [LF, LF]) \<le> 125000"
    by (rule order.trans [OF utf8_length_bound]) (use sample_sections(3) in simp)
  then show ?thesis
    using sample_sections(2) sample_headings sample_guidance by (simp add: notes_from_def sample_sections(1) Let_def checks_Cons)
qed

theorem notes_quote_changelog_witness:
  "\<exists>body seen. notes_from ''0.0.0'' sample_changelog [] = Inr body
     \<and> piece_of (fst sample_section) sample_changelog \<and> version_sections ''0.0.0'' sample_changelog = [(fst sample_section, seen)]"
proof -
  obtain chosen seen where "version_sections ''0.0.0'' sample_changelog = [(chosen, seen)]" "piece_of chosen sample_changelog"
    using notes_quote_changelog [OF sample_notes] by blast
  then show ?thesis using sample_notes sample_sections(1) by (metis fst_conv list.inject)
qed

end
