(* ===== verification/Promotion.thy ===== *)
theory Promotion
  imports Release_Notes
begin

text \<open>
  Candidates and their promotion in \<open>scripts/release_control.py\<close>: the manifest of a release candidate, the
  snapshot of a published candidate, the immutable evidence of its run, and \<open>promote\<close>, which publishes the
  verified bytes of a candidate under its stable tag; also \<open>candidate\<close>, which publishes a prerelease.
\<close>

section \<open>The host\<close>

text \<open>
  \<open>staging name\<close> is the disk as a download into the file of that name in the private staging directory sees it,
  which \<open>open_staging\<close> creates empty and \<open>close_staging\<close> removes; \<open>write_staged\<close> writes a whole file there and
  \<open>list_staged\<close> lists the directory.  \<open>unzip\<close> is
  \<open>zipfile.ZipFile\<close>, whose errors are \<open>None\<close>: the entries with their names, whether they are directories,
  their sizes and their contents.  \<open>utc_now\<close> gives the time as fourteen digits and in ISO format.
\<close>

record zip_entry =
  z_name :: string
  z_directory :: bool
  z_size :: int
  z_data :: "string option"

record 'w promotion_host = "'w runner_host" +
  open_staging :: "('w, unit) act"
  close_staging :: "('w, unit) act"
  staging :: "string \<Rightarrow> 'w storage"
  write_staged :: "string \<Rightarrow> string \<Rightarrow> ('w, unit) act"
  list_staged :: "('w, staged list) act"
  unzip :: "string \<Rightarrow> zip_entry list option"
  utc_now :: "('w, string \<times> string) act"
  signatures :: "('w, unit) act"

definition runner :: "'w promotion_host \<Rightarrow> 'w runner_host" where
  "runner h = runner_host.truncate h"

definition github :: "'w promotion_host \<Rightarrow> 'w storage" where
  "github h = net (runner h)"

text \<open>\<open>with tempfile.TemporaryDirectory(...)\<close>.\<close>

definition with_staging :: "'w promotion_host \<Rightarrow> ('w, 'a) act \<Rightarrow> ('w, 'a) act" where
  "with_staging h m = act_then (open_staging h) (act_finally m (close_staging h))"

definition MANIFEST :: string where "MANIFEST = ''release-manifest.json''"
definition EVIDENCE :: string where "EVIDENCE = ''.release-evidence/release-manifest.json''"

definition binary :: "'w storage \<Rightarrow> string \<Rightarrow> ('w, string) act" where
  "binary h path =
     (if rx_match (Seqs [Lit ''actions/artifacts/'', pos_int_rx, Lit ''/zip'']) path then rq (rest h) path ''GET'' None ''json''
      else
        act_then (lift (rc_require (rx_match (Seqs [Lit ''releases/assets/'', pos_int_rx]) path) ''Unsupported binary download endpoint''))
          (rq (rest h) path ''GET'' None ''asset''))"

section \<open>Manifests\<close>

definition manifest_asset :: "string list \<Rightarrow> json \<Rightarrow> string list res" where
  "manifest_asset names item =
     (let m = the_dict item; name = dget m ''name'' JNull; n = dget m ''size'' JNull; sum = dget m ''sha256'' JNull in
      checks
        [rc_require (is_dict item) ''Invalid manifest asset'',
         rc_require (is_str name \<and> rx_match NAME_RX (the_str name) \<and> byte_lower (the_str name) \<noteq> MANIFEST) ''Unsafe manifest asset name'',
         rc_require (byte_lower (the_str name) \<notin> set names) ''Duplicate manifest asset name'',
         rc_require (is_int n \<and> 0 \<le> the_int n) ''Invalid manifest asset size'',
         rc_require (is_str sum \<and> rx_match (hex_rx 64) (the_str sum)) ''Invalid asset checksum'']
        (Inr (byte_lower (the_str name) # names)))"

definition validate_manifest_assets :: "members \<Rightarrow> unit res" where
  "validate_manifest_assets manifest =
     (let assets = dget manifest ''assets'' JNull in
      checks [rc_require (is_list assets \<and> the_list assets \<noteq> []) ''Manifest contains no assets'']
        (ignore (foldres manifest_asset [] (the_list assets))))"

text \<open>For a manifest whose source policy and commit were checked before.\<close>

definition validate_manifest_plan :: "members \<Rightarrow> string \<Rightarrow> unit res" where
  "validate_manifest_plan manifest base =
     bnd (validate_plan (dget manifest ''version_plan'' JNull) (Some (JObj (policy_data manifest))) (Some (dget manifest ''source_sha'' JNull))) (\<lambda>plan.
     bnd (plan_digest (JObj plan)) (\<lambda>sum.
       rc_require (py_eq (dget plan ''tag'' JNull) (dget manifest ''tag'' JNull) \<and> py_eq (dget plan ''channel'' JNull) (dget manifest ''channel'' JNull)
           \<and> dget plan ''base_version'' JNull = JStr base \<and> dget manifest ''plan_sha256'' JNull = JStr sum)
         ''Manifest differs from the frozen version plan''))"

definition rc_number_rx :: "string \<Rightarrow> rx" where
  "rc_number_rx base = Seqs [Lit (''v'' @ base @ ''-rc.''), pos_int_rx]"

definition parent_fields :: "string list" where
  "parent_fields = [''tag'', ''manifest_sha256'', ''source_sha'', ''run_id'']"

text \<open>The candidate that a final build says it was derived from.\<close>

definition final_parent_ok :: "members \<Rightarrow> string \<Rightarrow> unit res" where
  "final_parent_ok manifest base =
     (let versioning = dget (policy_data manifest) ''versioning'' JNull; parent = dget manifest ''derived_from_rc'' JNull; p = the_dict parent in
      checks
        [(if truthy versioning then field_is versioning ''promotion'' (\<lambda>v. v = JStr ''final-build'') ''Final package policy is missing''
          else Inl (ReleaseError ''Final package policy is missing'')),
         rc_require (is_dict parent \<and> keys_are p parent_fields) ''Final manifest needs accepted RC provenance'',
         rc_require (is_str (dget p ''tag'' JNull) \<and> rx_match (rc_number_rx base) (the_str (dget p ''tag'' JNull))
             \<and> py_eq (dget p ''source_sha'' JNull) (dget manifest ''source_sha'' JNull)
             \<and> is_str (dget p ''manifest_sha256'' JNull) \<and> rx_match (hex_rx 64) (the_str (dget p ''manifest_sha256'' JNull)))
           ''Invalid final RC provenance'',
         bnd (rc_positive (dget p ''run_id'' JNull) ''parent RC run ID'') (\<lambda>n.
           rc_require (\<not> py_eq (JInt n) (dget manifest ''run_id'' JNull)) ''Final build must use a new run'')]
        (Inr ()))"

text \<open>Whether the manifest is that of a final build, and its tag.\<close>

definition manifest_identity :: "members \<Rightarrow> string \<Rightarrow> string \<Rightarrow> bool \<Rightarrow> unit res" where
  "manifest_identity manifest base rc_tag final =
     (if final then rc_require (dget manifest ''tag'' JNull = JStr rc_tag \<and> rc_tag = ''v'' @ base) ''Final tag/version mismatch''
      else checks
        [rc_require (dget manifest ''channel'' JNull = JStr ''rc'') ''Only release candidates can be promoted'',
         rc_require (dget manifest ''tag'' JNull = JStr rc_tag \<and> rx_match (rc_number_rx base) rc_tag) ''Manifest RC tag/version mismatch'']
        (Inr ()))"

definition manifest_checks :: "members \<Rightarrow> string \<Rightarrow> string \<Rightarrow> bool \<Rightarrow> unit res" where
  "manifest_checks manifest repository rc_tag allow_final =
     (let name = dget manifest ''repository'' JNull; base = dget manifest ''version'' JNull;
          final = (allow_final \<and> dget manifest ''channel'' JNull = JStr ''stable'') in
      checks
        [rc_require (dget manifest ''schema'' JNull = JInt 1) ''Unsupported manifest schema'',
         rc_require (is_str name \<and> lower (the_str name) = lower repository) ''Manifest repository mismatch'',
         rc_require (is_str base) ''Missing manifest version'',
         ignore (rc_version (the_str base)),
         manifest_identity manifest (the_str base) rc_tag final,
         rc_require (is_sha (dget manifest ''source_sha'' JNull)) ''Invalid manifest source SHA'',
         rc_require (dget manifest ''workflow_path'' JNull = JStr WORKFLOW) ''Manifest workflow path mismatch'',
         ignore (rc_positive (dget manifest ''run_id'' JNull) ''manifest run ID''),
         ignore (rc_positive (dget manifest ''run_attempt'' JNull) ''manifest run attempt''),
         validate_policy_snapshot (dget manifest ''source_policy'' JNull) repository,
         validate_validation_manifest manifest,
         only_if (truthy (dget (policy_data manifest) ''versioning'' JNull)) (validate_manifest_plan manifest (the_str base)),
         only_if final (final_parent_ok manifest (the_str base)),
         validate_manifest_assets manifest]
        (Inr ()))"

definition validate_manifest :: "(string \<Rightarrow> string) \<Rightarrow> string \<Rightarrow> string \<Rightarrow> string \<Rightarrow> bool \<Rightarrow> members res" where
  "validate_manifest fl raw repository rc_tag allow_final =
     checks [rc_require (length raw \<le> 2000000) ''Manifest is unreasonably large'']
       (bnd (parse_json fl raw) (\<lambda>v.
        checks [rc_require (is_dict v) ''Unsupported manifest schema'',
                manifest_checks (the_dict v) repository rc_tag allow_final] (Inr (the_dict v))))"

section \<open>Snapshots\<close>

type_synonym snapshot = "json \<times> json \<times> json list"

definition candidate_ref_ok :: "json \<Rightarrow> string \<Rightarrow> unit res" where
  "candidate_ref_ok ref tag =
     (let message = ''Candidate must have a lightweight commit tag'' in
      checks [field_is ref ''ref'' (\<lambda>r. r = JStr (''refs/tags/'' @ tag)) message]
        (bnd (get_res ref ''object'' (JObj [])) (\<lambda>object. field_is object ''type'' (\<lambda>t. t = JStr ''commit'') message)))"

definition published_prerelease :: "json \<Rightarrow> string \<Rightarrow> unit res" where
  "published_prerelease release tag =
     field_is release ''tag_name'' (\<lambda>t. t = JStr tag \<and> dget (the_dict release) ''draft'' JNull = JBool False
        \<and> dget (the_dict release) ''prerelease'' JNull = JBool True) ''Candidate is not a published prerelease''"

definition asset_name :: "json \<Rightarrow> json" where
  "asset_name asset = dget (the_dict asset) ''name'' JNull"

definition snapshot_assets_ok :: "json list \<Rightarrow> unit res" where
  "snapshot_assets_ok assets =
     checks
       [bnd (any_res (\<lambda>a. bnd (get_res a ''state'' JNull) (\<lambda>s. Inr (s \<noteq> JStr ''uploaded''))) assets) (\<lambda>found.
          rc_require (\<not> found) ''Candidate has incomplete uploads''),
        rc_require (list_all (\<lambda>a. is_str (asset_name a) \<and> rx_match NAME_RX (the_str (asset_name a))) assets) ''Unsafe release asset name'',
        rc_require (distinct (map (\<lambda>a. byte_lower (the_str (asset_name a))) assets)) ''Duplicate release assets'']
       (Inr ())"

definition release_snapshot :: "'w storage \<Rightarrow> string \<Rightarrow> ('w, snapshot) act" where
  "release_snapshot h tag =
     act_bind (api (rest h) (''git/ref/tags/'' @ url_quote tag) ''GET'' None) (\<lambda>ref.
     act_then (lift (candidate_ref_ok ref tag))
     (act_bind (api (rest h) (''releases/tags/'' @ url_quote tag) ''GET'' None) (\<lambda>release.
      act_then (lift (published_prerelease release tag))
      (act_bind (lift (rc_positive (dget (the_dict release) ''id'' JNull) ''release ID'')) (\<lambda>n.
       act_bind (pages (rest h) (''releases/'' @ str_int n @ ''/assets'') None) (\<lambda>assets.
       act_then (lift (snapshot_assets_ok assets)) (ret (ref, release, assets))))))))"

text \<open>
  Sorting the assets by their numbers, which all are integers or all texts; others have no order, except
  floats, which GitHub never sends.
\<close>

definition sort_assets :: "json list \<Rightarrow> json list res" where
  "sort_assets assets =
     bnd (mapres (\<lambda>a. item_res a ''id'') assets) (\<lambda>ids.
     if length ids \<le> 1 then Inr assets
     else if list_all int_like ids then Inr (sort_key (\<lambda>a. the_int (dget (the_dict a) ''id'' JNull)) assets)
     else if list_all is_str ids then Inr (sort_key (\<lambda>a. the_str (dget (the_dict a) ''id'' JNull)) assets)
     else Inl (TypeError ''not supported between instances''))"

definition release_keys :: "string list" where
  "release_keys = [''id'', ''tag_name'', ''target_commitish'', ''draft'', ''prerelease'', ''updated_at'']"

definition snapshot_identity :: "snapshot \<Rightarrow> string res" where
  "snapshot_identity s =
     (case s of (ref, release, assets) \<Rightarrow>
       bnd (sort_assets (map (\<lambda>a. JObj (filter (\<lambda>kv. fst kv \<noteq> ''download_count'') (the_dict a))) assets)) (\<lambda>sorted.
       Inr (rc_json_bytes (JObj
         [(''ref'', ref), (''release'', JObj (map (\<lambda>k. (k, dget (the_dict release) k JNull)) release_keys)), (''assets'', JArr sorted)]))))"

section \<open>Evidence and reviewers\<close>

definition evidence_artifact :: "json \<Rightarrow> bool res" where
  "evidence_artifact item =
     bnd (get_res item ''name'' JNull) (\<lambda>n. Inr (n = JStr ''release-evidence'' \<and> \<not> truthy (dget (the_dict item) ''expired'' JNull)))"

definition evidence_origin :: "members \<Rightarrow> json \<Rightarrow> unit res" where
  "evidence_origin manifest artifact =
     (let message = ''Evidence artifact provenance mismatch'' in
      bnd (get_res artifact ''workflow_run'' (JObj [])) (\<lambda>run.
      checks [field_is run ''id'' (\<lambda>v. py_eq v (dget manifest ''run_id'' JNull)) message]
        (field_is run ''head_sha'' (\<lambda>v. py_eq v (dget manifest ''source_sha'' JNull)) message)))"

definition evidence_holds :: "zip_entry list option \<Rightarrow> string \<Rightarrow> unit res" where
  "evidence_holds archive raw =
     (case archive of
        None \<Rightarrow> Inl (ReleaseError ''Cannot read release evidence archive'')
      | Some all_entries \<Rightarrow>
          let entries = filter (\<lambda>e. \<not> z_directory e) all_entries in
          checks
            [rc_require (length entries = 1 \<and> z_name (hd entries) \<in> {MANIFEST, EVIDENCE}) ''Evidence artifact has unexpected contents'',
             rc_require (z_size (hd entries) \<le> 2000000) ''Evidence artifact manifest is too large'']
            (case z_data (hd entries) of
               None \<Rightarrow> Inl (ReleaseError ''Cannot read release evidence archive'')
             | Some data \<Rightarrow> rc_require (data = raw) ''Release manifest differs from immutable Actions evidence''))"

definition verify_evidence :: "'w promotion_host \<Rightarrow> members \<Rightarrow> string \<Rightarrow> ('w, unit) act" where
  "verify_evidence h manifest raw =
     act_bind (pages (rest (github h)) (''actions/runs/'' @ py_str (dget manifest ''run_id'' JNull) @ ''/artifacts'') (Some ''artifacts'')) (\<lambda>artifacts.
     act_bind (lift (filter_res evidence_artifact artifacts)) (\<lambda>matching.
     act_then (lift (rc_require (length matching = 1) ''Exactly one unexpired immutable release-evidence artifact is required''))
     (let artifact = hd matching in
      act_then (lift (evidence_origin manifest artifact))
      (act_bind (lift (rc_positive (dget (the_dict artifact) ''id'' JNull) ''artifact ID'')) (\<lambda>n.
       act_bind (binary (github h) (''actions/artifacts/'' @ str_int n @ ''/zip'')) (\<lambda>archive. lift
         (checks [rc_require (dget (the_dict artifact) ''digest'' JNull = JStr (''sha256:'' @ digest archive))
                    ''Evidence must have a matching immutable v4 artifact digest'']
           (evidence_holds (unzip h archive) raw))))))))"

definition reviewer_rule :: "json \<Rightarrow> bool res" where
  "reviewer_rule rule =
     bnd (get_res rule ''type'' JNull) (\<lambda>t. Inr (t = JStr ''required_reviewers'' \<and> truthy (dget (the_dict rule) ''reviewers'' JNull)))"

definition require_reviewers :: "'w storage \<Rightarrow> ('w, unit) act" where
  "require_reviewers h =
     act_bind (api (rest h) ''environments/release'' ''GET'' None) (\<lambda>environment. lift
       (checks [field_is environment ''name'' (\<lambda>n. n = JStr ''release'') ''Protected release environment is missing'']
         (bnd (bnd (iter_res (dget (the_dict environment) ''protection_rules'' (JArr []))) (any_res reviewer_rule)) (\<lambda>found.
            rc_require found ''The release environment must have required reviewers configured''))))"

section \<open>Promotion\<close>

definition rc_tag_rx :: rx where
  "rc_tag_rx = Seqs [Lit ''v'', version_rx, Lit ''-rc.'', pos_int_rx]"

definition text_of :: "members \<Rightarrow> string \<Rightarrow> string" where
  "text_of m k = the_str (dget m k JNull)"

text \<open>
  The run of the candidate, which must be complete and successful.  A textual attempt number in the manifest
  equals no attempt of GitHub.
\<close>

definition validate_source_run :: "'w promotion_host \<Rightarrow> json \<Rightarrow> members \<Rightarrow> members \<Rightarrow> ('w, unit) act" where
  "validate_source_run h run info manifest =
     act_then (lift (rc_require (is_int (dget manifest ''run_attempt'' JNull)) ''Source run was rerun; evidence is not from its latest attempt''))
       (validate_run (runner h) run info (text_of manifest ''source_sha'') (the_int (dget manifest ''run_attempt'' JNull)) True True)"

text \<open>The manifest of the published candidate, as downloaded.\<close>

definition candidate_manifest :: "'w promotion_host \<Rightarrow> snapshot \<Rightarrow> string \<Rightarrow> ('w, string \<times> members) act" where
  "candidate_manifest h snapshot rc =
     (let declared = filter (\<lambda>a. asset_name a = JStr MANIFEST) (snd (snd snapshot)) in
      act_then (lift (rc_require (length declared = 1) ''Candidate manifest is missing''))
      (act_bind (lift (rc_positive (dget (the_dict (hd declared)) ''id'' JNull) ''manifest asset ID'')) (\<lambda>n.
       act_bind (binary (github h) (''releases/assets/'' @ str_int n)) (\<lambda>raw.
       act_bind (lift (validate_manifest (json_float_text h) raw (repo h) rc False)) (\<lambda>manifest. ret (raw, manifest))))))"

definition inventory_matches :: "json list \<Rightarrow> members \<Rightarrow> bool" where
  "inventory_matches assets manifest \<longleftrightarrow>
     set (map asset_name assets) = set (map asset_name (the_list (dget manifest ''assets'' JNull))) \<union> {JStr MANIFEST}"

text \<open>Everything that is checked of the candidate before its bytes are downloaded.\<close>

definition verify_candidate :: "'w promotion_host \<Rightarrow> bool \<Rightarrow> members \<Rightarrow> int \<Rightarrow> snapshot \<Rightarrow> string \<Rightarrow> members \<Rightarrow> ('w, members) act" where
  "verify_candidate h scope_verified info current snapshot raw manifest =
     (let g = github h; sha = text_of manifest ''source_sha''; run_id = dget manifest ''run_id'' JNull;
          default = dget info ''default_branch'' JNull; plan = dget manifest ''version_plan'' JNull in
      act_bind (source_policy_snapshot g sha) (\<lambda>policy.
      let data = the_dict (dget policy ''data'' JNull) in
      act_then (lift (require_release_policy (JObj data) (repo h) True))
      (act_bind (checked_out_sha (runner h)) (\<lambda>head.
      act_then (require_current_fuzzing g data head)
      (act_then (lift (bnd (get_res (dget data ''versioning'' (JObj [])) ''promotion'' JNull) (\<lambda>p.
         rc_require (p \<noteq> JStr ''final-build'') ''This RC requires a separately validated final build; byte promotion is disabled'')))
      (act_then (act_when (truthy plan) (verify_promotion_order (rest g) (the_dict plan)))
      (act_then (lift (checks
         [rc_require (py_eq (JObj policy) (dget manifest ''source_policy'' JNull))
            ''Manifest policy snapshot differs from the policy at the candidate source commit'',
          rc_require (ref_commit (fst snapshot) = JStr sha) ''Candidate tag SHA differs from manifest'',
          rc_require (\<not> py_eq run_id (JInt current)) ''Candidate and promotion must use separate runs''] (Inr ())))
      (act_bind (api (rest g) (''actions/runs/'' @ py_str run_id) ''GET'' None) (\<lambda>run.
       act_then (validate_validation_run g run data ''rc'')
       (act_then (lift (field_is run ''id'' (\<lambda>v. py_eq v run_id) ''Source run identity mismatch''))
       (act_then (validate_source_run h run info manifest)
       (act_then (lift (field_is run ''event'' (\<lambda>e. e = JStr ''workflow_dispatch'') ''RC must originate from a manual workflow dispatch''))
       (act_then (lift (ensure (is_str default) (TypeError ''quote_from_bytes'')))
       (act_then (check_ancestry g sha (the_str default))
       (act_then (verify_evidence h manifest raw)
       (act_then (ensure_absent (rest g) (''v'' @ text_of manifest ''version''))
       (act_then (lift (rc_require (inventory_matches (snd (snd snapshot)) manifest) ''Candidate assets differ from manifest inventory''))
       (act_then (check_workflow_publication g scope_verified sha) (ret data)))))))))))))))))))"

text \<open>What the manifest declares of one asset.\<close>

definition declared_identity :: "members \<Rightarrow> string \<Rightarrow> identity res" where
  "declared_identity manifest name =
     (case find (\<lambda>a. asset_name a = JStr name) (the_list (dget manifest ''assets'' JNull)) of
        None \<Rightarrow> Inl (KeyError name)
      | Some a \<Rightarrow> Inr \<lparr>i_size = the_int (dget (the_dict a) ''size'' JNull), i_sha256 = the_str (dget (the_dict a) ''sha256'' JNull)\<rparr>)"

definition same_size :: "json \<Rightarrow> identity \<Rightarrow> unit res" where
  "same_size asset i = rc_require (py_eq (dget (the_dict asset) ''size'' JNull) (JInt (i_size i))) ''Release asset size mismatch''"

definition stage_asset :: "'w promotion_host \<Rightarrow> string \<Rightarrow> members \<Rightarrow> json \<Rightarrow> (budget, 'w, unit) obj_act" where
  "stage_asset h raw manifest asset =
     (let name = the_str (asset_name asset) in
      if name = MANIFEST
      then act_then (outside (write_staged h name raw)) (lift (same_size asset (identity_of raw)))
      else
        act_bind (lift (declared_identity manifest name)) (\<lambda>wanted.
        act_bind (download_asset (staging h name) (dget (the_dict asset) ''id'' JNull) wanted) (\<lambda>i.
        act_then (lift (same_size asset i))
          (lift (rc_require (i = wanted) ''Candidate checksum mismatch'')))))"

definition stage_candidate :: "'w promotion_host \<Rightarrow> json list \<Rightarrow> string \<Rightarrow> members \<Rightarrow> ('w, unit) act" where
  "stage_candidate h assets raw manifest =
     act_bind (lift (new_budget (sum_list (map (\<lambda>a. the_int (dget (the_dict a) ''size'' JNull)) (the_list (dget manifest ''assets'' JNull)))
         * int API_READ_ATTEMPTS) 0)) (\<lambda>b w.
       case act_each (stage_asset h raw manifest) assets (b, w) of (r, (_, w')) \<Rightarrow> (r, w'))"

definition promotion_provenance :: "string \<Rightarrow> string \<Rightarrow> json \<Rightarrow> members \<Rightarrow> int \<Rightarrow> string" where
  "promotion_provenance repository rc url manifest current =
     ''Promoted unchanged from ['' @ rc @ '']('' @ py_str url @ '').'' @ [LF, LF]
     @ ''Source: `'' @ text_of manifest ''source_sha'' @ ''`'' @ [LF, LF]
     @ ''Validation: https://github.com/'' @ repository @ ''/actions/runs/'' @ py_str (dget manifest ''run_id'' JNull) @ [LF, LF]
     @ ''Promotion: https://github.com/'' @ repository @ ''/actions/runs/'' @ str_int current @ [LF, LF]
     @ ''Assets and `'' @ MANIFEST @ ''` are byte-for-byte copies of the verified release candidate.''"

text \<open>The checks that are repeated once the bytes are staged.\<close>

definition recheck_candidate ::
  "'w promotion_host \<Rightarrow> bool \<Rightarrow> members \<Rightarrow> string \<Rightarrow> snapshot \<Rightarrow> members \<Rightarrow> members \<Rightarrow> ('w, unit) act" where
  "recheck_candidate h scope_verified info rc initial manifest data =
     (let g = github h in
      act_bind (act_bind (release_snapshot g rc) (\<lambda>s. lift (snapshot_identity s))) (\<lambda>again.
      act_bind (lift (snapshot_identity initial)) (\<lambda>before.
      act_then (lift (rc_require (again = before) ''Candidate changed during verification''))
      (act_then (act_when RELEASE_SIGNATURES_REQUIRED (signatures h))
      (act_bind (api (rest g) (''actions/runs/'' @ py_str (dget manifest ''run_id'' JNull)) ''GET'' None) (\<lambda>run.
       act_then (validate_validation_run g run data ''rc'')
       (act_then (validate_source_run h run info manifest)
       (act_then (require_reviewers g) (check_workflow_publication g scope_verified (text_of manifest ''source_sha''))))))))))"

definition publish_candidate ::
  "'w promotion_host \<Rightarrow> bool \<Rightarrow> string \<Rightarrow> json \<Rightarrow> members \<Rightarrow> int \<Rightarrow> ('w, members) act" where
  "publish_candidate h scope_verified rc release manifest current =
     (let g = github h; sha = text_of manifest ''source_sha''; tag = ''v'' @ text_of manifest ''version''; plan = dget manifest ''version_plan'' JNull in
      act_bind (lift (item_res release ''html_url'')) (\<lambda>url.
      act_bind (release_notes g tag sha (promotion_provenance (repo h) rc url manifest current)) (\<lambda>body.
      act_then (act_when (truthy plan)
        (act_then (verify_promotion_order (rest g) (the_dict plan))
          (act_bind (begin_publication (rest g) (the_dict plan) (JInt current) JNull (JBool True)) (\<lambda>_. ret ()))))
      (act_bind (list_staged h) (\<lambda>files.
       act_bind (publish_prepared g scope_verified (signatures h) tag sha files False body None (ret ())) (\<lambda>published.
       act_bind (lift (item_res published ''html_url'')) (\<lambda>url. ret [(''tag'', JStr tag), (''release_url'', url)])))))))"

text \<open>\<open>None\<close> when the wait for the executing run has used up its rounds.\<close>

definition promote :: "nat \<Rightarrow> 'w promotion_host \<Rightarrow> string \<Rightarrow> string \<Rightarrow> ('w, members option) act" where
  "promote rounds h rc run_id =
     (let g = github h; r = runner h in
      act_bind (init_github g (env_text r ''RELEASE_REQUIRE_WORKFLOW_SCOPE'') (env_text r ''GH_TOKEN'')) (\<lambda>scope_verified.
      act_then (lift (rc_require (rx_match rc_tag_rx rc) ''Promotion requires a strict vX.Y.Z-rc.N tag''))
      (act_bind (lift (rc_positive (JStr run_id) ''run ID'')) (\<lambda>current.
      act_bind (repository_info g) (\<lambda>info.
      act_bind (checked_out_sha r) (\<lambda>head.
      act_bind (lift (rc_positive (env_value r ''GITHUB_RUN_ATTEMPT'') ''current run attempt'')) (\<lambda>attempt.
      act_bind (wait_for_executing_run rounds r current ''stable'' info head attempt False False) (\<lambda>accepted.
      if accepted = None then ret None
      else
        act_then (require_reviewers g)
        (act_bind (release_snapshot g rc) (\<lambda>initial.
         act_bind (candidate_manifest h initial rc) (\<lambda>(raw, manifest).
         act_bind (verify_candidate h scope_verified info current initial raw manifest) (\<lambda>data.
         act_bind (with_staging h
             (act_then (stage_candidate h (snd (snd initial)) raw manifest)
             (act_then (recheck_candidate h scope_verified info rc initial manifest data)
               (publish_candidate h scope_verified rc (fst (snd initial)) manifest current)))) (\<lambda>result. ret (Some result))))))))))))))"

section \<open>Candidates\<close>

text \<open>The arguments of \<open>candidate\<close>; \<open>a_assets\<close> is the directory of the built files, listed.\<close>

record candidate_args =
  a_version :: string
  a_sha :: string
  a_channel :: string
  a_run_id :: json
  a_run_attempt :: json
  a_sequence :: json
  a_directory_ok :: bool
  a_assets :: "entry list"

definition candidate_manifest_of ::
  "candidate_args \<Rightarrow> members \<Rightarrow> string \<Rightarrow> string \<Rightarrow> members \<Rightarrow> int \<Rightarrow> int \<Rightarrow> string \<Rightarrow> json list \<Rightarrow> members" where
  "candidate_manifest_of args info base tag policy run_id attempt created assets =
     [(''schema'', JInt 1), (''repository'', dget info ''full_name'' JNull), (''version'', JStr base), (''channel'', JStr (a_channel args)),
      (''tag'', JStr tag), (''source_sha'', JStr (a_sha args)), (''source_policy'', JObj policy), (''workflow_path'', JStr WORKFLOW),
      (''run_id'', JInt run_id), (''run_attempt'', JInt attempt), (''created_at'', JStr created), (''assets'', JArr assets)]"

definition candidate_text :: "string \<Rightarrow> candidate_args \<Rightarrow> int \<Rightarrow> string" where
  "candidate_text repository args run_id =
     a_channel args @ '' candidate from `'' @ a_sha args @ ''`.'' @ [LF, LF]
     @ ''Validation: https://github.com/'' @ repository @ ''/actions/runs/'' @ str_int run_id @ [LF, LF]
     @ ''See `'' @ MANIFEST @ ''` for checksums and immutable Actions evidence provenance.''"

text \<open>What is required of the source before its tag is chosen; the run that a newer one replaces, when there is one.\<close>

definition candidate_allowed :: "'w promotion_host \<Rightarrow> candidate_args \<Rightarrow> members \<Rightarrow> json \<Rightarrow> string \<Rightarrow> ('w, members \<times> members option) act" where
  "candidate_allowed h args info run base =
     (let g = github h; default = dget info ''default_branch'' JNull in
      act_bind (source_policy_snapshot g (a_sha args)) (\<lambda>policy.
      let data = dget policy ''data'' JNull in
      act_then (lift (require_release_policy data (repo h) (a_channel args = ''rc'')))
      (act_then (lift (rc_require (\<not> truthy (dget (the_dict data) ''versioning'' JNull))
          ''Versioned policies require the frozen-plan publisher, not post-build allocation''))
      (act_then (lift (ensure (is_str default) (TypeError ''quote_from_bytes'')))
      (act_then (check_ancestry g (a_sha args) (the_str default))
      (act_bind (superseded_candidate (runner h) info run (a_channel args)) (\<lambda>newer.
       if newer \<noteq> None then ret (policy, newer)
       else
         act_then (act_when (a_channel args \<in> {''beta'', ''rc''}) (ensure_absent (rest g) (''v'' @ base))) (ret (policy, None)))))))))"

definition publish_new_candidate ::
  "'w promotion_host \<Rightarrow> bool \<Rightarrow> candidate_args \<Rightarrow> members \<Rightarrow> json \<Rightarrow> string \<Rightarrow> int \<Rightarrow> int \<Rightarrow> members \<Rightarrow> ('w, members) act" where
  "publish_new_candidate h scope_verified args info run base run_id attempt policy =
     (let g = github h in
      act_bind (utc_now h) (\<lambda>(stamp, created).
      act_bind (candidate_tag (rest g) (a_channel args) base (JInt run_id) (JInt attempt) (a_sequence args) stamp) (\<lambda>tag.
      with_staging h
      (act_bind (lift (stage_assets (a_directory_ok args) (a_assets args))) (\<lambda>assets.
      act_then (act_each (\<lambda>e. write_staged h (e_name e) (e_bytes e)) (sort_key e_name (a_assets args)))
      (act_then (write_staged h MANIFEST (rc_json_bytes (JObj (candidate_manifest_of args info base tag policy run_id attempt created assets))))
      (act_bind (superseded_candidate (runner h) info run (a_channel args)) (\<lambda>newer.
       if newer \<noteq> None then ret (the newer)
       else
         act_bind (release_notes g tag (a_sha args) (candidate_text (repo h) args run_id)) (\<lambda>body.
         act_bind (list_staged h) (\<lambda>files.
         act_bind (publish_prepared g scope_verified (signatures h) tag (a_sha args) files True body None (ret ())) (\<lambda>published.
         act_bind (lift (item_res published ''html_url'')) (\<lambda>url.
           ret [(''status'', JStr ''published''), (''tag'', JStr tag), (''release_url'', url), (''manifest_path'', JStr EVIDENCE)]))))))))))))"

definition candidate :: "nat \<Rightarrow> 'w promotion_host \<Rightarrow> candidate_args \<Rightarrow> ('w, members option) act" where
  "candidate rounds h args =
     (let g = github h; r = runner h in
      act_bind (init_github g (env_text r ''RELEASE_REQUIRE_WORKFLOW_SCOPE'') (env_text r ''GH_TOKEN'')) (\<lambda>scope_verified.
      act_bind (lift (rc_version (a_version args))) (\<lambda>base.
      act_then (lift (rc_require (rx_match (hex_rx 40) (a_sha args)) ''Source SHA must be a full lowercase 40-character commit SHA''))
      (act_bind (lift (rc_positive (a_run_id args) ''run ID'')) (\<lambda>run_id.
       act_bind (lift (rc_positive (a_run_attempt args) ''run attempt'')) (\<lambda>attempt.
       act_bind (repository_info g) (\<lambda>info.
       act_bind (wait_for_executing_run rounds r run_id (a_channel args) info (a_sha args) attempt True False) (\<lambda>accepted.
       case accepted of
         None \<Rightarrow> ret None
       | Some (run, _) \<Rightarrow>
           act_bind (candidate_allowed h args info run base) (\<lambda>(policy, newer).
           if newer \<noteq> None then ret newer
           else act_bind (publish_new_candidate h scope_verified args info run base run_id attempt policy) (\<lambda>result. ret (Some result)))))))))))"

text \<open>The lines of the result in \<open>GITHUB_OUTPUT\<close>.\<close>

definition output_line :: "string \<times> json \<Rightarrow> string res" where
  "output_line kv =
     checks [rc_require (CR \<notin> set (py_str (snd kv)) \<and> LF \<notin> set (py_str (snd kv))) ''Unsafe workflow output'']
       (Inr (fst kv @ ''='' @ py_str (snd kv) @ [LF]))"

definition emit_result :: "members \<Rightarrow> string res" where
  "emit_result m = bnd (mapres output_line m) (\<lambda>ls. Inr (concat ls))"

end
