(* ===== verification/Promotion_Facts.thy ===== *)
theory Promotion_Facts
  imports Promotion Publication_Facts
begin

text \<open>
  Facts of the promotion: what becomes public are the verified bytes of a candidate whose evidence, run and
  policy were checked.
\<close>

section \<open>What requests keep\<close>

text \<open>The operations above the client, for the invariants of the world that its requests keep.\<close>

context request_invariant
begin

lemma binary: "keeps P (binary h path)"
  unfolding binary_def rest_def gh_client_def by (auto intro!: keeps_intros request)

lemma policy: "keeps P (source_policy_snapshot h sha)"
  unfolding source_policy_snapshot_def by (auto intro!: keeps_intros api)

lemma changelog: "keeps P (release_notes h tag sha provenance)"
  unfolding release_notes_def Let_def by (auto intro!: keeps_intros api policy)

lemma snapshot: "keeps P (release_snapshot h tag)"
  unfolding release_snapshot_def by (auto intro!: keeps_intros api pages)

lemma reviewers: "keeps P (require_reviewers h)"
  unfolding require_reviewers_def by (auto intro!: keeps_intros api)

lemma validation: "keeps P (validate_validation_run h run data channel)"
  unfolding validate_validation_run_def Let_def by (auto intro!: keeps_intros pages)

lemma read_state: "keeps P (read_state (rest h))"
  unfolding read_state_def by (auto intro!: keeps_intros optional)

lemma promotion_order: "keeps P (verify_promotion_order (rest h) plan)"
  unfolding verify_promotion_order_def verify_promotion_ledger_def published_tags_def by (auto intro!: keeps_intros read_state pages)

lemma publication_begun: "keeps P (begin_publication (rest h) plan run parent promotion)"
  unfolding begin_publication_def verify_promotion_ledger_def verify_reservation_ledger_def published_tags_def write_state_def
  by (auto intro!: keeps_intros read_state pages api)

lemma run_validated:
  assumes "net r = h" shows "keeps P (validate_run r run info sha attempt completed gate)"
  unfolding validate_run_def release_gate_ready_def require_current_attempt_jobs_def assms by (auto intro!: keeps_intros pages api)

end

lemma keeps_source_run:
  assumes "request_invariant (github h) P" shows "keeps P (validate_source_run h run info manifest)"
  unfolding validate_source_run_def
  by (intro keeps_intros request_invariant.run_validated [OF assms]) (simp add: github_def)

lemma keeps_recheck:
  assumes "request_invariant (github h) P" shows "keeps P (recheck_candidate h verified info rc initial manifest data)"
  unfolding recheck_candidate_def Let_def act_when_def RELEASE_SIGNATURES_REQUIRED_def
  by (simp, intro keeps_intros keeps_source_run assms request_invariant.snapshot [OF assms] request_invariant.api [OF assms]
      request_invariant.validation [OF assms] request_invariant.reviewers [OF assms] request_invariant.workflows [OF assms]) simp

section \<open>Staging\<close>

text \<open>
  \<open>file w n\<close> is the content of the staged file \<open>n\<close> and \<open>dir w\<close> are the names in the staging directory.  The code
  relies on a download into one file not to touch another, on requests not to touch the directory, on a written
  file to hold what was written, on the temporary directory to be empty at first, and on its listing to show
  only what is there.
\<close>

definition staged_laws :: "'w promotion_host \<Rightarrow> ('w \<Rightarrow> string \<Rightarrow> string) \<Rightarrow> ('w \<Rightarrow> string set) \<Rightarrow> bool" where
  "staged_laws h file dir \<longleftrightarrow>
     (\<forall>n. disk_laws (staging h n) (\<lambda>w. file w n))
     \<and> (\<forall>n m x. m \<noteq> n \<longrightarrow> hidden_laws (staging h n) (\<lambda>w. file w m = x))
     \<and> (\<forall>n A. n \<in> A \<longrightarrow> hidden_laws (staging h n) (\<lambda>w. dir w \<subseteq> A))
     \<and> (\<forall>m x. hidden_laws (github h) (\<lambda>w. file w m = x)) \<and> (\<forall>A. hidden_laws (github h) (\<lambda>w. dir w \<subseteq> A))
     \<and> (\<forall>n s w r w'. write_staged h n s w = (r, w') \<longrightarrow>
          (\<forall>m. m \<noteq> n \<longrightarrow> file w' m = file w m) \<and> dir w' \<subseteq> insert n (dir w) \<and> (r = Inr () \<longrightarrow> file w' n = s))
     \<and> (\<forall>w w'. open_staging h w = (Inr (), w') \<longrightarrow> dir w' = {})
     \<and> (\<forall>w fs w'. list_staged h w = (Inr fs, w') \<longrightarrow> (\<forall>f \<in> set fs. s_name f \<in> dir w \<and> s_bytes f = file w (s_name f)))"

lemma staged_laws_parts:
  assumes "staged_laws h file dir"
  shows "disk_laws (staging h n) (\<lambda>w. file w n)" and "m \<noteq> n \<Longrightarrow> hidden_laws (staging h n) (\<lambda>w. file w m = x)"
    and "n \<in> A \<Longrightarrow> hidden_laws (staging h n) (\<lambda>w. dir w \<subseteq> A)"
    and "hidden_laws (github h) (\<lambda>w. file w m = x)" and "hidden_laws (github h) (\<lambda>w. dir w \<subseteq> A)"
  using assms by (simp_all add: staged_laws_def)

lemma write_staged_law:
  assumes "staged_laws h file dir" and "write_staged h n s w = (Inr (), w')"
  shows "file w' n = s" and "m \<noteq> n \<Longrightarrow> file w' m = file w m" and "dir w' \<subseteq> insert n (dir w)"
  using assms unfolding staged_laws_def by blast+

lemma list_staged_law:
  assumes "staged_laws h file dir" and "list_staged h w = (Inr fs, w')" and "f \<in> set fs"
  shows "s_name f \<in> dir w \<and> s_bytes f = file w (s_name f)"
  using assms unfolding staged_laws_def by blast

lemma open_staging_law: "staged_laws h file dir \<Longrightarrow> open_staging h w = (Inr (), w') \<Longrightarrow> dir w' = {}"
  unfolding staged_laws_def by blast

text \<open>What the staged file of a name has to be: the manifest itself, or the bytes that the manifest declares.\<close>

definition staged_as :: "string \<Rightarrow> members \<Rightarrow> string \<Rightarrow> string \<Rightarrow> bool" where
  "staged_as raw manifest n data \<longleftrightarrow>
     (if n = MANIFEST then data = raw
      else \<exists>i. declared_identity manifest n = Inr i \<and> int (length data) = i_size i \<and> digest data = i_sha256 i)"

lemma stage_asset_effect:
  assumes laws: "staged_laws h file dir" and run: "stage_asset h raw manifest a (b, w) = (Inr (), (b', w'))"
    and n: "n = the_str (asset_name a)"
  shows "staged_as raw manifest n (file w' n) \<and> (\<forall>m. m \<noteq> n \<longrightarrow> file w' m = file w m) \<and> dir w' \<subseteq> insert n (dir w)"
proof (cases "n = MANIFEST")
  case True
  then obtain w1 where "write_staged h n raw w = (Inr (), w1)" "w1 = w'"
    using run unfolding stage_asset_def Let_def n [symmetric] by (auto simp: act_then_Inr outside_Inr)
  then show ?thesis using True write_staged_law [OF laws] by (auto simp: staged_as_def)
next
  case False
  obtain wanted b1 w1 i where wanted: "declared_identity manifest n = Inr wanted"
    and d: "download_asset (staging h n) (dget (the_dict a) ''id'' JNull) wanted (b, w) = (Inr i, (b1, w1))" "w1 = w'"
    using run False unfolding stage_asset_def Let_def n [symmetric] by (auto simp: act_then_Inr act_bind_Inr)
  have "int (length (file w' n)) = i_size wanted \<and> digest (file w' n) = i_sha256 wanted"
    using download_leaves_identity [OF staged_laws_parts(1) [OF laws] d(1)] d(2) by simp
  moreover have "file w' m = file w m" if "m \<noteq> n" for m
    using keepsD [OF download_hidden [OF staged_laws_parts(2) [OF laws that]] _ d(1)] d(2) by simp
  moreover have "dir w' \<subseteq> insert n (dir w)"
    using keepsD [OF download_hidden [OF staged_laws_parts(3) [where A = "insert n (dir w)", OF laws insertI1]] _ d(1)] d(2) by auto
  ultimately show ?thesis using False wanted by (simp add: staged_as_def)
qed

lemma stage_all_effect:
  assumes "staged_laws h file dir" and "act_each (stage_asset h raw manifest) assets (b, w) = (Inr (), (b', w'))"
    and "distinct (map (\<lambda>a. the_str (asset_name a)) assets)"
  shows "(\<forall>n \<in> set (map (\<lambda>a. the_str (asset_name a)) assets). staged_as raw manifest n (file w' n))
    \<and> (\<forall>m. m \<notin> set (map (\<lambda>a. the_str (asset_name a)) assets) \<longrightarrow> file w' m = file w m)
    \<and> dir w' \<subseteq> dir w \<union> set (map (\<lambda>a. the_str (asset_name a)) assets)"
  using assms(2,3)
proof (induction assets arbitrary: b w)
  case (Cons a assets)
  let ?n = "the_str (asset_name a)"
  obtain b1 w1 where a: "stage_asset h raw manifest a (b, w) = (Inr (), (b1, w1))"
    and more: "act_each (stage_asset h raw manifest) assets (b1, w1) = (Inr (), (b', w'))"
    using Cons.prems(1) by (auto simp: act_then_Inr)
  note here = stage_asset_effect [OF assms(1) a refl] and later = Cons.IH [OF more]
  have "file w' ?n = file w1 ?n" using later Cons.prems(2) by auto
  then show ?case using here later Cons.prems(2) by fastforce
qed simp

section \<open>Runs of the promotion\<close>

lemma promote_cases:
  assumes "promote rounds h rc run_id w = (Inr (Some result), w')"
  obtains verified current info initial raw manifest data w1 w2 w3 w4 w5 where
    "rc_positive (JStr run_id) ''run ID'' = Inr current" "require_reviewers (github h) w1 = (Inr (), w2)"
    "release_snapshot (github h) rc w2 = (Inr initial, w3)" "candidate_manifest h initial rc w3 = (Inr (raw, manifest), w4)"
    "verify_candidate h verified info current initial raw manifest w4 = (Inr data, w5)"
    "with_staging h
       (act_then (stage_candidate h (snd (snd initial)) raw manifest)
       (act_then (recheck_candidate h verified info rc initial manifest data)
         (publish_candidate h verified rc (fst (snd initial)) manifest current))) w5 = (Inr result, w')"
proof -
  obtain verified current info w1 and accepted :: "(json \<times> job_proof option) option" where current: "rc_positive (JStr run_id) ''run ID'' = Inr current"
    and go: "(if accepted = None then ret None
      else
        act_then (require_reviewers (github h))
        (act_bind (release_snapshot (github h) rc) (\<lambda>initial.
         act_bind (candidate_manifest h initial rc) (\<lambda>(raw, manifest).
         act_bind (verify_candidate h verified info current initial raw manifest) (\<lambda>data.
         act_bind (with_staging h
             (act_then (stage_candidate h (snd (snd initial)) raw manifest)
             (act_then (recheck_candidate h verified info rc initial manifest data)
               (publish_candidate h verified rc (fst (snd initial)) manifest current)))) (\<lambda>result. ret (Some result))))))) w1
        = (Inr (Some result), w')"
    using assms unfolding promote_def Let_def act_bind_Inr act_then_Inr lift_apply prod.inject by clarify (rule that; assumption)
  then show thesis
    by (cases accepted) (auto simp: act_bind_Inr act_then_Inr split: prod.splits intro: that [OF current])
qed

lemma act_finally_Inr:
  assumes "act_finally m f w = (Inr x, w'')" shows "\<exists>w'. m w = (Inr x, w')"
proof -
  obtain r w1 where "m w = (r, w1)" by fastforce
  moreover obtain u w2 where "f w1 = (u, w2)" by fastforce
  ultimately show ?thesis using assms by (cases u) (simp_all add: act_finally_def)
qed

lemma with_staging_Inr:
  "with_staging h m w = (Inr x, w') \<Longrightarrow> \<exists>w1 w2. open_staging h w = (Inr (), w1) \<and> m w1 = (Inr x, w2)"
  unfolding with_staging_def act_then_Inr by (elim exE conjE, drule act_finally_Inr) blast

lemma stage_candidate_Inr:
  "stage_candidate h assets raw manifest w = (Inr (), w')
   \<Longrightarrow> \<exists>b b'. act_each (stage_asset h raw manifest) assets (b, w) = (Inr (), (b', w'))"
  unfolding stage_candidate_def act_bind_Inr drop_state_Inr lift_apply by blast

lemma snapshot_Inr:
  assumes "release_snapshot g tag w = (Inr (ref, release, assets), w')"
  shows "candidate_ref_ok ref tag = Inr ()" and "published_prerelease release tag = Inr ()" and "snapshot_assets_ok assets = Inr ()"
  using assms unfolding release_snapshot_def act_bind_Inr act_then_Inr lift_apply prod.inject ret_apply by auto

lemma snapshot_names_distinct:
  assumes "snapshot_assets_ok assets = Inr ()"
  shows "distinct (map (\<lambda>a. the_str (asset_name a)) assets)" and "a \<in> set assets \<Longrightarrow> asset_name a = JStr (the_str (asset_name a))"
proof -
  have "distinct (map (\<lambda>a. byte_lower (the_str (asset_name a))) assets)" and str: "list_all (\<lambda>a. is_str (asset_name a) \<and> rx_match NAME_RX (the_str (asset_name a))) assets"
    using assms unfolding snapshot_assets_ok_def by auto
  then show "distinct (map (\<lambda>a. the_str (asset_name a)) assets)"
    by (auto simp: distinct_map inj_on_def)
  show "a \<in> set assets \<Longrightarrow> asset_name a = JStr (the_str (asset_name a))"
    using str by (auto simp: list_all_iff)
qed

text \<open>The files that the publication finds in the staging directory.\<close>

definition faithful_copy :: "string \<Rightarrow> members \<Rightarrow> staged \<Rightarrow> bool" where
  "faithful_copy raw manifest f \<longleftrightarrow>
     (if s_name f = MANIFEST then s_bytes f = raw
      else \<exists>a \<in> set (the_list (dget manifest ''assets'' JNull)).
        asset_name a = JStr (s_name f) \<and> dget (the_dict a) ''size'' JNull = JInt (int (length (s_bytes f)))
        \<and> dget (the_dict a) ''sha256'' JNull = JStr (digest (s_bytes f)))"

lemma hidden_invariant: "hidden_laws h hidden \<Longrightarrow> request_invariant h hidden"
  by unfold_locales (auto intro: hidden_parts)

text \<open>Requests leave the staging directory alone.\<close>

definition untouched :: "('w \<Rightarrow> string \<Rightarrow> string) \<Rightarrow> ('w \<Rightarrow> string set) \<Rightarrow> ('w, 'a) act \<Rightarrow> bool" where
  "untouched file dir m \<longleftrightarrow> (\<forall>n x. keeps (\<lambda>w. file w n = x) m) \<and> (\<forall>A. keeps (\<lambda>w. dir w \<subseteq> A) m)"

lemma untouchedD:
  "untouched file dir m \<Longrightarrow> m w = (r, w') \<Longrightarrow> file w' n = file w n \<and> dir w' \<subseteq> dir w"
  unfolding untouched_def using keepsD [where P = "\<lambda>w'. file w' n = file w n" and m = m and w = w]
    keepsD [where P = "\<lambda>w'. dir w' \<subseteq> dir w" and m = m and w = w] by simp

lemma untouchedI:
  assumes "staged_laws h file dir" and "\<And>P. request_invariant (github h) P \<Longrightarrow> keeps P m"
  shows "untouched file dir m"
  unfolding untouched_def by (intro conjI allI assms(2) hidden_invariant staged_laws_parts(4,5) [OF assms(1)])

lemma foldres_each:
  "foldres f s xs = Inr s' \<Longrightarrow> x \<in> set xs \<Longrightarrow> \<exists>t t'. f t x = Inr t'"
  by (induction xs arbitrary: s) auto

lemma manifest_asset_fields:
  assumes "validate_manifest_assets manifest = Inr ()" and "a \<in> set (the_list (dget manifest ''assets'' JNull))"
  shows "dget (the_dict a) ''size'' JNull = JInt (the_int (dget (the_dict a) ''size'' JNull))"
    and "dget (the_dict a) ''sha256'' JNull = JStr (the_str (dget (the_dict a) ''sha256'' JNull))"
    and "byte_lower (the_str (asset_name a)) \<noteq> MANIFEST"
proof -
  obtain all where all: "foldres manifest_asset [] (the_list (dget manifest ''assets'' JNull)) = Inr all"
    using assms(1) unfolding validate_manifest_assets_def Let_def by auto
  obtain names names' where "manifest_asset names a = Inr names'"
    using foldres_each [OF all assms(2)] by blast
  then show "dget (the_dict a) ''size'' JNull = JInt (the_int (dget (the_dict a) ''size'' JNull))"
    and "dget (the_dict a) ''sha256'' JNull = JStr (the_str (dget (the_dict a) ''sha256'' JNull))"
    and "byte_lower (the_str (asset_name a)) \<noteq> MANIFEST"
    unfolding manifest_asset_def asset_name_def by (auto simp: Let_def)
qed

lemma find_SomeD: "find p xs = Some x \<Longrightarrow> x \<in> set xs \<and> p x"
  by (auto simp: find_Some_iff)

lemma staged_as_faithful:
  assumes "validate_manifest_assets manifest = Inr ()" and "staged_as raw manifest (s_name f) (s_bytes f)"
  shows "faithful_copy raw manifest f"
proof (cases "s_name f = MANIFEST")
  case False
  then obtain a where a: "a \<in> set (the_list (dget manifest ''assets'' JNull))" "asset_name a = JStr (s_name f)"
    and "int (length (s_bytes f)) = the_int (dget (the_dict a) ''size'' JNull)" "digest (s_bytes f) = the_str (dget (the_dict a) ''sha256'' JNull)"
    using assms(2) by (auto simp: staged_as_def declared_identity_def split: option.splits dest!: find_SomeD)
  then show ?thesis
    using False manifest_asset_fields(1,2) [OF assms(1) a(1)] unfolding faithful_copy_def by auto
qed (use assms(2) in \<open>simp add: staged_as_def faithful_copy_def\<close>)

lemma ret_Inr: "ret x w = (Inr y, w') \<longleftrightarrow> x = y \<and> w = w'"
  by simp

lemma publish_candidate_cases:
  assumes "publish_candidate h verified rc release manifest current w = (Inr result, w')"
  obtains files published body w1 w2 where
    "list_staged h w1 = (Inr files, w2)"
    "publish_prepared (github h) verified (signatures h) (''v'' @ text_of manifest ''version'') (text_of manifest ''source_sha'') files
       False body None (ret ()) w2 = (Inr published, w')"
    "\<And>file dir n. staged_laws h file dir \<Longrightarrow> file w1 n = file w n \<and> dir w1 \<subseteq> dir w"
    "truthy (dget manifest ''version_plan'' JNull) \<Longrightarrow>
       \<exists>t wa wb. begin_publication (rest (github h)) (the_dict (dget manifest ''version_plan'' JNull)) (JInt current) JNull (JBool True) wa = (Inr t, wb)"
    "map_of result ''tag'' = Some (JStr (''v'' @ text_of manifest ''version''))"
proof -
  let ?plan = "the_dict (dget manifest ''version_plan'' JNull)"
  let ?ledger = "act_when (truthy (dget manifest ''version_plan'' JNull))
    (act_then (verify_promotion_order (rest (github h)) ?plan)
      (act_bind (begin_publication (rest (github h)) ?plan (JInt current) JNull (JBool True)) (\<lambda>_. ret ())))"
  obtain url body wn wl files w2 published url' where
    body: "release_notes (github h) (''v'' @ text_of manifest ''version'') (text_of manifest ''source_sha'')
        (promotion_provenance (repo h) rc url manifest current) w = (Inr body, wn)"
    and ledger: "?ledger wn = (Inr (), wl)" and files: "list_staged h wl = (Inr files, w2)"
    and pub: "publish_prepared (github h) verified (signatures h) (''v'' @ text_of manifest ''version'') (text_of manifest ''source_sha'') files
       False body None (ret ()) w2 = (Inr published, w')" and result: "result = [(''tag'', JStr (''v'' @ text_of manifest ''version'')), (''release_url'', url')]"
    using assms unfolding publish_candidate_def Let_def act_bind_Inr act_then_Inr lift_apply prod.inject ret_Inr sum.inject
    by clarify (rule that; (assumption | rule refl))
  show thesis
  proof (rule that [OF files pub])
    fix content :: "'a \<Rightarrow> string \<Rightarrow> string" and dir n assume laws: "staged_laws h content dir"
    have noted: "untouched content dir (release_notes (github h) tag sha provenance)" for tag sha provenance
      by (rule untouchedI [OF laws request_invariant.changelog])
    have begun: "untouched content dir ?ledger"
      by (rule untouchedI [OF laws], intro keeps_intros request_invariant.promotion_order request_invariant.publication_begun)
    show "content wl n = content w n \<and> dir wl \<subseteq> dir w"
      using untouchedD [where n = n, OF noted body] untouchedD [where n = n, OF begun ledger] by auto
  next
    assume "truthy (dget manifest ''version_plan'' JNull)"
    then show "\<exists>t wa wb. begin_publication (rest (github h)) ?plan (JInt current) JNull (JBool True) wa = (Inr t, wb)"
      using ledger by (auto simp: act_when_def act_then_Inr act_bind_Inr)
  qed (simp add: result)
qed

section \<open>What was verified\<close>

text \<open>A complete, successful run of the release workflow at the manifest's commit, started by hand, with one passed gate.\<close>

definition sound_run :: "members \<Rightarrow> json \<Rightarrow> bool" where
  "sound_run manifest run \<longleftrightarrow>
     (let field = (\<lambda>k. dget (the_dict run) k JNull) in
      py_eq (field ''id'') (dget manifest ''run_id'' JNull) \<and> field ''event'' = JStr ''workflow_dispatch'' \<and> field ''path'' = JStr WORKFLOW
      \<and> field ''status'' = JStr ''completed'' \<and> field ''conclusion'' = JStr ''success'' \<and> field ''head_sha'' = dget manifest ''source_sha'' JNull
      \<and> py_eq (field ''run_attempt'') (dget manifest ''run_attempt'' JNull)
      \<and> (\<exists>jobs. gate_passed (text_of manifest ''source_sha'') False jobs = Inr True))"

text \<open>An archive with the digest that GitHub keeps of the run's evidence, whose only file is the manifest.\<close>

definition sound_evidence :: "'w promotion_host \<Rightarrow> string \<Rightarrow> members \<Rightarrow> bool" where
  "sound_evidence h raw manifest \<longleftrightarrow>
     (\<exists>artifact archive entries e.
        evidence_origin manifest artifact = Inr () \<and> evidence_artifact artifact = Inr True
        \<and> dget (the_dict artifact) ''digest'' JNull = JStr (''sha256:'' @ digest archive)
        \<and> unzip h archive = Some entries \<and> filter (\<lambda>e. \<not> z_directory e) entries = [e] \<and> z_name e \<in> {MANIFEST, EVIDENCE} \<and> z_data e = Some raw)"

lemma field_is_iff [simp, res_simps]:
  "field_is run key p message = Inr u \<longleftrightarrow> is_dict run \<and> p (dget (the_dict run) key JNull)"
  by (auto simp: field_is_def)

lemma manifest_source_sha:
  assumes "validate_manifest fl raw repository rc final = Inr manifest"
  shows "dget manifest ''source_sha'' JNull = JStr (text_of manifest ''source_sha'')"
    and "manifest_checks manifest repository rc final = Inr ()"
proof -
  show checked: "manifest_checks manifest repository rc final = Inr ()"
    using assms unfolding validate_manifest_def by auto
  have "is_sha (dget manifest ''source_sha'' JNull)"
    using checked unfolding manifest_checks_def Let_def by simp
  then show "dget manifest ''source_sha'' JNull = JStr (text_of manifest ''source_sha'')"
    by (auto simp: is_sha_def text_of_def)
qed

lemma evidence_sound:
  assumes "verify_evidence h manifest raw w = (Inr (), w')" shows "sound_evidence h raw manifest"
proof -
  obtain artifacts matching archive where matching: "filter_res evidence_artifact artifacts = Inr matching" "length matching = 1"
    and origin: "evidence_origin manifest (hd matching) = Inr ()"
    and last: "checks [rc_require (dget (the_dict (hd matching)) ''digest'' JNull = JStr (''sha256:'' @ digest archive))
        ''Evidence must have a matching immutable v4 artifact digest''] (evidence_holds (unzip h archive) raw) = Inr ()"
    using assms unfolding verify_evidence_def Let_def act_bind_Inr act_then_Inr lift_apply prod.inject rc_require_Inr
    by clarify (rule that; assumption)
  have sums: "dget (the_dict (hd matching)) ''digest'' JNull = JStr (''sha256:'' @ digest archive)"
    and holds: "evidence_holds (unzip h archive) raw = Inr ()"
    using last by simp_all
  obtain a where a: "matching = [a]" using matching(2) by (cases matching) auto
  then have "evidence_artifact a = Inr True"
    using filter_res_Inr [OF matching(1)] by (auto simp: filter_eq_Cons_iff dest!: sym [of "[a]"])
  moreover obtain entries where entries: "unzip h archive = Some entries"
    using holds by (auto simp: evidence_holds_def split: option.splits)
  then obtain e where "filter (\<lambda>e. \<not> z_directory e) entries = [e]" "z_name e \<in> {MANIFEST, EVIDENCE}" "z_data e = Some raw"
    using holds by (auto simp: evidence_holds_def Let_def length_Suc_conv split: option.splits)
  ultimately show ?thesis
    unfolding sound_evidence_def using origin sums entries a by auto
qed

lemma source_run_sound:
  assumes "validate_source_run h run info manifest w = (Inr (), w')" and "is_sha (dget manifest ''source_sha'' JNull)"
    and "py_eq (dget (the_dict run) ''id'' JNull) (dget manifest ''run_id'' JNull)" and "dget (the_dict run) ''event'' JNull = JStr ''workflow_dispatch''"
  shows "sound_run manifest run"
proof -
  have attempt: "dget manifest ''run_attempt'' JNull = JInt (the_int (dget manifest ''run_attempt'' JNull))"
    and valid: "validate_run (runner h) run info (text_of manifest ''source_sha'') (the_int (dget manifest ''run_attempt'' JNull)) True True w = (Inr (), w')"
    using assms(1) unfolding validate_source_run_def act_then_Inr lift_apply prod.inject rc_require_Inr by auto
  obtain n w1 w2 passed where own: "validate_run_provenance (repo (runner h)) run info (text_of manifest ''source_sha'')
        (JInt (the_int (dget manifest ''run_attempt'' JNull))) = Inr ()"
    and ended: "dget (the_dict run) ''status'' JNull = JStr ''completed''" "dget (the_dict run) ''conclusion'' JNull = JStr ''success''"
    and gate: "release_gate_ready (runner h) n (text_of manifest ''source_sha'') (the_int (dget manifest ''run_attempt'' JNull)) False w1 = (Inr passed, w2)"
    using valid unfolding validate_run_def act_when_def if_True act_then_Inr act_bind_Inr lift_apply prod.inject by auto
  obtain jobs p where "gate_passed (text_of manifest ''source_sha'') False jobs = Inr p"
    using gate unfolding release_gate_ready_def act_bind_Inr lift_apply by auto
  then have "gate_passed (text_of manifest ''source_sha'') False jobs = Inr True"
    by (auto simp: gate_passed_def split: if_splits)
  moreover have "dget (the_dict run) ''head_sha'' JNull = JStr (text_of manifest ''source_sha'')" "dget (the_dict run) ''path'' JNull = JStr WORKFLOW"
    "py_eq (dget (the_dict run) ''run_attempt'' JNull) (JInt (the_int (dget manifest ''run_attempt'' JNull)))"
    using own unfolding validate_run_provenance_def by auto
  moreover have "dget manifest ''source_sha'' JNull = JStr (text_of manifest ''source_sha'')"
    using assms(2) by (auto simp: is_sha_def text_of_def)
  ultimately show ?thesis
    unfolding sound_run_def Let_def using assms(3,4) ended attempt by auto
qed

lemma candidate_manifest_Inr:
  assumes "candidate_manifest h snapshot rc w = (Inr (raw, manifest), w')"
  shows "validate_manifest (json_float_text h) raw (repo h) rc False = Inr manifest"
    and "\<exists>a n wa wb. a \<in> set (snd (snd snapshot)) \<and> asset_name a = JStr MANIFEST \<and> binary (github h) (''releases/assets/'' @ str_int n) wa = (Inr raw, wb)"
proof -
  let ?declared = "filter (\<lambda>a. asset_name a = JStr MANIFEST) (snd (snd snapshot))"
  obtain n wa wb where one: "length ?declared = 1" and raw: "binary (github h) (''releases/assets/'' @ str_int n) wa = (Inr raw, wb)"
    and valid: "validate_manifest (json_float_text h) raw (repo h) rc False = Inr manifest"
    using assms unfolding candidate_manifest_def Let_def act_bind_Inr act_then_Inr lift_apply prod.inject rc_require_Inr ret_Inr sum.inject
    by clarify (rule that; assumption)
  show "validate_manifest (json_float_text h) raw (repo h) rc False = Inr manifest" by (rule valid)
  have "hd ?declared \<in> set ?declared" using one by (cases ?declared) auto
  then have "hd ?declared \<in> set (snd (snd snapshot)) \<and> asset_name (hd ?declared) = JStr MANIFEST" by simp
  then show "\<exists>a n wa wb. a \<in> set (snd (snd snapshot)) \<and> asset_name a = JStr MANIFEST \<and> binary (github h) (''releases/assets/'' @ str_int n) wa = (Inr raw, wb)"
    using raw by blast
qed

lemma verify_candidate_cases:
  assumes "verify_candidate h verified info current snapshot raw manifest w = (Inr data, w')"
  obtains run w1 w2 w3 w4 policy where
    "source_policy_snapshot (github h) (text_of manifest ''source_sha'') w1 = (Inr policy, w2)"
    "py_eq (JObj policy) (dget manifest ''source_policy'' JNull)"
    "ref_commit (fst snapshot) = JStr (text_of manifest ''source_sha'')" "\<not> py_eq (dget manifest ''run_id'' JNull) (JInt current)"
    "py_eq (dget (the_dict run) ''id'' JNull) (dget manifest ''run_id'' JNull)" "validate_source_run h run info manifest w3 = (Inr (), w4)"
    "dget (the_dict run) ''event'' JNull = JStr ''workflow_dispatch''" "sound_evidence h raw manifest"
    "inventory_matches (snd (snd snapshot)) manifest"
proof -
  let ?sha = "text_of manifest ''source_sha''" and ?id = "dget manifest ''run_id'' JNull"
  obtain policy w1 run w3 w4 w5 w6 where policy: "source_policy_snapshot (github h) ?sha w = (Inr policy, w1)"
    and same: "checks
         [rc_require (py_eq (JObj policy) (dget manifest ''source_policy'' JNull))
            ''Manifest policy snapshot differs from the policy at the candidate source commit'',
          rc_require (ref_commit (fst snapshot) = JStr ?sha) ''Candidate tag SHA differs from manifest'',
          rc_require (\<not> py_eq ?id (JInt current)) ''Candidate and promotion must use separate runs''] (Inr ()) = Inr ()"
    and run: "field_is run ''id'' (\<lambda>v. py_eq v ?id) ''Source run identity mismatch'' = Inr ()"
      "validate_source_run h run info manifest w3 = (Inr (), w4)"
      "field_is run ''event'' (\<lambda>e. e = JStr ''workflow_dispatch'') ''RC must originate from a manual workflow dispatch'' = Inr ()"
    and evidence: "verify_evidence h manifest raw w5 = (Inr (), w6)"
    and inventory: "inventory_matches (snd (snd snapshot)) manifest"
    using assms unfolding verify_candidate_def Let_def act_bind_Inr act_then_Inr lift_apply prod.inject rc_require_Inr
    by clarify (rule that; assumption)
  show thesis
    by (rule that [OF policy _ _ _ _ run(2) _ evidence_sound [OF evidence] inventory]) (use same run(1,3) in simp_all)
qed

text \<open>
  Only candidates with a passed run and immutable evidence are promoted.  If \<open>promote\<close> returns a result,
  the manifest it read from the published candidate is valid for exactly this tag, its source policy names no
  blockers and equals the policy of the commit, the candidate's run is another one than the promoting run and
  was complete and successful with one passed release gate at that commit, and the digest-checked evidence of
  that run holds the same manifest byte for byte.
\<close>

theorem promotion_needs_evidence:
  assumes "promote rounds h rc run_id w = (Inr (Some result), w')"
  shows "\<exists>raw manifest run current policy w1 w2.
      validate_manifest (json_float_text h) raw (repo h) rc False = Inr manifest \<and> rc_positive (JStr run_id) ''run ID'' = Inr current
      \<and> \<not> py_eq (dget manifest ''run_id'' JNull) (JInt current)
      \<and> dget (policy_data manifest) ''release_blockers'' (JArr []) = JArr [] \<and> dget (policy_data manifest) ''stable_blockers'' (JArr []) = JArr []
      \<and> source_policy_snapshot (github h) (text_of manifest ''source_sha'') w1 = (Inr policy, w2)
      \<and> py_eq (JObj policy) (dget manifest ''source_policy'' JNull)
      \<and> sound_run manifest run \<and> sound_evidence h raw manifest"
proof (rule promote_cases [OF assms])
  fix verified current info initial raw manifest data w1 w2 w3 w4 w5
  assume current: "rc_positive (JStr run_id) ''run ID'' = Inr current" and read: "candidate_manifest h initial rc w3 = (Inr (raw, manifest), w4)"
    and verified: "verify_candidate h verified info current initial raw manifest w4 = (Inr data, w5)"
  note valid = candidate_manifest_Inr(1) [OF read]
  have sha: "is_sha (dget manifest ''source_sha'' JNull)" and snap: "validate_policy_snapshot (dget manifest ''source_policy'' JNull) (repo h) = Inr ()"
    using manifest_source_sha(2) [OF valid] unfolding manifest_checks_def Let_def by simp_all
  have "require_release_policy (JObj (policy_data manifest)) (repo h) True = Inr ()"
    using snap unfolding validate_policy_snapshot_def policy_data_def Let_def by (auto simp: require_release_policy_def Let_def)
  then have "blockers_ok (policy_data manifest) True field = Inr ()" if "field \<in> {''release_blockers'', ''stable_blockers''}" for field
    using that unfolding require_release_policy_def Let_def by auto
  then have "dget (policy_data manifest) ''release_blockers'' (JArr []) = JArr []" "dget (policy_data manifest) ''stable_blockers'' (JArr []) = JArr []"
    unfolding blockers_ok_def Let_def by fastforce+
  with valid current show ?thesis
    by (rule_tac verify_candidate_cases [OF verified])
      (intro exI conjI; (assumption | rule source_run_sound [OF _ sha]; assumption))
qed

lemma recheck_untouched:
  assumes "staged_laws h file dir" shows "untouched file dir (recheck_candidate h verified info rc initial manifest data)"
  by (rule untouchedI [OF assms keeps_recheck])

text \<open>
  The promoted release consists of the candidate's bytes.  On a staging directory that keeps its documented
  laws, if \<open>promote\<close> returns a result, the release was published by \<open>publish_prepared\<close> under the plain version
  tag at the manifest's commit, and every file it published is either the candidate's manifest or is declared in
  that manifest by name, length and SHA-256 digest; a versioned candidate had its place in the ledger taken first.
\<close>

theorem promoted_bytes_declared:
  assumes laws: "staged_laws h file dir" and "promote rounds h rc run_id w = (Inr (Some result), w')"
  shows "\<exists>raw manifest current verified files body published w1 w2.
      validate_manifest (json_float_text h) raw (repo h) rc False = Inr manifest
      \<and> publish_prepared (github h) verified (signatures h) (''v'' @ text_of manifest ''version'') (text_of manifest ''source_sha'') files
          False body None (ret ()) w1 = (Inr published, w2)
      \<and> (\<forall>f \<in> set files. faithful_copy raw manifest f)
      \<and> map_of result ''tag'' = Some (JStr (''v'' @ text_of manifest ''version''))
      \<and> (truthy (dget manifest ''version_plan'' JNull) \<longrightarrow>
          (\<exists>t wa wb. begin_publication (rest (github h)) (the_dict (dget manifest ''version_plan'' JNull)) (JInt current) JNull (JBool True) wa = (Inr t, wb)))"
proof (rule promote_cases [OF assms(2)])
  fix verified current info initial raw manifest data w2 w3 w4 w5
  assume snap: "release_snapshot (github h) rc w2 = (Inr initial, w3)" and read: "candidate_manifest h initial rc w3 = (Inr (raw, manifest), w4)"
    and staged: "with_staging h
       (act_then (stage_candidate h (snd (snd initial)) raw manifest)
       (act_then (recheck_candidate h verified info rc initial manifest data)
         (publish_candidate h verified rc (fst (snd initial)) manifest current))) w5 = (Inr result, w')"
  note valid = candidate_manifest_Inr(1) [OF read]
  have assets: "validate_manifest_assets manifest = Inr ()"
    using manifest_source_sha(2) [OF valid] unfolding manifest_checks_def Let_def by simp
  let ?names = "set (map (\<lambda>a. the_str (asset_name a)) (snd (snd initial)))"
  obtain wo ws wr wp where opened: "open_staging h w5 = (Inr (), wo)" and all: "stage_candidate h (snd (snd initial)) raw manifest wo = (Inr (), ws)"
    and again: "recheck_candidate h verified info rc initial manifest data ws = (Inr (), wr)"
    and publish: "publish_candidate h verified rc (fst (snd initial)) manifest current wr = (Inr result, wp)"
    using with_staging_Inr [OF staged] unfolding act_then_Inr by blast
  obtain b b' where each: "act_each (stage_asset h raw manifest) (snd (snd initial)) (b, wo) = (Inr (), (b', ws))"
    using stage_candidate_Inr [OF all] by blast
  have "snapshot_assets_ok (snd (snd initial)) = Inr ()" using snap snapshot_Inr(3) by (cases initial) auto
  note effect = stage_all_effect [OF laws each snapshot_names_distinct(1) [OF this]]
  show ?thesis
  proof (rule publish_candidate_cases [OF publish])
    fix files published body wl w6
    assume files: "list_staged h wl = (Inr files, w6)"
      and finished: "publish_prepared (github h) verified (signatures h) (''v'' @ text_of manifest ''version'') (text_of manifest ''source_sha'') files
         False body None (ret ()) w6 = (Inr published, wp)"
      and quiet: "\<And>file dir n. staged_laws h file dir \<Longrightarrow> file wl n = file wr n \<and> dir wl \<subseteq> dir wr"
      and ledger: "truthy (dget manifest ''version_plan'' JNull) \<Longrightarrow>
         \<exists>t wa wb. begin_publication (rest (github h)) (the_dict (dget manifest ''version_plan'' JNull)) (JInt current) JNull (JBool True) wa = (Inr t, wb)"
      and tag: "map_of result ''tag'' = Some (JStr (''v'' @ text_of manifest ''version''))"
    have copied: "faithful_copy raw manifest f" if "f \<in> set files" for f
    proof -
      have here: "s_name f \<in> dir wl" "s_bytes f = file wl (s_name f)" using list_staged_law [OF laws files that] by auto
      have kept: "file wr n = file ws n \<and> dir wr \<subseteq> dir ws" for n
        by (rule untouchedD [OF recheck_untouched [OF laws] again])
      have "s_name f \<in> ?names"
        using here(1) quiet [OF laws] kept effect open_staging_law [OF laws opened] by blast
      then have "staged_as raw manifest (s_name f) (file ws (s_name f))"
        using effect by blast
      then have "staged_as raw manifest (s_name f) (s_bytes f)"
        using here(2) quiet [OF laws] kept by simp
      then show ?thesis by (rule staged_as_faithful [OF assets])
    qed
    show ?thesis
      by ((rule exI)+, (rule conjI ballI valid finished tag impI | erule copied ledger | assumption)+)
  qed
qed

end
